(* ===== verification/Prelude.thy ===== *)
theory Prelude
  imports
    Main
    "HOL-Library.Word"
    "HOL-Library.Monad_Syntax"
    "HOL-Library.Signed_Division"
begin

text \<open>
  Shared ground of the development: the C integer types as words, arrays with bounds-checked
  access, byte memories, the early-exit search used for the nested pixel loops, and the
  collections of facts the component theories feed.

  Undefined behaviour and divergence are the value \<open>None\<close>: a function of the model whose C code
  dereferences pointers, indexes arrays, divides or loops without an evident bound returns an
  \<open>option\<close>, and \<open>None\<close> means "the C program has no defined result here".  A theorem that a call
  returns is therefore always stated as an equation with \<open>Some\<close>.
\<close>

unbundle bit_operations_syntax

section \<open>Types and collections\<close>

type_synonym byte = "8 word"
type_synonym u16 = "16 word"
type_synonym u32 = "32 word"
type_synonym i16 = "16 word"  \<comment> \<open>\<^verbatim>\<open>int16_t\<close>, read with \<open>sint\<close>\<close>

type_synonym ptr = nat  \<comment> \<open>an address of the sprite store; \<open>0\<close> is \<^verbatim>\<open>NULL\<close>\<close>

abbreviation (input) NULL :: ptr where
  "NULL \<equiv> 0"

named_theorems hw_consts \<open>register, port and bit constants of the headers\<close>
named_theorems frame_simps \<open>what an operation leaves unchanged\<close>
named_theorems step_simps \<open>the result of an operation under its precondition\<close>

text \<open>\<^verbatim>\<open>#define BIT(n) (1 << (n))\<close>, used at every unsigned width.\<close>

definition BIT :: "nat \<Rightarrow> 'a::len word" where
  "BIT n = push_bit n 1"

section \<open>Bounds-checked arrays\<close>

text \<open>C array accesses with an \<^verbatim>\<open>int\<close> index; an index outside the array has no defined result.\<close>

definition arr_get :: "'a list \<Rightarrow> int \<Rightarrow> 'a option" where
  "arr_get xs i = (if 0 \<le> i \<and> i < int (length xs) then Some (xs ! nat i) else None)"

definition arr_set :: "'a list \<Rightarrow> int \<Rightarrow> 'a \<Rightarrow> 'a list option" where
  "arr_set xs i v = (if 0 \<le> i \<and> i < int (length xs) then Some (xs[nat i := v]) else None)"

lemma arr_get_in [simp]: "0 \<le> i \<Longrightarrow> i < int (length xs) \<Longrightarrow> arr_get xs i = Some (xs ! nat i)"
  by (simp add: arr_get_def)

lemma arr_set_in [simp]: "0 \<le> i \<Longrightarrow> i < int (length xs) \<Longrightarrow> arr_set xs i v = Some (xs[nat i := v])"
  by (simp add: arr_set_def)

lemma arr_get_out: "arr_get xs i = None \<longleftrightarrow> i < 0 \<or> int (length xs) \<le> i"
  by (auto simp: arr_get_def)

text \<open>The C operator \<^verbatim>\<open>%\<close> on \<^verbatim>\<open>int\<close>: truncated, and undefined for divisor 0.\<close>

definition c_mod :: "int \<Rightarrow> int \<Rightarrow> int option" where
  "c_mod a b = (if b = 0 then None else Some (a smod b))"

lemma c_mod_nonneg [simp]: "0 \<le> a \<Longrightarrow> 0 < b \<Longrightarrow> c_mod a b = Some (a mod b)"
  by (simp add: c_mod_def signed_modulo_int_def signed_divide_int_def sgn_if minus_div_mult_eq_mod [symmetric])

section \<open>Byte memories\<close>

text \<open>
  \<open>memcpy_at dst off src\<close> is \<^verbatim>\<open>memcpy(dst + off, src, n)\<close> for a source block of \<open>n\<close> bytes, and
  \<open>read_bytes\<close> the block a \<^verbatim>\<open>memcpy\<close> reads; both are undefined outside the memory object.
\<close>

definition memcpy_at :: "byte list \<Rightarrow> nat \<Rightarrow> byte list \<Rightarrow> byte list option" where
  "memcpy_at dst off src =
     (if off + length src \<le> length dst
      then Some (take off dst @ src @ drop (off + length src) dst) else None)"

definition read_bytes :: "byte list \<Rightarrow> nat \<Rightarrow> nat \<Rightarrow> byte list option" where
  "read_bytes mem off n = (if off + n \<le> length mem then Some (take n (drop off mem)) else None)"

lemma memcpy_at_Some:
  "off + length src \<le> length dst \<Longrightarrow>
   memcpy_at dst off src = Some (take off dst @ src @ drop (off + length src) dst)"
  by (simp add: memcpy_at_def)

lemma memcpy_at_length: "memcpy_at dst off src = Some dst' \<Longrightarrow> length dst' = length dst"
  by (auto simp: memcpy_at_def split: if_splits)

lemma memcpy_at_nth:
  assumes "memcpy_at dst off src = Some dst'" and "k < length dst"
  shows "dst' ! k = (if off \<le> k \<and> k < off + length src then src ! (k - off) else dst ! k)"
  using assms
  by (auto simp: memcpy_at_def nth_append min_def not_less le_add_diff_inverse algebra_simps
      split: if_splits)

lemma read_bytes_in [simp]:
  "off + n \<le> length mem \<Longrightarrow> read_bytes mem off n = Some (take n (drop off mem))"
  by (simp add: read_bytes_def)

text \<open>A little-endian load, as \<^verbatim>\<open>memcpy(&color, p, n)\<close> into a zeroed \<^verbatim>\<open>uint32_t\<close> on x86.\<close>

fun le_bytes :: "byte list \<Rightarrow> u32" where
  "le_bytes [] = 0"
| "le_bytes (b # bs) = ucast b OR push_bit 8 (le_bytes bs)"

section \<open>Search with early exit\<close>

text \<open>A loop that leaves with \<^verbatim>\<open>return true\<close> at the first hit, and whose test may be undefined.\<close>

fun any_opt :: "('a \<Rightarrow> bool option) \<Rightarrow> 'a list \<Rightarrow> bool option" where
  "any_opt p [] = Some False"
| "any_opt p (x # xs) = do { b \<leftarrow> p x; if b then Some True else any_opt p xs }"

lemma any_opt_Some:
  assumes "\<And>x. x \<in> set xs \<Longrightarrow> p x = Some (q x)"
  shows "any_opt p xs = Some (\<exists>x\<in>set xs. q x)"
  using assms by (induction xs) auto

section \<open>Options and words\<close>

lemma uint_lt_int: "uint w < int n \<longleftrightarrow> unat w < n" "int n \<le> uint w \<longleftrightarrow> n \<le> unat w"
  by (simp_all only: uint_nat of_nat_less_iff of_nat_le_iff)

lemma bind_SomeD: "Option.bind m f = Some b \<Longrightarrow> \<exists>a. m = Some a \<and> f a = Some b"
  by (cases m) auto

lemma and_BIT_eq_0 [simp]: "a AND BIT n = 0 \<longleftrightarrow> \<not> bit a n" for a :: "'a::len word"
  by (simp add: BIT_def push_bit_eq_mult and_exp_eq_0_iff_not_bit)

lemma bit_BIT [bit_simps]: "bit (BIT n :: 'a::len word) k \<longleftrightarrow> k = n \<and> n < LENGTH('a)"
  by (auto simp: BIT_def bit_simps)

lemma and_or_eq_0 [simp]: "a AND (b OR c) = 0 \<longleftrightarrow> a AND b = 0 \<and> a AND c = 0" for a :: "'a::len word"
  by (simp add: bit.conj_disj_distrib or_eq_0_iff)

lemma ucast_low_byte [simp]:
  "(ucast (x AND 0xFF :: u16) :: byte) = ucast x"
  "(ucast (y AND 0xFF :: u32) :: byte) = ucast y"
proof -
  have m: "(0xFF :: u16) = mask 8" "(0xFF :: u32) = mask 8" by (simp_all add: mask_eq_exp_minus_1)
  show "(ucast (x AND 0xFF :: u16) :: byte) = ucast x"
    unfolding m by (rule bit_word_eqI) (auto simp: bit_simps)
  show "(ucast (y AND 0xFF :: u32) :: byte) = ucast y"
    unfolding m by (rule bit_word_eqI) (auto simp: bit_simps)
qed

text \<open>Widening keeps the value.\<close>

lemma unat_ucast_u16 [simp]: "unat (ucast (a :: 16 word) :: 32 word) = unat a"
proof -
  have "unat a < 2 ^ 16" using unsigned_less [of a, where 'a = nat] by simp
  then have "take_bit 32 (unat a) = unat a" by (simp add: take_bit_nat_eq_self)
  then show ?thesis by (simp add: unsigned_ucast_eq)
qed

text \<open>A word read back from an integer of its range.\<close>

lemma sint_word_of_int16:
  assumes "- 32768 \<le> i" and "i < 32768"
  shows "sint (word_of_int i :: 16 word) = i"
  using assms by (simp add: sint_sbintrunc' signed_take_bit_int_eq_self)

lemma sint_word_of_int8:
  assumes "- 128 \<le> i" and "i < 128"
  shows "sint (word_of_int i :: 8 word) = i"
  using assms by (simp add: sint_sbintrunc' signed_take_bit_int_eq_self)

lemma sint_word_of_int32:
  assumes "- 2147483648 \<le> i" and "i < 2147483648"
  shows "sint (word_of_int i :: 32 word) = i"
  using assms by (simp add: sint_sbintrunc' signed_take_bit_int_eq_self)

lemma uint_word_of_int32:
  assumes "0 \<le> i" and "i < 4294967296"
  shows "uint (word_of_int i :: 32 word) = i"
  using assms by (simp add: uint_word_of_int)

lemma sint16_range: "- 32768 \<le> sint (w :: 16 word)" "sint (w :: 16 word) < 32768"
  using sint_greater_eq [of w] sint_less [of w] by simp_all

lemma sint8_range: "- 128 \<le> sint (w :: 8 word)" "sint (w :: 8 word) < 128"
  using sint_greater_eq [of w] sint_less [of w] by simp_all

end
