(* ===== verification/Platform.thy ===== *)
theory Platform
  imports Prelude
begin

text \<open>
  The platform: everything the game calls that is not part of the repository (the MINIX kernel
  calls, the VBE services, the C allocator and \<^verbatim>\<open>libxpm\<close>), gathered in a record of functions over
  an abstract device world \<open>'w\<close>.  The definitions of the development take this record as an
  argument and nothing is assumed about it except by named hypotheses of the theorems.  The
  theory also holds \<^verbatim>\<open>controller/utils.c\<close>, the byte helpers all drivers share.
\<close>

section \<open>Data exchanged with the platform\<close>

datatype xpm_image_type =
  XPM_INDEXED | XPM_1_5_5_5 | XPM_5_6_5 | XPM_8_8_8 | XPM_8_8_8_8
| XPM_GRAY_1_5_5_5 | XPM_GRAY_5_6_5 | XPM_GRAY_8_8_8 | XPM_GRAY_8_8_8_8 | INVALID_XPM

record xpm_image =
  img_type :: xpm_image_type
  img_width :: u16
  img_height :: u16
  img_size :: u32
  img_bytes :: "byte list option"  \<comment> \<open>\<open>None\<close> is \<^verbatim>\<open>NULL\<close>\<close>

text \<open>
  The pixmaps compiled into the program, by the name of their array under \<^verbatim>\<open>model/xpm/\<close>; the
  three families of ten digits are indexed.
\<close>

datatype xpm_map =
  Xpm_mouse | Play_unselected | Play_selected | Rules_unselected | Rules_selected
| Exit_unselected | Exit_selected | Play_again_selected | Play_again_unselected
| Leave_selected | Leave_unselected | Blue_puck | Red_puck | Disk
| White_number nat | Red_number nat | Blue_number nat
| White_time | White_points | Title_time | Title_points | Day_separator | Time_two_points
| Xpm_background | Menu | Rules | Youwon | Youlost | Tie

record vbe_mode_info =
  XResolution :: u16
  YResolution :: u16
  BitsPerPixel :: byte
  MemoryModel :: byte
  RedMaskSize :: byte
  RedFieldPosition :: byte
  GreenMaskSize :: byte
  GreenFieldPosition :: byte
  BlueMaskSize :: byte
  BlueFieldPosition :: byte
  PhysBasePtr :: u32

record reg86 =
  reg_ax :: u16
  reg_bx :: u16
  reg_intno :: byte

section \<open>The platform record\<close>

text \<open>
  Each call returns its C result code (an \<^verbatim>\<open>int\<close>, 0 for success), what it writes through its
  pointer arguments, and the device world after it.  \<open>malloc\<close> returns \<open>None\<close> when it fails and
  otherwise a block whose bytes are indeterminate; \<open>xpm_load\<close> returns the loaded bytes (\<open>None\<close> for
  \<^verbatim>\<open>NULL\<close>) and the image descriptor as it leaves it.
\<close>

record 'w os =
  sys_inb :: "nat \<Rightarrow> 'w \<Rightarrow> (int \<times> u32) \<times> 'w"
  sys_outb :: "nat \<Rightarrow> u32 \<Rightarrow> 'w \<Rightarrow> int \<times> 'w"
  sys_irqsetpolicy :: "int \<Rightarrow> u32 \<Rightarrow> int \<Rightarrow> 'w \<Rightarrow> (int \<times> int) \<times> 'w"
  sys_irqrmpolicy :: "int \<Rightarrow> 'w \<Rightarrow> (int \<times> int) \<times> 'w"
  tickdelay :: "u32 \<Rightarrow> 'w \<Rightarrow> 'w"
  sys_hz :: u32
  malloc :: "nat \<Rightarrow> 'w \<Rightarrow> byte list option \<times> 'w"
  xpm_load :: "xpm_map \<Rightarrow> xpm_image_type \<Rightarrow> xpm_image \<Rightarrow> byte list option \<times> xpm_image"
  vbe_get_mode_info :: "u16 \<Rightarrow> 'w \<Rightarrow> (int \<times> vbe_mode_info) \<times> 'w"
  sys_int86 :: "reg86 \<Rightarrow> 'w \<Rightarrow> int \<times> 'w"
  sys_privctl_add_mem :: "u32 \<Rightarrow> u32 \<Rightarrow> 'w \<Rightarrow> int \<times> 'w"
  vm_map_phys :: "u32 \<Rightarrow> u32 \<Rightarrow> 'w \<Rightarrow> byte list option \<times> 'w"
  vg_exit :: "'w \<Rightarrow> int \<times> 'w"

text \<open>
  Documented behaviour of the allocator, used as a named hypothesis: a block that is returned
  has the size asked for (\<open>malloc_sized\<close>), and no request fails (\<open>malloc_total\<close>).
\<close>

definition malloc_sized :: "'w os \<Rightarrow> bool" where
  "malloc_sized os \<longleftrightarrow> (\<forall>n w b w'. malloc os n w = (Some b, w') \<longrightarrow> length b = n)"

definition malloc_total :: "'w os \<Rightarrow> bool" where
  "malloc_total os \<longleftrightarrow> (\<forall>n w. fst (malloc os n w) \<noteq> None)"

definition IRQ_REENABLE :: u32 where "IRQ_REENABLE = 0x001"
definition IRQ_EXCLUSIVE :: u32 where "IRQ_EXCLUSIVE = 0x002"

section \<open>Byte helpers: utils.c\<close>

text \<open>
  An out-parameter \<^verbatim>\<open>uint8_t *p\<close> is a cell: \<open>None\<close> for a \<^verbatim>\<open>NULL\<close> pointer, otherwise the byte it
  points to, before and after the call.
\<close>

type_synonym cell = "byte option"

definition util_get_LSB :: "u16 \<Rightarrow> cell \<Rightarrow> int \<times> cell" where
  "util_get_LSB val lsb =
     (case lsb of None \<Rightarrow> (1, None) | Some _ \<Rightarrow> (0, Some (ucast (val AND 0xFF))))"

definition util_get_MSB :: "u16 \<Rightarrow> cell \<Rightarrow> int \<times> cell" where
  "util_get_MSB val msb =
     (case msb of None \<Rightarrow> (1, None)
      | Some _ \<Rightarrow> (0, Some (ucast (drop_bit 8 (val AND 0xFF00)))))"

definition util_sys_inb :: "'w os \<Rightarrow> nat \<Rightarrow> cell \<Rightarrow> 'w \<Rightarrow> (int \<times> cell) \<times> 'w" where
  "util_sys_inb os port c w =
     (case c of None \<Rightarrow> ((1, None), w)
      | Some old \<Rightarrow>
          (case sys_inb os port w of
             ((r, b), w') \<Rightarrow>
               if r \<noteq> 0 then ((1, Some old), w')
               else ((0, Some (ucast (b AND 0xFF))), w')))"

lemma util_get_LSB_Some [simp]: "util_get_LSB val (Some v) = (0, Some (ucast (val AND 0xFF)))"
  by (simp add: util_get_LSB_def)

lemma util_get_MSB_Some [simp]:
  "util_get_MSB val (Some v) = (0, Some (ucast (drop_bit 8 (val AND 0xFF00))))"
  by (simp add: util_get_MSB_def)

text \<open>Reading a port into a local variable: the result code and the byte, when there is one.\<close>

lemma util_sys_inb_cases:
  obtains (fail) w' where "util_sys_inb os port (Some v) w = ((1, Some v), w')"
  | (ok) b w' where "sys_inb os port w = ((0, b), w')"
      "util_sys_inb os port (Some v) w = ((0, Some (ucast (b AND 0xFF))), w')"
proof (cases "sys_inb os port w")
  case (Pair p w')
  then show ?thesis
    by (cases p; cases "fst p = 0") (auto simp: util_sys_inb_def intro: that)
qed

lemma util_sys_inb_NULL [simp]: "util_sys_inb os port None w = ((1, None), w)"
  by (simp add: util_sys_inb_def)

lemma util_sys_inb_ok:
  "sys_inb os port w = ((0, b), w') \<Longrightarrow>
   util_sys_inb os port (Some v) w = ((0, Some (ucast (b AND 0xFF))), w')"
  by (simp add: util_sys_inb_def)

text \<open>Split a 16-bit value: the two byte helpers together lose nothing.  Joining the most
  and the least significant byte they return gives the value back.\<close>

theorem util_bytes_join:
  fixes val :: u16
  shows "push_bit 8 (ucast (the (snd (util_get_MSB val (Some a))))) OR
         ucast (the (snd (util_get_LSB val (Some b)))) = val"
proof -
  have m: "(0xFF :: u16) = mask 8" "(0xFF00 :: u16) = push_bit 8 (mask 8)"
    by (simp_all add: mask_eq_exp_minus_1 push_bit_eq_mult)
  show ?thesis
    unfolding util_get_LSB_Some util_get_MSB_Some m
    by (rule bit_word_eqI) (auto simp: bit_simps)
qed

section \<open>A scripted platform\<close>

text \<open>
  A concrete platform for closed instances of the theorems: port reads are answered from a
  script (and fail when it is used up), port writes are logged, every other call succeeds and
  \<open>xpm_load\<close> produces a white image of the given size for every pixmap.
\<close>

record bench =
  replies :: "u32 list"
  writes :: "(nat \<times> u32) list"

definition bench_image :: "nat \<Rightarrow> nat \<Rightarrow> byte list option \<times> xpm_image" where
  "bench_image wd ht =
     (let m = replicate (wd * ht * 4) 0xFF in
      (Some m, \<lparr>img_type = XPM_8_8_8_8, img_width = of_nat wd, img_height = of_nat ht,
                img_size = of_nat (wd * ht * 4), img_bytes = Some m\<rparr>))"

definition bench_mode :: vbe_mode_info where
  "bench_mode = \<lparr>XResolution = 1152, YResolution = 864, BitsPerPixel = 32, MemoryModel = 6,
     RedMaskSize = 8, RedFieldPosition = 16, GreenMaskSize = 8, GreenFieldPosition = 8,
     BlueMaskSize = 8, BlueFieldPosition = 0, PhysBasePtr = 0xE0000000\<rparr>"

definition bench_os :: "(xpm_map \<Rightarrow> nat \<times> nat) \<Rightarrow> bench os" where
  "bench_os dims = \<lparr>
     sys_inb = (\<lambda>port w. case replies w of [] \<Rightarrow> ((1, 0), w) | r # rs \<Rightarrow> ((0, r), w\<lparr>replies := rs\<rparr>)),
     sys_outb = (\<lambda>port v w. (0, w\<lparr>writes := writes w @ [(port, v)]\<rparr>)),
     sys_irqsetpolicy = (\<lambda>irq pol hook w. ((0, hook), w)),
     sys_irqrmpolicy = (\<lambda>hook w. ((0, hook), w)),
     tickdelay = (\<lambda>t w. w),
     sys_hz = 60,
     malloc = (\<lambda>n w. (Some (replicate n 0), w)),
     xpm_load = (\<lambda>x ty img. bench_image (fst (dims x)) (snd (dims x))),
     vbe_get_mode_info = (\<lambda>m w. ((0, bench_mode), w)),
     sys_int86 = (\<lambda>r w. (0, w)),
     sys_privctl_add_mem = (\<lambda>b l w. (0, w)),
     vm_map_phys = (\<lambda>b n w. (Some (replicate (unat n) 0), w)),
     vg_exit = (\<lambda>w. (0, w))\<rparr>"

lemma bench_os_simps [simp]:
  "sys_inb (bench_os d) port w =
     (case replies w of [] \<Rightarrow> ((1, 0), w) | r # rs \<Rightarrow> ((0, r), w\<lparr>replies := rs\<rparr>))"
  "sys_outb (bench_os d) port v w = (0, w\<lparr>writes := writes w @ [(port, v)]\<rparr>)"
  "sys_irqsetpolicy (bench_os d) irq pol hook w = ((0, hook), w)"
  "sys_irqrmpolicy (bench_os d) hook w = ((0, hook), w)"
  "tickdelay (bench_os d) t w = w"
  "sys_hz (bench_os d) = 60"
  "malloc (bench_os d) n w = (Some (replicate n 0), w)"
  "xpm_load (bench_os d) x ty img = bench_image (fst (d x)) (snd (d x))"
  "vbe_get_mode_info (bench_os d) m w = ((0, bench_mode), w)"
  "sys_int86 (bench_os d) r w = (0, w)"
  "sys_privctl_add_mem (bench_os d) b l w = (0, w)"
  "vm_map_phys (bench_os d) b l w = (Some (replicate (unat l) 0), w)"
  "vg_exit (bench_os d) w = (0, w)"
  by (simp_all add: bench_os_def)

lemma bench_malloc [simp]: "malloc_sized (bench_os d)" "malloc_total (bench_os d)"
  by (auto simp: malloc_sized_def malloc_total_def)

text \<open>
  Ports that work: every write succeeds and is appended to \<open>log\<close>, every read succeeds and
  leaves the log alone.  The scripted platform with all reads answered by one value is such.
\<close>

definition logged_ports :: "'w os \<Rightarrow> ('w \<Rightarrow> (nat \<times> u32) list) \<Rightarrow> bool" where
  "logged_ports os log \<longleftrightarrow>
     (\<forall>port v w. \<exists>w'. sys_outb os port v w = (0, w') \<and> log w' = log w @ [(port, v)]) \<and>
     (\<forall>port w. \<exists>v w'. sys_inb os port w = ((0, v), w') \<and> log w' = log w)"

definition steady_os :: "u32 \<Rightarrow> bench os" where
  "steady_os v = (bench_os (\<lambda>_. (1, 1)))\<lparr>sys_inb := (\<lambda>port w. ((0, v), w))\<rparr>"

lemma steady_os_simps [simp]:
  "sys_inb (steady_os v) port w = ((0, v), w)"
  "sys_outb (steady_os v) port x w = (0, w\<lparr>writes := writes w @ [(port, x)]\<rparr>)"
  by (simp_all add: steady_os_def)

lemma steady_os_logged: "logged_ports (steady_os v) writes"
  by (simp add: logged_ports_def)

end
