(* ===== verification/Sprites.thy ===== *)
theory Sprites
  imports Platform
begin

text \<open>
  Sprites and the store they live in: \<^verbatim>\<open>model/sprites.c\<close> and the structure of \<^verbatim>\<open>sprites.h\<close>.
  Sprites are shared through pointers (a button is reached through its own variable and through
  an array, \<^verbatim>\<open>object == Ball\<close> compares pointers), so they are kept in an explicit heap.  A
  sprite that has been freed is absent from the heap, and reading or writing it, or a \<^verbatim>\<open>NULL\<close>
  pointer, is undefined.
\<close>

section \<open>The heap\<close>

record sprite =
  sp_x :: int
  sp_y :: int
  sp_width :: u16
  sp_height :: u16
  xspeed :: int
  yspeed :: int
  sp_map :: "byte list option"
  selected :: bool
  visibility :: bool

text \<open>\<open>brk\<close> is the next address the allocator has not handed out.\<close>

record 'w store =
  world :: 'w
  heap :: "ptr \<rightharpoonup> sprite"
  brk :: ptr

definition deref :: "(ptr \<rightharpoonup> sprite) \<Rightarrow> ptr \<Rightarrow> sprite option" where
  "deref h p = (if p = NULL then None else h p)"

text \<open>An assignment \<^verbatim>\<open>p->field = v\<close>.\<close>

definition update_sprite :: "ptr \<Rightarrow> (sprite \<Rightarrow> sprite) \<Rightarrow> ('w, 'a) store_scheme \<Rightarrow> ('w, 'a) store_scheme option" where
  "update_sprite p f s = do { o1 \<leftarrow> deref (heap s) p; Some (s\<lparr>heap := (heap s)(p \<mapsto> f o1)\<rparr>) }"

lemma deref_upd [simp]:
  "deref (h(p \<mapsto> o1)) q = (if q = p \<and> p \<noteq> NULL then Some o1 else deref h q)"
  by (simp add: deref_def)

lemma deref_NULL [simp]: "deref h 0 = None"
  by (simp add: deref_def)

lemma deref_SomeD: "deref h p = Some o1 \<Longrightarrow> p \<noteq> NULL \<and> h p = Some o1"
  by (simp add: deref_def split: if_splits)

lemma update_sprite_Some [simp]:
  "deref (heap s) p = Some o1 \<Longrightarrow> update_sprite p f s = Some (s\<lparr>heap := (heap s)(p \<mapsto> f o1)\<rparr>)"
  by (simp add: update_sprite_def)

section \<open>Creation and destruction\<close>

definition sizeof_Sprite :: nat where
  "sizeof_Sprite = 28"

text \<open>The contents of a descriptor that nothing has been loaded into.\<close>

definition xpm_image_zero :: xpm_image where
  "xpm_image_zero = \<lparr>img_type = XPM_INDEXED, img_width = 0, img_height = 0, img_size = 0, img_bytes = None\<rparr>"

definition create_sprite ::
  "'w os \<Rightarrow> xpm_map \<Rightarrow> int \<Rightarrow> int \<Rightarrow> ('w, 'a) store_scheme \<Rightarrow> ptr \<times> ('w, 'a) store_scheme" where
  "create_sprite os xpm x y s =
     (case malloc os sizeof_Sprite (world s) of
        (None, w) \<Rightarrow> (NULL, s\<lparr>world := w\<rparr>)
      | (Some _, w) \<Rightarrow>
          (case xpm_load os xpm XPM_8_8_8_8 xpm_image_zero of
             (None, _) \<Rightarrow> (NULL, s\<lparr>world := w, brk := brk s + 1\<rparr>)
           | (Some m, img) \<Rightarrow>
               (brk s,
                s\<lparr>world := w, brk := brk s + 1,
                  heap := (heap s)(brk s \<mapsto>
                    \<lparr>sp_x = x, sp_y = y, sp_width = img_width img, sp_height = img_height img,
                     xspeed = 0, yspeed = 0, sp_map = Some m, selected = False,
                     visibility = True\<rparr>)\<rparr>)))"

text \<open>Freeing a sprite that is not live (a second \<^verbatim>\<open>free\<close>) is undefined.\<close>

definition delete_sprite :: "ptr \<Rightarrow> ('w, 'a) store_scheme \<Rightarrow> ('w, 'a) store_scheme option" where
  "delete_sprite p s =
     (if p = NULL then Some s
      else do { _ \<leftarrow> deref (heap s) p; Some (s\<lparr>heap := (heap s)(p := None)\<rparr>) })"

section \<open>Well-formed stores and sprites\<close>

text \<open>Addresses at or above \<open>brk\<close> are free, so a new sprite never aliases a live one.\<close>

definition store_ok :: "('w, 'a) store_scheme \<Rightarrow> bool" where
  "store_ok s \<longleftrightarrow> 0 < brk s \<and> heap s NULL = None \<and> (\<forall>p. brk s \<le> p \<longrightarrow> heap s p = None)"

text \<open>
  What \<^verbatim>\<open>xpm_load\<close> documents (\<^verbatim>\<open>lcom/xpm.h\<close>) for format \<^verbatim>\<open>XPM_8_8_8_8\<close>: a successful load fills
  the descriptor, and the bytes are \<open>width * height\<close> pixels of four bytes.
\<close>

definition xpm_load_sized :: "'w os \<Rightarrow> bool" where
  "xpm_load_sized os \<longleftrightarrow>
     (\<forall>xpm img0 m img. xpm_load os xpm XPM_8_8_8_8 img0 = (Some m, img) \<longrightarrow>
        length m = unat (img_width img) * unat (img_height img) * 4 \<and> img_bytes img = Some m)"

text \<open>The pixmap of a sprite covers exactly its rectangle, with \<open>bpp\<close> bytes per pixel.\<close>

definition pixmap_ok :: "nat \<Rightarrow> sprite \<Rightarrow> bool" where
  "pixmap_ok bpp o1 \<longleftrightarrow>
     (\<exists>m. sp_map o1 = Some m \<and> length m = unat (sp_width o1) * unat (sp_height o1) * bpp)"

lemma create_sprite_store_ok:
  assumes "store_ok s" and "create_sprite os xpm x y s = (p, s')"
  shows "store_ok s' \<and> (p = NULL \<longrightarrow> heap s' = heap s) \<and>
         (p \<noteq> NULL \<longrightarrow> p = brk s \<and> heap s p = None \<and> deref (heap s') p \<noteq> None)"
  using assms
  by (auto simp: create_sprite_def store_ok_def deref_def split: option.splits prod.splits)

text \<open>A created sprite is complete: when the allocator and the loader succeed,
  \<^verbatim>\<open>create_sprite\<close> returns a fresh non-\<^verbatim>\<open>NULL\<close> pointer to a sprite at the given position, at
  rest, visible and not selected, whose pixmap covers exactly its rectangle, and no other
  sprite is touched.\<close>

theorem create_sprite_fresh:
  assumes "store_ok s" and "xpm_load_sized os"
    and "malloc os sizeof_Sprite (world s) = (Some b, w)"
    and "xpm_load os xpm XPM_8_8_8_8 xpm_image_zero = (Some m, img)"
  shows "\<exists>p s' o1. create_sprite os xpm x y s = (p, s') \<and> p \<noteq> NULL \<and> heap s p = None \<and>
           heap s' = (heap s)(p \<mapsto> o1) \<and> pixmap_ok 4 o1 \<and> sp_x o1 = x \<and> sp_y o1 = y \<and>
           sp_width o1 = img_width img \<and> sp_height o1 = img_height img \<and>
           xspeed o1 = 0 \<and> yspeed o1 = 0 \<and> \<not> selected o1 \<and> visibility o1 \<and> store_ok s'"
  using assms
  by (auto simp: create_sprite_def store_ok_def pixmap_ok_def xpm_load_sized_def)

text \<open>Deleting undoes creating: deleting the sprite just created returns the heap to what it
  was, and deleting it twice is undefined.\<close>

theorem create_delete_sprite:
  assumes "store_ok s" and "create_sprite os xpm x y s = (p, s')" and "p \<noteq> NULL"
  shows "\<exists>s''. delete_sprite p s' = Some s'' \<and> heap s'' = heap s \<and> delete_sprite p s'' = None"
proof -
  have p: "p = brk s" "heap s p = None" "0 < p" and h: "\<exists>o1. heap s' = (heap s)(p \<mapsto> o1)"
    using assms by (auto simp: create_sprite_def store_ok_def split: option.splits prod.splits)
  then show ?thesis by (auto simp: delete_sprite_def deref_def fun_upd_idem)
qed

text \<open>A closed instance: the puck pixmap of 80 by 80 pixels in an empty store.\<close>

definition empty_store :: "bench store" where
  "empty_store = \<lparr>world = \<lparr>replies = [], writes = []\<rparr>, heap = Map.empty, brk = 1\<rparr>"

definition puck_bench :: "bench os" where
  "puck_bench = bench_os (\<lambda>_. (80, 80))"

lemma empty_store_ok: "store_ok empty_store"
  by (simp add: store_ok_def empty_store_def)

lemma puck_bench_xpm: "xpm_load_sized puck_bench"
  by (auto simp: xpm_load_sized_def puck_bench_def bench_image_def Let_def)

theorem create_sprite_fresh_witness:
  "\<exists>p s' o1. create_sprite puck_bench Red_puck 535 55 empty_store = (p, s') \<and> p \<noteq> NULL \<and>
     heap s' = (heap empty_store)(p \<mapsto> o1) \<and> pixmap_ok 4 o1 \<and> sp_x o1 = 535 \<and> sp_y o1 = 55 \<and>
     sp_width o1 = 80 \<and> sp_height o1 = 80"
proof -
  have m: "malloc puck_bench sizeof_Sprite (world empty_store) =
      (Some (replicate sizeof_Sprite 0), world empty_store)"
    by (simp add: puck_bench_def)
  have x: "xpm_load puck_bench Red_puck XPM_8_8_8_8 xpm_image_zero =
      (fst (bench_image 80 80), snd (bench_image 80 80))"
    by (simp add: puck_bench_def)
  show ?thesis
    using create_sprite_fresh [OF empty_store_ok puck_bench_xpm m x [unfolded bench_image_def Let_def fst_conv snd_conv],
        of 535 55]
    by auto
qed

theorem create_delete_sprite_witness:
  "\<exists>p s' s''. create_sprite puck_bench Red_puck 535 55 empty_store = (p, s') \<and>
     delete_sprite p s' = Some s'' \<and> heap s'' = heap empty_store \<and> delete_sprite p s'' = None"
proof -
  obtain p s' where c: "create_sprite puck_bench Red_puck 535 55 empty_store = (p, s')" "p \<noteq> NULL"
    by (simp add: create_sprite_def puck_bench_def bench_image_def Let_def empty_store_def)
  from create_delete_sprite [OF empty_store_ok c] c(1) show ?thesis by blast
qed

end
