(* ===== verification/Graphics.thy ===== *)
theory Graphics
  imports Sprites
begin

text \<open>
  The video driver, \<^verbatim>\<open>controller/graphics/graphics.c\<close>: setting the mode and mapping the frame
  buffer, and drawing lines and sprites into the secondary buffer.  A buffer is a byte list; an
  access outside it is undefined.  \<^verbatim>\<open>panic\<close> ends the process, so it has no result either.
\<close>

section \<open>Constants and state: graphics.h and the globals of graphics.c\<close>

definition TRANSPARENT :: u32 where "TRANSPARENT = 0xFFFFFE"
definition VBE_CALL :: u16 where [hw_consts]: "VBE_CALL = 0x4F00"
definition SET_VBE_MODE :: u16 where [hw_consts]: "SET_VBE_MODE = 0x02"
definition VBE_INT :: byte where [hw_consts]: "VBE_INT = 0x10"
definition SET_LINEAR_BIT :: u16 where [hw_consts]: "SET_LINEAR_BIT = BIT 14"

record 'w video = "'w store" +
  main_buffer :: "byte list option"
  secondary_buffer :: "byte list option"
  vram_size :: u32
  h_res :: u32
  v_res :: u32
  bytes_per_pixel :: u32
  memory_model :: u32
  red_mask_size :: u32
  red_field_position :: u32
  green_mask_size :: u32
  green_field_position :: u32
  blue_mask_size :: u32
  blue_field_position :: u32
  vram_base :: u32

section \<open>Initialisation\<close>

definition graphics_set_mode :: "'w os \<Rightarrow> u16 \<Rightarrow> ('w, 'a) video_scheme \<Rightarrow> int \<times> ('w, 'a) video_scheme" where
  "graphics_set_mode os mode s =
     (case sys_int86 os \<lparr>reg_ax = VBE_CALL OR SET_VBE_MODE, reg_bx = SET_LINEAR_BIT OR mode,
                         reg_intno = VBE_INT\<rparr> (world s) of
        (r, w) \<Rightarrow> if r \<noteq> 0 then (1, s\<lparr>world := w\<rparr>) else (0, s\<lparr>world := w\<rparr>))"

definition map_phys_mem :: "'w os \<Rightarrow> ('w, 'a) video_scheme \<Rightarrow> (int \<times> ('w, 'a) video_scheme) option" where
  "map_phys_mem os s =
     (let size = h_res s * v_res s * bytes_per_pixel s in
      case sys_privctl_add_mem os (vram_base s) (vram_base s + size) (world s) of
        (r, w1) \<Rightarrow>
          if r \<noteq> 0 then None
          else (case vm_map_phys os (vram_base s) size w1 of
                  (None, w2) \<Rightarrow> None
                | (Some buf, w2) \<Rightarrow>
                    (case malloc os (unat size) w2 of
                       (sec, w3) \<Rightarrow>
                         Some (0, s\<lparr>vram_size := size, main_buffer := Some buf,
                                    secondary_buffer := sec, world := w3\<rparr>))))"

definition vg_init :: "'w os \<Rightarrow> u16 \<Rightarrow> ('w, 'a) video_scheme \<Rightarrow> (byte list option \<times> ('w, 'a) video_scheme) option" where
  "vg_init os mode s =
     (case vbe_get_mode_info os mode (world s) of
        ((r, vmi), w1) \<Rightarrow>
          if r \<noteq> 0 then Some (None, s\<lparr>world := w1\<rparr>)
          else do {
            let s1 = s\<lparr>world := w1, h_res := ucast (XResolution vmi), v_res := ucast (YResolution vmi),
                       bytes_per_pixel := (ucast (BitsPerPixel vmi) + 7) div 8,
                       memory_model := ucast (MemoryModel vmi),
                       red_mask_size := ucast (RedMaskSize vmi),
                       red_field_position := ucast (RedFieldPosition vmi),
                       green_mask_size := ucast (GreenMaskSize vmi),
                       green_field_position := ucast (GreenFieldPosition vmi),
                       blue_mask_size := ucast (BlueMaskSize vmi),
                       blue_field_position := ucast (BlueFieldPosition vmi),
                       vram_base := PhysBasePtr vmi\<rparr>;
            (r2, s2) \<leftarrow> map_phys_mem os s1;
            if r2 \<noteq> 0 then Some (None, s2)
            else case graphics_set_mode os mode s2 of
              (r3, s3) \<Rightarrow> if r3 \<noteq> 0 then Some (None, s3) else Some (main_buffer s3, s3)
          })"

section \<open>Colours\<close>

text \<open>\<^verbatim>\<open>(1 << size) - 1\<close> on \<^verbatim>\<open>int\<close> is undefined from size 31 on; so is a shift of 32 bits or more.\<close>

definition create_mask :: "u32 \<Rightarrow> u32 \<Rightarrow> u32 option" where
  "create_mask msize lsb =
     (if msize < 31 \<and> lsb < 32 then Some (push_bit (unat lsb) (push_bit (unat msize) 1 - 1)) else None)"

definition get_color_component :: "u32 \<Rightarrow> u32 \<Rightarrow> u32 \<Rightarrow> u32 option" where
  "get_color_component color msize lsb =
     do { m \<leftarrow> create_mask msize lsb; Some (drop_bit (unat lsb) (color AND m)) }"

text \<open>\<^verbatim>\<open>memcpy(&color, p, bytes_per_pixel)\<close>; more than four bytes overrun the variable.\<close>

definition load_color :: "byte list \<Rightarrow> nat \<Rightarrow> nat \<Rightarrow> u32 option" where
  "load_color mem off bpp = (if bpp \<le> 4 then map_option le_bytes (read_bytes mem off bpp) else None)"

section \<open>Drawing\<close>

text \<open>The bytes of a colour in memory, least significant first.\<close>

definition color_bytes :: "u32 \<Rightarrow> byte list" where
  "color_bytes c = [ucast c, ucast (drop_bit 8 c), ucast (drop_bit 16 c), ucast (drop_bit 24 c)]"

fun hline_loop :: "nat \<Rightarrow> u32 \<Rightarrow> nat \<Rightarrow> nat \<Rightarrow> byte list \<Rightarrow> byte list option" where
  "hline_loop bpp color 0 p buf = Some buf"
| "hline_loop bpp color (Suc n) p buf =
     do { src \<leftarrow> read_bytes (color_bytes color) 0 bpp;
          buf' \<leftarrow> memcpy_at buf p src;
          hline_loop bpp color n (p + bpp) buf' }"

definition vg_draw_hline ::
  "u16 \<Rightarrow> u16 \<Rightarrow> u16 \<Rightarrow> u32 \<Rightarrow> ('w, 'a) video_scheme \<Rightarrow> (int \<times> ('w, 'a) video_scheme) option" where
  "vg_draw_hline x y len color s =
     do {
       buf \<leftarrow> secondary_buffer s;
       let p = unat ((ucast y * h_res s + ucast x) * bytes_per_pixel s);
       let len' = (if ucast x + ucast len > h_res s then ucast (h_res s - ucast x) else len);
       buf' \<leftarrow> hline_loop (unat (bytes_per_pixel s)) color (unat len') p buf;
       Some (0, s\<lparr>secondary_buffer := Some buf'\<rparr>)
     }"

text \<open>One row of a sprite: \<open>n\<close> pixels from offset \<open>c\<close> of the pixmap to offset \<open>p\<close> of the buffer.\<close>

fun draw_row :: "nat \<Rightarrow> byte list \<Rightarrow> nat \<Rightarrow> nat \<Rightarrow> nat \<Rightarrow> byte list \<Rightarrow> byte list option" where
  "draw_row bpp m 0 c p buf = Some buf"
| "draw_row bpp m (Suc n) c p buf =
     do {
       color \<leftarrow> load_color m c bpp;
       buf' \<leftarrow> (if color = TRANSPARENT then Some buf
                else do { src \<leftarrow> read_bytes m c bpp; memcpy_at buf p src });
       draw_row bpp m n (c + bpp) (p + bpp) buf'
     }"

text \<open>The rows of a sprite from \<open>line\<close> on; the buffer pointer is used only when a row is drawn.\<close>

fun draw_lines ::
  "u32 \<Rightarrow> u32 \<Rightarrow> sprite \<Rightarrow> byte list \<Rightarrow> nat \<Rightarrow> nat \<Rightarrow> nat \<Rightarrow> byte list option \<Rightarrow> byte list option option" where
  "draw_lines hres bpp o1 m 0 line c buf = Some buf"
| "draw_lines hres bpp o1 m (Suc n) line c buf =
     do {
       b \<leftarrow> buf;
       let p = unat ((word_of_int (sp_y o1 + int line) * hres + word_of_int (sp_x o1)) * bpp);
       b' \<leftarrow> draw_row (unat bpp) m (unat (sp_width o1)) c p b;
       draw_lines hres bpp o1 m n (line + 1) (c + unat (sp_width o1) * unat bpp) (Some b')
     }"

definition vg_draw_sprite :: "ptr \<Rightarrow> ('w, 'a) video_scheme \<Rightarrow> (int \<times> ('w, 'a) video_scheme) option" where
  "vg_draw_sprite p s =
     (if p = NULL then Some (1, s)
      else do {
        o1 \<leftarrow> deref (heap s) p;
        case sp_map o1 of
          None \<Rightarrow> Some (1, s)
        | Some m \<Rightarrow>
            if visibility o1 then do {
              buf \<leftarrow> draw_lines (h_res s) (bytes_per_pixel s) o1 m (unat (sp_height o1)) 0 0 (secondary_buffer s);
              Some (0, s\<lparr>secondary_buffer := buf\<rparr>)
            } else Some (0, s)
      })"

text \<open>Whole rows of an image, copied without a transparency test.\<close>

fun copy_rows :: "nat \<Rightarrow> byte list \<Rightarrow> (nat \<Rightarrow> nat) \<Rightarrow> nat \<Rightarrow> nat \<Rightarrow> nat \<Rightarrow> byte list option \<Rightarrow> byte list option option" where
  "copy_rows rowlen m dest 0 line c buf = Some buf"
| "copy_rows rowlen m dest (Suc n) line c buf =
     do {
       b \<leftarrow> buf;
       src \<leftarrow> read_bytes m c rowlen;
       b' \<leftarrow> memcpy_at b (dest line) src;
       copy_rows rowlen m dest n (line + 1) (c + rowlen) (Some b')
     }"

definition vg_draw_xpm ::
  "'w os \<Rightarrow> xpm_map \<Rightarrow> u16 \<Rightarrow> u16 \<Rightarrow> ('w, 'a) video_scheme \<Rightarrow> (int \<times> ('w, 'a) video_scheme) option" where
  "vg_draw_xpm os xpm x y s =
     (case xpm_load os xpm XPM_8_8_8_8 xpm_image_zero of
        (None, _) \<Rightarrow> Some (1, s)
      | (Some m, img) \<Rightarrow> do {
          let dest = (\<lambda>line. unat (((ucast y + of_nat line) * h_res s + ucast x) * bytes_per_pixel s));
          buf \<leftarrow> copy_rows (unat (ucast (img_width img) * bytes_per_pixel s)) m dest
                   (unat (img_height img)) 0 0 (secondary_buffer s);
          Some (0, s\<lparr>secondary_buffer := buf\<rparr>)
        })"

definition get_h_res :: "('w, 'a) video_scheme \<Rightarrow> u32" where
  "get_h_res s = h_res s"

definition get_v_res :: "('w, 'a) video_scheme \<Rightarrow> u32" where
  "get_v_res s = v_res s"

section \<open>Pixels\<close>

text \<open>The pixel of index \<open>i\<close> in a byte memory of \<open>bpp\<close> bytes per pixel.\<close>

definition px :: "nat \<Rightarrow> byte list \<Rightarrow> nat \<Rightarrow> byte list" where
  "px bpp mem i = take bpp (drop (i * bpp) mem)"

definition opaque :: "byte list \<Rightarrow> bool" where
  "opaque pixel \<longleftrightarrow> le_bytes pixel \<noteq> TRANSPARENT"

lemma pixel_end: "i < k \<Longrightarrow> i * bpp + bpp \<le> k * (bpp :: nat)"
proof -
  assume "i < k"
  then have "Suc i * bpp \<le> k * bpp" by (intro mult_le_mono1) simp
  then show ?thesis by simp
qed

lemma px_cong:
  assumes "length mem = length mem'"
    and "\<And>k. i * bpp \<le> k \<Longrightarrow> k < i * bpp + bpp \<Longrightarrow> k < length mem \<Longrightarrow> mem ! k = mem' ! k"
  shows "px bpp mem i = px bpp mem' i"
  unfolding px_def by (rule nth_equalityI) (use assms in auto)

lemma px_memcpy:
  assumes "memcpy_at buf (q * bpp) src = Some buf'" and "length src = bpp"
  shows "px bpp buf' i = (if i = q then src else px bpp buf i)"
proof (cases "i = q")
  case True
  have "q * bpp + bpp \<le> length buf"
    and buf': "buf' = take (q * bpp) buf @ src @ drop (q * bpp + bpp) buf"
    using assms by (auto simp: memcpy_at_def split: if_splits)
  then show ?thesis using True assms(2) by (simp add: px_def)
next
  case False
  have "px bpp buf' i = px bpp buf i"
  proof (rule px_cong)
    show "length buf' = length buf" using assms(1) by (rule memcpy_at_length)
    fix k assume k: "i * bpp \<le> k" "k < i * bpp + bpp" "k < length buf'"
    have "\<not> (q * bpp \<le> k \<and> k < q * bpp + bpp)"
      using False k(1,2) pixel_end [of i q bpp] pixel_end [of q i bpp] by linarith
    then show "buf' ! k = buf ! k"
      using memcpy_at_nth [OF assms(1)] memcpy_at_length [OF assms(1)] k(3) assms(2) by auto
  qed
  then show ?thesis using False by simp
qed

lemma load_color_px:
  "bpp \<le> 4 \<Longrightarrow> c * bpp + bpp \<le> length m \<Longrightarrow> load_color m (c * bpp) bpp = Some (le_bytes (px bpp m c))"
  by (simp add: load_color_def px_def)

lemma draw_row_px:
  assumes "bpp \<le> 4" and "(c + n) * bpp \<le> length m" and "(q + n) * bpp \<le> length buf"
  shows "\<exists>buf'. draw_row bpp m n (c * bpp) (q * bpp) buf = Some buf' \<and> length buf' = length buf \<and>
    (\<forall>i. px bpp buf' i =
      (if q \<le> i \<and> i < q + n \<and> opaque (px bpp m (c + (i - q))) then px bpp m (c + (i - q)) else px bpp buf i))"
  using assms(2,3)
proof (induction n arbitrary: c q buf)
  case 0
  then show ?case by auto
next
  case (Suc n)
  have cm: "c * bpp + bpp \<le> length m" and qb: "q * bpp + bpp \<le> length buf"
    using Suc.prems by (simp_all add: algebra_simps)
  have load: "load_color m (c * bpp) bpp = Some (le_bytes (px bpp m c))"
    by (rule load_color_px [OF assms(1) cm])
  have src: "read_bytes m (c * bpp) bpp = Some (px bpp m c)" "length (px bpp m c) = bpp"
    using cm by (simp_all add: px_def)
  obtain b1 where b1: "(if le_bytes (px bpp m c) = TRANSPARENT then Some buf
      else do { src \<leftarrow> read_bytes m (c * bpp) bpp; memcpy_at buf (q * bpp) src }) = Some b1"
    "length b1 = length buf"
    "\<And>i. px bpp b1 i = (if i = q \<and> opaque (px bpp m c) then px bpp m c else px bpp buf i)"
  proof (cases "le_bytes (px bpp m c) = TRANSPARENT")
    case True
    then show thesis by (intro that [of buf]) (auto simp: opaque_def)
  next
    case False
    have "memcpy_at buf (q * bpp) (px bpp m c) =
        Some (take (q * bpp) buf @ px bpp m c @ drop (q * bpp + length (px bpp m c)) buf)"
      using qb src(2) by (intro memcpy_at_Some) simp
    then obtain b1 where w: "memcpy_at buf (q * bpp) (px bpp m c) = Some b1" by blast
    show thesis
    proof (rule that [of b1])
      show "length b1 = length buf" using w by (rule memcpy_at_length)
      show "px bpp b1 i = (if i = q \<and> opaque (px bpp m c) then px bpp m c else px bpp buf i)" for i
        using px_memcpy [OF w src(2), of i] False by (simp add: opaque_def)
    qed (use False src(1) w in simp)
  qed
  have "(Suc c + n) * bpp \<le> length m" "(Suc q + n) * bpp \<le> length b1"
    using Suc.prems b1(2) by simp_all
  then obtain b2 where b2: "draw_row bpp m n (Suc c * bpp) (Suc q * bpp) b1 = Some b2"
    "length b2 = length b1"
    "\<And>i. px bpp b2 i = (if Suc q \<le> i \<and> i < Suc q + n \<and> opaque (px bpp m (Suc c + (i - Suc q)))
       then px bpp m (Suc c + (i - Suc q)) else px bpp b1 i)"
    using Suc.IH by blast
  have "draw_row bpp m (Suc n) (c * bpp) (q * bpp) buf = Some b2"
    using load b1(1) b2(1) by (simp add: add.commute)
  moreover have "px bpp b2 i = (if q \<le> i \<and> i < q + Suc n \<and> opaque (px bpp m (c + (i - q)))
      then px bpp m (c + (i - q)) else px bpp buf i)" for i
  proof (cases "Suc q \<le> i")
    case True
    then have "Suc c + (i - Suc q) = c + (i - q)" by simp
    then show ?thesis using True b1(3) [of i] b2(3) [of i] by auto
  next
    case False
    then show ?thesis using b1(3) [of i] b2(3) [of i] by (cases "i = q") auto
  qed
  ultimately show ?case using b1(2) b2(2) by auto
qed

section \<open>A whole sprite\<close>

text \<open>
  What a sprite puts at pixel \<open>i\<close> of a screen \<open>hres\<close> pixels wide: the pixel of its map there,
  unless it is transparent or \<open>i\<close> lies outside the rows \<open>[lo, hi)\<close> of its rectangle.
\<close>

definition sprite_px :: "nat \<Rightarrow> nat \<Rightarrow> sprite \<Rightarrow> byte list \<Rightarrow> nat \<Rightarrow> nat \<Rightarrow> nat \<Rightarrow> byte list option" where
  "sprite_px bpp hres o1 m lo hi i =
     (let r = int (i div hres) - sp_y o1; c = int (i mod hres) - sp_x o1;
          p = px bpp m (nat r * unat (sp_width o1) + nat c)
      in if int lo \<le> r \<and> r < int hi \<and> 0 \<le> c \<and> c < uint (sp_width o1) \<and> opaque p then Some p else None)"

text \<open>The sprite lies on a screen of \<open>hres\<close> by \<open>vres\<close> pixels.\<close>

definition on_screen :: "nat \<Rightarrow> nat \<Rightarrow> sprite \<Rightarrow> bool" where
  "on_screen hres vres o1 \<longleftrightarrow>
     0 \<le> sp_x o1 \<and> sp_x o1 + uint (sp_width o1) \<le> int hres \<and>
     0 \<le> sp_y o1 \<and> sp_y o1 + uint (sp_height o1) \<le> int vres"

lemma row_index:
  fixes i y x w hres :: nat
  assumes "x + w \<le> hres"
  shows "y * hres + x \<le> i \<and> i < y * hres + x + w \<longleftrightarrow>
         i div hres = y \<and> x \<le> i mod hres \<and> i mod hres < x + w"
proof
  assume h: "y * hres + x \<le> i \<and> i < y * hres + x + w"
  then have lt: "i - y * hres < hres" using assms by linarith
  have i: "i = (i - y * hres) + y * hres" using h by linarith
  have "i div hres = y" "i mod hres = i - y * hres"
    using lt by (subst i, simp)+
  then show "i div hres = y \<and> x \<le> i mod hres \<and> i mod hres < x + w" using h by linarith
next
  assume h: "i div hres = y \<and> x \<le> i mod hres \<and> i mod hres < x + w"
  have "y * hres + i mod hres = i" using h div_mult_mod_eq [of i hres] by simp
  then show "y * hres + x \<le> i \<and> i < y * hres + x + w" using h by linarith
qed

text \<open>The unsigned offset of a pixel, when it fits.\<close>

lemma word_offset:
  assumes "(y * unat hres + x) * unat bpp < 2 ^ 32"
  shows "unat ((word_of_int (int y) * hres + word_of_int (int x)) * bpp :: u32) = (y * unat hres + x) * unat bpp"
proof -
  have "(word_of_int (int y) * hres + word_of_int (int x)) * bpp =
      (of_nat ((y * unat hres + x) * unat bpp) :: u32)"
    by simp
  then show ?thesis using assms by (simp only: unat_of_nat) simp
qed

text \<open>Drawing one line and then those below it draws them all.\<close>

lemma sprite_row:
  assumes "uint (sp_width o1) = int w" and "sp_x o1 = int x" and "int (i div H) - sp_y o1 = int line" and "line < line2"
  shows "sprite_px B H o1 m line line2 i =
    (if x \<le> i mod H \<and> i mod H < x + w \<and> opaque (px B m (line * w + (i mod H - x)))
     then Some (px B m (line * w + (i mod H - x))) else None)"
proof -
  have "nat (int (i mod H) - sp_x o1) = i mod H - x" using assms(2) by linarith
  moreover have "0 \<le> int (i mod H) - sp_x o1 \<longleftrightarrow> x \<le> i mod H" by (simp only: assms(2)) linarith
  moreover have "int (i mod H) - sp_x o1 < uint (sp_width o1) \<longleftrightarrow> i mod H < x + w"
    by (simp only: assms(1,2)) linarith
  moreover have "unat (sp_width o1) = w" using assms(1) by (metis nat_int unat_eq_nat_uint)
  ultimately show ?thesis using assms(4) by (auto simp: sprite_px_def Let_def assms(3))
qed

lemma line_then_lines:
  assumes w: "uint (sp_width o1) = int w" and x: "sp_x o1 = int x" and y: "sp_y o1 + int line = int y" and xw: "x + w \<le> H"
    and b1: "\<And>i. px B b1 i = (if y * H + x \<le> i \<and> i < y * H + x + w \<and> opaque (px B m (line * w + (i - (y * H + x))))
      then px B m (line * w + (i - (y * H + x))) else px B buf i)"
    and b2: "\<And>i. px B b2 i = (case sprite_px B H o1 m (line + 1) (line + 1 + n) i of Some p \<Rightarrow> p | None \<Rightarrow> px B b1 i)"
  shows "px B b2 i = (case sprite_px B H o1 m line (line + Suc n) i of Some p \<Rightarrow> p | None \<Rightarrow> px B buf i)"
proof (cases "i div H = y")
  case True
  have r: "int (i div H) - sp_y o1 = int line" using True y by simp
  have in_row: "y * H + x \<le> i \<and> i < y * H + x + w \<longleftrightarrow> x \<le> i mod H \<and> i mod H < x + w"
    using row_index [OF xw, of y i] True by simp
  have col: "i - (y * H + x) = i mod H - x" using True minus_div_mult_eq_mod [of i H] by simp
  have "px B b2 i = px B b1 i" using b2 [of i] r by (simp add: sprite_px_def)
  moreover have "px B b1 i = (if x \<le> i mod H \<and> i mod H < x + w \<and> opaque (px B m (line * w + (i mod H - x)))
      then px B m (line * w + (i mod H - x)) else px B buf i)"
    using b1 [of i] in_row by (simp only: col) auto
  ultimately show ?thesis using sprite_row [OF w x r, of "line + Suc n"] by (auto split: if_splits)
next
  case False
  have r: "int (i div H) - sp_y o1 \<noteq> int line" using False y by simp
  have "px B b1 i = px B buf i" using b1 [of i] row_index [OF xw, of y i] False by (auto split: if_splits)
  moreover have "sprite_px B H o1 m (line + 1) (line + 1 + n) i = sprite_px B H o1 m line (line + Suc n) i"
    using r by (simp add: sprite_px_def Let_def)
  ultimately show ?thesis using b2 [of i] by (simp split: option.splits)
qed

lemma draw_lines_px:
  assumes bpp: "unat bpp \<le> 4"
    and scr: "0 \<le> sp_x o1" "sp_x o1 + uint (sp_width o1) \<le> int (unat hres)" "0 \<le> sp_y o1"
    and fit: "(nat (sp_y o1) + (line + n)) * unat hres * unat bpp \<le> length buf" "length buf < 2 ^ 32"
    and m: "length m = (line + n) * unat (sp_width o1) * unat bpp"
  shows "\<exists>buf'. draw_lines hres bpp o1 m n line (line * unat (sp_width o1) * unat bpp) (Some buf) = Some (Some buf') \<and>
    length buf' = length buf \<and>
    (\<forall>i. px (unat bpp) buf' i =
      (case sprite_px (unat bpp) (unat hres) o1 m line (line + n) i of
         Some p \<Rightarrow> p | None \<Rightarrow> px (unat bpp) buf i))"
  using fit m
proof (induction n arbitrary: line buf)
  case 0
  then show ?case by (auto simp: sprite_px_def Let_def)
next
  case (Suc n)
  define w where "w = unat (sp_width o1)"
  define x where "x = nat (sp_x o1)"
  define y where "y = nat (sp_y o1) + line"
  define H where "H = unat hres"
  define B where "B = unat bpp"
  have w: "uint (sp_width o1) = int w" and x: "sp_x o1 = int x" and y: "sp_y o1 + int line = int y"
    using scr by (simp_all add: w_def x_def y_def)
  have xw: "x + w \<le> H" using scr(2) unfolding w x H_def by linarith
  have "y + 1 \<le> nat (sp_y o1) + (line + Suc n)" by (simp add: y_def)
  then have "(y + 1) * H * B \<le> (nat (sp_y o1) + (line + Suc n)) * H * B"
    by (rule mult_le_mono1 [OF mult_le_mono1])
  then have rows: "(y + 1) * H * B \<le> length buf"
    using Suc.prems(1) unfolding H_def B_def by (rule le_trans)
  have q: "(y * H + x + w) * B \<le> (y + 1) * H * B" using xw by (intro mult_le_mono1) simp
  have off: "unat ((word_of_int (sp_y o1 + int line) * hres + word_of_int (sp_x o1)) * bpp) = (y * H + x) * B"
  proof (unfold y x H_def B_def, rule word_offset)
    have "(y * H + x) * B \<le> (y * H + x + w) * B" by (rule mult_le_mono1) simp
    then show "(y * unat hres + x) * unat bpp < 2 ^ 32"
      using q rows Suc.prems(2) unfolding H_def B_def by linarith
  qed
  have c: "(line * w + w) * B \<le> length m" using Suc.prems(3) by (simp add: w_def B_def algebra_simps)
  obtain b1 where b1: "draw_row B m w (line * w * B) ((y * H + x) * B) buf = Some b1"
      "length b1 = length buf"
      "\<And>i. px B b1 i = (if y * H + x \<le> i \<and> i < y * H + x + w \<and> opaque (px B m (line * w + (i - (y * H + x))))
         then px B m (line * w + (i - (y * H + x))) else px B buf i)"
    using draw_row_px [OF bpp [folded B_def] c le_trans [OF q rows]] by blast
  have step: "draw_lines hres bpp o1 m (Suc n) line (line * w * B) (Some buf) =
      draw_lines hres bpp o1 m n (line + 1) ((line + 1) * w * B) (Some b1)"
    using b1(1) off by (simp add: w_def B_def algebra_simps)
  have "length m = (line + 1 + n) * w * B" "(nat (sp_y o1) + (line + 1 + n)) * H * B \<le> length b1"
      "length b1 < 2 ^ 32"
    using Suc.prems b1(2) by (simp_all add: w_def H_def B_def)
  then obtain b2 where b2: "draw_lines hres bpp o1 m n (line + 1) ((line + 1) * w * B) (Some b1) = Some (Some b2)"
      "length b2 = length b1"
      "\<And>i. px B b2 i = (case sprite_px B H o1 m (line + 1) (line + 1 + n) i of
         Some p \<Rightarrow> p | None \<Rightarrow> px B b1 i)"
    using Suc.IH [of "line + 1" b1] unfolding w_def H_def B_def by blast
  note line_then_lines [OF w x y xw b1(3) b2(3)]
  then show ?case
    using step b2(1,2) b1(2) unfolding w_def H_def B_def by auto
qed

section \<open>The driver's contract\<close>

text \<open>The secondary buffer is allocated and holds exactly one screen.\<close>

definition framebuf :: "('w, 'a) video_scheme \<Rightarrow> byte list \<Rightarrow> bool" where
  "framebuf s buf \<longleftrightarrow>
     secondary_buffer s = Some buf \<and> length buf = unat (h_res s) * unat (v_res s) * unat (bytes_per_pixel s) \<and>
     length buf < 2 ^ 32 \<and> 0 < bytes_per_pixel s \<and> bytes_per_pixel s \<le> 4"

lemma bpp_le4: "b \<le> 4 \<Longrightarrow> unat (b :: u32) \<le> 4"
  by (simp add: word_le_nat_alt)

lemma vg_draw_sprite_paints_aux:
  assumes "framebuf s buf" and "deref (heap s) p = Some o1" and "visibility o1"
    and "sp_map o1 = Some m" and "pixmap_ok (unat (bytes_per_pixel s)) o1"
    and "on_screen (unat (h_res s)) (unat (v_res s)) o1"
  shows "\<exists>buf'. vg_draw_sprite p s = Some (0, s\<lparr>secondary_buffer := Some buf'\<rparr>) \<and> length buf' = length buf \<and>
    (\<forall>i. px (unat (bytes_per_pixel s)) buf' i =
      (case sprite_px (unat (bytes_per_pixel s)) (unat (h_res s)) o1 m 0 (unat (sp_height o1)) i of
         Some q \<Rightarrow> q | None \<Rightarrow> px (unat (bytes_per_pixel s)) buf i))"
proof -
  have rows: "nat (sp_y o1) + (0 + unat (sp_height o1)) \<le> unat (v_res s)"
    using assms(6) unfolding on_screen_def uint_nat by linarith
  have "(nat (sp_y o1) + (0 + unat (sp_height o1))) * unat (h_res s) * unat (bytes_per_pixel s) \<le> length buf"
    using mult_le_mono1 [OF rows, of "unat (h_res s) * unat (bytes_per_pixel s)"] assms(1)
    by (simp add: framebuf_def ac_simps)
  then obtain buf' where "draw_lines (h_res s) (bytes_per_pixel s) o1 m (unat (sp_height o1)) 0 0 (Some buf) = Some (Some buf')"
      "length buf' = length buf"
      "\<And>i. px (unat (bytes_per_pixel s)) buf' i =
        (case sprite_px (unat (bytes_per_pixel s)) (unat (h_res s)) o1 m 0 (unat (sp_height o1)) i of
           Some q \<Rightarrow> q | None \<Rightarrow> px (unat (bytes_per_pixel s)) buf i)"
    using draw_lines_px [of "bytes_per_pixel s" o1 "h_res s" 0 "unat (sp_height o1)" buf m] assms
    by (auto simp: framebuf_def on_screen_def pixmap_ok_def bpp_le4 ac_simps)
  moreover have "secondary_buffer s = Some buf" "p \<noteq> NULL"
    using assms(1,2) by (auto simp: framebuf_def dest: deref_SomeD)
  ultimately show ?thesis using assms(2-4) by (auto simp: vg_draw_sprite_def)
qed

text \<open>C28 (A sprite is painted exactly): on a screen that holds it, a visible sprite is drawn
  without leaving the frame buffer or its pixmap; every screen pixel under an opaque pixel of the
  sprite takes that pixel's bytes, and every other pixel, transparent ones included, keeps its
  own.\<close>

theorem vg_draw_sprite_paints:
  assumes "framebuf s buf" and "deref (heap s) p = Some o1" and "visibility o1"
    and "sp_map o1 = Some m" and "pixmap_ok (unat (bytes_per_pixel s)) o1"
    and "on_screen (unat (h_res s)) (unat (v_res s)) o1"
  shows "\<exists>buf'. vg_draw_sprite p s = Some (0, s\<lparr>secondary_buffer := Some buf'\<rparr>) \<and> length buf' = length buf \<and>
    (\<forall>i. px (unat (bytes_per_pixel s)) buf' i =
      (case sprite_px (unat (bytes_per_pixel s)) (unat (h_res s)) o1 m 0 (unat (sp_height o1)) i of
         Some q \<Rightarrow> q | None \<Rightarrow> px (unat (bytes_per_pixel s)) buf i))"
  using vg_draw_sprite_paints_aux [OF assms] .

text \<open>All that the rest of the program needs of a drawing: it returns and keeps the frame buffer.\<close>

definition drawable :: "('w, 'a) video_scheme \<Rightarrow> ptr \<Rightarrow> bool" where
  "drawable s p \<longleftrightarrow> (\<exists>o1. deref (heap s) p = Some o1 \<and> pixmap_ok (unat (bytes_per_pixel s)) o1 \<and>
     on_screen (unat (h_res s)) (unat (v_res s)) o1)"

lemma vg_draw_sprite_total:
  assumes "framebuf s buf" and "drawable s p"
  shows "\<exists>buf'. vg_draw_sprite p s = Some (0, s\<lparr>secondary_buffer := Some buf'\<rparr>) \<and>
    framebuf (s\<lparr>secondary_buffer := Some buf'\<rparr>) buf'"
proof -
  obtain o1 m where o1: "deref (heap s) p = Some o1" "pixmap_ok (unat (bytes_per_pixel s)) o1"
      "on_screen (unat (h_res s)) (unat (v_res s)) o1" "sp_map o1 = Some m"
    using assms(2) by (auto simp: drawable_def pixmap_ok_def)
  show ?thesis
  proof (cases "visibility o1")
    case True
    from vg_draw_sprite_paints_aux [OF assms(1) o1(1) True o1(4,2,3)] assms(1) show ?thesis
      by (auto simp: framebuf_def)
  next
    case False
    have "p \<noteq> NULL" using o1(1) by (auto dest: deref_SomeD)
    then show ?thesis using False o1 assms(1)
      by (intro exI [of _ buf]) (auto simp: vg_draw_sprite_def framebuf_def)
  qed
qed

section \<open>Starting the video driver\<close>

text \<open>Documented behaviour of the kernel calls when the video card is usable (a hypothesis).\<close>

definition video_up :: "'w os \<Rightarrow> bool" where
  "video_up os \<longleftrightarrow>
     (\<forall>r w. fst (sys_int86 os r w) = 0) \<and> (\<forall>b l w. fst (sys_privctl_add_mem os b l w) = 0) \<and>
     (\<forall>b n w. \<exists>m w'. vm_map_phys os b n w = (Some m, w') \<and> length m = unat n)"

text \<open>The bytes of one screen of a mode.\<close>

definition mode_bpp :: "vbe_mode_info \<Rightarrow> u32" where
  "mode_bpp vmi = (ucast (BitsPerPixel vmi) + 7) div 8"

definition mode_bytes :: "vbe_mode_info \<Rightarrow> nat" where
  "mode_bytes vmi = unat (XResolution vmi) * unat (YResolution vmi) * unat (mode_bpp vmi)"

lemma map_phys_mem_up:
  assumes "video_up os" and "malloc_sized os" and "malloc_total os"
    and sz: "h_res s * v_res s * bytes_per_pixel s = sz"
  shows "\<exists>m buf w'. map_phys_mem os s =
    Some (0, s\<lparr>vram_size := sz, main_buffer := Some m, secondary_buffer := Some buf, world := w'\<rparr>) \<and>
    length m = unat sz \<and> length buf = unat sz"
proof -
  obtain w1 where priv: "sys_privctl_add_mem os (vram_base s) (vram_base s + sz) (world s) = (0, w1)"
    using assms(1) unfolding video_up_def by (metis prod.collapse)
  obtain m w2 where map: "vm_map_phys os (vram_base s) sz w1 = (Some m, w2)" "length m = unat sz"
    using assms(1) unfolding video_up_def by blast
  obtain buf w3 where mal: "malloc os (unat sz) w2 = (Some buf, w3)"
    using assms(3) unfolding malloc_total_def by (metis not_Some_eq prod.collapse)
  then have "length buf = unat sz" using assms(2) unfolding malloc_sized_def by blast
  then show ?thesis using priv map mal
    by (intro exI [of _ m] exI [of _ buf] exI [of _ w3]) (simp add: map_phys_mem_def Let_def sz)
qed

lemma graphics_set_mode_up:
  "video_up os \<Longrightarrow> \<exists>w. graphics_set_mode os mode s = (0, s\<lparr>world := w\<rparr>)"
  unfolding video_up_def graphics_set_mode_def by (auto split: prod.splits) (metis fst_conv)

text \<open>The globals that hold the parameters of the mode.\<close>

definition video_mode :: "vbe_mode_info \<Rightarrow> ('w, 'a) video_scheme \<Rightarrow> ('w, 'a) video_scheme" where
  "video_mode vmi s = s\<lparr>h_res := ucast (XResolution vmi), v_res := ucast (YResolution vmi),
     bytes_per_pixel := mode_bpp vmi, memory_model := ucast (MemoryModel vmi),
     red_mask_size := ucast (RedMaskSize vmi), red_field_position := ucast (RedFieldPosition vmi),
     green_mask_size := ucast (GreenMaskSize vmi), green_field_position := ucast (GreenFieldPosition vmi),
     blue_mask_size := ucast (BlueMaskSize vmi), blue_field_position := ucast (BlueFieldPosition vmi),
     vram_base := PhysBasePtr vmi\<rparr>"

lemma vg_init_up:
  assumes "video_up os" and "malloc_sized os" and "malloc_total os"
    and "vbe_get_mode_info os mode (world s) = ((0, vmi), w1)" and "mode_bytes vmi < 2 ^ 32"
  obtains m buf w where "vg_init os mode s = Some (Some m, video_mode vmi (s\<lparr>world := w,
      vram_size := of_nat (mode_bytes vmi), main_buffer := Some m, secondary_buffer := Some buf\<rparr>))"
    "length m = mode_bytes vmi" "length buf = mode_bytes vmi"
proof -
  let ?sz = "of_nat (mode_bytes vmi) :: u32"
  define s1 where "s1 = video_mode vmi (s\<lparr>world := w1\<rparr>)"
  have sz: "unat ?sz = mode_bytes vmi" using assms(5) by (simp only: unat_of_nat) simp
  have "h_res s1 * v_res s1 * bytes_per_pixel s1 = ?sz" by (simp add: s1_def video_mode_def mode_bytes_def)
  from map_phys_mem_up [OF assms(1-3) this] obtain m buf w2 where
    mp: "map_phys_mem os s1 = Some (0, s1\<lparr>vram_size := ?sz, main_buffer := Some m,
           secondary_buffer := Some buf, world := w2\<rparr>)" "length m = unat ?sz" "length buf = unat ?sz"
    by blast
  obtain w3 where "graphics_set_mode os mode (s1\<lparr>vram_size := ?sz, main_buffer := Some m,
           secondary_buffer := Some buf, world := w2\<rparr>) =
      (0, s1\<lparr>vram_size := ?sz, main_buffer := Some m, secondary_buffer := Some buf, world := w2\<rparr>\<lparr>world := w3\<rparr>)"
    using graphics_set_mode_up [OF assms(1)] by blast
  then have "vg_init os mode s = Some (Some m, video_mode vmi (s\<lparr>world := w3, vram_size := ?sz,
      main_buffer := Some m, secondary_buffer := Some buf\<rparr>))"
    using mp(1) by (simp add: vg_init_def assms(4) s1_def video_mode_def mode_bpp_def Let_def)
  then show thesis using that mp(2,3) sz by simp
qed

text \<open>The video driver starts: on a platform whose video calls work, \<^verbatim>\<open>vg_init\<close> for a mode
  of at most 32 bits per pixel returns the mapped buffer, and afterwards the resolution is that
  of the mode and the secondary buffer holds exactly one screen; no sprite is touched.\<close>

theorem vg_init_ready:
  assumes "video_up os" and "malloc_sized os" and "malloc_total os"
    and "vbe_get_mode_info os mode (world s) = ((0, vmi), w1)"
    and "mode_bytes vmi < 2 ^ 32" and "0 < mode_bpp vmi" and "mode_bpp vmi \<le> 4"
  shows "\<exists>m s' buf. vg_init os mode s = Some (Some m, s') \<and> main_buffer s' = Some m \<and>
    length m = mode_bytes vmi \<and> framebuf s' buf \<and> unat (vram_size s') = mode_bytes vmi \<and>
    h_res s' = ucast (XResolution vmi) \<and> v_res s' = ucast (YResolution vmi) \<and>
    bytes_per_pixel s' = mode_bpp vmi \<and> heap s' = heap s \<and> brk s' = brk s"
proof -
  have sz: "unat (of_nat (mode_bytes vmi) :: u32) = mode_bytes vmi"
    using assms(5) by (simp only: unat_of_nat) simp
  obtain m buf w where v: "vg_init os mode s = Some (Some m, video_mode vmi (s\<lparr>world := w,
      vram_size := of_nat (mode_bytes vmi), main_buffer := Some m, secondary_buffer := Some buf\<rparr>))"
    "length m = mode_bytes vmi" "length buf = mode_bytes vmi"
    by (rule vg_init_up [OF assms(1-5)])
  have "framebuf (video_mode vmi (s\<lparr>world := w, vram_size := of_nat (mode_bytes vmi), main_buffer := Some m,
      secondary_buffer := Some buf\<rparr>)) buf"
    using v(3) assms(5-7) by (simp add: framebuf_def video_mode_def mode_bytes_def)
  then show ?thesis using v(1,2) sz by (auto simp: video_mode_def)
qed

text \<open>The mode of the game, 1152 by 864 at 32 bits per pixel.\<close>

lemma bench_mode_bytes: "mode_bytes bench_mode = 3981312" "mode_bpp bench_mode = 4"
  by (simp_all add: mode_bytes_def mode_bpp_def bench_mode_def)

lemma bench_mode_res: "XResolution bench_mode = 1152" "YResolution bench_mode = 864"
  by (simp_all add: bench_mode_def)

lemma bench_video_up: "video_up (bench_os d)"
  by (simp add: video_up_def)

definition idle_video :: "bench video" where
  "idle_video = \<lparr>world = \<lparr>replies = [], writes = []\<rparr>, heap = Map.empty, brk = 1, main_buffer = None,
     secondary_buffer = None, vram_size = 0, h_res = 0, v_res = 0, bytes_per_pixel = 0,
     memory_model = 0, red_mask_size = 0, red_field_position = 0, green_mask_size = 0,
     green_field_position = 0, blue_mask_size = 0, blue_field_position = 0, vram_base = 0\<rparr>"

theorem vg_init_ready_witness:
  "\<exists>m s' buf. vg_init puck_bench 0x14C idle_video = Some (Some m, s') \<and> length m = 3981312 \<and>
     framebuf s' buf \<and> h_res s' = 1152 \<and> v_res s' = 864 \<and> bytes_per_pixel s' = 4"
proof -
  have vbe: "vbe_get_mode_info puck_bench 0x14C (world idle_video) = ((0, bench_mode), world idle_video)"
    by (simp add: puck_bench_def)
  have "\<exists>m s' buf. vg_init puck_bench 0x14C idle_video = Some (Some m, s') \<and> main_buffer s' = Some m \<and>
    length m = mode_bytes bench_mode \<and> framebuf s' buf \<and> unat (vram_size s') = mode_bytes bench_mode \<and>
    h_res s' = ucast (XResolution bench_mode) \<and> v_res s' = ucast (YResolution bench_mode) \<and>
    bytes_per_pixel s' = mode_bpp bench_mode \<and> heap s' = heap idle_video \<and> brk s' = brk idle_video"
    using vg_init_ready [OF _ _ _ vbe] bench_video_up [of "\<lambda>_. (80, 80)"]
    unfolding bench_mode_bytes puck_bench_def by simp
  then show ?thesis by (auto simp: bench_mode_bytes bench_mode_res)
qed

text \<open>A closed instance of painting: a sprite of two pixels, the left one transparent, on a
  screen of three by two.\<close>

definition tiny_sprite :: sprite where
  "tiny_sprite = \<lparr>sp_x = 1, sp_y = 1, sp_width = 2, sp_height = 1, xspeed = 0, yspeed = 0,
     sp_map = Some [0xFE, 0xFF, 0xFF, 0x00, 1, 2, 3, 4], selected = False, visibility = True\<rparr>"

definition tiny_video :: "bench video" where
  "tiny_video = idle_video\<lparr>heap := [7 \<mapsto> tiny_sprite], brk := 8, secondary_buffer := Some (replicate 24 9),
     h_res := 3, v_res := 2, bytes_per_pixel := 4\<rparr>"

theorem vg_draw_sprite_paints_witness:
  "\<exists>buf'. vg_draw_sprite 7 tiny_video = Some (0, tiny_video\<lparr>secondary_buffer := Some buf'\<rparr>) \<and>
     px 4 buf' 5 = [1, 2, 3, 4] \<and> px 4 buf' 4 = [9, 9, 9, 9]"
proof -
  have f: "framebuf tiny_video (replicate 24 9)"
    by (simp add: framebuf_def tiny_video_def idle_video_def)
  have d: "deref (heap tiny_video) 7 = Some tiny_sprite"
    by (simp add: tiny_video_def deref_def)
  have m: "sp_map tiny_sprite = Some [0xFE, 0xFF, 0xFF, 0x00, 1, 2, 3, 4]" and v: "visibility tiny_sprite"
    and ok: "pixmap_ok (unat (bytes_per_pixel tiny_video)) tiny_sprite"
    and scr: "on_screen (unat (h_res tiny_video)) (unat (v_res tiny_video)) tiny_sprite"
    by (simp_all add: tiny_sprite_def tiny_video_def pixmap_ok_def on_screen_def)
  have dims: "unat (bytes_per_pixel tiny_video) = 4" "unat (h_res tiny_video) = 3" "unat (sp_height tiny_sprite) = 1"
    by (simp_all add: tiny_video_def tiny_sprite_def)
  obtain buf' where b: "vg_draw_sprite 7 tiny_video = Some (0, tiny_video\<lparr>secondary_buffer := Some buf'\<rparr>)"
    "\<And>i. px 4 buf' i = (case sprite_px 4 3 tiny_sprite [0xFE, 0xFF, 0xFF, 0x00, 1, 2, 3, 4] 0 1 i of
       Some q \<Rightarrow> q | None \<Rightarrow> px 4 (replicate 24 9) i)"
    using vg_draw_sprite_paints [OF f d v m ok scr] unfolding dims by blast
  have "sprite_px 4 3 tiny_sprite [0xFE, 0xFF, 0xFF, 0x00, 1, 2, 3, 4] 0 1 5 = Some [1, 2, 3, 4]"
    "sprite_px 4 3 tiny_sprite [0xFE, 0xFF, 0xFF, 0x00, 1, 2, 3, 4] 0 1 4 = None"
    "px 4 (replicate 24 9) 4 = [9, 9, 9, 9]"
    by code_simp+
  then have "px 4 buf' 5 = [1, 2, 3, 4]" "px 4 buf' 4 = [9, 9, 9, 9]" by (simp_all only: b(2) option.case)
  then show ?thesis using b(1) by blast
qed

section \<open>Horizontal lines and whole images\<close>

lemma hline_loop_px:
  assumes "bpp \<le> 4" and "(q + n) * bpp \<le> length buf"
  shows "\<exists>buf'. hline_loop bpp color n (q * bpp) buf = Some buf' \<and> length buf' = length buf \<and>
    (\<forall>i. px bpp buf' i = (if q \<le> i \<and> i < q + n then take bpp (color_bytes color) else px bpp buf i))"
  using assms(2)
proof (induction n arbitrary: q buf)
  case 0
  then show ?case by auto
next
  case (Suc n)
  have c: "read_bytes (color_bytes color) 0 bpp = Some (take bpp (color_bytes color))"
    "length (take bpp (color_bytes color)) = bpp"
    using assms(1) by (simp_all add: color_bytes_def)
  have "q * bpp + length (take bpp (color_bytes color)) \<le> length buf"
    using Suc.prems c(2) by (simp add: algebra_simps)
  then obtain b1 where b1: "memcpy_at buf (q * bpp) (take bpp (color_bytes color)) = Some b1"
    using memcpy_at_Some by blast
  have l1: "length b1 = length buf" using b1 by (rule memcpy_at_length)
  have "(Suc q + n) * bpp \<le> length b1" using Suc.prems l1 by simp
  then obtain b2 where b2: "hline_loop bpp color n (Suc q * bpp) b1 = Some b2" "length b2 = length b1"
    "\<And>i. px bpp b2 i = (if Suc q \<le> i \<and> i < Suc q + n then take bpp (color_bytes color) else px bpp b1 i)"
    using Suc.IH by blast
  have "hline_loop bpp color (Suc n) (q * bpp) buf = Some b2"
    using c(1) b1 b2(1) by (simp add: add.commute)
  moreover have "px bpp b2 i = (if q \<le> i \<and> i < q + Suc n then take bpp (color_bytes color) else px bpp buf i)" for i
    using b2(3) [of i] px_memcpy [OF b1 c(2), of i] by auto
  ultimately show ?case using l1 b2(2) by auto
qed

text \<open>A line is clipped at the right border: a horizontal line that starts on the screen is
  drawn inside the frame buffer; it colours exactly the pixels of row \<open>y\<close> from column \<open>x\<close> up to
  the end of the line or of the row, whichever comes first.\<close>

theorem vg_draw_hline_clips:
  assumes "framebuf s buf" and "unat x \<le> unat (h_res s)" and "unat y < unat (v_res s)"
    and "unat (h_res s) < 65536"
  shows "\<exists>buf'. vg_draw_hline x y len color s = Some (0, s\<lparr>secondary_buffer := Some buf'\<rparr>) \<and>
    length buf' = length buf \<and>
    (\<forall>i. px (unat (bytes_per_pixel s)) buf' i =
      (if i div unat (h_res s) = unat y \<and> unat x \<le> i mod unat (h_res s) \<and>
          i mod unat (h_res s) < min (unat x + unat len) (unat (h_res s))
       then take (unat (bytes_per_pixel s)) (color_bytes color) else px (unat (bytes_per_pixel s)) buf i))"
proof -
  define H B w where "H = unat (h_res s)" and "B = unat (bytes_per_pixel s)"
    and "w = min (unat len) (H - unat x)"
  have xw: "unat x + w \<le> H" using assms(2) by (simp add: w_def H_def)
  have len16: "unat x < 65536" "unat len < 65536"
    using unsigned_less [of x, where 'a = nat] unsigned_less [of len, where 'a = nat] by simp_all
  have "unat (ucast x + ucast len :: u32) = unat x + unat len"
    using len16 by (simp add: unat_word_ariths)
  then have gt: "h_res s < ucast x + ucast len \<longleftrightarrow> H < unat x + unat len"
    by (simp add: word_less_nat_alt H_def)
  have "ucast x \<le> h_res s" using assms(2) by (simp add: word_le_nat_alt)
  then have diff: "unat (h_res s - ucast x) = H - unat x" by (simp add: unat_sub H_def)
  have "unat (ucast (h_res s - ucast x) :: u16) = H - unat x"
    using assms(4) diff by (simp add: unsigned_ucast_eq take_bit_nat_eq_self H_def)
  then have len': "unat (if h_res s < ucast x + ucast len then ucast (h_res s - ucast x) else len) = w"
    using gt assms(2) by (auto simp: w_def H_def)
  have row: "(unat y * H + unat x + w) * B \<le> length buf"
  proof -
    have "unat y * H + unat x + w \<le> (unat y + 1) * H" using xw by simp
    also have "\<dots> \<le> unat (v_res s) * H" using assms(3) by (intro mult_le_mono1) simp
    finally have "(unat y * H + unat x + w) * B \<le> unat (v_res s) * H * B" by (rule mult_le_mono1)
    then show ?thesis using assms(1) by (simp add: framebuf_def H_def B_def ac_simps)
  qed
  have "(unat y * H + unat x) * B \<le> (unat y * H + unat x + w) * B" by (rule mult_le_mono1) simp
  then have "(unat y * unat (h_res s) + unat x) * unat (bytes_per_pixel s) < 2 ^ 32"
    using row assms(1) unfolding framebuf_def H_def B_def by linarith
  from word_offset [OF this] have off:
    "unat ((ucast y * h_res s + ucast x) * bytes_per_pixel s) = (unat y * H + unat x) * B"
    by (simp add: H_def B_def)
  have "B \<le> 4" using assms(1) by (simp add: framebuf_def B_def bpp_le4)
  from hline_loop_px [OF this row] obtain buf' where b:
    "hline_loop B color w ((unat y * H + unat x) * B) buf = Some buf'" "length buf' = length buf"
    "\<And>i. px B buf' i = (if unat y * H + unat x \<le> i \<and> i < unat y * H + unat x + w
       then take B (color_bytes color) else px B buf i)"
    by blast
  have "i mod H < min (unat x + unat len) H \<longleftrightarrow> i mod H < unat x + w" for i
    using xw by (auto simp: w_def min_def)
  then have "px B buf' i = (if i div H = unat y \<and> unat x \<le> i mod H \<and> i mod H < min (unat x + unat len) H
       then take B (color_bytes color) else px B buf i)" for i
    using b(3) [of i] row_index [OF xw, of "unat y" i] by simp
  moreover have "vg_draw_hline x y len color s = Some (0, s\<lparr>secondary_buffer := Some buf'\<rparr>)"
    using b(1) off len' assms(1) by (simp add: vg_draw_hline_def framebuf_def B_def Let_def)
  ultimately show ?thesis using b(2) by (auto simp: H_def B_def)
qed

theorem vg_draw_hline_clips_witness:
  "\<exists>buf'. vg_draw_hline 2 1 5 0xAABBCC tiny_video = Some (0, tiny_video\<lparr>secondary_buffer := Some buf'\<rparr>) \<and>
     px 4 buf' 5 = [0xCC, 0xBB, 0xAA, 0] \<and> px 4 buf' 4 = [9, 9, 9, 9]"
proof -
  have f: "framebuf tiny_video (replicate 24 9)"
    by (simp add: framebuf_def tiny_video_def idle_video_def)
  have dims: "unat (bytes_per_pixel tiny_video) = 4" "unat (h_res tiny_video) = 3" "unat (v_res tiny_video) = 2"
    by (simp_all add: tiny_video_def)
  obtain buf' where b: "vg_draw_hline 2 1 5 0xAABBCC tiny_video = Some (0, tiny_video\<lparr>secondary_buffer := Some buf'\<rparr>)"
    "\<And>i. px 4 buf' i = (if i div 3 = 1 \<and> 2 \<le> i mod 3 \<and> i mod 3 < min (2 + 5) 3
       then take 4 (color_bytes 0xAABBCC) else px 4 (replicate 24 9) i)"
    using vg_draw_hline_clips [OF f, of 2 1 5 "0xAABBCC"] unfolding dims by auto
  have "take 4 (color_bytes 0xAABBCC) = [0xCC, 0xBB, 0xAA, 0]" "px 4 (replicate 24 9) 4 = [9, 9, 9, 9]"
    by code_simp+
  then show ?thesis using b by (auto simp: b(2))
qed

text \<open>An image of whole rows, each copied inside the buffer.\<close>

lemma copy_rows_total:
  assumes "\<And>l. line \<le> l \<Longrightarrow> l < line + n \<Longrightarrow> dest l + rowlen \<le> length buf"
    and "c + n * rowlen \<le> length m"
  shows "\<exists>buf'. copy_rows rowlen m dest n line c (Some buf) = Some (Some buf') \<and> length buf' = length buf"
  using assms
proof (induction n arbitrary: line c buf)
  case 0
  then show ?case by simp
next
  case (Suc n)
  have src: "read_bytes m c rowlen = Some (take rowlen (drop c m))" "length (take rowlen (drop c m)) = rowlen"
    using Suc.prems(2) by simp_all
  have "dest line + length (take rowlen (drop c m)) \<le> length buf"
    using Suc.prems(1) [of line] src(2) by simp
  then obtain b1 where b1: "memcpy_at buf (dest line) (take rowlen (drop c m)) = Some b1"
    using memcpy_at_Some by blast
  have l1: "length b1 = length buf" using b1 by (rule memcpy_at_length)
  have "\<exists>b2. copy_rows rowlen m dest n (line + 1) (c + rowlen) (Some b1) = Some (Some b2) \<and> length b2 = length b1"
    using Suc.prems l1 by (intro Suc.IH) simp_all
  then show ?case using src(1) b1 l1 by auto
qed

lemma copy_rows_cong:
  "(\<And>l. line \<le> l \<Longrightarrow> l < line + n \<Longrightarrow> dest l = dest' l) \<Longrightarrow>
   copy_rows rowlen m dest n line c buf = copy_rows rowlen m dest' n line c buf"
proof (induction n arbitrary: line c buf)
  case (Suc n)
  have "dest line = dest' line" by (rule Suc.prems) simp_all
  moreover have "copy_rows rowlen m dest n (line + 1) c' b = copy_rows rowlen m dest' n (line + 1) c' b" for c' b
    by (rule Suc.IH) (simp add: Suc.prems)
  ultimately show ?case by simp
qed simp

text \<open>An image as wide as the screen is copied as one block.\<close>

lemma copy_rows_block:
  assumes "(line + n) * rowlen \<le> length buf" and "(line + n) * rowlen \<le> length m"
  shows "copy_rows rowlen m (\<lambda>l. l * rowlen) n line (line * rowlen) (Some buf) =
    Some (Some (take (line * rowlen) buf @ take (n * rowlen) (drop (line * rowlen) m) @ drop ((line + n) * rowlen) buf))"
  using assms
proof (induction n arbitrary: line buf)
  case 0
  then show ?case by simp
next
  case (Suc n)
  define b1 where "b1 = take (line * rowlen) buf @ take rowlen (drop (line * rowlen) m) @ drop (line * rowlen + rowlen) buf"
  have fit: "line * rowlen + rowlen \<le> length buf" "line * rowlen + rowlen \<le> length m"
    using Suc.prems by (simp_all add: algebra_simps)
  then have "memcpy_at buf (line * rowlen) (take rowlen (drop (line * rowlen) m)) = Some b1"
    by (simp add: memcpy_at_def b1_def)
  then have step: "copy_rows rowlen m (\<lambda>l. l * rowlen) (Suc n) line (line * rowlen) (Some buf) =
      copy_rows rowlen m (\<lambda>l. l * rowlen) n (Suc line) (Suc line * rowlen) (Some b1)"
    using fit by (simp add: add.commute)
  have "length b1 = length buf" using fit by (simp add: b1_def)
  then have "(Suc line + n) * rowlen \<le> length b1" "(Suc line + n) * rowlen \<le> length m" using Suc.prems by simp_all
  from Suc.IH [OF this] have rest: "copy_rows rowlen m (\<lambda>l. l * rowlen) n (Suc line) (Suc line * rowlen) (Some b1) =
      Some (Some (take (Suc line * rowlen) b1 @ take (n * rowlen) (drop (Suc line * rowlen) m) @
        drop ((Suc line + n) * rowlen) b1))" .
  have "take (Suc line * rowlen) b1 = take (line * rowlen) buf @ take rowlen (drop (line * rowlen) m)"
    using fit by (simp add: b1_def)
  moreover have "drop ((Suc line + n) * rowlen) b1 = drop ((line + Suc n) * rowlen) buf"
    using fit by (simp add: b1_def add_mult_distrib) (simp only: ac_simps)
  moreover have "take rowlen (drop (line * rowlen) m) @ take (n * rowlen) (drop (Suc line * rowlen) m) =
      take (Suc n * rowlen) (drop (line * rowlen) m)"
    by (simp add: take_add add.commute)
  ultimately show ?case using step rest by simp
qed

text \<open>Colour components: for a mask that fits a 32-bit colour, \<^verbatim>\<open>get_color_component\<close> is
  defined and returns exactly the \<open>msize\<close> bits of the colour from bit \<open>lsb\<close> on.\<close>

theorem get_color_component_bits:
  assumes "msize < 31" and "unat lsb + unat msize \<le> 32" and "lsb < 32"
  shows "get_color_component color msize lsb = Some (take_bit (unat msize) (drop_bit (unat lsb) color))"
proof -
  have "push_bit (unat msize) 1 - 1 = (mask (unat msize) :: u32)"
    by (simp add: mask_eq_exp_minus_1 push_bit_eq_mult)
  then have "create_mask msize lsb = Some (push_bit (unat lsb) (mask (unat msize)))"
    using assms(1,3) by (simp add: create_mask_def)
  moreover have "drop_bit (unat lsb) (color AND push_bit (unat lsb) (mask (unat msize))) =
      take_bit (unat msize) (drop_bit (unat lsb) color)"
    using assms(2) by (intro bit_word_eqI) (auto simp: bit_simps)
  ultimately show ?thesis by (simp add: get_color_component_def)
qed

theorem get_color_component_bits_witness:
  "get_color_component 0xAABBCC 8 16 = Some 0xAA"
proof -
  have "get_color_component 0xAABBCC 8 16 = Some (take_bit (unat (8 :: u32)) (drop_bit (unat (16 :: u32)) 0xAABBCC))"
    by (rule get_color_component_bits) simp_all
  then show ?thesis by (simp add: drop_bit_eq_div take_bit_eq_mod)
qed

end
