(* ===== verification/Queue.thy ===== *)
theory Queue
  imports Platform
begin

text \<open>
  The receive queue of the serial port, \<^verbatim>\<open>controller/serialport/queue.c\<close>: a ring of 100 bytes
  between the UART interrupt handler and the game.  The theory models the operations, proves
  them against a first-in-first-out list, and states the contract other components use as the
  locale \<open>byte_fifo\<close>, which the code's queue interprets.
\<close>

section \<open>The ring buffer\<close>

record queue =
  front_index :: int
  back_index :: int
  qsize :: int
  capacity :: int
  characters :: "byte list"

definition sizeof_Queue :: nat where
  "sizeof_Queue = 20"

definition create_queue :: "'w os \<Rightarrow> 'w \<Rightarrow> queue option \<times> 'w" where
  "create_queue os w =
     (case malloc os sizeof_Queue w of
        (None, w1) \<Rightarrow> (None, w1)
      | (Some _, w1) \<Rightarrow>
          (case malloc os 100 w1 of
             (None, w2) \<Rightarrow> (None, w2)
           | (Some block, w2) \<Rightarrow>
               (Some \<lparr>front_index = 0, back_index = 99, qsize = 0, capacity = 100,
                      characters = block\<rparr>, w2)))"

text \<open>Destroying a queue reads it, so a \<^verbatim>\<open>NULL\<close> queue is undefined; afterwards it is gone.\<close>

definition destroy_queue :: "queue option \<Rightarrow> queue option option" where
  "destroy_queue q = (case q of None \<Rightarrow> None | Some _ \<Rightarrow> Some None)"

definition enqueue :: "queue \<Rightarrow> byte \<Rightarrow> queue option" where
  "enqueue q character =
     (if qsize q = capacity q then Some q
      else do {
        b \<leftarrow> c_mod (back_index q + 1) (capacity q);
        cs \<leftarrow> arr_set (characters q) b character;
        Some (q\<lparr>back_index := b, characters := cs, qsize := qsize q + 1\<rparr>)
      })"

definition dequeue :: "queue \<Rightarrow> (byte \<times> queue) option" where
  "dequeue q =
     (if qsize q = 0 then Some (1, q)
      else do {
        front_element \<leftarrow> arr_get (characters q) (front_index q);
        f \<leftarrow> c_mod (front_index q + 1) (capacity q);
        Some (front_element, q\<lparr>front_index := f, qsize := qsize q - 1\<rparr>)
      })"

definition is_empty :: "queue \<Rightarrow> bool" where
  "is_empty q \<longleftrightarrow> qsize q = 0"

definition queue_get_size :: "queue \<Rightarrow> int" where
  "queue_get_size q = qsize q"

definition queue_is_full :: "queue \<Rightarrow> bool" where
  "queue_is_full q \<longleftrightarrow> qsize q = capacity q"

definition queue_get_capacity :: "queue \<Rightarrow> int" where
  "queue_get_capacity q = capacity q"

section \<open>Well-formed queues and the list they hold\<close>

definition queue_inv :: "queue \<Rightarrow> bool" where
  "queue_inv q \<longleftrightarrow>
     0 < capacity q \<and> int (length (characters q)) = capacity q \<and>
     0 \<le> front_index q \<and> front_index q < capacity q \<and>
     0 \<le> qsize q \<and> qsize q \<le> capacity q \<and>
     back_index q = (front_index q + qsize q - 1) mod capacity q"

definition queue_list :: "queue \<Rightarrow> byte list" where
  "queue_list q =
     map (\<lambda>i. characters q ! nat ((front_index q + int i) mod capacity q)) [0..<nat (qsize q)]"

lemma length_queue_list [simp]: "length (queue_list q) = nat (qsize q)"
  by (simp add: queue_list_def)

lemma queue_list_Nil_iff: "queue_inv q \<Longrightarrow> queue_list q = [] \<longleftrightarrow> qsize q = 0"
  by (auto simp: queue_list_def queue_inv_def)

lemma queue_slot_inj:
  fixes f c i n :: int
  assumes "0 \<le> i" and "i < n" and "n < c"
  shows "(f + i) mod c \<noteq> (f + n) mod c"
proof
  assume "(f + i) mod c = (f + n) mod c"
  then have "c dvd (f + n) - (f + i)" by (simp add: mod_eq_dvd_iff dvd_diff_commute)
  then have "c dvd n - i" by simp
  moreover have "0 < n - i" and "n - i < c" using assms by auto
  ultimately show False by (auto dest: zdvd_imp_le)
qed

lemma enqueue_spec:
  assumes inv: "queue_inv q" and room: "qsize q < capacity q"
  shows "\<exists>q'. enqueue q c = Some q' \<and> queue_inv q' \<and> queue_list q' = queue_list q @ [c]
              \<and> capacity q' = capacity q"
proof -
  let ?cap = "capacity q" and ?n = "qsize q"
  let ?b = "(front_index q + ?n) mod ?cap"
  let ?q' = "q\<lparr>back_index := ?b, characters := (characters q)[nat ?b := c], qsize := ?n + 1\<rparr>"
  have b: "(back_index q + 1) mod ?cap = ?b"
    using inv by (simp add: queue_inv_def mod_add_left_eq)
  have back0: "0 \<le> back_index q" using inv by (simp add: queue_inv_def)
  have b_in: "0 \<le> ?b" "?b < int (length (characters q))" using inv by (auto simp: queue_inv_def)
  have e: "enqueue q c = Some ?q'"
    using inv room b b_in back0 by (simp add: enqueue_def queue_inv_def)
  have old: "(characters q)[nat ?b := c] ! nat ((front_index q + int i) mod ?cap)
       = characters q ! nat ((front_index q + int i) mod ?cap)" if "i < nat ?n" for i
  proof -
    have "(front_index q + int i) mod ?cap \<noteq> ?b"
      using queue_slot_inj [of "int i" ?n ?cap "front_index q"] that room by linarith
    moreover have "0 \<le> (front_index q + int i) mod ?cap" using inv by (simp add: queue_inv_def)
    ultimately have "nat ((front_index q + int i) mod ?cap) \<noteq> nat ?b"
      using b_in by (simp add: eq_nat_nat_iff)
    then show ?thesis by simp
  qed
  have new: "(characters q)[nat ?b := c] ! nat ?b = c"
    using b_in by (simp add: nat_less_iff)
  have n0: "0 \<le> ?n" using inv by (simp add: queue_inv_def)
  have "[0..<nat (?n + 1)] = [0..<nat ?n] @ [nat ?n]"
    using n0 by (simp add: nat_add_distrib)
  then have l: "queue_list ?q' = queue_list q @ [c]"
    using old new n0 by (simp add: queue_list_def)
  have "queue_inv ?q'" using inv room by (simp add: queue_inv_def)
  with e l show ?thesis by auto
qed

lemma dequeue_spec:
  assumes inv: "queue_inv q" and l: "queue_list q = x # xs"
  shows "\<exists>q'. dequeue q = Some (x, q') \<and> queue_inv q' \<and> queue_list q' = xs
              \<and> capacity q' = capacity q"
proof -
  let ?cap = "capacity q" and ?n = "qsize q"
  let ?q' = "q\<lparr>front_index := (front_index q + 1) mod ?cap, qsize := ?n - 1\<rparr>"
  have n: "0 < ?n" using l inv by (cases "?n = 0") (auto simp: queue_list_def queue_inv_def)
  then obtain m where m: "nat ?n = Suc m" "nat (?n - 1) = m"
    by (metis Suc_nat_eq_nat_zadd1 diff_add_cancel int_one_le_iff_zero_less le_diff_iff' diff_ge_0_iff_ge add.commute)
  have split: "[0..<Suc m] = 0 # map Suc [0..<m]"
    by (simp add: upt_conv_Cons map_Suc_upt del: upt_Suc)
  have f: "front_index q mod ?cap = front_index q" using inv by (simp add: queue_inv_def)
  have "queue_list q = characters q ! nat (front_index q)
      # map (\<lambda>i. characters q ! nat ((front_index q + int (Suc i)) mod ?cap)) [0..<m]"
    unfolding queue_list_def m split by (simp add: f comp_def)
  then have hd: "x = characters q ! nat (front_index q)"
    and tl: "xs = map (\<lambda>i. characters q ! nat ((front_index q + int (Suc i)) mod ?cap)) [0..<m]"
    using l by simp_all
  have d: "dequeue q = Some (x, ?q')"
    using inv n hd by (simp add: dequeue_def queue_inv_def)
  have "((front_index q + 1) mod ?cap + (?n - 1) - 1) mod ?cap = (front_index q + ?n - 1) mod ?cap"
  proof -
    have "((front_index q + 1) mod ?cap + (?n - 2)) mod ?cap = (front_index q + 1 + (?n - 2)) mod ?cap"
      by (rule mod_add_left_eq)
    then show ?thesis by (simp add: algebra_simps)
  qed
  then have "queue_inv ?q'"
    using inv n by (simp add: queue_inv_def)
  moreover have "queue_list ?q' = xs"
    unfolding tl by (simp add: queue_list_def m mod_add_left_eq add.assoc)
  ultimately show ?thesis using d by auto
qed

lemma enqueue_full: "queue_inv q \<Longrightarrow> qsize q = capacity q \<Longrightarrow> enqueue q c = Some q"
  by (simp add: enqueue_def)

lemma dequeue_empty: "queue_inv q \<Longrightarrow> queue_list q = [] \<Longrightarrow> dequeue q = Some (1, q)"
  by (simp add: dequeue_def queue_list_Nil_iff)

section \<open>The contract of a bounded byte queue\<close>

text \<open>Putting a list of elements in, and taking a number of elements out.\<close>

fun feed :: "('q \<Rightarrow> 'a \<Rightarrow> 'q option) \<Rightarrow> 'q \<Rightarrow> 'a list \<Rightarrow> 'q option" where
  "feed enq q [] = Some q"
| "feed enq q (x # xs) = do { q' \<leftarrow> enq q x; feed enq q' xs }"

fun unfeed :: "('q \<Rightarrow> ('a \<times> 'q) option) \<Rightarrow> nat \<Rightarrow> 'q \<Rightarrow> ('a list \<times> 'q) option" where
  "unfeed deq 0 q = Some ([], q)"
| "unfeed deq (Suc n) q = do { (x, q') \<leftarrow> deq q; (xs, q'') \<leftarrow> unfeed deq n q'; Some (x # xs, q'') }"

locale byte_fifo =
  fixes enq :: "'q \<Rightarrow> 'a \<Rightarrow> 'q option"
    and deq :: "'q \<Rightarrow> ('a \<times> 'q) option"
    and contents :: "'q \<Rightarrow> 'a list"
    and room :: "'q \<Rightarrow> nat"
    and inv :: "'q \<Rightarrow> bool"
  assumes contents_bound: "inv q \<Longrightarrow> length (contents q) \<le> room q"
    and enq_room: "inv q \<Longrightarrow> length (contents q) < room q \<Longrightarrow>
      \<exists>q'. enq q x = Some q' \<and> inv q' \<and> contents q' = contents q @ [x] \<and> room q' = room q"
    and enq_full: "inv q \<Longrightarrow> length (contents q) = room q \<Longrightarrow> enq q x = Some q"
    and deq_cons: "inv q \<Longrightarrow> contents q = x # xs \<Longrightarrow>
      \<exists>q'. deq q = Some (x, q') \<and> inv q' \<and> contents q' = xs \<and> room q' = room q"
begin

text \<open>One element more: kept when there is room, dropped when there is not.\<close>

lemma enq_take:
  assumes "inv q"
  shows "\<exists>q'. enq q x = Some q' \<and> inv q' \<and> contents q' = take (room q) (contents q @ [x])
              \<and> room q' = room q"
proof (cases "length (contents q) < room q")
  case True
  with assms enq_room [of q x] show ?thesis by auto
next
  case False
  with contents_bound [OF assms] have "length (contents q) = room q" by simp
  with assms enq_full [of q x] show ?thesis by simp
qed

lemma feed_contents:
  assumes "inv q"
  shows "\<exists>q'. feed enq q xs = Some q' \<and> inv q' \<and> contents q' = take (room q) (contents q @ xs)
              \<and> room q' = room q"
  using assms
proof (induction xs arbitrary: q)
  case Nil
  then show ?case using contents_bound by simp
next
  case (Cons x xs)
  obtain q1 where q1: "enq q x = Some q1" "inv q1" "contents q1 = take (room q) (contents q @ [x])"
    "room q1 = room q"
    using enq_take [OF Cons.prems] by blast
  have "take (room q) (take (room q) (contents q @ [x]) @ xs) = take (room q) (contents q @ x # xs)"
    by (cases "room q \<le> length (contents q)") (simp_all add: min_def take_Cons')
  then show ?case using Cons.IH [OF q1(2)] q1 by auto
qed

lemma unfeed_contents:
  assumes "inv q" and "n \<le> length (contents q)"
  shows "\<exists>q'. unfeed deq n q = Some (take n (contents q), q') \<and> inv q'
              \<and> contents q' = drop n (contents q) \<and> room q' = room q"
  using assms
proof (induction n arbitrary: q)
  case 0
  then show ?case by simp
next
  case (Suc n)
  then obtain x xs where c: "contents q = x # xs" by (cases "contents q") auto
  obtain q1 where q1: "deq q = Some (x, q1)" "inv q1" "contents q1 = xs" "room q1 = room q"
    using deq_cons [OF Suc.prems(1) c] by blast
  have "n \<le> length (contents q1)" using Suc.prems(2) c q1(3) by simp
  then show ?case using Suc.IH [OF q1(2)] q1 c by fastforce
qed

text \<open>First in, first out: what went in while there was room comes out in the same order.\<close>

lemma feed_unfeed:
  assumes "inv q" and "length (contents q) + length xs \<le> room q"
  shows "\<exists>q' q''. feed enq q xs = Some q' \<and> unfeed deq (length (contents q) + length xs) q' =
           Some (contents q @ xs, q'') \<and> inv q'' \<and> contents q'' = []"
proof -
  obtain q1 where q1: "feed enq q xs = Some q1" "inv q1"
    "contents q1 = take (room q) (contents q @ xs)"
    using feed_contents [OF assms(1)] by blast
  have c: "contents q1 = contents q @ xs" using q1(3) assms(2) by simp
  then show ?thesis using unfeed_contents [OF q1(2), of "length (contents q1)"] q1(1) by auto
qed

end

interpretation rx: byte_fifo enqueue dequeue queue_list "\<lambda>q. nat (capacity q)" queue_inv
proof
  show "length (queue_list q) \<le> nat (capacity q)" if "queue_inv q" for q
    using that by (simp add: queue_inv_def nat_mono)
  show "\<exists>q'. enqueue q x = Some q' \<and> queue_inv q' \<and> queue_list q' = queue_list q @ [x]
          \<and> nat (capacity q') = nat (capacity q)"
    if "queue_inv q" "length (queue_list q) < nat (capacity q)" for q x
    using enqueue_spec [OF that(1), of x] that by (auto simp: queue_inv_def nat_less_iff)
  show "enqueue q x = Some q" if "queue_inv q" "length (queue_list q) = nat (capacity q)" for q x
    using that by (intro enqueue_full) (auto simp: queue_inv_def)
  show "\<exists>q'. dequeue q = Some (x, q') \<and> queue_inv q' \<and> queue_list q' = xs
          \<and> nat (capacity q') = nat (capacity q)"
    if "queue_inv q" "queue_list q = x # xs" for q x xs
    using dequeue_spec [OF that] by auto
qed

section \<open>Properties\<close>

lemma create_queue_spec:
  assumes "malloc_sized os" and "create_queue os w = (Some q, w')"
  shows "queue_inv q \<and> queue_list q = [] \<and> capacity q = 100"
  using assms
  by (simp add: create_queue_def malloc_sized_def queue_inv_def queue_list_def
      split: option.splits prod.splits) fastforce

lemma create_queue_total:
  assumes "malloc_total os"
  obtains q w' where "create_queue os w = (Some q, w')"
proof -
  obtain b1 w1 b2 w2 where "malloc os sizeof_Queue w = (Some b1, w1)" "malloc os 100 w1 = (Some b2, w2)"
    using assms by (metis malloc_total_def not_None_eq prod.collapse)
  then show thesis by (auto simp: create_queue_def intro: that)
qed

text \<open>C18 (the receive ring is a bounded FIFO): feeding any bytes into a well-formed ring returns a
  well-formed ring that holds the old contents followed by the new bytes, cut off at the
  capacity: bytes are never reordered or overwritten, and overflow drops the newest ones.\<close>

theorem queue_feed_bounded:
  assumes "queue_inv q"
  shows "\<exists>q'. feed enqueue q xs = Some q' \<and> queue_inv q' \<and>
              queue_list q' = take (nat (capacity q)) (queue_list q @ xs)"
  using rx.feed_contents [OF assms, of xs] by auto

text \<open>What is received is what was sent: bytes put into an empty ring of sufficient capacity
  are taken out in the order they went in, across the wrap-around of the indices.\<close>

theorem queue_roundtrip:
  assumes "queue_inv q" and "queue_list q = []" and "int (length xs) \<le> capacity q"
  shows "\<exists>q' q''. feed enqueue q xs = Some q' \<and> unfeed dequeue (length xs) q' = Some (xs, q'')
              \<and> queue_list q'' = []"
  using rx.feed_unfeed [OF assms(1), of xs] assms(2,3) by fastforce

text \<open>A ring of three slots whose next write is the last slot, so that feeding it wraps around.\<close>

definition ring3 :: queue where
  "ring3 = \<lparr>front_index = 2, back_index = 1, qsize = 0, capacity = 3, characters = [7, 8, 9]\<rparr>"

lemma ring3_ok: "queue_inv ring3" "queue_list ring3 = []" "capacity ring3 = 3"
  by (simp_all add: ring3_def queue_inv_def queue_list_def)

theorem queue_feed_bounded_witness:
  "queue_inv ring3 \<and> (\<exists>q'. feed enqueue ring3 [1, 2, 3, 4] = Some q' \<and> queue_inv q' \<and>
     queue_list q' = [1, 2, 3])"
  using queue_feed_bounded [OF ring3_ok(1), of "[1, 2, 3, 4]"] by (simp add: ring3_ok)

theorem queue_roundtrip_witness:
  "\<exists>q' q''. feed enqueue ring3 [1, 2, 3] = Some q' \<and> unfeed dequeue 3 q' = Some ([1, 2, 3], q'')
     \<and> queue_list q'' = []"
  using queue_roundtrip [OF ring3_ok(1,2), of "[1, 2, 3]"] by (simp add: ring3_ok eval_nat_numeral)

end
