(* ===== verification/Serial.thy ===== *)
theory Serial
  imports Queue Sprites
begin

text \<open>
  The serial port driver and the link protocol of \<^verbatim>\<open>controller/serialport/serialport.c\<close>: polling
  the UART to send a byte, draining it into the receive queue on an interrupt, the two-byte
  signals, and the two kinds of data message (displacement of the puck, speed of the ball).
  A received byte waits in \<open>inQueue\<close>; \<open>None\<close> is the \<^verbatim>\<open>NULL\<close> queue of a failed allocation, which
  the code never checks.
\<close>

section \<open>Registers: serialport.h\<close>

definition BASE_ADDR_COM1 :: nat where [hw_consts]: "BASE_ADDR_COM1 = 0x3F8"
definition SPMASK :: u32 where [hw_consts]: "SPMASK = BIT 4"
definition LSR :: nat where [hw_consts]: "LSR = 0x05"
definition IER :: nat where [hw_consts]: "IER = 0x01"
definition IIR :: nat where [hw_consts]: "IIR = 0x02"
definition FCR :: nat where [hw_consts]: "FCR = 0x02"
definition SP_INTLINE :: int where [hw_consts]: "SP_INTLINE = 4"
definition RBR :: nat where [hw_consts]: "RBR = 0x00"
definition THR :: nat where [hw_consts]: "THR = 0"
definition LSR_REC_DATA :: byte where [hw_consts]: "LSR_REC_DATA = BIT 0"
definition LSR_OVERRUN_ERR :: byte where [hw_consts]: "LSR_OVERRUN_ERR = BIT 1"
definition LSR_PARITY_ERR :: byte where [hw_consts]: "LSR_PARITY_ERR = BIT 2"
definition LSR_FRAME_ERR :: byte where [hw_consts]: "LSR_FRAME_ERR = BIT 3"
definition LSR_THR_EMPTY :: byte where [hw_consts]: "LSR_THR_EMPTY = BIT 5"
definition IER_REC_DATA :: byte where [hw_consts]: "IER_REC_DATA = BIT 0"
definition IIR_INT_PEND :: byte where [hw_consts]: "IIR_INT_PEND = BIT 0"
definition IIR_INT_ID :: byte where [hw_consts]: "IIR_INT_ID = BIT 2"
definition FCR_ENABLE :: u32 where [hw_consts]: "FCR_ENABLE = BIT 0"
definition FCR_CLEAR_RECEIVE :: u32 where [hw_consts]: "FCR_CLEAR_RECEIVE = BIT 1"
definition FCR_CLEAR_XMIT :: u32 where [hw_consts]: "FCR_CLEAR_XMIT = BIT 2"
definition signal1 :: u16 where "signal1 = 0x1000"
definition ball_signal :: u16 where "ball_signal = 0x2000"

section \<open>Interrupt subscription\<close>

definition sp_subscribe_int :: "'w os \<Rightarrow> int \<Rightarrow> 'w \<Rightarrow> (int \<times> int) \<times> 'w" where
  "sp_subscribe_int os sp_hook_id w =
     sys_irqsetpolicy os SP_INTLINE (IRQ_REENABLE OR IRQ_EXCLUSIVE) sp_hook_id w"

definition sp_unsubscribe_int :: "'w os \<Rightarrow> int \<Rightarrow> 'w \<Rightarrow> (int \<times> int) \<times> 'w" where
  "sp_unsubscribe_int os sp_hook_id w = sys_irqrmpolicy os sp_hook_id w"

section \<open>Receiving\<close>

definition read_char :: "'w os \<Rightarrow> queue option \<Rightarrow> 'w \<Rightarrow> (int \<times> queue option \<times> 'w) option" where
  "read_char os inQueue w =
     (case util_sys_inb os (BASE_ADDR_COM1 + LSR) (Some 0) w of
        ((r, status), w1) \<Rightarrow>
          if r \<noteq> 0 then Some (1, inQueue, w1)
          else if the status AND LSR_REC_DATA \<noteq> 0 then
            (case util_sys_inb os (BASE_ADDR_COM1 + RBR) (Some 0) w1 of
               ((r, data), w2) \<Rightarrow>
                 if r = 0 then
                   if the status AND (LSR_OVERRUN_ERR OR LSR_PARITY_ERR OR LSR_FRAME_ERR) \<noteq> 0
                   then Some (1, inQueue, w2)
                   else do {
                     q \<leftarrow> inQueue;
                     q' \<leftarrow> enqueue q (the data);
                     Some (0, Some q', w2)
                   }
                 else Some (1, inQueue, w2))
          else Some (1, inQueue, w1))"

text \<open>\<^verbatim>\<open>while(!read_char());\<close>\<close>

partial_function (option) read_all ::
  "'w os \<Rightarrow> queue option \<Rightarrow> 'w \<Rightarrow> (queue option \<times> 'w) option" where
  "read_all os inQueue w =
     do { (r, q, w') \<leftarrow> read_char os inQueue w;
          if r = 0 then read_all os q w' else Some (q, w') }"

definition sp_ih :: "'w os \<Rightarrow> queue option \<Rightarrow> 'w \<Rightarrow> (queue option \<times> 'w) option" where
  "sp_ih os inQueue w =
     (case util_sys_inb os (BASE_ADDR_COM1 + IIR) (Some 0) w of
        ((r, iir), w1) \<Rightarrow>
          if r \<noteq> 0 then Some (inQueue, w1)
          else if the iir AND IIR_INT_PEND = 0 then
            if the iir AND IIR_INT_ID \<noteq> 0 then read_all os inQueue w1 else Some (inQueue, w1)
          else Some (inQueue, w1))"

definition read_next_signal :: "queue option \<Rightarrow> u16 \<Rightarrow> (int \<times> u16 \<times> queue option) option" where
  "read_next_signal inQueue character =
     do {
       q \<leftarrow> inQueue;
       if queue_get_size q \<ge> 2 then do {
         (lo, q1) \<leftarrow> dequeue q;
         (hi, q2) \<leftarrow> dequeue q1;
         Some (0, ucast lo + push_bit 8 (ucast hi), Some q2)
       } else Some (1, character, inQueue)
     }"

section \<open>Sending\<close>

text \<open>The polling loop with its remaining attempts.\<close>

fun send_char_loop :: "'w os \<Rightarrow> nat \<Rightarrow> byte \<Rightarrow> 'w \<Rightarrow> int \<times> 'w" where
  "send_char_loop os 0 data w = (1, w)"
| "send_char_loop os (Suc attempts) data w =
     (case util_sys_inb os (BASE_ADDR_COM1 + LSR) (Some 0) w of
        ((r, status), w1) \<Rightarrow>
          if r \<noteq> 0 then (1, w1)
          else if the status AND (LSR_OVERRUN_ERR OR LSR_PARITY_ERR OR LSR_FRAME_ERR) \<noteq> 0 then (1, w1)
          else if the status AND (LSR_THR_EMPTY OR BIT 6) \<noteq> 0 then
            (case sys_outb os (BASE_ADDR_COM1 + THR) (ucast data) w1 of
               (r, w2) \<Rightarrow> if r \<noteq> 0 then (1, w2) else (0, w2))
          else send_char_loop os attempts data w1)"

definition send_char :: "'w os \<Rightarrow> byte \<Rightarrow> 'w \<Rightarrow> int \<times> 'w" where
  "send_char os data w = send_char_loop os 10 data w"

text \<open>The code ignores the result of \<^verbatim>\<open>send_char\<close> in every message it builds.\<close>

fun send_chars :: "'w os \<Rightarrow> byte list \<Rightarrow> 'w \<Rightarrow> 'w" where
  "send_chars os [] w = w"
| "send_chars os (c # cs) w = send_chars os cs (snd (send_char os c w))"

fun send_signal_loop :: "'w os \<Rightarrow> nat \<Rightarrow> u16 \<Rightarrow> 'w \<Rightarrow> 'w" where
  "send_signal_loop os 0 signal w = w"
| "send_signal_loop os (Suc n) signal w =
     (let temp = ucast (signal AND 0xFF) in
      send_signal_loop os n (drop_bit 8 signal) (snd (send_char os temp w)))"

definition send_signal :: "'w os \<Rightarrow> u16 \<Rightarrow> 'w \<Rightarrow> 'w" where
  "send_signal os signal w = send_signal_loop os 2 signal w"

definition transmit_ball_speed :: "'w os \<Rightarrow> int \<Rightarrow> int \<Rightarrow> 'w \<Rightarrow> 'w" where
  "transmit_ball_speed os x_speed y_speed w =
     (let temp_x = word_of_int x_speed; temp_y = word_of_int y_speed;
          w1 = send_signal os ball_signal w
      in send_chars os [temp_x, temp_y] w1)"

definition transmit_puck_change ::
  "'w os \<Rightarrow> (ptr \<rightharpoonup> sprite) \<Rightarrow> ptr \<Rightarrow> int \<Rightarrow> int \<Rightarrow> 'w \<Rightarrow> (int \<times> int \<times> 'w) option" where
  "transmit_puck_change os h bluepuck previous_x previous_y w =
     (if bluepuck = NULL then Some (previous_x, previous_y, w)
      else do {
        b \<leftarrow> deref h bluepuck;
        if sp_x b = previous_x \<and> sp_y b = previous_y then Some (previous_x, previous_y, w)
        else
          let delta_x = (word_of_int (sp_x b - previous_x) :: i16);
              delta_y = (word_of_int (sp_y b - previous_y) :: i16);
              w' = send_chars os
                     [ucast (delta_x AND 0x00FF), ucast (signed_drop_bit 8 delta_x),
                      ucast (delta_y AND 0x00FF), ucast (signed_drop_bit 8 delta_y)] w
          in Some (sp_x b, sp_y b, w')
      })"

section \<open>Starting, stopping and resetting the port\<close>

partial_function (option) drain :: "queue \<Rightarrow> queue option" where
  "drain q = (if is_empty q then Some q else do { (c, q') \<leftarrow> dequeue q; drain q' })"

definition serialPort_resetFIFO :: "'w os \<Rightarrow> queue option \<Rightarrow> 'w \<Rightarrow> (int \<times> queue option \<times> 'w) option" where
  "serialPort_resetFIFO os inQueue w =
     (case sys_outb os (BASE_ADDR_COM1 + FCR) (FCR_ENABLE OR FCR_CLEAR_RECEIVE OR FCR_CLEAR_XMIT) w of
        (r, w1) \<Rightarrow>
          if r \<noteq> 0 then Some (1, inQueue, w1)
          else do { q \<leftarrow> inQueue; q' \<leftarrow> drain q; Some (0, Some q', w1) })"

definition serialPort_init :: "'w os \<Rightarrow> queue option \<Rightarrow> 'w \<Rightarrow> (int \<times> queue option \<times> 'w) option" where
  "serialPort_init os inQueue w =
     (case util_sys_inb os (BASE_ADDR_COM1 + IER) (Some 0) w of
        ((r, ier), w1) \<Rightarrow>
          if r \<noteq> 0 then Some (1, inQueue, w1)
          else
            (case sys_outb os (BASE_ADDR_COM1 + IER) (ucast (the ier OR IER_REC_DATA)) w1 of
               (r, w2) \<Rightarrow>
                 if r \<noteq> 0 then Some (1, inQueue, w2)
                 else
                   (case create_queue os w2 of
                      (q, w3) \<Rightarrow>
                        do { (_, q', w4) \<leftarrow> serialPort_resetFIFO os q w3; Some (0, q', w4) })))"

definition serialPort_exit :: "queue option \<Rightarrow> (int \<times> queue option) option" where
  "serialPort_exit inQueue = do { q \<leftarrow> destroy_queue inQueue; Some (0, q) }"

section \<open>The receive queue under the driver's operations\<close>

text \<open>A queue the driver keeps: allocated, well-formed, and of the capacity it was created with.\<close>

definition rx_ok :: "queue option \<Rightarrow> bool" where
  "rx_ok inQueue \<longleftrightarrow> (\<exists>q. inQueue = Some q \<and> queue_inv q \<and> capacity q = 100)"

definition rx_bytes :: "queue option \<Rightarrow> byte list" where
  "rx_bytes inQueue = (case inQueue of None \<Rightarrow> [] | Some q \<Rightarrow> queue_list q)"

lemma rx_okE: "rx_ok inQueue \<Longrightarrow> (\<And>q. inQueue = Some q \<Longrightarrow> queue_inv q \<Longrightarrow> capacity q = 100 \<Longrightarrow> P) \<Longrightarrow> P"
  by (auto simp: rx_ok_def)

lemma drain_spec:
  assumes "queue_inv q"
  shows "\<exists>q'. drain q = Some q' \<and> queue_inv q' \<and> queue_list q' = [] \<and> capacity q' = capacity q"
  using assms
proof (induction "queue_list q" arbitrary: q)
  case Nil
  then show ?case
    using queue_list_Nil_iff [of q] by (subst drain.simps) (simp add: is_empty_def)
next
  case (Cons x xs)
  obtain q1 where q1: "dequeue q = Some (x, q1)" "queue_inv q1" "queue_list q1 = xs"
    "capacity q1 = capacity q"
    using dequeue_spec [OF Cons.prems Cons.hyps(2) [symmetric]] by blast
  have "\<not> is_empty q"
    using queue_list_Nil_iff [OF Cons.prems] Cons.hyps(2) [symmetric] by (simp add: is_empty_def)
  then show ?case
    using Cons.hyps(1) [of q1] q1 by (subst drain.simps) simp
qed

lemma resetFIFO_spec:
  assumes "rx_ok inQueue"
  shows "\<exists>r q' w'. serialPort_resetFIFO os inQueue w = Some (r, q', w') \<and> rx_ok q' \<and>
           (r = 0 \<and> rx_bytes q' = [] \<or> r = 1 \<and> q' = inQueue)"
proof -
  obtain q where q: "inQueue = Some q" "queue_inv q" "capacity q = 100" using assms by (rule rx_okE)
  obtain q' where q': "drain q = Some q'" "queue_inv q'" "queue_list q' = []"
    "capacity q' = capacity q"
    using drain_spec [OF q(2)] by blast
  show ?thesis
    using q q' by (auto simp: serialPort_resetFIFO_def rx_ok_def rx_bytes_def split: prod.splits)
qed

lemma read_next_signal_two:
  assumes "rx_ok inQueue" and "rx_bytes inQueue = lo # hi # rest"
  shows "\<exists>q'. read_next_signal inQueue c = Some (0, ucast lo + push_bit 8 (ucast hi), q') \<and>
           rx_ok q' \<and> rx_bytes q' = rest"
proof -
  obtain q where q: "inQueue = Some q" "queue_inv q" "capacity q = 100" using assms(1) by (rule rx_okE)
  have l: "queue_list q = lo # hi # rest" using assms(2) q(1) by (simp add: rx_bytes_def)
  obtain q1 where q1: "dequeue q = Some (lo, q1)" "queue_inv q1" "queue_list q1 = hi # rest"
    "capacity q1 = capacity q"
    using dequeue_spec [OF q(2) l] by blast
  obtain q2 where q2: "dequeue q1 = Some (hi, q2)" "queue_inv q2" "queue_list q2 = rest"
    "capacity q2 = capacity q1"
    using dequeue_spec [OF q1(2,3)] by blast
  have "2 \<le> qsize q" using l length_queue_list [of q] q(2) by (simp add: queue_inv_def)
  with q q1 q2 show ?thesis
    by (auto simp: read_next_signal_def queue_get_size_def rx_ok_def rx_bytes_def)
qed

lemma read_next_signal_short:
  assumes "rx_ok inQueue" and "length (rx_bytes inQueue) < 2"
  shows "read_next_signal inQueue c = Some (1, c, inQueue)"
proof -
  obtain q where q: "inQueue = Some q" "queue_inv q" "capacity q = 100" using assms(1) by (rule rx_okE)
  have "qsize q < 2" using assms(2) q by (simp add: rx_bytes_def queue_inv_def nat_less_iff)
  with q show ?thesis by (simp add: read_next_signal_def queue_get_size_def)
qed

text \<open>On an allocated queue the read is defined, whatever the queue holds.\<close>

lemma read_next_signal_total:
  assumes "rx_ok inQueue"
  shows "\<exists>r c' q'. read_next_signal inQueue c = Some (r, c', q') \<and> rx_ok q' \<and>
           (r = 0 \<or> r = 1 \<and> c' = c \<and> q' = inQueue)"
proof (cases "length (rx_bytes inQueue) < 2")
  case True
  with read_next_signal_short [OF assms] assms show ?thesis by blast
next
  case False
  then obtain lo hi rest where "rx_bytes inQueue = lo # hi # rest"
    by (metis Suc_1 length_Cons less_Suc_eq_0_disj list.exhaust list.size(3) not_less_eq numeral_2_eq_2 zero_less_Suc)
  from read_next_signal_two [OF assms this] show ?thesis by blast
qed

section \<open>Hypotheses on the UART\<close>

text \<open>
  The transmitter (\<open>uart_tx\<close>, 16550 data sheet): the line status reads without error and shows
  room, and a byte written to the holding register is sent; \<open>sent w\<close> is what has gone out.
  The receiver (\<open>uart_rx\<close>): \<open>fifo w\<close> holds the bytes received and not yet read; the line status
  shows data exactly when it is not empty, and reading the buffer register takes its first byte.
  \<open>uart_finite\<close> only says that reading drains a finite backlog, errors allowed.
\<close>

definition uart_tx :: "'w os \<Rightarrow> ('w \<Rightarrow> byte list) \<Rightarrow> bool" where
  "uart_tx os sent \<longleftrightarrow>
     (\<forall>w. \<exists>st w'. sys_inb os (BASE_ADDR_COM1 + LSR) w = ((0, st), w') \<and> sent w' = sent w \<and>
        bit st 5 \<and> \<not> bit st 1 \<and> \<not> bit st 2 \<and> \<not> bit st 3) \<and>
     (\<forall>b w. \<exists>w'. sys_outb os (BASE_ADDR_COM1 + THR) b w = (0, w') \<and> sent w' = sent w @ [ucast b])"

definition uart_rx :: "'w os \<Rightarrow> ('w \<Rightarrow> byte list) \<Rightarrow> bool" where
  "uart_rx os fifo \<longleftrightarrow>
     (\<forall>w. \<exists>st w'. sys_inb os (BASE_ADDR_COM1 + LSR) w = ((0, st), w') \<and> fifo w' = fifo w \<and>
        (ucast st :: byte) = (if fifo w = [] then 0x60 else 0x61)) \<and>
     (\<forall>w b bs. fifo w = b # bs \<longrightarrow>
        (\<exists>v w'. sys_inb os (BASE_ADDR_COM1 + RBR) w = ((0, v), w') \<and> ucast v = b \<and> fifo w' = bs))"

definition uart_finite :: "'w os \<Rightarrow> ('w \<Rightarrow> nat) \<Rightarrow> bool" where
  "uart_finite os pending \<longleftrightarrow>
     (\<forall>w r st w'. sys_inb os (BASE_ADDR_COM1 + LSR) w = ((r, st), w') \<longrightarrow>
        pending w' \<le> pending w \<and> (r = 0 \<and> bit st 0 \<longrightarrow> 0 < pending w')) \<and>
     (\<forall>w r v w'. sys_inb os (BASE_ADDR_COM1 + RBR) w = ((r, v), w') \<longrightarrow>
        (r = 0 \<and> 0 < pending w \<longrightarrow> pending w' < pending w))"

section \<open>Sending\<close>

lemma send_char_ready:
  assumes "uart_tx os sent"
  shows "\<exists>w'. send_char os data w = (0, w') \<and> sent w' = sent w @ [data]"
proof -
  obtain st w1 where st: "sys_inb os (BASE_ADDR_COM1 + LSR) w = ((0, st), w1)" "sent w1 = sent w"
    "bit st 5" "\<not> bit st 1" "\<not> bit st 2" "\<not> bit st 3"
    using assms unfolding uart_tx_def by blast
  obtain w2 where w2: "sys_outb os (BASE_ADDR_COM1 + THR) (ucast data) w1 = (0, w2)"
    "sent w2 = sent w1 @ [ucast (ucast data :: u32)]"
    using assms unfolding uart_tx_def by blast
  have i: "util_sys_inb os (BASE_ADDR_COM1 + LSR) (Some 0) w = ((0, Some (ucast st)), w1)"
    using util_sys_inb_ok [OF st(1), of 0] by simp
  have loop: "send_char_loop os (Suc n) data w = (0, w2)" for n
    using i w2(1) st(3-6) by (simp add: LSR_OVERRUN_ERR_def LSR_PARITY_ERR_def LSR_FRAME_ERR_def
        LSR_THR_EMPTY_def bit_simps)
  have "send_char os data w = (0, w2)"
    unfolding send_char_def using loop [of 9] by (simp add: eval_nat_numeral)
  moreover have "sent w2 = sent w @ [data]"
    using w2(2) st(2) by (simp add: ucast_down_ucast_id is_down_def)
  ultimately show ?thesis by blast
qed

lemma send_chars_sent:
  assumes "uart_tx os sent"
  shows "sent (send_chars os cs w) = sent w @ cs"
  using assms
proof (induction cs arbitrary: w)
  case Nil
  then show ?case by simp
next
  case (Cons c cs)
  obtain w' where "send_char os c w = (0, w')" "sent w' = sent w @ [c]"
    using send_char_ready [OF Cons.prems] by blast
  with Cons show ?case by simp
qed

text \<open>The two bytes of a 16-bit signal on the wire, least significant first.\<close>

definition signal_bytes :: "u16 \<Rightarrow> byte list" where
  "signal_bytes signal = [ucast signal, ucast (drop_bit 8 signal)]"

lemma send_signal_sent:
  assumes "uart_tx os sent"
  shows "sent (send_signal os signal w) = sent w @ signal_bytes signal"
proof -
  let ?lo = "ucast signal :: byte" and ?hi = "ucast (drop_bit 8 signal) :: byte"
  have "send_signal os signal w = send_chars os [?lo, ?hi] w"
    by (simp add: send_signal_def numeral_2_eq_2)
  then show ?thesis
    by (simp only: send_chars_sent [OF assms] signal_bytes_def)
qed

lemma signal_bytes_join: "ucast (ucast signal :: byte) + push_bit 8 (ucast (ucast (drop_bit 8 signal) :: byte)) = (signal :: u16)"
proof -
  have "(ucast (ucast signal :: byte) :: u16) AND push_bit 8 (ucast (ucast (drop_bit 8 signal) :: byte)) = 0"
    by (rule bit_word_eqI) (auto simp: bit_simps)
  then have "(ucast (ucast signal :: byte) :: u16) + push_bit 8 (ucast (ucast (drop_bit 8 signal) :: byte))
      = ucast (ucast signal :: byte) OR push_bit 8 (ucast (ucast (drop_bit 8 signal) :: byte))"
    by (simp add: disjunctive_add_eq_or)
  also have "\<dots> = signal"
    by (rule bit_word_eqI) (auto simp: bit_simps)
  finally show ?thesis .
qed

lemma read_signal:
  assumes "rx_ok inQueue" and "rx_bytes inQueue = signal_bytes signal @ rest"
  shows "\<exists>q'. read_next_signal inQueue c = Some (0, signal, q') \<and> rx_ok q' \<and> rx_bytes q' = rest"
  using read_next_signal_two [OF assms(1), of "ucast signal" "ucast (drop_bit 8 signal)" rest c] assms(2)
  by (simp add: signal_bytes_def signal_bytes_join)

section \<open>Receiving\<close>

text \<open>One byte: either the call stops without touching the queue, or it appends one byte.\<close>

lemma rx_bytes_bound: "rx_ok inQueue \<Longrightarrow> take 100 (rx_bytes inQueue) = rx_bytes inQueue"
  using rx.contents_bound by (fastforce simp: rx_ok_def rx_bytes_def)

lemma read_char_cases:
  assumes "rx_ok inQueue"
  obtains (stop) w' where "read_char os inQueue w = Some (1, inQueue, w')"
  | (byte) st w1 b w' q' where
      "sys_inb os (BASE_ADDR_COM1 + LSR) w = ((0, st), w1)" "bit st 0"
      "sys_inb os (BASE_ADDR_COM1 + RBR) w1 = ((0, b), w')"
      "read_char os inQueue w = Some (0, q', w')" "rx_ok q'"
      "rx_bytes q' = take 100 (rx_bytes inQueue @ [ucast b])"
proof (cases rule: util_sys_inb_cases [of os "BASE_ADDR_COM1 + LSR" 0 w])
  case (fail w')
  then show thesis by (auto simp: read_char_def intro: stop)
next
  case (ok st w1)
  note LSR_read = ok
  obtain q where q: "inQueue = Some q" "queue_inv q" "capacity q = 100" using assms by (rule rx_okE)
  show thesis
  proof (cases "bit st 0")
    case False
    with LSR_read show ?thesis
      by (auto simp: read_char_def LSR_REC_DATA_def bit_simps intro: stop)
  next
    case data: True
    show ?thesis
    proof (cases rule: util_sys_inb_cases [of os "BASE_ADDR_COM1 + RBR" 0 w1])
      case (fail w')
      with LSR_read data show ?thesis
        by (auto simp: read_char_def LSR_REC_DATA_def bit_simps intro: stop)
    next
      case (ok b w2)
      note RBR_read = ok
      obtain q' where q': "enqueue q (ucast b) = Some q'" "queue_inv q'" "capacity q' = 100"
        "queue_list q' = take 100 (queue_list q @ [ucast b])"
        using rx.enq_take [OF q(2), of "ucast b"] q(3)
        by (auto simp: queue_inv_def)
      show ?thesis
      proof (cases "ucast st AND (LSR_OVERRUN_ERR OR LSR_PARITY_ERR OR LSR_FRAME_ERR) = (0 :: byte)")
        case True
        with LSR_read RBR_read data q q' have "read_char os inQueue w = Some (0, Some q', w2)"
          by (simp add: read_char_def LSR_REC_DATA_def bit_simps)
        moreover have "rx_ok (Some q')" "rx_bytes (Some q') = take 100 (rx_bytes inQueue @ [ucast b])"
          using q q' by (simp_all add: rx_ok_def rx_bytes_def)
        ultimately show ?thesis using LSR_read(1) RBR_read(1) data by (intro byte)
      next
        case False
        with LSR_read RBR_read data have "read_char os inQueue w = Some (1, inQueue, w2)"
          by (simp add: read_char_def LSR_REC_DATA_def bit_simps)
        then show ?thesis by (rule stop)
      qed
    qed
  qed
qed

lemma take_feed: "take n (take n (xs @ ys) @ zs) = take n (xs @ ys @ zs)"
  by (cases "n \<le> length (xs @ ys)") (simp_all add: min_def)

lemma read_all_total:
  assumes fin: "uart_finite os pending" and "rx_ok inQueue"
  shows "\<exists>q' w' bs. read_all os inQueue w = Some (q', w') \<and> rx_ok q' \<and>
           rx_bytes q' = take 100 (rx_bytes inQueue @ bs)"
  using assms(2)
proof (induction "pending w" arbitrary: w inQueue rule: less_induct)
  case less
  have bound: "take 100 (rx_bytes inQueue) = rx_bytes inQueue"
    using less.prems by (rule rx_bytes_bound)
  show ?case
  proof (cases rule: read_char_cases [OF less.prems, of os w, case_names stop byte])
    case (stop w')
    then have "read_all os inQueue w = Some (inQueue, w')" by (subst read_all.simps) simp
    then show ?thesis using less.prems bound by (metis append_Nil2)
  next
    case (byte st w1 b w' q1)
    have "pending w1 \<le> pending w" "0 < pending w1"
      using fin byte(1,2) unfolding uart_finite_def by blast+
    moreover have "pending w' < pending w1"
      using fin byte(3) \<open>0 < pending w1\<close> unfolding uart_finite_def by blast
    ultimately obtain q' w'' bs where r: "read_all os q1 w' = Some (q', w'')" "rx_ok q'"
      "rx_bytes q' = take 100 (rx_bytes q1 @ bs)"
      using less.hyps [of w' q1] byte(5) by auto
    have "read_all os inQueue w = Some (q', w'')"
      using byte(4) r(1) by (subst read_all.simps) simp
    moreover have "rx_bytes q' = take 100 (rx_bytes inQueue @ ucast b # bs)"
      using r(3) byte(6) take_feed [of 100 "rx_bytes inQueue" "[ucast b]" bs] by simp
    ultimately show ?thesis using r(2) by blast
  qed
qed

lemma sp_ih_total:
  assumes "uart_finite os pending" and "rx_ok inQueue"
  shows "\<exists>q' w' bs. sp_ih os inQueue w = Some (q', w') \<and> rx_ok q' \<and>
           rx_bytes q' = take 100 (rx_bytes inQueue @ bs)"
proof -
  have bound: "take 100 (rx_bytes inQueue @ []) = rx_bytes inQueue"
    using rx_bytes_bound [OF assms(2)] by simp
  show ?thesis
  proof (cases rule: util_sys_inb_cases [of os "BASE_ADDR_COM1 + IIR" 0 w])
    case (fail w')
    then have "sp_ih os inQueue w = Some (inQueue, w')" by (simp add: sp_ih_def)
    then show ?thesis using assms(2) bound by metis
  next
    case (ok b w1)
    obtain q' w' bs where r: "read_all os inQueue w1 = Some (q', w')" "rx_ok q'"
      "rx_bytes q' = take 100 (rx_bytes inQueue @ bs)"
      using read_all_total [OF assms] by blast
    have "sp_ih os inQueue w = Some (inQueue, w1) \<or> sp_ih os inQueue w = read_all os inQueue w1"
      using ok by (simp add: sp_ih_def)
    then show ?thesis
    proof
      assume "sp_ih os inQueue w = Some (inQueue, w1)"
      then show ?thesis using assms(2) bound by metis
    next
      assume "sp_ih os inQueue w = read_all os inQueue w1"
      then show ?thesis using r by metis
    qed
  qed
qed

lemma read_all_fifo:
  assumes uart: "uart_rx os fifo" and "rx_ok inQueue"
  shows "\<exists>q' w'. read_all os inQueue w = Some (q', w') \<and> rx_ok q' \<and> fifo w' = [] \<and>
           rx_bytes q' = take 100 (rx_bytes inQueue @ fifo w)"
  using assms(2)
proof (induction "fifo w" arbitrary: w inQueue)
  case Nil
  obtain st w1 where st: "sys_inb os (BASE_ADDR_COM1 + LSR) w = ((0, st), w1)" "fifo w1 = fifo w"
    "(ucast st :: byte) = 0x60"
    using uart Nil.hyps unfolding uart_rx_def by metis
  have "read_char os inQueue w = Some (1, inQueue, w1)"
    using util_sys_inb_ok [OF st(1), of 0] st(3) by (simp add: read_char_def LSR_REC_DATA_def)
  then have "read_all os inQueue w = Some (inQueue, w1)" by (subst read_all.simps) simp
  moreover have "take 100 (rx_bytes inQueue) = rx_bytes inQueue"
    using Nil.prems by (rule rx_bytes_bound)
  ultimately show ?case using Nil st(2) by (metis append_Nil2)
next
  case (Cons b bs)
  obtain q where q: "inQueue = Some q" "queue_inv q" "capacity q = 100" using Cons.prems by (rule rx_okE)
  obtain st w1 where st: "sys_inb os (BASE_ADDR_COM1 + LSR) w = ((0, st), w1)" "fifo w1 = b # bs"
    "(ucast st :: byte) = 0x61"
    using uart Cons.hyps(2) unfolding uart_rx_def by (metis list.distinct(1))
  obtain v w2 where v: "sys_inb os (BASE_ADDR_COM1 + RBR) w1 = ((0, v), w2)" "ucast v = b" "fifo w2 = bs"
    using uart st(2) unfolding uart_rx_def by blast
  obtain q' where q': "enqueue q b = Some q'" "queue_inv q'" "capacity q' = 100"
    "queue_list q' = take 100 (queue_list q @ [b])"
    using rx.enq_take [OF q(2), of b] q(3) by (auto simp: queue_inv_def)
  have "read_char os inQueue w = Some (0, Some q', w2)"
    using util_sys_inb_ok [OF st(1), of 0] util_sys_inb_ok [OF v(1), of 0] st(3) v(2) q q'
    by (simp add: read_char_def LSR_REC_DATA_def LSR_OVERRUN_ERR_def LSR_PARITY_ERR_def
        LSR_FRAME_ERR_def BIT_def)
  then have "read_all os inQueue w = read_all os (Some q') w2" by (subst read_all.simps) simp
  moreover have "rx_ok (Some q')" using q' by (simp add: rx_ok_def)
  moreover have "rx_bytes (Some q') = take 100 (rx_bytes inQueue @ [b])"
    using q q' by (simp add: rx_bytes_def)
  ultimately show ?case
    using Cons.hyps(1) [of w2 "Some q'"] v(3) Cons.hyps(2) take_feed [of 100 "rx_bytes inQueue" "[b]" bs]
    by auto
qed

section \<open>Messages on the wire\<close>

lemma ucast_signed_drop8: "(ucast (signed_drop_bit 8 (d :: i16)) :: byte) = ucast (drop_bit 8 d)"
  by (rule bit_word_eqI) (auto simp: bit_simps)

lemma transmit_ball_speed_sent:
  assumes "uart_tx os sent"
  shows "sent (transmit_ball_speed os vx vy w) =
           sent w @ signal_bytes ball_signal @ [word_of_int vx, word_of_int vy]"
  by (simp add: transmit_ball_speed_def Let_def send_chars_sent [OF assms] send_signal_sent [OF assms]
      del: send_chars.simps)

lemma transmit_puck_change_sent:
  assumes "uart_tx os sent" and "deref h p = Some b" and "sp_x b \<noteq> px \<or> sp_y b \<noteq> py"
  shows "\<exists>w'. transmit_puck_change os h p px py w = Some (sp_x b, sp_y b, w') \<and>
           sent w' = sent w @ signal_bytes (word_of_int (sp_x b - px)) @ signal_bytes (word_of_int (sp_y b - py))"
proof -
  have "p \<noteq> NULL" using assms(2) by (auto dest: deref_SomeD)
  then show ?thesis
    using assms(2,3)
    by (auto simp: transmit_puck_change_def Let_def send_chars_sent [OF assms(1)] signal_bytes_def
        ucast_signed_drop8 simp del: send_chars.simps)
qed

lemma transmit_puck_change_idle:
  "deref h p = Some b \<Longrightarrow> transmit_puck_change os h p (sp_x b) (sp_y b) w = Some (sp_x b, sp_y b, w)"
  by (auto simp: transmit_puck_change_def)

lemma transmit_puck_change_total:
  assumes "deref h p = Some b"
  shows "\<exists>w'. transmit_puck_change os h p px py w = Some (sp_x b, sp_y b, w')"
  using assms by (auto simp: transmit_puck_change_def Let_def dest: deref_SomeD)

section \<open>Starting and stopping the port\<close>

lemma serialPort_init_total:
  assumes "malloc_sized os" and "malloc_total os"
  shows "\<exists>r q' w'. serialPort_init os inQueue w = Some (r, q', w') \<and>
           (r = 0 \<and> rx_ok q' \<and> rx_bytes q' = [] \<or> r = 1 \<and> q' = inQueue)"
proof (cases rule: util_sys_inb_cases [of os "BASE_ADDR_COM1 + IER" 0 w])
  case (fail w')
  then show ?thesis by (simp add: serialPort_init_def)
next
  case (ok b w1)
  obtain r w2 where out: "sys_outb os (BASE_ADDR_COM1 + IER)
      (ucast ((ucast b :: byte) OR IER_REC_DATA)) w1 = (r, w2)"
    by (rule prod.exhaust)
  obtain q w3 where c: "create_queue os w2 = (Some q, w3)"
    using create_queue_total [OF assms(2)] by blast
  have new: "rx_ok (Some q)" "rx_bytes (Some q) = []"
    using create_queue_spec [OF assms(1) c] by (simp_all add: rx_ok_def rx_bytes_def)
  obtain r' q' w4 where reset: "serialPort_resetFIFO os (Some q) w3 = Some (r', q', w4)" "rx_ok q'"
    "r' = 0 \<and> rx_bytes q' = [] \<or> r' = 1 \<and> q' = Some q"
    using resetFIFO_spec [OF new(1), of os w3] by blast
  show ?thesis
  proof (cases "r = 0")
    case True
    have "serialPort_init os inQueue w = Some (0, q', w4)"
      using ok(2) out c reset(1) True by (simp add: serialPort_init_def)
    then show ?thesis using reset new by auto
  next
    case False
    then have "serialPort_init os inQueue w = Some (1, inQueue, w2)"
      using ok(2) out by (simp add: serialPort_init_def)
    then show ?thesis by simp
  qed
qed

section \<open>Properties\<close>

lemma sp_ih_fifo:
  assumes "uart_rx os fifo" and "rx_ok inQueue"
    and "sys_inb os (BASE_ADDR_COM1 + IIR) w = ((0, iir), w1)" and "\<not> bit iir 0" and "bit iir 2"
  shows "\<exists>q' w'. sp_ih os inQueue w = Some (q', w') \<and> rx_ok q' \<and> fifo w' = [] \<and>
           rx_bytes q' = take 100 (rx_bytes inQueue @ fifo w1)"
proof -
  have "sp_ih os inQueue w = read_all os inQueue w1"
    using util_sys_inb_ok [OF assms(3), of 0] assms(4,5)
    by (simp add: sp_ih_def IIR_INT_PEND_def IIR_INT_ID_def bit_simps)
  then show ?thesis using read_all_fifo [OF assms(1,2), of w1] by simp
qed

text \<open>C16 (an interrupt delivers every pending byte): when the UART identifies received data, the
  handler returns, empties the UART's FIFO, and appends all its bytes to the receive queue in
  arrival order, dropping only what exceeds the hundred slots.\<close>

theorem sp_ih_delivers:
  assumes "uart_rx os fifo" and "rx_ok inQueue"
    and "sys_inb os (BASE_ADDR_COM1 + IIR) w = ((0, iir), w1)" and "\<not> bit iir 0" and "bit iir 2"
  shows "\<exists>q' w'. sp_ih os inQueue w = Some (q', w') \<and> rx_ok q' \<and> fifo w' = [] \<and>
           rx_bytes q' = take 100 (rx_bytes inQueue @ fifo w1)"
  by (rule sp_ih_fifo [OF assms])

text \<open>C17 (the receive loop ends): \<^verbatim>\<open>while(!read_char());\<close> has no bound of its own, but whenever
  reading drains a finite backlog, even one with line errors, the handler returns with a
  well-formed queue that only gained bytes at its end.\<close>

theorem sp_ih_terminates:
  assumes "uart_finite os pending" and "rx_ok inQueue"
  shows "\<exists>q' w' bs. sp_ih os inQueue w = Some (q', w') \<and> rx_ok q' \<and>
           rx_bytes q' = take 100 (rx_bytes inQueue @ bs)"
  by (rule sp_ih_total [OF assms])

text \<open>C11 (signal round trip): the two bytes \<^verbatim>\<open>send_signal\<close> puts on the wire for any 16-bit value
  are read back by \<^verbatim>\<open>read_next_signal\<close> as that value, and nothing else is consumed.\<close>

theorem signal_roundtrip:
  assumes "uart_tx os sent" and "sent (send_signal os signal w) = sent w @ bytes"
    and "rx_ok inQueue" and "rx_bytes inQueue = bytes @ rest"
  shows "\<exists>q'. read_next_signal inQueue c = Some (0, signal, q') \<and> rx_ok q' \<and> rx_bytes q' = rest"
proof -
  have "bytes = signal_bytes signal" using assms(2) send_signal_sent [OF assms(1)] by simp
  then show ?thesis using read_signal [OF assms(3)] assms(4) by simp
qed

text \<open>Port start-up: with an allocator that does not fail, \<^verbatim>\<open>serialPort_init\<close> returns 0 with
  an empty well-formed queue of capacity 100, or 1 without having replaced the queue.\<close>

theorem serialPort_init_ready:
  assumes "malloc_sized os" and "malloc_total os"
  shows "\<exists>r q' w'. serialPort_init os inQueue w = Some (r, q', w') \<and>
           (r = 0 \<and> rx_ok q' \<and> rx_bytes q' = [] \<or> r = 1 \<and> q' = inQueue)"
  by (rule serialPort_init_total [OF assms])

text \<open>Start-up without memory: the result of \<^verbatim>\<open>create_queue\<close> is never checked, so when the
  allocation fails after the interrupt has been enabled, start-up has no defined result: the
  reset that follows reads through the \<^verbatim>\<open>NULL\<close> queue.\<close>

theorem serialPort_init_unchecked:
  assumes "sys_inb os (BASE_ADDR_COM1 + IER) w = ((0, ier), w1)"
    and "sys_outb os (BASE_ADDR_COM1 + IER) (ucast ((ucast ier :: byte) OR IER_REC_DATA)) w1 = (0, w2)"
    and "malloc os sizeof_Queue w2 = (None, w3)"
    and "sys_outb os (BASE_ADDR_COM1 + FCR) (FCR_ENABLE OR FCR_CLEAR_RECEIVE OR FCR_CLEAR_XMIT) w3 = (0, w4)"
  shows "serialPort_init os inQueue w = None"
  using util_sys_inb_ok [OF assms(1), of 0] assms(2-4)
  by (simp add: serialPort_init_def create_queue_def serialPort_resetFIFO_def)

section \<open>Closed instances\<close>

text \<open>
  A UART with both directions: the world holds the bytes waiting to be read and the bytes sent;
  the interrupt identification always reports received data.
\<close>

record uart =
  rx_fifo :: "byte list"
  tx_log :: "byte list"

definition uart_os :: "uart os" where
  "uart_os = \<lparr>
     sys_inb = (\<lambda>port w.
       if port = BASE_ADDR_COM1 + LSR then ((0, if rx_fifo w = [] then 0x60 else 0x61), w)
       else if port = BASE_ADDR_COM1 + RBR \<and> rx_fifo w \<noteq> []
       then ((0, ucast (hd (rx_fifo w))), w\<lparr>rx_fifo := tl (rx_fifo w)\<rparr>)
       else if port = BASE_ADDR_COM1 + IIR then ((0, 0x4), w)
       else ((0, 0), w)),
     sys_outb = (\<lambda>port v w. (0, if port = BASE_ADDR_COM1 + THR then w\<lparr>tx_log := tx_log w @ [ucast v]\<rparr> else w)),
     sys_irqsetpolicy = (\<lambda>irq pol hook w. ((0, hook), w)),
     sys_irqrmpolicy = (\<lambda>hook w. ((0, hook), w)),
     tickdelay = (\<lambda>t w. w),
     sys_hz = 60,
     malloc = (\<lambda>n w. (Some (replicate n 0), w)),
     xpm_load = (\<lambda>x ty img. bench_image 80 80),
     vbe_get_mode_info = (\<lambda>m w. ((0, bench_mode), w)),
     sys_int86 = (\<lambda>r w. (0, w)),
     sys_privctl_add_mem = (\<lambda>b l w. (0, w)),
     vm_map_phys = (\<lambda>b n w. (Some (replicate (unat n) 0), w)),
     vg_exit = (\<lambda>w. (0, w))\<rparr>"

lemmas uart_ports = BASE_ADDR_COM1_def LSR_def RBR_def THR_def IIR_def IER_def FCR_def

lemma uart_os_tx: "uart_tx uart_os tx_log"
  by (auto simp: uart_tx_def uart_os_def uart_ports)

lemma ucast_ucast_byte [simp]: "(ucast (ucast (b :: byte) :: u32) :: byte) = b"
  by (simp add: ucast_down_ucast_id is_down_def)

lemma uart_os_rx: "uart_rx uart_os rx_fifo"
  by (auto simp: uart_rx_def uart_os_def uart_ports)

lemma uart_os_finite: "uart_finite uart_os (\<lambda>w. length (rx_fifo w))"
  by (auto simp: uart_finite_def uart_os_def uart_ports split: if_splits)

lemma uart_os_malloc: "malloc_sized uart_os" "malloc_total uart_os"
  by (auto simp: malloc_sized_def malloc_total_def uart_os_def)

definition fresh_queue :: queue where
  "fresh_queue = \<lparr>front_index = 0, back_index = 99, qsize = 0, capacity = 100,
     characters = replicate 100 0\<rparr>"

lemma fresh_queue_ok: "rx_ok (Some fresh_queue)" "rx_bytes (Some fresh_queue) = []"
  by (simp_all add: rx_ok_def rx_bytes_def fresh_queue_def queue_inv_def queue_list_def)

text \<open>A queue that holds two given bytes.\<close>

definition two_byte_queue :: "byte \<Rightarrow> byte \<Rightarrow> queue" where
  "two_byte_queue a b = \<lparr>front_index = 0, back_index = 1, qsize = 2, capacity = 100,
     characters = a # b # replicate 98 0\<rparr>"

lemma two_byte_queue_ok: "rx_ok (Some (two_byte_queue a b))" "rx_bytes (Some (two_byte_queue a b)) = [a, b]"
  by (simp_all add: rx_ok_def rx_bytes_def two_byte_queue_def queue_inv_def queue_list_def numeral_2_eq_2)

theorem sp_ih_delivers_witness:
  "\<exists>q' w'. sp_ih uart_os (Some (two_byte_queue 1 2)) \<lparr>rx_fifo = [3, 4], tx_log = []\<rparr> = Some (q', w') \<and>
     rx_fifo w' = [] \<and> rx_bytes q' = [1, 2, 3, 4]"
proof -
  have i: "sys_inb uart_os (BASE_ADDR_COM1 + IIR) \<lparr>rx_fifo = [3, 4], tx_log = []\<rparr> =
      ((0, 0x4), \<lparr>rx_fifo = [3, 4], tx_log = []\<rparr>)"
    by (simp add: uart_os_def uart_ports)
  have b: "\<not> bit (0x4 :: u32) 0" "bit (0x4 :: u32) 2" by simp_all
  show ?thesis
    using sp_ih_delivers [OF uart_os_rx two_byte_queue_ok(1) [of 1 2] i b] by (auto simp: two_byte_queue_ok)
qed

theorem sp_ih_terminates_witness:
  "\<exists>q' w' bs. sp_ih uart_os (Some (two_byte_queue 1 2)) \<lparr>rx_fifo = [3], tx_log = []\<rparr> = Some (q', w') \<and>
     rx_ok q' \<and> rx_bytes q' = take 100 ([1, 2] @ bs)"
  using sp_ih_terminates [OF uart_os_finite two_byte_queue_ok(1) [of 1 2]] by (auto simp: two_byte_queue_ok)

theorem signal_roundtrip_witness:
  "tx_log (send_signal uart_os ball_signal \<lparr>rx_fifo = [], tx_log = []\<rparr>) = [0x00, 0x20] \<and>
   (\<exists>q'. read_next_signal (Some (two_byte_queue 0x00 0x20)) 0 = Some (0, ball_signal, q') \<and> rx_bytes q' = [])"
proof -
  let ?w = "\<lparr>rx_fifo = [], tx_log = []\<rparr> :: uart"
  have s: "tx_log (send_signal uart_os ball_signal ?w) = tx_log ?w @ [0x00, 0x20]"
    using send_signal_sent [OF uart_os_tx, of ball_signal ?w] by (simp add: signal_bytes_def ball_signal_def)
  show ?thesis
    using signal_roundtrip [OF uart_os_tx s two_byte_queue_ok(1) [of 0 32], of "[]" 0] s
    by (auto simp: two_byte_queue_ok)
qed

theorem serialPort_init_ready_witness:
  "\<exists>r q' w'. serialPort_init uart_os None \<lparr>rx_fifo = [], tx_log = []\<rparr> = Some (r, q', w') \<and>
     (r = 0 \<and> rx_ok q' \<and> rx_bytes q' = [] \<or> r = 1 \<and> q' = None)"
  by (rule serialPort_init_ready [OF uart_os_malloc])

theorem serialPort_init_unchecked_witness:
  "serialPort_init (uart_os\<lparr>malloc := (\<lambda>n w. (None, w))\<rparr>) None \<lparr>rx_fifo = [], tx_log = []\<rparr> = None"
  by (rule serialPort_init_unchecked [where ier = 0 and ?w1.0 = "\<lparr>rx_fifo = [], tx_log = []\<rparr>"
        and ?w2.0 = "\<lparr>rx_fifo = [], tx_log = []\<rparr>" and ?w3.0 = "\<lparr>rx_fifo = [], tx_log = []\<rparr>"
        and ?w4.0 = "\<lparr>rx_fifo = [], tx_log = []\<rparr>"])
    (simp_all add: uart_os_def uart_ports)

end
