(* ===== verification/Physics.thy ===== *)
theory Physics
  imports Graphics Serial
begin

text \<open>
  The physics of the table, \<^verbatim>\<open>model/physics.c\<close>: moving a sprite inside its collision layer, the
  walls and the middle line, the goals, pixel-exact collision of ball and pucks, and the speed
  of the ball, which is sent to the other computer whenever a puck changes it.
\<close>

section \<open>The table: physics.h\<close>

definition horizontal_start :: int where [hw_consts]: "horizontal_start = 273"
definition horizontal_end :: int where [hw_consts]: "horizontal_end = 879"
definition vertical_start :: int where [hw_consts]: "vertical_start = 21"
definition vertical_end :: int where [hw_consts]: "vertical_end = 843"
definition middle_field :: int where [hw_consts]: "middle_field = 432"
definition left_post :: int where [hw_consts]: "left_post = 476"
definition right_post :: int where [hw_consts]: "right_post = 676"
definition max_velocity :: int where [hw_consts]: "max_velocity = 8"

text \<open>The three objects that collide, the scores, and which computer decides collisions.\<close>

record 'w arena = "'w video" +
  redpuck :: ptr
  bluepuck :: ptr
  ball :: ptr
  player_1_score :: int
  player_2_score :: int
  is_main_pc :: bool

section \<open>Overlap of two sprites\<close>

text \<open>\<^verbatim>\<open>int position = ((width*pixel_y) + pixel_x) * bytes_per_pixel\<close>: the product is unsigned.\<close>

definition pixel_position :: "u32 \<Rightarrow> sprite \<Rightarrow> int \<Rightarrow> int \<Rightarrow> int" where
  "pixel_position bpp o1 pixel_x pixel_y =
     sint (word_of_int (uint (sp_width o1) * pixel_y + pixel_x) * bpp :: u32)"

definition pixel_color :: "u32 \<Rightarrow> sprite \<Rightarrow> int \<Rightarrow> int \<Rightarrow> u32 option" where
  "pixel_color bpp o1 pixel_x pixel_y =
     do {
       colors \<leftarrow> sp_map o1;
       let position = pixel_position bpp o1 pixel_x pixel_y;
       if position < 0 then None else load_color colors (nat position) (unat bpp)
     }"

definition pixel_detection :: "u32 \<Rightarrow> sprite \<Rightarrow> int \<Rightarrow> int \<Rightarrow> sprite \<Rightarrow> int \<Rightarrow> int \<Rightarrow> int \<Rightarrow> int \<Rightarrow> bool option" where
  "pixel_detection bpp o1 new_x new_y o2 left_border right_border top_border bottom_border =
     any_opt (\<lambda>x.
       any_opt (\<lambda>y. do {
           color1 \<leftarrow> pixel_color bpp o1 (x - new_x) (y - new_y);
           color2 \<leftarrow> pixel_color bpp o2 (x - sp_x o2) (y - sp_y o2);
           Some (color1 \<noteq> TRANSPARENT \<and> color2 \<noteq> TRANSPARENT)
         }) [top_border .. bottom_border - 1])
       [left_border .. right_border - 1]"

definition detect_collision :: "('w, 'a) video_scheme \<Rightarrow> ptr \<Rightarrow> int \<Rightarrow> int \<Rightarrow> ptr \<Rightarrow> bool option" where
  "detect_collision s object1 new_x new_y object2 =
     (if object1 = object2 \<or> object1 = NULL \<or> object2 = NULL then Some False
      else do {
        o1 \<leftarrow> deref (heap s) object1;
        o2 \<leftarrow> deref (heap s) object2;
        let left_border = max new_x (sp_x o2);
        let right_border = min (new_x + uint (sp_width o1)) (sp_x o2 + uint (sp_width o2));
        let top_border = max new_y (sp_y o2);
        let bottom_border = min (new_y + uint (sp_height o1)) (sp_y o2 + uint (sp_height o2));
        if right_border \<ge> left_border \<and> top_border \<le> bottom_border
        then pixel_detection (bytes_per_pixel s) o1 new_x new_y o2
               left_border right_border top_border bottom_border
        else Some False
      })"

section \<open>Walls, middle line and goals\<close>

text \<open>\<open>info\<close> is the array of the four walls: top, right, bottom, left.\<close>

definition detect_wall_collision :: "sprite \<Rightarrow> int \<Rightarrow> int \<Rightarrow> bool list \<Rightarrow> bool \<times> bool list" where
  "detect_wall_collision o1 new_x new_y info0 =
     (let (collided, info) = (False, info0);
          (collided, info) = (if new_y < vertical_start then (True, info[0 := True]) else (collided, info));
          (collided, info) = (if new_x + uint (sp_width o1) > horizontal_end
                              then (True, info[1 := True]) else (collided, info));
          (collided, info) = (if new_y + uint (sp_height o1) > vertical_end
                              then (True, info[2 := True]) else (collided, info));
          (collided, info) = (if new_x < horizontal_start then (True, info[3 := True]) else (collided, info))
      in (collided, info))"

definition detect_middle_field_collision :: "sprite \<Rightarrow> int \<Rightarrow> int \<Rightarrow> bool" where
  "detect_middle_field_collision o1 new_x new_y =
     (if sp_y o1 < middle_field then
        (if new_y < sp_y o1 then False else new_y + uint (sp_height o1) > middle_field)
      else if new_y > sp_y o1 then False
      else new_y < middle_field)"

definition between_posts :: "sprite \<Rightarrow> int \<Rightarrow> bool" where
  "between_posts o1 new_x \<longleftrightarrow>
     new_x \<ge> left_post \<and> new_x \<le> right_post \<and>
     new_x + uint (sp_width o1) \<ge> left_post \<and> new_x + uint (sp_width o1) \<le> right_post"

definition detect_goal_collision :: "sprite \<Rightarrow> int \<Rightarrow> int \<Rightarrow> ('w, 'a) arena_scheme \<Rightarrow> bool \<times> ('w, 'a) arena_scheme" where
  "detect_goal_collision o1 new_x new_y s =
     (let (collided, s) =
            (if between_posts o1 new_x \<and> new_y \<le> vertical_start
             then (True, s\<lparr>player_2_score := player_2_score s + 1\<rparr>) else (False, s));
          (collided, s) =
            (if between_posts o1 new_x \<and> new_y + uint (sp_height o1) \<ge> vertical_end
             then (True, s\<lparr>player_1_score := player_1_score s + 1\<rparr>) else (collided, s))
      in (collided, s))"

section \<open>Reactions\<close>

definition clamp_velocity :: "int \<Rightarrow> int" where
  "clamp_velocity v =
     (let v = (if v > max_velocity then max_velocity else v)
      in if v < - max_velocity then - max_velocity else v)"

definition normalize_speed :: "ptr \<Rightarrow> ('w, 'a) store_scheme \<Rightarrow> ('w, 'a) store_scheme option" where
  "normalize_speed p s =
     update_sprite p (\<lambda>o1. o1\<lparr>xspeed := clamp_velocity (xspeed o1), yspeed := clamp_velocity (yspeed o1)\<rparr>) s"

text \<open>Sending the current speed of a sprite.\<close>

definition send_speed :: "'w os \<Rightarrow> ptr \<Rightarrow> ('w, 'a) store_scheme \<Rightarrow> ('w, 'a) store_scheme option" where
  "send_speed os p s =
     do { o1 \<leftarrow> deref (heap s) p;
          Some (s\<lparr>world := transmit_ball_speed os (xspeed o1) (yspeed o1) (world s)\<rparr>) }"

definition ball_collision :: "'w os \<Rightarrow> ptr \<Rightarrow> ('w, 'a) arena_scheme \<Rightarrow> ('w, 'a) arena_scheme option" where
  "ball_collision os object s =
     do {
       o1 \<leftarrow> deref (heap s) object;
       s1 \<leftarrow> update_sprite (ball s) (\<lambda>b. b\<lparr>xspeed := xspeed o1, yspeed := yspeed o1\<rparr>) s;
       s2 \<leftarrow> normalize_speed (ball s) s1;
       send_speed os (ball s) s2
     }"

definition bounce_off :: "'w os \<Rightarrow> ptr \<Rightarrow> ptr \<Rightarrow> ('w, 'a) arena_scheme \<Rightarrow> ('w, 'a) arena_scheme option" where
  "bounce_off os object1 object2 s =
     do {
       o2 \<leftarrow> deref (heap s) object2;
       if xspeed o2 = 0 \<and> yspeed o2 = 0 then do {
         s1 \<leftarrow> update_sprite object1 (\<lambda>o1. o1\<lparr>xspeed := - xspeed o1, yspeed := - yspeed o1\<rparr>) s;
         send_speed os object1 s1
       } else do {
         s1 \<leftarrow> update_sprite object1 (\<lambda>o1. o1\<lparr>xspeed := xspeed o2, yspeed := yspeed o2\<rparr>) s;
         if object1 = ball s then do {
           s2 \<leftarrow> normalize_speed object1 s1;
           send_speed os object1 s2
         } else Some s1
       }
     }"

text \<open>The two branches of \<^verbatim>\<open>handle_play_area_collision\<close>: the ball is reflected, others are put back.\<close>

definition reflect_at_walls :: "bool \<Rightarrow> bool \<Rightarrow> bool \<Rightarrow> bool \<Rightarrow> sprite \<Rightarrow> sprite" where
  "reflect_at_walls i0 i1 i2 i3 o1 =
     (let o1 = (if i0 then o1\<lparr>yspeed := - yspeed o1\<rparr> else o1);
          o1 = (if i1 then o1\<lparr>xspeed := - xspeed o1\<rparr> else o1);
          o1 = (if i2 then o1\<lparr>yspeed := - yspeed o1\<rparr> else o1);
          o1 = (if i3 then o1\<lparr>xspeed := - xspeed o1\<rparr> else o1)
      in o1)"

definition stop_at_walls :: "bool \<Rightarrow> bool \<Rightarrow> bool \<Rightarrow> bool \<Rightarrow> sprite \<Rightarrow> sprite" where
  "stop_at_walls i0 i1 i2 i3 o1 =
     (let o1 = (if i0 then o1\<lparr>sp_y := vertical_start\<rparr> else o1);
          o1 = (if i1 then o1\<lparr>sp_x := horizontal_end - uint (sp_width o1)\<rparr> else o1);
          o1 = (if i2 then o1\<lparr>sp_y := vertical_end - uint (sp_height o1)\<rparr> else o1);
          o1 = (if i3 then o1\<lparr>sp_x := horizontal_start\<rparr> else o1)
      in o1)"

definition handle_play_area_collision :: "ptr \<Rightarrow> bool list \<Rightarrow> ('w, 'a) arena_scheme \<Rightarrow> ('w, 'a) arena_scheme option" where
  "handle_play_area_collision object info s =
     do {
       i0 \<leftarrow> arr_get info 0; i1 \<leftarrow> arr_get info 1; i2 \<leftarrow> arr_get info 2; i3 \<leftarrow> arr_get info 3;
       if object = ball s then update_sprite object (reflect_at_walls i0 i1 i2 i3) s
       else update_sprite object (stop_at_walls i0 i1 i2 i3) s
     }"

section \<open>Moving a sprite\<close>

definition detect_collision_in_layer ::
  "'w os \<Rightarrow> ptr \<Rightarrow> int \<Rightarrow> int \<Rightarrow> u32 \<Rightarrow> ('w, 'a) arena_scheme \<Rightarrow> (bool \<times> ('w, 'a) arena_scheme) option" where
  "detect_collision_in_layer os object new_x new_y layer s =
     (let info = replicate 4 False in
      if layer = 0 then do {
        o1 \<leftarrow> deref (heap s) object;
        let (hit, info) = detect_wall_collision o1 new_x new_y info;
        if hit then do { s1 \<leftarrow> handle_play_area_collision object info s; Some (True, s1) }
        else Some (False, s)
      }
      else if layer = 1 then do {
        o1 \<leftarrow> deref (heap s) object;
        let (goal, s) = detect_goal_collision o1 new_x new_y s;
        if goal then do {
          s1 \<leftarrow> update_sprite object (\<lambda>o1. o1\<lparr>sp_x := 550, sp_y := 410, xspeed := 0, yspeed := 0\<rparr>) s;
          Some (True, s1)
        } else do {
          let (hit, info) = detect_wall_collision o1 new_x new_y info;
          if hit then do { s1 \<leftarrow> handle_play_area_collision object info s; Some (True, s1) }
          else if is_main_pc s then do {
            red \<leftarrow> detect_collision s object new_x new_y (redpuck s);
            if red then do { s1 \<leftarrow> bounce_off os object (redpuck s) s; Some (True, s1) }
            else do {
              blue \<leftarrow> detect_collision s object new_x new_y (bluepuck s);
              if blue then do { s1 \<leftarrow> bounce_off os object (bluepuck s) s; Some (True, s1) }
              else Some (False, s)
            }
          } else Some (False, s)
        }
      }
      else if layer = 2 then do {
        o1 \<leftarrow> deref (heap s) object;
        let (hit, info) = detect_wall_collision o1 new_x new_y info;
        if hit then do { s1 \<leftarrow> handle_play_area_collision object info s; Some (True, s1) }
        else if detect_middle_field_collision o1 new_x new_y then do {
          s1 \<leftarrow> update_sprite object (\<lambda>o1.
                  if sp_y o1 < middle_field then o1\<lparr>sp_y := middle_field - uint (sp_height o1)\<rparr>
                  else o1\<lparr>sp_y := middle_field\<rparr>) s;
          Some (True, s1)
        }
        else if is_main_pc s then do {
          b \<leftarrow> detect_collision s object new_x new_y (ball s);
          if b then do { s1 \<leftarrow> ball_collision os object s; Some (True, s1) }
          else Some (False, s)
        } else Some (False, s)
      }
      else Some (False, s))"

definition move :: "'w os \<Rightarrow> ptr \<Rightarrow> i16 \<Rightarrow> i16 \<Rightarrow> u32 \<Rightarrow> ('w, 'a) arena_scheme \<Rightarrow> ('w, 'a) arena_scheme option" where
  "move os object x y layer s =
     do {
       o1 \<leftarrow> deref (heap s) object;
       let new_x = sp_x o1 + sint x;
       let new_y = sp_y o1 - sint y;
       (hit, s1) \<leftarrow> detect_collision_in_layer os object new_x new_y layer s;
       if hit then Some s1
       else update_sprite object
              (\<lambda>o1. o1\<lparr>sp_x := new_x, sp_y := new_y, xspeed := sint x, yspeed := sint y\<rparr>) s1
     }"

section \<open>Pixel-exact overlap\<close>

text \<open>The pixel of a sprite at column \<open>a\<close> and row \<open>b\<close> is opaque.\<close>

definition opaque_at :: "nat \<Rightarrow> sprite \<Rightarrow> int \<Rightarrow> int \<Rightarrow> bool" where
  "opaque_at bpp o1 a b \<longleftrightarrow>
     (case sp_map o1 of None \<Rightarrow> False
      | Some m \<Rightarrow> opaque (px bpp m (nat b * unat (sp_width o1) + nat a)))"

text \<open>Some screen pixel is covered by an opaque pixel of both sprites, the first one placed at
  \<open>(new_x, new_y)\<close>.\<close>

definition overlap :: "nat \<Rightarrow> sprite \<Rightarrow> int \<Rightarrow> int \<Rightarrow> sprite \<Rightarrow> bool" where
  "overlap bpp o1 new_x new_y o2 \<longleftrightarrow>
     (\<exists>x y. new_x \<le> x \<and> x < new_x + uint (sp_width o1) \<and> new_y \<le> y \<and> y < new_y + uint (sp_height o1) \<and>
            sp_x o2 \<le> x \<and> x < sp_x o2 + uint (sp_width o2) \<and> sp_y o2 \<le> y \<and> y < sp_y o2 + uint (sp_height o2) \<and>
            opaque_at bpp o1 (x - new_x) (y - new_y) \<and> opaque_at bpp o2 (x - sp_x o2) (y - sp_y o2))"

text \<open>A pixmap whose byte offsets fit an \<^verbatim>\<open>int\<close>.\<close>

definition indexable :: "u32 \<Rightarrow> sprite \<Rightarrow> bool" where
  "indexable bpp o1 \<longleftrightarrow> pixmap_ok (unat bpp) o1 \<and> bpp \<le> 4 \<and>
     unat (sp_width o1) * unat (sp_height o1) * unat bpp < 2 ^ 31"

lemma pixel_color_in:
  assumes ok: "indexable bpp o1"
    and a: "0 \<le> a" "a < uint (sp_width o1)" and b: "0 \<le> b" "b < uint (sp_height o1)"
  shows "\<exists>c. pixel_color bpp o1 a b = Some c \<and> (c \<noteq> TRANSPARENT \<longleftrightarrow> opaque_at (unat bpp) o1 a b)"
proof -
  define w where "w = unat (sp_width o1)"
  define i where "i = nat b * w + nat a"
  obtain m where m: "sp_map o1 = Some m" "length m = w * unat (sp_height o1) * unat bpp"
    using ok by (auto simp: indexable_def pixmap_ok_def w_def)
  have "nat a < w" "nat b < unat (sp_height o1)" using a b by (simp_all add: w_def nat_less_iff)
  then have "i < w * unat (sp_height o1)"
  proof -
    have "i < (nat b + 1) * w" using \<open>nat a < w\<close> by (simp add: i_def)
    also have "\<dots> \<le> unat (sp_height o1) * w" using \<open>nat b < unat (sp_height o1)\<close> by (intro mult_le_mono1) simp
    finally show ?thesis by (simp add: ac_simps)
  qed
  from pixel_end [OF this, of "unat bpp"] have fit: "i * unat bpp + unat bpp \<le> length m" by (simp add: m(2))
  have bound: "length m < 2 ^ 31" using ok m(2) by (simp add: indexable_def w_def)
  have "word_of_int (uint (sp_width o1) * b + a) * bpp = (word_of_int (int (i * unat bpp)) :: u32)"
  proof -
    have "uint (sp_width o1) * b + a = int i" using a b by (simp add: i_def w_def)
    then show ?thesis by simp
  qed
  moreover have "i * unat bpp < 2147483648" using fit bound by simp
  then have "int (i * unat bpp) < 2147483648" "- 2147483648 \<le> int (i * unat bpp)" by linarith+
  ultimately have "pixel_position bpp o1 a b = int (i * unat bpp)"
    unfolding pixel_position_def by (simp only: sint_word_of_int32)
  then have "pixel_color bpp o1 a b = load_color m (i * unat bpp) (unat bpp)"
    by (simp only: pixel_color_def m(1) Option.bind.bind_lunit Let_def nat_int of_nat_less_0_iff if_False)
  also have "\<dots> = Some (le_bytes (px (unat bpp) m i))"
    using ok fit by (intro load_color_px) (simp_all add: indexable_def bpp_le4)
  finally show ?thesis by (simp add: opaque_at_def m(1) opaque_def i_def w_def)
qed

lemma pixel_detection_iff:
  assumes o1: "indexable bpp o1" and o2: "indexable bpp o2"
    and l: "new_x \<le> l" "sp_x o2 \<le> l" and r: "r \<le> new_x + uint (sp_width o1)" "r \<le> sp_x o2 + uint (sp_width o2)"
    and t: "new_y \<le> t" "sp_y o2 \<le> t" and b: "b \<le> new_y + uint (sp_height o1)" "b \<le> sp_y o2 + uint (sp_height o2)"
  shows "pixel_detection bpp o1 new_x new_y o2 l r t b =
    Some (\<exists>x y. l \<le> x \<and> x < r \<and> t \<le> y \<and> y < b \<and> opaque_at (unat bpp) o1 (x - new_x) (y - new_y) \<and>
             opaque_at (unat bpp) o2 (x - sp_x o2) (y - sp_y o2))"
proof -
  let ?hit = "\<lambda>x y. opaque_at (unat bpp) o1 (x - new_x) (y - new_y) \<and> opaque_at (unat bpp) o2 (x - sp_x o2) (y - sp_y o2)"
  let ?test = "\<lambda>x y. do {
           color1 \<leftarrow> pixel_color bpp o1 (x - new_x) (y - new_y);
           color2 \<leftarrow> pixel_color bpp o2 (x - sp_x o2) (y - sp_y o2);
           Some (color1 \<noteq> TRANSPARENT \<and> color2 \<noteq> TRANSPARENT) }"
  have cell: "?test x y = Some (?hit x y)" if x: "x \<in> set [l .. r - 1]" and y: "y \<in> set [t .. b - 1]" for x y
  proof -
    have "\<exists>c. pixel_color bpp o1 (x - new_x) (y - new_y) = Some c \<and>
        (c \<noteq> TRANSPARENT \<longleftrightarrow> opaque_at (unat bpp) o1 (x - new_x) (y - new_y))"
      using x y l r t b by (intro pixel_color_in [OF o1]) simp_all
    moreover have "\<exists>c. pixel_color bpp o2 (x - sp_x o2) (y - sp_y o2) = Some c \<and>
        (c \<noteq> TRANSPARENT \<longleftrightarrow> opaque_at (unat bpp) o2 (x - sp_x o2) (y - sp_y o2))"
      using x y l r t b by (intro pixel_color_in [OF o2]) simp_all
    ultimately show ?thesis by auto
  qed
  have "any_opt (?test x) [t .. b - 1] = Some (\<exists>y\<in>set [t .. b - 1]. ?hit x y)" if "x \<in> set [l .. r - 1]" for x
    using cell [OF that] by (rule any_opt_Some)
  then have "pixel_detection bpp o1 new_x new_y o2 l r t b = Some (\<exists>x\<in>set [l .. r - 1]. \<exists>y\<in>set [t .. b - 1]. ?hit x y)"
    unfolding pixel_detection_def by (rule any_opt_Some)
  moreover have "(\<exists>x\<in>set [l .. r - 1]. \<exists>y\<in>set [t .. b - 1]. ?hit x y) \<longleftrightarrow>
      (\<exists>x y. l \<le> x \<and> x < r \<and> t \<le> y \<and> y < b \<and> ?hit x y)"
    unfolding set_upto Bex_def atLeastAtMost_iff zle_diff1_eq by blast
  ultimately show ?thesis by simp
qed

lemma detect_collision_overlap:
  assumes "object1 \<noteq> object2" and d1: "deref (heap s) object1 = Some o1" and d2: "deref (heap s) object2 = Some o2"
    and i1: "indexable (bytes_per_pixel s) o1" and i2: "indexable (bytes_per_pixel s) o2"
  shows "detect_collision s object1 new_x new_y object2 =
    Some (overlap (unat (bytes_per_pixel s)) o1 new_x new_y o2)"
proof -
  have nn: "object1 \<noteq> NULL" "object2 \<noteq> NULL" using d1 d2 by (auto dest: deref_SomeD)
  let ?l = "max new_x (sp_x o2)" and ?r = "min (new_x + uint (sp_width o1)) (sp_x o2 + uint (sp_width o2))"
  let ?t = "max new_y (sp_y o2)" and ?b = "min (new_y + uint (sp_height o1)) (sp_y o2 + uint (sp_height o2))"
  have "overlap (unat (bytes_per_pixel s)) o1 new_x new_y o2 \<longleftrightarrow>
      (\<exists>x y. ?l \<le> x \<and> x < ?r \<and> ?t \<le> y \<and> y < ?b \<and>
         opaque_at (unat (bytes_per_pixel s)) o1 (x - new_x) (y - new_y) \<and>
         opaque_at (unat (bytes_per_pixel s)) o2 (x - sp_x o2) (y - sp_y o2))"
    unfolding overlap_def by auto
  moreover from this have "\<not> overlap (unat (bytes_per_pixel s)) o1 new_x new_y o2"
      if "\<not> (?l \<le> ?r \<and> ?t \<le> ?b)"
    using that by auto
  moreover have "pixel_detection (bytes_per_pixel s) o1 new_x new_y o2 ?l ?r ?t ?b =
    Some (\<exists>x y. ?l \<le> x \<and> x < ?r \<and> ?t \<le> y \<and> y < ?b \<and>
         opaque_at (unat (bytes_per_pixel s)) o1 (x - new_x) (y - new_y) \<and>
         opaque_at (unat (bytes_per_pixel s)) o2 (x - sp_x o2) (y - sp_y o2))"
    by (rule pixel_detection_iff [OF i1 i2]) simp_all
  ultimately show ?thesis
    using assms(1) nn d1 d2 by (simp only: detect_collision_def Let_def bind.simps if_False if_True) simp
qed

text \<open>C14 (collisions are pixel-exact): for two live sprites with complete pixmaps,
  \<^verbatim>\<open>detect_collision\<close> never reads outside a pixmap, and it answers true exactly when some screen
  pixel would be covered by an opaque pixel of both sprites.\<close>

theorem detect_collision_exact:
  assumes "object1 \<noteq> object2" and "deref (heap s) object1 = Some o1" and "deref (heap s) object2 = Some o2"
    and "indexable (bytes_per_pixel s) o1" and "indexable (bytes_per_pixel s) o2"
  shows "detect_collision s object1 new_x new_y object2 =
    Some (\<exists>x y. new_x \<le> x \<and> x < new_x + uint (sp_width o1) \<and> new_y \<le> y \<and> y < new_y + uint (sp_height o1) \<and>
       sp_x o2 \<le> x \<and> x < sp_x o2 + uint (sp_width o2) \<and> sp_y o2 \<le> y \<and> y < sp_y o2 + uint (sp_height o2) \<and>
       opaque_at (unat (bytes_per_pixel s)) o1 (x - new_x) (y - new_y) \<and>
       opaque_at (unat (bytes_per_pixel s)) o2 (x - sp_x o2) (y - sp_y o2))"
  using detect_collision_overlap [OF assms] unfolding overlap_def .

section \<open>Walls and goals\<close>

text \<open>The sprite, placed at \<open>(new_x, new_y)\<close>, is inside the play area.\<close>

definition fits_at :: "sprite \<Rightarrow> int \<Rightarrow> int \<Rightarrow> bool" where
  "fits_at o1 new_x new_y \<longleftrightarrow>
     273 \<le> new_x \<and> new_x + uint (sp_width o1) \<le> 879 \<and> 21 \<le> new_y \<and> new_y + uint (sp_height o1) \<le> 843"

definition in_area :: "sprite \<Rightarrow> bool" where
  "in_area o1 \<longleftrightarrow> fits_at o1 (sp_x o1) (sp_y o1)"

lemma wall_info [step_simps]:
  "detect_wall_collision o1 new_x new_y (replicate 4 False) =
     (\<not> fits_at o1 new_x new_y,
      [new_y < 21, 879 < new_x + uint (sp_width o1), 843 < new_y + uint (sp_height o1), new_x < 273])"
  by (auto simp: detect_wall_collision_def fits_at_def hw_consts eval_nat_numeral Let_def)

text \<open>The walls: \<^verbatim>\<open>detect_wall_collision\<close> reports a collision exactly when the sprite would
  leave the play area, and then marks exactly the walls it would cross.\<close>

theorem detect_wall_collision_exact:
  "detect_wall_collision o1 new_x new_y [False, False, False, False] =
     (\<not> (273 \<le> new_x \<and> new_x + uint (sp_width o1) \<le> 879 \<and> 21 \<le> new_y \<and> new_y + uint (sp_height o1) \<le> 843),
      [new_y < 21, 879 < new_x + uint (sp_width o1), 843 < new_y + uint (sp_height o1), new_x < 273])"
  using wall_info [of o1 new_x new_y] by (simp add: fits_at_def eval_nat_numeral)

lemma reflect_at_walls_fields [simp]:
  "sp_x (reflect_at_walls i0 i1 i2 i3 o1) = sp_x o1" "sp_y (reflect_at_walls i0 i1 i2 i3 o1) = sp_y o1"
  "xspeed (reflect_at_walls i0 i1 i2 i3 o1) = (if i1 \<noteq> i3 then - xspeed o1 else xspeed o1)"
  "yspeed (reflect_at_walls i0 i1 i2 i3 o1) = (if i0 \<noteq> i2 then - yspeed o1 else yspeed o1)"
  "sp_width (reflect_at_walls i0 i1 i2 i3 o1) = sp_width o1" "sp_height (reflect_at_walls i0 i1 i2 i3 o1) = sp_height o1"
  "sp_map (reflect_at_walls i0 i1 i2 i3 o1) = sp_map o1" "selected (reflect_at_walls i0 i1 i2 i3 o1) = selected o1"
  "visibility (reflect_at_walls i0 i1 i2 i3 o1) = visibility o1"
  by (simp_all add: reflect_at_walls_def Let_def)

lemma stop_at_walls_fields [simp]:
  "sp_x (stop_at_walls i0 i1 i2 i3 o1) = (if i3 then 273 else if i1 then 879 - uint (sp_width o1) else sp_x o1)"
  "sp_y (stop_at_walls i0 i1 i2 i3 o1) = (if i2 then 843 - uint (sp_height o1) else if i0 then 21 else sp_y o1)"
  "xspeed (stop_at_walls i0 i1 i2 i3 o1) = xspeed o1" "yspeed (stop_at_walls i0 i1 i2 i3 o1) = yspeed o1"
  "sp_width (stop_at_walls i0 i1 i2 i3 o1) = sp_width o1" "sp_height (stop_at_walls i0 i1 i2 i3 o1) = sp_height o1"
  "sp_map (stop_at_walls i0 i1 i2 i3 o1) = sp_map o1" "selected (stop_at_walls i0 i1 i2 i3 o1) = selected o1"
  "visibility (stop_at_walls i0 i1 i2 i3 o1) = visibility o1"
  by (simp_all add: stop_at_walls_def Let_def hw_consts)

lemma handle_walls [step_simps]:
  assumes "deref (heap s) object = Some o1"
  shows "handle_play_area_collision object [i0, i1, i2, i3] s = Some (s\<lparr>heap := (heap s)(object \<mapsto>
    (if object = ball s then reflect_at_walls i0 i1 i2 i3 o1 else stop_at_walls i0 i1 i2 i3 o1))\<rparr>)"
  using assms by (auto simp: handle_play_area_collision_def)

lemma clamp_velocity_range: "\<bar>clamp_velocity v\<bar> \<le> 8"
  by (auto simp: clamp_velocity_def hw_consts Let_def)

lemma clamp_velocity_id: "\<bar>v\<bar> \<le> 8 \<Longrightarrow> clamp_velocity v = v"
  by (auto simp: clamp_velocity_def hw_consts Let_def)

section \<open>What a move may change\<close>

text \<open>
  A move changes positions and speeds of live sprites, the scores, and the device world (bytes
  sent); the images, the buffers and the identity of the objects stay.
\<close>

definition same_image :: "sprite \<Rightarrow> sprite \<Rightarrow> bool" where
  "same_image o1 o2 \<longleftrightarrow> sp_width o2 = sp_width o1 \<and> sp_height o2 = sp_height o1 \<and> sp_map o2 = sp_map o1 \<and>
     selected o2 = selected o1 \<and> visibility o2 = visibility o1"

definition same_images :: "(ptr \<rightharpoonup> sprite) \<Rightarrow> (ptr \<rightharpoonup> sprite) \<Rightarrow> bool" where
  "same_images h h' \<longleftrightarrow> (\<forall>p. case h p of None \<Rightarrow> h' p = None
     | Some o1 \<Rightarrow> (case h' p of None \<Rightarrow> False | Some o2 \<Rightarrow> same_image o1 o2))"

definition moves_only :: "('w, 'a) arena_scheme \<Rightarrow> ('w, 'a) arena_scheme \<Rightarrow> bool" where
  "moves_only s s' \<longleftrightarrow> same_images (heap s) (heap s') \<and>
     s'\<lparr>heap := heap s, world := world s, player_1_score := player_1_score s,
        player_2_score := player_2_score s\<rparr> = s"

lemma same_image_refl [simp]: "same_image o1 o1"
  by (simp add: same_image_def)

lemma same_images_refl [simp]: "same_images h h"
  by (simp add: same_images_def split: option.splits)

lemma same_images_trans:
  assumes "same_images h h'" and "same_images h' h''"
  shows "same_images h h''"
  unfolding same_images_def
proof
  fix p
  show "case h p of None \<Rightarrow> h'' p = None
     | Some o1 \<Rightarrow> (case h'' p of None \<Rightarrow> False | Some o2 \<Rightarrow> same_image o1 o2)"
    using assms [unfolded same_images_def, THEN spec, of p]
    by (auto simp: same_image_def split: option.splits)
qed

lemma same_images_upd:
  "deref h p = Some o1 \<Longrightarrow> same_image o1 o2 \<Longrightarrow> same_images h (h(p \<mapsto> o2))"
  by (auto simp: same_images_def split: option.splits dest: deref_SomeD)

lemma same_images_deref:
  assumes "same_images h h'" and "deref h p = Some o1"
  obtains o2 where "deref h' p = Some o2" and "same_image o1 o2"
  using assms(1) [unfolded same_images_def, THEN spec, of p] assms(2) that
  by (auto simp: deref_def split: if_splits option.splits)

lemma moves_only_refl [simp]: "moves_only s s"
  by (cases s) (simp add: moves_only_def)

lemma moves_only_trans:
  assumes "moves_only s s'" and "moves_only s' s''"
  shows "moves_only s s''"
proof -
  have s: "s = s'\<lparr>heap := heap s, world := world s, player_1_score := player_1_score s,
      player_2_score := player_2_score s\<rparr>"
    and s': "s' = s''\<lparr>heap := heap s', world := world s', player_1_score := player_1_score s',
      player_2_score := player_2_score s'\<rparr>"
    using assms by (simp_all add: moves_only_def)
  have "s''\<lparr>heap := heap s, world := world s, player_1_score := player_1_score s,
      player_2_score := player_2_score s\<rparr> = s'\<lparr>heap := heap s, world := world s,
      player_1_score := player_1_score s, player_2_score := player_2_score s\<rparr>"
    by (subst s') simp
  then show ?thesis using assms s by (auto simp: moves_only_def intro: same_images_trans)
qed

lemma moves_only_heap:
  "deref (heap s) p = Some o1 \<Longrightarrow> same_image o1 o2 \<Longrightarrow> moves_only s (s\<lparr>heap := (heap s)(p \<mapsto> o2)\<rparr>)"
  using moves_only_refl [of s] by (simp add: moves_only_def same_images_upd)

lemma moves_only_world: "moves_only s (s\<lparr>world := w\<rparr>)"
  using moves_only_refl [of s] by (simp add: moves_only_def)

lemma moves_only_score:
  "moves_only s (s\<lparr>player_1_score := a\<rparr>)" "moves_only s (s\<lparr>player_2_score := b\<rparr>)"
  using moves_only_refl [of s] by (simp_all add: moves_only_def)

lemma moves_only_fields [frame_simps]:
  assumes "moves_only s s'"
  shows "bytes_per_pixel s' = bytes_per_pixel s" "h_res s' = h_res s" "v_res s' = v_res s"
    "secondary_buffer s' = secondary_buffer s" "main_buffer s' = main_buffer s" "vram_size s' = vram_size s"
    "redpuck s' = redpuck s" "bluepuck s' = bluepuck s" "ball s' = ball s" "is_main_pc s' = is_main_pc s"
    "brk s' = brk s" "arena.more s' = arena.more s"
proof -
  have s: "s = s'\<lparr>heap := heap s, world := world s, player_1_score := player_1_score s,
      player_2_score := player_2_score s\<rparr>"
    using assms by (simp add: moves_only_def)
  show "bytes_per_pixel s' = bytes_per_pixel s" "h_res s' = h_res s" "v_res s' = v_res s"
    "secondary_buffer s' = secondary_buffer s" "main_buffer s' = main_buffer s" "vram_size s' = vram_size s"
    "redpuck s' = redpuck s" "bluepuck s' = bluepuck s" "ball s' = ball s" "is_main_pc s' = is_main_pc s"
    "brk s' = brk s" "arena.more s' = arena.more s"
    by (subst s, simp)+
qed

section \<open>The objects on the table\<close>

definition shaped :: "u32 \<Rightarrow> nat \<Rightarrow> nat \<Rightarrow> sprite \<Rightarrow> bool" where
  "shaped bpp w h o1 \<longleftrightarrow> unat (sp_width o1) = w \<and> unat (sp_height o1) = h \<and> indexable bpp o1"

text \<open>The two pucks and the ball are three different live sprites of the sizes of their pixmaps.\<close>

definition arena_ok :: "('w, 'a) arena_scheme \<Rightarrow> bool" where
  "arena_ok s \<longleftrightarrow>
     redpuck s \<noteq> bluepuck s \<and> redpuck s \<noteq> ball s \<and> bluepuck s \<noteq> ball s \<and>
     (\<exists>r. deref (heap s) (redpuck s) = Some r \<and> shaped (bytes_per_pixel s) 80 80 r) \<and>
     (\<exists>b. deref (heap s) (bluepuck s) = Some b \<and> shaped (bytes_per_pixel s) 80 80 b) \<and>
     (\<exists>k. deref (heap s) (ball s) = Some k \<and> shaped (bytes_per_pixel s) 50 50 k)"

lemma shaped_same: "shaped bpp w h o1 \<Longrightarrow> same_image o1 o2 \<Longrightarrow> shaped bpp w h o2"
  by (auto simp: shaped_def same_image_def indexable_def pixmap_ok_def)

lemma shapedD: "shaped bpp w h o1 \<Longrightarrow> uint (sp_width o1) = int w \<and> uint (sp_height o1) = int h"
  unfolding shaped_def uint_nat by simp

lemma arena_ok_moves:
  assumes "arena_ok s" and "moves_only s s'"
  shows "arena_ok s'"
proof -
  have img: "same_images (heap s) (heap s')" using assms(2) by (simp add: moves_only_def)
  have "\<exists>o2. deref (heap s') p = Some o2 \<and> shaped bpp w h o2"
    if "deref (heap s) p = Some o1" "shaped bpp w h o1" for p o1 bpp w h
    using same_images_deref [OF img that(1)] shaped_same [OF that(2)] by metis
  then show ?thesis
    using assms(1) unfolding arena_ok_def by (auto simp: moves_only_fields [OF assms(2)])
qed

lemma arena_okE:
  assumes "arena_ok s"
  obtains r b k where "deref (heap s) (redpuck s) = Some r" "shaped (bytes_per_pixel s) 80 80 r"
    "deref (heap s) (bluepuck s) = Some b" "shaped (bytes_per_pixel s) 80 80 b"
    "deref (heap s) (ball s) = Some k" "shaped (bytes_per_pixel s) 50 50 k"
    "redpuck s \<noteq> ball s" "bluepuck s \<noteq> ball s" "redpuck s \<noteq> bluepuck s"
  using assms by (auto simp: arena_ok_def)

section \<open>The reactions, as equations\<close>

lemma ball_collision_eq [step_simps]:
  assumes "deref (heap s) object = Some o1" and "deref (heap s) (ball s) = Some k"
  shows "ball_collision os object s = Some (s\<lparr>
    heap := (heap s)(ball s \<mapsto> k\<lparr>xspeed := clamp_velocity (xspeed o1), yspeed := clamp_velocity (yspeed o1)\<rparr>),
    world := transmit_ball_speed os (clamp_velocity (xspeed o1)) (clamp_velocity (yspeed o1)) (world s)\<rparr>)"
  using assms deref_SomeD [OF assms(2)] by (simp add: ball_collision_def normalize_speed_def send_speed_def)

definition bounced :: "sprite \<Rightarrow> sprite \<Rightarrow> int \<times> int" where
  "bounced k o2 = (if xspeed o2 = 0 \<and> yspeed o2 = 0 then (- xspeed k, - yspeed k)
     else (clamp_velocity (xspeed o2), clamp_velocity (yspeed o2)))"

lemma bounce_off_eq [step_simps]:
  assumes "deref (heap s) (ball s) = Some k" and "deref (heap s) object2 = Some o2"
  shows "bounce_off os (ball s) object2 s = Some (s\<lparr>
    heap := (heap s)(ball s \<mapsto> k\<lparr>xspeed := fst (bounced k o2), yspeed := snd (bounced k o2)\<rparr>),
    world := transmit_ball_speed os (fst (bounced k o2)) (snd (bounced k o2)) (world s)\<rparr>)"
  using assms deref_SomeD [OF assms(1)]
  by (simp add: bounce_off_def normalize_speed_def send_speed_def bounced_def)

lemma mouse_layer [step_simps]:
  assumes "deref (heap s) object = Some o1"
  shows "detect_collision_in_layer os object new_x new_y 0 s =
    (if fits_at o1 new_x new_y then Some (False, s)
     else do { s1 \<leftarrow> handle_play_area_collision object [new_y < 21, 879 < new_x + uint (sp_width o1),
                 843 < new_y + uint (sp_height o1), new_x < 273] s; Some (True, s1) })"
  using assms by (simp add: detect_collision_in_layer_def wall_info)

lemma puck_layer [step_simps]:
  assumes ok: "arena_ok s" and p: "object = redpuck s \<or> object = bluepuck s"
    and o1: "deref (heap s) object = Some o1" and k: "deref (heap s) (ball s) = Some k"
  shows "detect_collision_in_layer os object new_x new_y 2 s =
    (if \<not> fits_at o1 new_x new_y then
       Some (True, s\<lparr>heap := (heap s)(object \<mapsto> stop_at_walls (new_y < 21) (879 < new_x + uint (sp_width o1))
         (843 < new_y + uint (sp_height o1)) (new_x < 273) o1)\<rparr>)
     else if detect_middle_field_collision o1 new_x new_y then
       Some (True, s\<lparr>heap := (heap s)(object \<mapsto>
         (if sp_y o1 < 432 then o1\<lparr>sp_y := 432 - uint (sp_height o1)\<rparr> else o1\<lparr>sp_y := 432\<rparr>))\<rparr>)
     else if is_main_pc s \<and> overlap (unat (bytes_per_pixel s)) o1 new_x new_y k then
       Some (True, s\<lparr>
         heap := (heap s)(ball s \<mapsto> k\<lparr>xspeed := clamp_velocity (xspeed o1), yspeed := clamp_velocity (yspeed o1)\<rparr>),
         world := transmit_ball_speed os (clamp_velocity (xspeed o1)) (clamp_velocity (yspeed o1)) (world s)\<rparr>)
     else Some (False, s))"
proof -
  have "object \<noteq> ball s" using ok p by (auto simp: arena_ok_def)
  moreover have "indexable (bytes_per_pixel s) o1" "indexable (bytes_per_pixel s) k"
    using ok p o1 k by (auto simp: arena_ok_def shaped_def)
  ultimately have "detect_collision s object new_x new_y (ball s) =
      Some (overlap (unat (bytes_per_pixel s)) o1 new_x new_y k)"
    using o1 k by (intro detect_collision_overlap) simp_all
  then show ?thesis
    using o1 k \<open>object \<noteq> ball s\<close>
    by (simp add: detect_collision_in_layer_def wall_info handle_walls ball_collision_eq middle_field_def)
qed

text \<open>A goal by the ball at \<open>(new_x, new_y)\<close>, and the ball as the kick-off leaves it.\<close>

definition goal_top :: "sprite \<Rightarrow> int \<Rightarrow> int \<Rightarrow> bool" where
  "goal_top o1 new_x new_y \<longleftrightarrow> 476 \<le> new_x \<and> new_x + uint (sp_width o1) \<le> 676 \<and> new_y \<le> 21"

definition goal_bottom :: "sprite \<Rightarrow> int \<Rightarrow> int \<Rightarrow> bool" where
  "goal_bottom o1 new_x new_y \<longleftrightarrow>
     476 \<le> new_x \<and> new_x + uint (sp_width o1) \<le> 676 \<and> 843 \<le> new_y + uint (sp_height o1)"

definition kick_off :: "sprite \<Rightarrow> sprite" where
  "kick_off k = k\<lparr>sp_x := 550, sp_y := 410, xspeed := 0, yspeed := 0\<rparr>"

lemma goal_eq [step_simps]:
  "detect_goal_collision o1 new_x new_y s =
     (goal_top o1 new_x new_y \<or> goal_bottom o1 new_x new_y,
      s\<lparr>player_1_score := player_1_score s + (if goal_bottom o1 new_x new_y then 1 else 0),
        player_2_score := player_2_score s + (if goal_top o1 new_x new_y then 1 else 0)\<rparr>)"
proof -
  have "0 \<le> uint (sp_width o1)" by simp
  then have "between_posts o1 new_x \<longleftrightarrow> 476 \<le> new_x \<and> new_x + uint (sp_width o1) \<le> 676"
    unfolding between_posts_def hw_consts by linarith
  then show ?thesis
    by (cases s) (auto simp: detect_goal_collision_def goal_top_def goal_bottom_def hw_consts)
qed

lemma ball_layer [step_simps]:
  assumes ok: "arena_ok s" and k: "deref (heap s) (ball s) = Some k"
    and r: "deref (heap s) (redpuck s) = Some r" and b: "deref (heap s) (bluepuck s) = Some b"
  shows "detect_collision_in_layer os (ball s) new_x new_y 1 s =
    (if goal_top k new_x new_y \<or> goal_bottom k new_x new_y then
       Some (True, s\<lparr>player_1_score := player_1_score s + (if goal_bottom k new_x new_y then 1 else 0),
                     player_2_score := player_2_score s + (if goal_top k new_x new_y then 1 else 0),
                     heap := (heap s)(ball s \<mapsto> kick_off k)\<rparr>)
     else if \<not> fits_at k new_x new_y then
       Some (True, s\<lparr>heap := (heap s)(ball s \<mapsto> reflect_at_walls (new_y < 21) (879 < new_x + uint (sp_width k))
         (843 < new_y + uint (sp_height k)) (new_x < 273) k)\<rparr>)
     else if is_main_pc s \<and> overlap (unat (bytes_per_pixel s)) k new_x new_y r then
       Some (True, s\<lparr>
         heap := (heap s)(ball s \<mapsto> k\<lparr>xspeed := fst (bounced k r), yspeed := snd (bounced k r)\<rparr>),
         world := transmit_ball_speed os (fst (bounced k r)) (snd (bounced k r)) (world s)\<rparr>)
     else if is_main_pc s \<and> overlap (unat (bytes_per_pixel s)) k new_x new_y b then
       Some (True, s\<lparr>
         heap := (heap s)(ball s \<mapsto> k\<lparr>xspeed := fst (bounced k b), yspeed := snd (bounced k b)\<rparr>),
         world := transmit_ball_speed os (fst (bounced k b)) (snd (bounced k b)) (world s)\<rparr>)
     else Some (False, s))"
proof -
  have idx: "indexable (bytes_per_pixel s) k" "indexable (bytes_per_pixel s) r" "indexable (bytes_per_pixel s) b"
    "ball s \<noteq> redpuck s" "ball s \<noteq> bluepuck s"
    using ok r b k by (auto simp: arena_ok_def shaped_def)
  have "detect_collision s (ball s) new_x new_y (redpuck s) =
      Some (overlap (unat (bytes_per_pixel s)) k new_x new_y r)"
    "detect_collision s (ball s) new_x new_y (bluepuck s) =
      Some (overlap (unat (bytes_per_pixel s)) k new_x new_y b)"
    using idx r b k by (simp_all add: detect_collision_overlap)
  moreover have "s\<lparr>player_1_score := player_1_score s, player_2_score := player_2_score s\<rparr> = s"
    by (cases s) simp
  ultimately show ?thesis
    using k r b
    by (simp add: detect_collision_in_layer_def wall_info goal_eq handle_walls bounce_off_eq kick_off_def)
qed

text \<open>The sprite of a successful move, and its new position and speed.\<close>

lemma move_free [step_simps]:
  assumes "deref (heap s) p = Some o1"
    and "detect_collision_in_layer os p (sp_x o1 + sint x) (sp_y o1 - sint y) layer s = Some (False, s)"
  shows "move os p x y layer s = Some (s\<lparr>heap := (heap s)(p \<mapsto>
    o1\<lparr>sp_x := sp_x o1 + sint x, sp_y := sp_y o1 - sint y, xspeed := sint x, yspeed := sint y\<rparr>)\<rparr>)"
  using assms by (simp add: move_def)

lemma move_hit [step_simps]:
  assumes "deref (heap s) p = Some o1"
    and "detect_collision_in_layer os p (sp_x o1 + sint x) (sp_y o1 - sint y) layer s = Some (True, s1)"
  shows "move os p x y layer s = Some s1"
  using assms by (simp add: move_def)

text \<open>Layer numbers of the three kinds of object.\<close>

lemma moves_only_two:
  assumes "deref (heap s) p = Some o1" and "same_image o1 o2"
  shows "moves_only s (s\<lparr>heap := (heap s)(p \<mapsto> o2), world := w\<rparr>)"
  using moves_only_trans [OF moves_only_heap [OF assms] moves_only_world] by simp

lemma puck_move:
  assumes ok: "arena_ok s" and p: "p = redpuck s \<or> p = bluepuck s" and o1: "deref (heap s) p = Some o1"
  obtains (wall) s' where "\<not> fits_at o1 (sp_x o1 + sint x) (sp_y o1 - sint y)"
      "move os p x y 2 s = Some s'" "moves_only s s'"
      "heap s' = (heap s)(p \<mapsto> stop_at_walls (sp_y o1 - sint y < 21)
         (879 < sp_x o1 + sint x + uint (sp_width o1)) (843 < sp_y o1 - sint y + uint (sp_height o1))
         (sp_x o1 + sint x < 273) o1)"
      "player_1_score s' = player_1_score s" "player_2_score s' = player_2_score s"
  | (middle) s' where "fits_at o1 (sp_x o1 + sint x) (sp_y o1 - sint y)"
      "detect_middle_field_collision o1 (sp_x o1 + sint x) (sp_y o1 - sint y)"
      "move os p x y 2 s = Some s'" "moves_only s s'"
      "heap s' = (heap s)(p \<mapsto> (if sp_y o1 < 432 then o1\<lparr>sp_y := 432 - uint (sp_height o1)\<rparr> else o1\<lparr>sp_y := 432\<rparr>))"
      "player_1_score s' = player_1_score s" "player_2_score s' = player_2_score s"
  | (ball) s' k k0 where "move os p x y 2 s = Some s'" "moves_only s s'"
      "heap s' = (heap s)(ball s \<mapsto> k)"
      "player_1_score s' = player_1_score s" "player_2_score s' = player_2_score s"
      "deref (heap s) (ball s) = Some k0" "same_image k0 k" "sp_x k = sp_x k0" "sp_y k = sp_y k0"
  | (free) s' where "fits_at o1 (sp_x o1 + sint x) (sp_y o1 - sint y)"
      "\<not> detect_middle_field_collision o1 (sp_x o1 + sint x) (sp_y o1 - sint y)"
      "move os p x y 2 s = Some s'" "moves_only s s'"
      "heap s' = (heap s)(p \<mapsto>
         o1\<lparr>sp_x := sp_x o1 + sint x, sp_y := sp_y o1 - sint y, xspeed := sint x, yspeed := sint y\<rparr>)"
      "player_1_score s' = player_1_score s" "player_2_score s' = player_2_score s"
proof -
  obtain k where k: "deref (heap s) (ball s) = Some k" using ok by (auto simp: arena_ok_def)
  let ?nx = "sp_x o1 + sint x" and ?ny = "sp_y o1 - sint y"
  note layer = puck_layer [OF ok p o1 k, of os ?nx ?ny]
  consider "\<not> fits_at o1 ?nx ?ny" | "fits_at o1 ?nx ?ny" "detect_middle_field_collision o1 ?nx ?ny"
    | "fits_at o1 ?nx ?ny" "\<not> detect_middle_field_collision o1 ?nx ?ny"
        "is_main_pc s \<and> overlap (unat (bytes_per_pixel s)) o1 ?nx ?ny k"
    | "fits_at o1 ?nx ?ny" "\<not> detect_middle_field_collision o1 ?nx ?ny"
        "\<not> (is_main_pc s \<and> overlap (unat (bytes_per_pixel s)) o1 ?nx ?ny k)"
    by blast
  then show thesis
  proof cases
    case 1
    then show ?thesis
      using layer by (intro wall [OF _ move_hit [OF o1] moves_only_heap [OF o1]]) (auto simp: same_image_def)
  next
    case 2
    then show ?thesis
      using layer
      by (intro middle [OF _ _ move_hit [OF o1] moves_only_heap [OF o1]]) (auto simp: same_image_def)
  next
    case 3
    let ?k = "k\<lparr>xspeed := clamp_velocity (xspeed o1), yspeed := clamp_velocity (yspeed o1)\<rparr>"
    from 3 have "move os p x y 2 s = Some (s\<lparr>heap := (heap s)(ball s \<mapsto> ?k),
        world := transmit_ball_speed os (clamp_velocity (xspeed o1)) (clamp_velocity (yspeed o1)) (world s)\<rparr>)"
      using layer by (intro move_hit [OF o1]) simp
    then show ?thesis by (rule ball [of _ ?k k, OF _ moves_only_two [OF k, of ?k] _ _ _ k]) (simp_all add: same_image_def)
  next
    case 4
    then show ?thesis
      using layer
      by (intro free [OF _ _ move_free [OF o1] moves_only_heap [OF o1]]) (auto simp: same_image_def)
  qed
qed

section \<open>A concrete table\<close>

definition plain_sprite :: "nat \<Rightarrow> nat \<Rightarrow> int \<Rightarrow> int \<Rightarrow> sprite" where
  "plain_sprite w h x y = \<lparr>sp_x = x, sp_y = y, sp_width = of_nat w, sp_height = of_nat h, xspeed = 0, yspeed = 0,
     sp_map = Some (replicate (w * h * 4) 0), selected = False, visibility = True\<rparr>"

text \<open>The kick-off position: red puck, blue puck and ball at the addresses 1, 2 and 3.\<close>

definition table_heap :: "ptr \<rightharpoonup> sprite" where
  "table_heap = [1 \<mapsto> plain_sprite 80 80 535 55, 2 \<mapsto> plain_sprite 80 80 535 730, 3 \<mapsto> plain_sprite 50 50 550 410]"

definition table :: "bench arena" where
  "table = \<lparr>world = \<lparr>replies = [], writes = []\<rparr>, heap = table_heap, brk = 4, main_buffer = None,
     secondary_buffer = None, vram_size = 0, h_res = 1152, v_res = 864, bytes_per_pixel = 4,
     memory_model = 6, red_mask_size = 8, red_field_position = 16, green_mask_size = 8,
     green_field_position = 8, blue_mask_size = 8, blue_field_position = 0, vram_base = 0xE0000000,
     redpuck = 1, bluepuck = 2, ball = 3, player_1_score = 0, player_2_score = 0, is_main_pc = True\<rparr>"

lemma table_fields [simp]:
  "redpuck table = 1" "bluepuck table = 2" "ball table = 3" "bytes_per_pixel table = 4" "is_main_pc table"
  "player_1_score table = 0" "player_2_score table = 0" "heap table = table_heap"
  by (simp_all add: table_def)

lemma table_deref [simp]:
  "deref table_heap (Suc 0) = Some (plain_sprite 80 80 535 55)" "deref table_heap 2 = Some (plain_sprite 80 80 535 730)"
  "deref table_heap 3 = Some (plain_sprite 50 50 550 410)"
  by (simp_all add: table_heap_def deref_def)

lemma plain_fields [simp]:
  "sp_x (plain_sprite w h x y) = x" "sp_y (plain_sprite w h x y) = y" "xspeed (plain_sprite w h x y) = 0"
  "yspeed (plain_sprite w h x y) = 0" "sp_width (plain_sprite w h x y) = of_nat w"
  "sp_height (plain_sprite w h x y) = of_nat h"
  by (simp_all add: plain_sprite_def)

lemma plain_shaped:
  "shaped 4 80 80 (plain_sprite 80 80 x y)" "shaped 4 50 50 (plain_sprite 50 50 x y)" "indexable 4 (plain_sprite 12 19 x y)"
  by (simp_all add: shaped_def indexable_def pixmap_ok_def plain_sprite_def)

lemma table_ok: "arena_ok table"
  by (simp add: arena_ok_def plain_shaped)

section \<open>Pucks and mouse\<close>

definition bottom_half :: "sprite \<Rightarrow> bool" where
  "bottom_half o1 \<longleftrightarrow> in_area o1 \<and> 432 \<le> sp_y o1"

definition top_half :: "sprite \<Rightarrow> bool" where
  "top_half o1 \<longleftrightarrow> in_area o1 \<and> sp_y o1 + uint (sp_height o1) \<le> 432"

lemma puck_move_half:
  assumes ok: "arena_ok s" and p: "p = redpuck s \<or> p = bluepuck s" and o1: "deref (heap s) p = Some o1"
    and dy: "\<bar>sint y\<bar> \<le> 411"
  shows "\<exists>s' o2. move os p x y 2 s = Some s' \<and> deref (heap s') p = Some o2 \<and> moves_only s s' \<and>
    (bottom_half o1 \<longrightarrow> bottom_half o2) \<and> (top_half o1 \<longrightarrow> top_half o2)"
proof -
  have size: "uint (sp_width o1) = 80" "uint (sp_height o1) = 80"
    using ok p o1 shapedD [of "bytes_per_pixel s" 80 80 o1] by (auto simp: arena_ok_def)
  have nb: "p \<noteq> ball s" "p \<noteq> NULL" using ok p o1 by (auto simp: arena_ok_def dest: deref_SomeD)
  note defs = bottom_half_def top_half_def in_area_def fits_at_def size
  from ok p o1 show ?thesis
  proof (cases rule: puck_move [where os = os and x = x and y = y])
    case (wall s')
    then show ?thesis using nb dy by (auto simp: defs)
  next
    case (middle s')
    then show ?thesis using nb by (auto simp: defs detect_middle_field_collision_def middle_field_def split: if_splits)
  next
    case (ball s' k)
    then show ?thesis using nb o1 by auto
  next
    case (free s')
    then show ?thesis using nb by (auto simp: defs detect_middle_field_collision_def middle_field_def split: if_splits)
  qed
qed

text \<open>C9 (A puck keeps to its half): a move of a puck by at most 411 lines always returns, and a
  puck that is inside the play area and in one half of it is so afterwards, whatever walls, middle
  line or ball it meets.  A mouse packet moves by at most 256 lines.\<close>

theorem puck_stays_in_half:
  assumes "arena_ok s" and "p = redpuck s \<or> p = bluepuck s" and "deref (heap s) p = Some o1"
    and "\<bar>sint y\<bar> \<le> 411"
  shows "\<exists>s' o2. move os p x y 2 s = Some s' \<and> deref (heap s') p = Some o2 \<and>
    (bottom_half o1 \<longrightarrow> bottom_half o2) \<and> (top_half o1 \<longrightarrow> top_half o2)"
  using puck_move_half [OF assms] by blast

theorem puck_stays_in_half_witness:
  "\<exists>s' o2. move (steady_os 0) 2 0xFF80 0x00FF 2 table = Some s' \<and> deref (heap s') 2 = Some o2 \<and> bottom_half o2"
proof -
  have d: "deref (heap table) 2 = Some (plain_sprite 80 80 535 730)" by simp
  have "bottom_half (plain_sprite 80 80 535 730)"
    by (simp add: bottom_half_def in_area_def fits_at_def)
  moreover have "2 = redpuck table \<or> 2 = bluepuck table" "\<bar>sint (0x00FF :: i16)\<bar> \<le> 411" by simp_all
  ultimately show ?thesis
    using puck_stays_in_half [OF table_ok _ d, of "0x00FF" "steady_os 0" "0xFF80"] by blast
qed

text \<open>C31 (the bound is sharp): a downward move of 412 lines or more, which only the serial link can
  ask for, carries a puck that touches the middle line from above past the bottom wall, and the
  wall puts it into the other half.\<close>

theorem puck_leaves_half:
  assumes "arena_ok s" and "p = redpuck s \<or> p = bluepuck s" and "deref (heap s) p = Some o1"
    and "top_half o1" and "sp_y o1 = 352" and "sint y \<le> - 412"
  shows "\<exists>s' o2. move os p 0 y 2 s = Some s' \<and> deref (heap s') p = Some o2 \<and> sp_y o2 = 763 \<and> bottom_half o2"
proof -
  have size: "uint (sp_width o1) = 80" "uint (sp_height o1) = 80"
    using assms(1-3) shapedD [of "bytes_per_pixel s" 80 80 o1] by (auto simp: arena_ok_def)
  have nb: "p \<noteq> NULL" using assms(3) by (auto dest: deref_SomeD)
  obtain k where k: "deref (heap s) (ball s) = Some k" using assms(1) by (auto simp: arena_ok_def)
  let ?o2 = "stop_at_walls (sp_y o1 - sint y < 21) (879 < sp_x o1 + sint (0 :: i16) + uint (sp_width o1))
    (843 < sp_y o1 - sint y + uint (sp_height o1)) (sp_x o1 + sint (0 :: i16) < 273) o1"
  have "\<not> fits_at o1 (sp_x o1 + sint (0 :: i16)) (sp_y o1 - sint y)" using assms(5,6) by (simp add: fits_at_def size)
  then have "move os p 0 y 2 s = Some (s\<lparr>heap := (heap s)(p \<mapsto> ?o2)\<rparr>)"
    using puck_layer [OF assms(1-3) k, of os "sp_x o1 + sint (0 :: i16)" "sp_y o1 - sint y"]
    by (intro move_hit [OF assms(3)]) simp
  moreover have "sp_y ?o2 = 763" "bottom_half ?o2"
    using assms(4-6) by (auto simp: size bottom_half_def top_half_def in_area_def fits_at_def)
  ultimately show ?thesis using nb by simp
qed

definition middle_table :: "bench arena" where
  "middle_table = table\<lparr>heap := table_heap(1 \<mapsto> plain_sprite 80 80 535 352)\<rparr>"

theorem puck_leaves_half_witness:
  "\<exists>s' o2. move (steady_os 0) 1 0 0xFE00 2 middle_table = Some s' \<and> deref (heap s') 1 = Some o2 \<and> sp_y o2 = 763"
proof -
  have ok: "arena_ok middle_table" by (simp add: middle_table_def arena_ok_def plain_shaped)
  have d: "deref (heap middle_table) 1 = Some (plain_sprite 80 80 535 352)" by (simp add: middle_table_def)
  have t: "top_half (plain_sprite 80 80 535 352)" by (simp add: top_half_def in_area_def fits_at_def)
  have y: "sint (0xFE00 :: i16) \<le> - 412" by simp
  have p: "1 = redpuck middle_table \<or> 1 = bluepuck middle_table" by (simp add: middle_table_def)
  from puck_leaves_half [OF ok p d t _ y, of "steady_os 0"] show ?thesis by auto
qed

lemma mouse_move:
  assumes "deref (heap s) p = Some o1" and "p \<noteq> ball s" and "in_area o1"
  shows "\<exists>s' o2. move os p x y 0 s = Some s' \<and> deref (heap s') p = Some o2 \<and> moves_only s s' \<and>
    same_image o1 o2 \<and> in_area o2 \<and> heap s' = (heap s)(p \<mapsto> o2) \<and>
    player_1_score s' = player_1_score s \<and> player_2_score s' = player_2_score s"
proof -
  have nb: "p \<noteq> NULL" using assms(1) by (auto dest: deref_SomeD)
  let ?nx = "sp_x o1 + sint x" and ?ny = "sp_y o1 - sint y"
  have size: "0 \<le> uint (sp_width o1)" "0 \<le> uint (sp_height o1)" by simp_all
  show ?thesis
  proof (cases "fits_at o1 ?nx ?ny")
    case True
    let ?o2 = "o1\<lparr>sp_x := ?nx, sp_y := ?ny, xspeed := sint x, yspeed := sint y\<rparr>"
    have img: "same_image o1 ?o2" by (simp add: same_image_def)
    let ?s' = "s\<lparr>heap := (heap s)(p \<mapsto> ?o2)\<rparr>"
    have "move os p x y 0 s = Some ?s'"
      using True mouse_layer [OF assms(1)] by (intro move_free [OF assms(1)]) simp
    moreover have "in_area ?o2" using True by (simp add: in_area_def fits_at_def)
    ultimately show ?thesis using moves_only_heap [OF assms(1) img] img nb by (intro exI [of _ "?s'"] exI [of _ ?o2]) simp
  next
    case False
    let ?o2 = "stop_at_walls (?ny < 21) (879 < ?nx + uint (sp_width o1)) (843 < ?ny + uint (sp_height o1)) (?nx < 273) o1"
    have img: "same_image o1 ?o2" by (simp add: same_image_def)
    let ?s' = "s\<lparr>heap := (heap s)(p \<mapsto> ?o2)\<rparr>"
    have "move os p x y 0 s = Some ?s'"
      using False mouse_layer [OF assms(1)] handle_walls [OF assms(1)] assms(2)
      by (intro move_hit [OF assms(1)]) simp
    moreover have "in_area ?o2" using assms(3) by (auto simp: in_area_def fits_at_def)
    ultimately show ?thesis using moves_only_heap [OF assms(1) img] img nb by (intro exI [of _ "?s'"] exI [of _ ?o2]) simp
  qed
qed

text \<open>The pointer stays on the table: a move in the mouse layer, by any displacement, returns
  and keeps a sprite inside the play area.\<close>

theorem mouse_stays_in_area:
  assumes "deref (heap s) p = Some o1" and "p \<noteq> ball s" and "in_area o1"
  shows "\<exists>s' o2. move os p x y 0 s = Some s' \<and> deref (heap s') p = Some o2 \<and> in_area o2"
  using mouse_move [OF assms] by blast

theorem mouse_stays_in_area_witness:
  "\<exists>s' o2. move (steady_os 0) 1 0x7FFF 0x8000 0 table = Some s' \<and> deref (heap s') 1 = Some o2 \<and> in_area o2"
proof -
  have "deref (heap table) 1 = Some (plain_sprite 80 80 535 55)" "1 \<noteq> ball table"
    "in_area (plain_sprite 80 80 535 55)"
    by (simp_all add: in_area_def fits_at_def)
  from mouse_stays_in_area [OF this] show ?thesis .
qed

section \<open>The ball\<close>

text \<open>Inside the play area, and no faster than the maximal velocity.\<close>

definition ball_ok :: "sprite \<Rightarrow> bool" where
  "ball_ok k \<longleftrightarrow> in_area k \<and> \<bar>xspeed k\<bar> \<le> 8 \<and> \<bar>yspeed k\<bar> \<le> 8"

lemma bounced_range: "ball_ok k \<Longrightarrow> \<bar>fst (bounced k o2)\<bar> \<le> 8 \<and> \<bar>snd (bounced k o2)\<bar> \<le> 8"
  by (auto simp: bounced_def ball_ok_def clamp_velocity_range)

text \<open>The move of the ball in \<^verbatim>\<open>timer_int\<close>, with the \<^verbatim>\<open>int\<close> speeds passed as \<^verbatim>\<open>int16_t\<close>.\<close>

lemma ball_speed16:
  assumes "\<bar>xspeed k\<bar> < 32768" and "\<bar>yspeed k\<bar> < 32768"
  shows "sint (word_of_int (xspeed k) :: i16) = xspeed k" "sint (word_of_int (yspeed k) :: i16) = yspeed k"
  using assms by (auto intro!: sint_word_of_int16)

lemma ball_move:
  assumes ok: "arena_ok s" and k: "deref (heap s) (ball s) = Some k"
  obtains (goal) s' where "goal_top k (sp_x k + sint x) (sp_y k - sint y) \<or> goal_bottom k (sp_x k + sint x) (sp_y k - sint y)"
      "move os (ball s) x y 1 s = Some s'" "moves_only s s'" "heap s' = (heap s)(ball s \<mapsto> kick_off k)"
      "player_1_score s' = player_1_score s + (if goal_bottom k (sp_x k + sint x) (sp_y k - sint y) then 1 else 0)"
      "player_2_score s' = player_2_score s + (if goal_top k (sp_x k + sint x) (sp_y k - sint y) then 1 else 0)"
  | (stay) s' k' where "\<not> goal_top k (sp_x k + sint x) (sp_y k - sint y)" "\<not> goal_bottom k (sp_x k + sint x) (sp_y k - sint y)"
      "move os (ball s) x y 1 s = Some s'" "moves_only s s'" "heap s' = (heap s)(ball s \<mapsto> k')"
      "player_1_score s' = player_1_score s" "player_2_score s' = player_2_score s"
      "sp_x k' = sp_x k" "sp_y k' = sp_y k" "same_image k k'"
      "\<bar>xspeed k'\<bar> \<le> max \<bar>xspeed k\<bar> 8" "\<bar>yspeed k'\<bar> \<le> max \<bar>yspeed k\<bar> 8"
  | (free) s' where "\<not> goal_top k (sp_x k + sint x) (sp_y k - sint y)" "\<not> goal_bottom k (sp_x k + sint x) (sp_y k - sint y)"
      "fits_at k (sp_x k + sint x) (sp_y k - sint y)"
      "move os (ball s) x y 1 s = Some s'" "moves_only s s'"
      "heap s' = (heap s)(ball s \<mapsto>
         k\<lparr>sp_x := sp_x k + sint x, sp_y := sp_y k - sint y, xspeed := sint x, yspeed := sint y\<rparr>)"
      "player_1_score s' = player_1_score s" "player_2_score s' = player_2_score s"
proof -
  obtain r b where r: "deref (heap s) (redpuck s) = Some r" and b: "deref (heap s) (bluepuck s) = Some b"
    using ok by (auto simp: arena_ok_def)
  let ?nx = "sp_x k + sint x" and ?ny = "sp_y k - sint y"
  let ?hit = "\<lambda>o2. is_main_pc s \<and> overlap (unat (bytes_per_pixel s)) k ?nx ?ny o2"
  note layer = ball_layer [OF ok k r b, of os ?nx ?ny]
  have bounce: thesis
    if g: "\<not> goal_top k ?nx ?ny" "\<not> goal_bottom k ?nx ?ny"
      and m: "move os (ball s) x y 1 s = Some (s\<lparr>
         heap := (heap s)(ball s \<mapsto> k\<lparr>xspeed := fst (bounced k o2), yspeed := snd (bounced k o2)\<rparr>),
         world := transmit_ball_speed os (fst (bounced k o2)) (snd (bounced k o2)) (world s)\<rparr>)" for o2
  proof (rule stay [OF g m moves_only_two [OF k]])
    show "\<bar>xspeed (k\<lparr>xspeed := fst (bounced k o2), yspeed := snd (bounced k o2)\<rparr>)\<bar> \<le> max \<bar>xspeed k\<bar> 8"
      using clamp_velocity_range [of "xspeed o2"] by (simp add: bounced_def le_max_iff_disj)
    show "\<bar>yspeed (k\<lparr>xspeed := fst (bounced k o2), yspeed := snd (bounced k o2)\<rparr>)\<bar> \<le> max \<bar>yspeed k\<bar> 8"
      using clamp_velocity_range [of "yspeed o2"] by (simp add: bounced_def le_max_iff_disj)
  qed (simp_all add: same_image_def)
  consider (goal) "goal_top k ?nx ?ny \<or> goal_bottom k ?nx ?ny"
    | (wall) "\<not> goal_top k ?nx ?ny" "\<not> goal_bottom k ?nx ?ny" "\<not> fits_at k ?nx ?ny"
    | (red) "\<not> goal_top k ?nx ?ny" "\<not> goal_bottom k ?nx ?ny" "fits_at k ?nx ?ny" "?hit r"
    | (blue) "\<not> goal_top k ?nx ?ny" "\<not> goal_bottom k ?nx ?ny" "fits_at k ?nx ?ny" "\<not> ?hit r" "?hit b"
    | (none) "\<not> goal_top k ?nx ?ny" "\<not> goal_bottom k ?nx ?ny" "fits_at k ?nx ?ny" "\<not> ?hit r" "\<not> ?hit b"
    by blast
  then show thesis
  proof cases
    case goal
    let ?s1 = "s\<lparr>player_1_score := player_1_score s + (if goal_bottom k ?nx ?ny then 1 else 0),
                 player_2_score := player_2_score s + (if goal_top k ?nx ?ny then 1 else 0)\<rparr>"
    let ?s2 = "?s1\<lparr>heap := (heap s)(ball s \<mapsto> kick_off k)\<rparr>"
    have img: "same_image k (kick_off k)" by (simp add: same_image_def kick_off_def)
    have h: "heap ?s1 = heap s" by simp
    have "deref (heap ?s1) (ball s) = Some k" using k by (simp only: h)
    from moves_only_heap [OF this img] have "moves_only ?s1 ?s2" unfolding h .
    with moves_only_trans [OF moves_only_score(1) moves_only_score(2)] have mo: "moves_only s ?s2"
      by (rule moves_only_trans)
    have m: "move os (ball s) x y 1 s = Some ?s2"
      using layer goal by (intro move_hit [OF k]) (simp only: if_True)
    show ?thesis by (rule that(1) [OF goal m mo]) simp_all
  next
    case wall
    let ?k = "reflect_at_walls (?ny < 21) (879 < ?nx + uint (sp_width k)) (843 < ?ny + uint (sp_height k)) (?nx < 273) k"
    have img: "same_image k ?k" by (simp add: same_image_def)
    have m: "move os (ball s) x y 1 s = Some (s\<lparr>heap := (heap s)(ball s \<mapsto> ?k)\<rparr>)"
      using wall layer by (intro move_hit [OF k]) (simp only: simp_thms if_True if_False)
    show ?thesis
      by (rule stay [OF wall(1,2) m moves_only_heap [OF k img] _ _ _ _ _ img]) simp_all
  next
    case red
    show ?thesis
      by (rule bounce [OF red(1,2) move_hit [OF k, of os x y 1]])
        (use layer red in \<open>simp only: simp_thms if_True if_False\<close>)
  next
    case blue
    show ?thesis
      by (rule bounce [OF blue(1,2) move_hit [OF k, of os x y 1]])
        (use layer blue in \<open>simp only: simp_thms if_True if_False\<close>)
  next
    case none
    let ?k = "k\<lparr>sp_x := ?nx, sp_y := ?ny, xspeed := sint x, yspeed := sint y\<rparr>"
    have m: "move os (ball s) x y 1 s = Some (s\<lparr>heap := (heap s)(ball s \<mapsto> ?k)\<rparr>)"
      using none layer by (intro move_free [OF k]) (simp only: simp_thms if_True if_False)
    have img: "same_image k ?k" by (simp add: same_image_def)
    show ?thesis by (rule free [OF none(1-3) m moves_only_heap [OF k img]]) simp_all
  qed
qed

text \<open>C10 (the ball stays on the table, within its speed): moving the ball by its own speed always
  returns, and keeps it inside the play area with both components of the speed at most 8 in size,
  whether it scores, meets a wall, meets a puck or moves freely.\<close>

theorem ball_stays_on_table:
  assumes "arena_ok s" and "deref (heap s) (ball s) = Some k" and "ball_ok k"
  shows "\<exists>s' k'. move os (ball s) (word_of_int (xspeed k)) (word_of_int (yspeed k)) 1 s = Some s' \<and>
    arena_ok s' \<and> deref (heap s') (ball s') = Some k' \<and> ball_ok k'"
proof -
  have size: "uint (sp_width k) = 50" "uint (sp_height k) = 50"
    using assms(1,2) shapedD [of "bytes_per_pixel s" 50 50 k] by (auto simp: arena_ok_def)
  have nb: "ball s \<noteq> NULL" using assms(2) by (auto dest: deref_SomeD)
  have sp: "sint (word_of_int (xspeed k) :: i16) = xspeed k" "sint (word_of_int (yspeed k) :: i16) = yspeed k"
    using assms(3) by (auto simp: ball_ok_def intro!: ball_speed16)
  from assms(1,2) show ?thesis
  proof (cases rule: ball_move [where os = os and x = "word_of_int (xspeed k)" and y = "word_of_int (yspeed k)"])
    case (goal s')
    then show ?thesis using nb arena_ok_moves [OF assms(1) goal(3)] moves_only_fields [OF goal(3)]
      by (auto simp: kick_off_def ball_ok_def in_area_def fits_at_def size)
  next
    case (stay s' k')
    then show ?thesis using nb arena_ok_moves [OF assms(1) stay(4)] moves_only_fields [OF stay(4)] assms(3)
      by (auto simp: ball_ok_def in_area_def fits_at_def same_image_def)
  next
    case (free s')
    then show ?thesis using nb arena_ok_moves [OF assms(1) free(5)] moves_only_fields [OF free(5)] assms(3)
      by (auto simp: ball_ok_def in_area_def fits_at_def sp)
  qed
qed

text \<open>A ball moving at full speed towards the right bottom, for the closed instances.\<close>

definition fast_ball :: "int \<Rightarrow> int \<Rightarrow> sprite" where
  "fast_ball x y = (plain_sprite 50 50 x y)\<lparr>xspeed := 8, yspeed := - 8\<rparr>"

definition fast_table :: "int \<Rightarrow> int \<Rightarrow> bench arena" where
  "fast_table x y = table\<lparr>heap := table_heap(3 \<mapsto> fast_ball x y)\<rparr>"

lemma fast_table_simps [simp]:
  "redpuck (fast_table x y) = 1" "bluepuck (fast_table x y) = 2" "ball (fast_table x y) = 3"
  "bytes_per_pixel (fast_table x y) = 4" "is_main_pc (fast_table x y)" "player_1_score (fast_table x y) = 0"
  "player_2_score (fast_table x y) = 0" "deref (heap (fast_table x y)) 3 = Some (fast_ball x y)"
  "deref (heap (fast_table x y)) (Suc 0) = Some (plain_sprite 80 80 535 55)"
  "deref (heap (fast_table x y)) 2 = Some (plain_sprite 80 80 535 730)"
  "sp_x (fast_ball x y) = x" "sp_y (fast_ball x y) = y" "xspeed (fast_ball x y) = 8" "yspeed (fast_ball x y) = - 8"
  "sp_width (fast_ball x y) = 50" "sp_height (fast_ball x y) = 50"
  by (simp_all add: fast_table_def fast_ball_def)

lemma fast_table_ok: "arena_ok (fast_table x y)"
  by (simp add: arena_ok_def plain_shaped shaped_def indexable_def pixmap_ok_def)
    (simp add: fast_ball_def plain_sprite_def)

theorem ball_stays_on_table_witness:
  "\<exists>s' k'. move (steady_os 0) 3 (word_of_int 8) (word_of_int (- 8)) 1 (fast_table 600 700) = Some s' \<and>
     arena_ok s' \<and> deref (heap s') (ball s') = Some k' \<and> ball_ok k'"
proof -
  have k: "deref (heap (fast_table 600 700)) (ball (fast_table 600 700)) = Some (fast_ball 600 700)" by simp
  have b: "ball_ok (fast_ball 600 700)" by (simp add: ball_ok_def in_area_def fits_at_def)
  from ball_stays_on_table [OF fast_table_ok k b, of "steady_os 0"] show ?thesis
    by (simp only: fast_table_simps)
qed

text \<open>C12 (goals): when the ball's next position crosses a goal line between the posts, the move
  gives one point to the player who scored and to nobody else, and puts the ball at rest on the
  kick-off spot.\<close>

theorem goal_scores_once:
  assumes "arena_ok s" and "deref (heap s) (ball s) = Some k"
    and "476 \<le> sp_x k + sint x" and "sp_x k + sint x + 50 \<le> 676"
    and "sp_y k - sint y \<le> 21 \<or> 793 \<le> sp_y k - sint y"
  shows "\<exists>s'. move os (ball s) x y 1 s = Some s' \<and>
    deref (heap s') (ball s) = Some (k\<lparr>sp_x := 550, sp_y := 410, xspeed := 0, yspeed := 0\<rparr>) \<and>
    (player_1_score s', player_2_score s') =
      (if sp_y k - sint y \<le> 21 then (player_1_score s, player_2_score s + 1)
       else (player_1_score s + 1, player_2_score s))"
proof -
  have size: "uint (sp_width k) = 50" "uint (sp_height k) = 50"
    using assms(1,2) shapedD [of "bytes_per_pixel s" 50 50 k] by (auto simp: arena_ok_def)
  have nb: "ball s \<noteq> NULL" using assms(2) by (auto dest: deref_SomeD)
  have g: "goal_top k (sp_x k + sint x) (sp_y k - sint y) \<longleftrightarrow> sp_y k - sint y \<le> 21"
    "goal_bottom k (sp_x k + sint x) (sp_y k - sint y) \<longleftrightarrow> 793 \<le> sp_y k - sint y"
    using assms(3,4) by (auto simp: goal_top_def goal_bottom_def size)
  from assms(1,2) show ?thesis
  proof (cases rule: ball_move [where os = os and x = x and y = y])
    case (goal s')
    then show ?thesis using nb assms(5) by (auto simp: g kick_off_def)
  qed (use assms(5) g in simp_all)
qed

theorem goal_scores_once_witness:
  "\<exists>s'. move (steady_os 0) 3 8 0xFFF8 1 (fast_table 550 790) = Some s' \<and> player_1_score s' = 1 \<and> player_2_score s' = 0"
proof -
  have k: "deref (heap (fast_table 550 790)) (ball (fast_table 550 790)) = Some (fast_ball 550 790)" by simp
  have v: "sint (8 :: i16) = 8" "sint (0xFFF8 :: i16) = - 8" by simp_all
  have "\<exists>s'. move (steady_os 0) (ball (fast_table 550 790)) 8 0xFFF8 1 (fast_table 550 790) = Some s' \<and>
    deref (heap s') (ball (fast_table 550 790)) = Some ((fast_ball 550 790)\<lparr>sp_x := 550, sp_y := 410, xspeed := 0, yspeed := 0\<rparr>) \<and>
    (player_1_score s', player_2_score s') =
      (if sp_y (fast_ball 550 790) - sint (0xFFF8 :: i16) \<le> 21
       then (player_1_score (fast_table 550 790), player_2_score (fast_table 550 790) + 1)
       else (player_1_score (fast_table 550 790) + 1, player_2_score (fast_table 550 790)))"
    by (rule goal_scores_once [OF fast_table_ok k]) (simp_all add: v)
  then show ?thesis by (auto simp: v)
qed

text \<open>C29 (the walls reflect the ball): a ball whose next position crosses walls of the play area,
  and is not a goal, stays where it is, and exactly the components of its speed that point into
  a wall are reversed.\<close>

theorem ball_reflects:
  assumes "arena_ok s" and "deref (heap s) (ball s) = Some k"
    and "\<not> (476 \<le> sp_x k + sint x \<and> sp_x k + sint x + 50 \<le> 676)"
    and "sp_x k + sint x < 273 \<or> 829 < sp_x k + sint x \<or> sp_y k - sint y < 21 \<or> 793 < sp_y k - sint y"
  shows "\<exists>s' k'. move os (ball s) x y 1 s = Some s' \<and> deref (heap s') (ball s) = Some k' \<and>
    sp_x k' = sp_x k \<and> sp_y k' = sp_y k \<and>
    xspeed k' = (if sp_x k + sint x < 273 \<or> 829 < sp_x k + sint x then - xspeed k else xspeed k) \<and>
    yspeed k' = (if sp_y k - sint y < 21 \<or> 793 < sp_y k - sint y then - yspeed k else yspeed k)"
proof -
  obtain r b where r: "deref (heap s) (redpuck s) = Some r" and b: "deref (heap s) (bluepuck s) = Some b"
    using assms(1) by (auto simp: arena_ok_def)
  have size: "uint (sp_width k) = 50" "uint (sp_height k) = 50"
    using assms(1,2) shapedD [of "bytes_per_pixel s" 50 50 k] by (auto simp: arena_ok_def)
  have nb: "ball s \<noteq> NULL" using assms(2) by (auto dest: deref_SomeD)
  let ?nx = "sp_x k + sint x" and ?ny = "sp_y k - sint y"
  let ?k = "reflect_at_walls (?ny < 21) (879 < ?nx + uint (sp_width k)) (843 < ?ny + uint (sp_height k)) (?nx < 273) k"
  have "\<not> goal_top k ?nx ?ny" "\<not> goal_bottom k ?nx ?ny" using assms(3) by (auto simp: goal_top_def goal_bottom_def size)
  moreover have "\<not> fits_at k ?nx ?ny" using assms(4) by (auto simp: fits_at_def size)
  ultimately have "move os (ball s) x y 1 s = Some (s\<lparr>heap := (heap s)(ball s \<mapsto> ?k)\<rparr>)"
    using ball_layer [OF assms(1,2) r b, of os ?nx ?ny] by (intro move_hit [OF assms(2)]) simp
  then show ?thesis using nb
    by (intro exI [of _ "s\<lparr>heap := (heap s)(ball s \<mapsto> ?k)\<rparr>"] exI [of _ ?k]) (auto simp: size)
qed

theorem ball_reflects_witness:
  "\<exists>s' k'. move (steady_os 0) 3 8 0xFFF8 1 (fast_table 825 790) = Some s' \<and> deref (heap s') 3 = Some k' \<and>
     sp_x k' = 825 \<and> xspeed k' = - 8 \<and> yspeed k' = 8"
proof -
  have k: "deref (heap (fast_table 825 790)) (ball (fast_table 825 790)) = Some (fast_ball 825 790)" by simp
  have v: "sint (8 :: i16) = 8" "sint (0xFFF8 :: i16) = - 8" by simp_all
  have "\<exists>s' k'. move (steady_os 0) (ball (fast_table 825 790)) 8 0xFFF8 1 (fast_table 825 790) = Some s' \<and>
    deref (heap s') (ball (fast_table 825 790)) = Some k' \<and>
    sp_x k' = sp_x (fast_ball 825 790) \<and> sp_y k' = sp_y (fast_ball 825 790) \<and>
    xspeed k' = (if sp_x (fast_ball 825 790) + sint (8 :: i16) < 273 \<or> 829 < sp_x (fast_ball 825 790) + sint (8 :: i16)
      then - xspeed (fast_ball 825 790) else xspeed (fast_ball 825 790)) \<and>
    yspeed k' = (if sp_y (fast_ball 825 790) - sint (0xFFF8 :: i16) < 21 \<or> 793 < sp_y (fast_ball 825 790) - sint (0xFFF8 :: i16)
      then - yspeed (fast_ball 825 790) else yspeed (fast_ball 825 790))"
    by (rule ball_reflects [OF fast_table_ok k]) (simp_all add: v)
  then show ?thesis by (auto simp: v)
qed

section \<open>Who decides a collision\<close>


text \<open>The blue puck just below the ball, moving up by 20.\<close>

definition kick_table :: "bench arena" where
  "kick_table = table\<lparr>heap := table_heap(2 \<mapsto> (plain_sprite 80 80 535 470)\<lparr>xspeed := 3, yspeed := 20\<rparr>)\<rparr>"

lemma px_replicate: "i * b + b \<le> n \<Longrightarrow> px b (replicate n v) i = replicate b v"
  by (simp add: px_def min_def)

theorem detect_collision_exact_witness:
  "detect_collision table 2 540 400 3 = Some True \<and> detect_collision table 2 540 500 3 = Some False"
proof -
  let ?b = "plain_sprite 80 80 535 730" and ?k = "plain_sprite 50 50 550 410"
  have d: "(2 :: ptr) \<noteq> 3" "deref (heap table) 2 = Some ?b" "deref (heap table) 3 = Some ?k"
    "indexable (bytes_per_pixel table) ?b" "indexable (bytes_per_pixel table) ?k"
    using plain_shaped by (simp_all add: shaped_def)
  have op: "opaque (replicate 4 0)" by code_simp
  have "opaque_at 4 ?b 20 20" "opaque_at 4 ?k 10 10"
    using op by (simp_all add: opaque_at_def plain_sprite_def px_replicate)
  then have "overlap 4 ?b 540 400 ?k" unfolding overlap_def by (intro exI [of _ 560] exI [of _ 420]) simp
  moreover have "\<not> overlap 4 ?b 540 500 ?k" by (auto simp: overlap_def)
  ultimately show ?thesis
    using detect_collision_exact [OF d, of 540 400] detect_collision_exact [OF d, of 540 500]
    unfolding overlap_def by simp
qed


lemma layer_quiet:
  assumes "detect_collision_in_layer os object new_x new_y layer s = Some (hit, s')" and "\<not> is_main_pc s"
  shows "world s' = world s"
  using assms
  by (auto simp: detect_collision_in_layer_def wall_info goal_eq handle_play_area_collision_def update_sprite_def
      Let_def split: if_splits prod.splits dest!: bind_SomeD)

text \<open>C30 (only the main computer decides): on the other computer no move, of any object in any
  layer, sends anything over the link.\<close>

theorem only_main_pc_transmits:
  assumes "move os object x y layer s = Some s'" and "\<not> is_main_pc s"
  shows "world s' = world s"
  using assms
  by (auto simp: move_def update_sprite_def Let_def split: if_splits prod.splits dest!: bind_SomeD layer_quiet)

theorem only_main_pc_transmits_witness:
  "\<exists>s'. move (steady_os 0) 2 3 20 2 (kick_table\<lparr>is_main_pc := False\<rparr>) = Some s' \<and> world s' = world kick_table"
proof -
  have ok: "arena_ok (kick_table\<lparr>is_main_pc := False\<rparr>)"
    by (simp add: kick_table_def arena_ok_def plain_shaped) (simp add: plain_sprite_def shaped_def indexable_def pixmap_ok_def)
  have "deref (heap (kick_table\<lparr>is_main_pc := False\<rparr>)) 2 = Some ((plain_sprite 80 80 535 470)\<lparr>xspeed := 3, yspeed := 20\<rparr>)"
    "2 = redpuck (kick_table\<lparr>is_main_pc := False\<rparr>) \<or> 2 = bluepuck (kick_table\<lparr>is_main_pc := False\<rparr>)"
    "\<bar>sint (20 :: i16)\<bar> \<le> 411"
    by (simp_all add: kick_table_def)
  from puck_move_half [OF ok this(2,1,3), of "steady_os 0" 3] obtain s' where
    m: "move (steady_os 0) 2 3 20 2 (kick_table\<lparr>is_main_pc := False\<rparr>) = Some s'" by blast
  have "world s' = world (kick_table\<lparr>is_main_pc := False\<rparr>)"
    by (rule only_main_pc_transmits [OF m]) simp
  then show ?thesis using m by auto
qed

end
