(* ===== verification/XpmDigits.thy ===== *)
theory XpmDigits
  imports Main
begin

text \<open>
  The pixmaps of the digits, \<^verbatim>\<open>model/xpm/game/\<close>: the rows of each array as the source has them,
  the white ones for clock and time, the red and blue ones for the scores.
\<close>

definition white_zero :: "string list" where
  "white_zero = [
    ''31 31 2 1 '',
    ''  c #FFFFFE'',
    ''. c #FFFFFF'',
    ''         .............         '',
    ''         .............         '',
    ''         .............         '',
    ''         .............         '',
    ''     ....        .........     '',
    ''    .....        .........     '',
    ''    .....        .........     '',
    ''    .....        .........     '',
    ''    .....         ........     '',
    ''.........             .........'',
    ''.........             .........'',
    ''.........             .........'',
    ''.........             .........'',
    ''.........             .........'',
    ''.........             .........'',
    ''.........             .........'',
    ''.........             .........'',
    ''.........             .........'',
    ''.........             .........'',
    ''.........             .........'',
    ''.........             .........'',
    ''.........             .........'',
    ''    .........         ....     '',
    ''    .........         ....     '',
    ''    .........         ....     '',
    ''    .........         ....     '',
    ''         .............         '',
    ''         .............         '',
    ''         .............         '',
    ''         .............         '',
    ''         .............         '']"

definition white_one :: "string list" where
  "white_one = [
    ''27 31 2 1 '',
    ''  c #FFFFFE'',
    ''. c #FFFFFF'',
    ''         .........         '',
    ''         .........         '',
    ''         .........         '',
    ''         .........         '',
    ''     .............         '',
    ''     .............         '',
    ''     .............         '',
    ''     .............         '',
    ''     .............         '',
    ''         .........         '',
    ''         .........         '',
    ''         .........         '',
    ''         .........         '',
    ''         .........         '',
    ''         .........         '',
    ''         .........         '',
    ''         .........         '',
    ''         .........         '',
    ''         .........         '',
    ''         .........         '',
    ''         .........         '',
    ''         .........         '',
    ''         .........         '',
    ''         .........         '',
    ''         .........         '',
    ''         .........         '',
    '' ..........................'',
    ''...........................'',
    ''...........................'',
    ''...........................'',
    '' ......................... '']"

definition white_two :: "string list" where
  "white_two = [
    ''31 31 2 1 '',
    ''  c #FFFFFE'',
    ''. c #FFFFFF'',
    ''    ......................     '',
    ''    ......................     '',
    ''    ......................     '',
    ''    ......................     '',
    ''.........             ........ '',
    ''.........             .........'',
    ''.........             .........'',
    ''.........             .........'',
    ''.........             .........'',
    ''                 ..............'',
    ''                 ..............'',
    ''                 ..............'',
    ''                 ..............'',
    ''         .................     '',
    ''         .................     '',
    ''         .................     '',
    ''         .................     '',
    ''     .....................     '',
    ''    ..................         '',
    ''    ..................         '',
    ''    ..................         '',
    ''    ..................         '',
    ''.............                  '',
    ''.............                  '',
    ''.............                  '',
    ''.............                  '',
    ''...............................'',
    ''...............................'',
    ''...............................'',
    ''...............................'',
    ''.............................. '']"

definition white_three :: "string list" where
  "white_three = [
    ''31 31 2 1 '',
    ''  c #FFFFFE'',
    ''. c #FFFFFF'',
    ''    ...........................'',
    ''    ...........................'',
    ''    ...........................'',
    ''    ...........................'',
    ''                 ..........    '',
    ''                 .........     '',
    ''                 .........     '',
    ''                 .........     '',
    ''                 .........     '',
    ''             .........         '',
    ''             .........         '',
    ''             .........         '',
    ''             .........         '',
    ''         .................     '',
    ''         .................     '',
    ''         .................     '',
    ''         .................     '',
    ''         ..................... '',
    ''                      .........'',
    ''                      .........'',
    ''                      .........'',
    ''                      .........'',
    ''.........             .........'',
    ''.........             .........'',
    ''.........             .........'',
    ''.........             .........'',
    ''    ......................     '',
    ''    ......................     '',
    ''    ......................     '',
    ''    ......................     '',
    ''     .....................     '']"

definition white_four :: "string list" where
  "white_four = [
    ''31 31 2 1 '',
    ''  c #FFFFFE'',
    ''. c #FFFFFF'',
    ''             .............     '',
    ''             .............     '',
    ''             .............     '',
    ''             .............     '',
    ''         .................     '',
    ''         .................     '',
    ''         .................     '',
    ''         .................     '',
    ''         .................     '',
    ''    .........    .........     '',
    ''    .........    .........     '',
    ''    .........    .........     '',
    ''    .........    .........     '',
    ''.........        .........     '',
    ''.........        .........     '',
    ''.........        .........     '',
    ''.........        .........     '',
    ''.............................. '',
    ''...............................'',
    ''...............................'',
    ''...............................'',
    ''...............................'',
    ''                 .........     '',
    ''                 .........     '',
    ''                 .........     '',
    ''                 .........     '',
    ''                 .........     '',
    ''                 .........     '',
    ''                 .........     '',
    ''                 .........     '',
    ''                  ........     '']"

definition white_five :: "string list" where
  "white_five = [
    ''31 31 2 1 '',
    ''  c #FFFFFE'',
    ''. c #FFFFFF'',
    ''..........................     '',
    ''..........................     '',
    ''..........................     '',
    ''..........................     '',
    ''.........                      '',
    ''.........                      '',
    ''.........                      '',
    ''.........                      '',
    ''.........                      '',
    ''..........................     '',
    ''..........................     '',
    ''..........................     '',
    ''..........................     '',
    ''                      .........'',
    ''                      .........'',
    ''                      .........'',
    ''                      .........'',
    ''                      .........'',
    ''                      .........'',
    ''                      .........'',
    ''                      .........'',
    ''                      .........'',
    ''.........             .........'',
    ''.........             .........'',
    ''.........             .........'',
    ''.........             .........'',
    ''    ......................     '',
    ''    ......................     '',
    ''    ......................     '',
    ''    ......................     '',
    ''     .....................     '']"

definition white_six :: "string list" where
  "white_six = [
    ''31 31 2 1 '',
    ''  c #FFFFFF'',
    ''. c #FFFFFE'',
    ''.........                 .....'',
    ''.........                 .....'',
    ''.........                 .....'',
    ''.........                 .....'',
    ''.....        ..................'',
    ''....         ..................'',
    ''....         ..................'',
    ''....         ..................'',
    ''....         ..................'',
    ''         ......................'',
    ''         ......................'',
    ''         ......................'',
    ''         ......................'',
    ''                          .....'',
    ''                          .....'',
    ''                          .....'',
    ''                          .....'',
    ''                              .'',
    ''         .............         '',
    ''         .............         '',
    ''         .............         '',
    ''         .............         '',
    ''         .............         '',
    ''         .............         '',
    ''         .............         '',
    ''         .............         '',
    ''....                      .....'',
    ''....                      .....'',
    ''....                      .....'',
    ''....                      .....'',
    ''.....                     .....'']"

definition white_seven :: "string list" where
  "white_seven = [
    ''31 31 2 1 '',
    ''  c #FFFFFF'',
    ''. c #FFFFFE'',
    ''                               '',
    ''                               '',
    ''                               '',
    ''                               '',
    ''         .............         '',
    ''         .............         '',
    ''         .............         '',
    ''         .............         '',
    ''         .............        .'',
    ''.................         .....'',
    ''.................         .....'',
    ''.................         .....'',
    ''.................         .....'',
    ''.............         .........'',
    ''.............         .........'',
    ''.............         .........'',
    ''.............         .........'',
    ''.........            ..........'',
    ''.........         .............'',
    ''.........         .............'',
    ''.........         .............'',
    ''.........         .............'',
    ''.........         .............'',
    ''.........         .............'',
    ''.........         .............'',
    ''.........         .............'',
    ''.........         .............'',
    ''.........         .............'',
    ''.........         .............'',
    ''.........         .............'',
    ''.........        ..............'']"

definition white_eight :: "string list" where
  "white_eight = [
    ''31 31 2 1 '',
    ''  c #FFFFFF'',
    ''. c #FFFFFE'',
    ''....                  .........'',
    ''....                  .........'',
    ''....                  .........'',
    ''....                  .........'',
    ''         .............    .....'',
    ''         .............    .....'',
    ''         .............    .....'',
    ''         .............    .....'',
    ''         .............    .....'',
    ''             .........    .....'',
    ''             .........    .....'',
    ''             .........    .....'',
    ''             .........    .....'',
    ''....                  .........'',
    ''....                  .........'',
    ''....                  .........'',
    ''....                  .........'',
    ''                              .'',
    ''    .........                  '',
    ''    .........                  '',
    ''    .........                  '',
    ''    .........                  '',
    ''    ..................         '',
    ''    ..................         '',
    ''    ..................         '',
    ''    ..................         '',
    ''....                      .....'',
    ''....                      .....'',
    ''....                      .....'',
    ''....                      .....'',
    ''.....                     .....'']"

definition white_nine :: "string list" where
  "white_nine = [
    ''31 31 2 1 '',
    ''  c #FFFFFF'',
    ''. c #FFFFFE'',
    ''....                      .....'',
    ''....                      .....'',
    ''....                      .....'',
    ''....                      .....'',
    ''         .............        .'',
    ''         .............         '',
    ''         .............         '',
    ''         .............         '',
    ''         .............         '',
    ''         .............         '',
    ''         .............         '',
    ''         .............         '',
    ''         .............         '',
    ''....                           '',
    ''....                           '',
    ''....                           '',
    ''....                           '',
    ''.....                          '',
    ''......................         '',
    ''......................         '',
    ''......................         '',
    ''......................         '',
    ''.................         .....'',
    ''.................         .....'',
    ''.................         .....'',
    ''.................         .....'',
    ''.....                 .........'',
    ''....                  .........'',
    ''....                  .........'',
    ''....                  .........'',
    ''.....                 .........'']"

definition red_zero :: "string list" where
  "red_zero = [
    ''31 31 2 1 '',
    ''  c #FF0000'',
    ''. c #FFFFFE'',
    ''.........             .........'',
    ''.........             .........'',
    ''.........             .........'',
    ''.........             .........'',
    ''.....    ........         .....'',
    ''....     ........         .....'',
    ''....     ........         .....'',
    ''....     ........         .....'',
    ''....     .........        .....'',
    ''         .............         '',
    ''         .............         '',
    ''         .............         '',
    ''         .............         '',
    ''         .............         '',
    ''         .............         '',
    ''         .............         '',
    ''         .............         '',
    ''         .............         '',
    ''         .............         '',
    ''         .............         '',
    ''         .............         '',
    ''         .............         '',
    ''....         .........    .....'',
    ''....         .........    .....'',
    ''....         .........    .....'',
    ''....         .........    .....'',
    ''.........             .........'',
    ''.........             .........'',
    ''.........             .........'',
    ''.........             .........'',
    ''.........             .........'']"

definition red_one :: "string list" where
  "red_one = [
    ''27 31 2 1 '',
    ''  c #FF0000'',
    ''. c #FFFFFE'',
    ''.........         .........'',
    ''.........         .........'',
    ''.........         .........'',
    ''.........         .........'',
    ''.....             .........'',
    ''.....             .........'',
    ''.....             .........'',
    ''.....             .........'',
    ''.....             .........'',
    ''.........         .........'',
    ''.........         .........'',
    ''.........         .........'',
    ''.........         .........'',
    ''.........         .........'',
    ''.........         .........'',
    ''.........         .........'',
    ''.........         .........'',
    ''.........         .........'',
    ''.........         .........'',
    ''.........         .........'',
    ''.........         .........'',
    ''.........         .........'',
    ''.........         .........'',
    ''.........         .........'',
    ''.........         .........'',
    ''.........         .........'',
    ''.                          '',
    ''                           '',
    ''                           '',
    ''                           '',
    ''.                         .'']"

definition red_two :: "string list" where
  "red_two = [
    ''31 31 2 1 '',
    ''  c #FF0000'',
    ''. c #FFFFFE'',
    ''....                      .....'',
    ''....                      .....'',
    ''....                      .....'',
    ''....                      .....'',
    ''         .............        .'',
    ''         .............         '',
    ''         .............         '',
    ''         .............         '',
    ''         .............         '',
    ''.................              '',
    ''.................              '',
    ''.................              '',
    ''.................              '',
    ''.........                 .....'',
    ''.........                 .....'',
    ''.........                 .....'',
    ''.........                 .....'',
    ''.....                     .....'',
    ''....                  .........'',
    ''....                  .........'',
    ''....                  .........'',
    ''....                  .........'',
    ''             ..................'',
    ''             ..................'',
    ''             ..................'',
    ''             ..................'',
    ''                               '',
    ''                               '',
    ''                               '',
    ''                               '',
    ''                              .'']"

definition red_three :: "string list" where
  "red_three = [
    ''31 31 2 1 '',
    ''  c #FF0000'',
    ''. c #FFFFFE'',
    ''....                           '',
    ''....                           '',
    ''....                           '',
    ''....                           '',
    ''.................          ....'',
    ''.................         .....'',
    ''.................         .....'',
    ''.................         .....'',
    ''.................         .....'',
    ''.............         .........'',
    ''.............         .........'',
    ''.............         .........'',
    ''.............         .........'',
    ''.........                 .....'',
    ''.........                 .....'',
    ''.........                 .....'',
    ''.........                 .....'',
    ''.........                     .'',
    ''......................         '',
    ''......................         '',
    ''......................         '',
    ''......................         '',
    ''         .............         '',
    ''         .............         '',
    ''         .............         '',
    ''         .............         '',
    ''....                      .....'',
    ''....                      .....'',
    ''....                      .....'',
    ''....                      .....'',
    ''.....                     .....'']"

definition red_four :: "string list" where
  "red_four = [
    ''31 31 2 1 '',
    ''  c #FF0000'',
    ''. c #FFFFFE'',
    ''.............             .....'',
    ''.............             .....'',
    ''.............             .....'',
    ''.............             .....'',
    ''.........                 .....'',
    ''.........                 .....'',
    ''.........                 .....'',
    ''.........                 .....'',
    ''.........                 .....'',
    ''....         ....         .....'',
    ''....         ....         .....'',
    ''....         ....         .....'',
    ''....         ....         .....'',
    ''         ........         .....'',
    ''         ........         .....'',
    ''         ........         .....'',
    ''         ........         .....'',
    ''                              .'',
    ''                               '',
    ''                               '',
    ''                               '',
    ''                               '',
    ''.................         .....'',
    ''.................         .....'',
    ''.................         .....'',
    ''.................         .....'',
    ''.................         .....'',
    ''.................         .....'',
    ''.................         .....'',
    ''.................         .....'',
    ''..................        .....'']"

definition red_five :: "string list" where
  "red_five = [
    ''31 31 2 1 '',
    ''  c #FF0000'',
    ''. c #FFFFFE'',
    ''                          .....'',
    ''                          .....'',
    ''                          .....'',
    ''                          .....'',
    ''         ......................'',
    ''         ......................'',
    ''         ......................'',
    ''         ......................'',
    ''         ......................'',
    ''                          .....'',
    ''                          .....'',
    ''                          .....'',
    ''                          .....'',
    ''......................         '',
    ''......................         '',
    ''......................         '',
    ''......................         '',
    ''......................         '',
    ''......................         '',
    ''......................         '',
    ''......................         '',
    ''......................         '',
    ''         .............         '',
    ''         .............         '',
    ''         .............         '',
    ''         .............         '',
    ''....                      .....'',
    ''....                      .....'',
    ''....                      .....'',
    ''....                      .....'',
    ''.....                     .....'']"

definition red_six :: "string list" where
  "red_six = [
    ''31 31 2 1 '',
    ''  c #FF0000'',
    ''. c #FFFFFE'',
    ''.........                 .....'',
    ''.........                 .....'',
    ''.........                 .....'',
    ''.........                 .....'',
    ''.....        ..................'',
    ''....         ..................'',
    ''....         ..................'',
    ''....         ..................'',
    ''....         ..................'',
    ''         ......................'',
    ''         ......................'',
    ''         ......................'',
    ''         ......................'',
    ''                          .....'',
    ''                          .....'',
    ''                          .....'',
    ''                          .....'',
    ''                              .'',
    ''         .............         '',
    ''         .............         '',
    ''         .............         '',
    ''         .............         '',
    ''         .............         '',
    ''         .............         '',
    ''         .............         '',
    ''         .............         '',
    ''....                      .....'',
    ''....                      .....'',
    ''....                      .....'',
    ''....                      .....'',
    ''.....                     .....'']"

definition red_seven :: "string list" where
  "red_seven = [
    ''31 31 2 1 '',
    ''  c #FF0000'',
    ''. c #FFFFFE'',
    ''                               '',
    ''                               '',
    ''                               '',
    ''                               '',
    ''         .............         '',
    ''         .............         '',
    ''         .............         '',
    ''         .............         '',
    ''         .............        .'',
    ''.................         .....'',
    ''.................         .....'',
    ''.................         .....'',
    ''.................         .....'',
    ''.............         .........'',
    ''.............         .........'',
    ''.............         .........'',
    ''.............         .........'',
    ''.........            ..........'',
    ''.........         .............'',
    ''.........         .............'',
    ''.........         .............'',
    ''.........         .............'',
    ''.........         .............'',
    ''.........         .............'',
    ''.........         .............'',
    ''.........         .............'',
    ''.........         .............'',
    ''.........         .............'',
    ''.........         .............'',
    ''.........         .............'',
    ''.........        ..............'']"

definition red_eight :: "string list" where
  "red_eight = [
    ''31 31 2 1 '',
    ''  c #FF0000'',
    ''. c #FFFFFE'',
    ''....                  .........'',
    ''....                  .........'',
    ''....                  .........'',
    ''....                  .........'',
    ''         .............    .....'',
    ''         .............    .....'',
    ''         .............    .....'',
    ''         .............    .....'',
    ''         .............    .....'',
    ''             .........    .....'',
    ''             .........    .....'',
    ''             .........    .....'',
    ''             .........    .....'',
    ''....                  .........'',
    ''....                  .........'',
    ''....                  .........'',
    ''....                  .........'',
    ''                              .'',
    ''    .........                  '',
    ''    .........                  '',
    ''    .........                  '',
    ''    .........                  '',
    ''    ..................         '',
    ''    ..................         '',
    ''    ..................         '',
    ''    ..................         '',
    ''....                      .....'',
    ''....                      .....'',
    ''....                      .....'',
    ''....                      .....'',
    ''.....                     .....'']"

definition red_nine :: "string list" where
  "red_nine = [
    ''31 31 2 1 '',
    ''  c #FF0000'',
    ''. c #FFFFFE'',
    ''....                      .....'',
    ''....                      .....'',
    ''....                      .....'',
    ''....                      .....'',
    ''         .............        .'',
    ''         .............         '',
    ''         .............         '',
    ''         .............         '',
    ''         .............         '',
    ''         .............         '',
    ''         .............         '',
    ''         .............         '',
    ''         .............         '',
    ''....                           '',
    ''....                           '',
    ''....                           '',
    ''....                           '',
    ''.....                          '',
    ''......................         '',
    ''......................         '',
    ''......................         '',
    ''......................         '',
    ''.................         .....'',
    ''.................         .....'',
    ''.................         .....'',
    ''.................         .....'',
    ''.....                 .........'',
    ''....                  .........'',
    ''....                  .........'',
    ''....                  .........'',
    ''.....                 .........'']"

definition blue_zero :: "string list" where
  "blue_zero = [
    ''31 31 2 1 '',
    ''  c #0000FF'',
    ''. c #FFFFFE'',
    ''.........             .........'',
    ''.........             .........'',
    ''.........             .........'',
    ''.........             .........'',
    ''.....    ........         .....'',
    ''....     ........         .....'',
    ''....     ........         .....'',
    ''....     ........         .....'',
    ''....     .........        .....'',
    ''         .............         '',
    ''         .............         '',
    ''         .............         '',
    ''         .............         '',
    ''         .............         '',
    ''         .............         '',
    ''         .............         '',
    ''         .............         '',
    ''         .............         '',
    ''         .............         '',
    ''         .............         '',
    ''         .............         '',
    ''         .............         '',
    ''....         .........    .....'',
    ''....         .........    .....'',
    ''....         .........    .....'',
    ''....         .........    .....'',
    ''.........             .........'',
    ''.........             .........'',
    ''.........             .........'',
    ''.........             .........'',
    ''.........             .........'']"

definition blue_one :: "string list" where
  "blue_one = [
    ''27 31 2 1 '',
    ''  c #0000FF'',
    ''. c #FFFFFE'',
    ''.........         .........'',
    ''.........         .........'',
    ''.........         .........'',
    ''.........         .........'',
    ''.....             .........'',
    ''.....             .........'',
    ''.....             .........'',
    ''.....             .........'',
    ''.....             .........'',
    ''.........         .........'',
    ''.........         .........'',
    ''.........         .........'',
    ''.........         .........'',
    ''.........         .........'',
    ''.........         .........'',
    ''.........         .........'',
    ''.........         .........'',
    ''.........         .........'',
    ''.........         .........'',
    ''.........         .........'',
    ''.........         .........'',
    ''.........         .........'',
    ''.........         .........'',
    ''.........         .........'',
    ''.........         .........'',
    ''.........         .........'',
    ''.                          '',
    ''                           '',
    ''                           '',
    ''                           '',
    ''.                         .'']"

definition blue_two :: "string list" where
  "blue_two = [
    ''31 31 2 1 '',
    ''  c #0000FF'',
    ''. c #FFFFFE'',
    ''....                      .....'',
    ''....                      .....'',
    ''....                      .....'',
    ''....                      .....'',
    ''         .............        .'',
    ''         .............         '',
    ''         .............         '',
    ''         .............         '',
    ''         .............         '',
    ''.................              '',
    ''.................              '',
    ''.................              '',
    ''.................              '',
    ''.........                 .....'',
    ''.........                 .....'',
    ''.........                 .....'',
    ''.........                 .....'',
    ''.....                     .....'',
    ''....                  .........'',
    ''....                  .........'',
    ''....                  .........'',
    ''....                  .........'',
    ''             ..................'',
    ''             ..................'',
    ''             ..................'',
    ''             ..................'',
    ''                               '',
    ''                               '',
    ''                               '',
    ''                               '',
    ''                              .'']"

definition blue_three :: "string list" where
  "blue_three = [
    ''31 31 2 1 '',
    ''  c #0000FF'',
    ''. c #FFFFFE'',
    ''....                           '',
    ''....                           '',
    ''....                           '',
    ''....                           '',
    ''.................          ....'',
    ''.................         .....'',
    ''.................         .....'',
    ''.................         .....'',
    ''.................         .....'',
    ''.............         .........'',
    ''.............         .........'',
    ''.............         .........'',
    ''.............         .........'',
    ''.........                 .....'',
    ''.........                 .....'',
    ''.........                 .....'',
    ''.........                 .....'',
    ''.........                     .'',
    ''......................         '',
    ''......................         '',
    ''......................         '',
    ''......................         '',
    ''         .............         '',
    ''         .............         '',
    ''         .............         '',
    ''         .............         '',
    ''....                      .....'',
    ''....                      .....'',
    ''....                      .....'',
    ''....                      .....'',
    ''.....                     .....'']"

definition blue_four :: "string list" where
  "blue_four = [
    ''31 31 2 1 '',
    ''  c #0000FF'',
    ''. c #FFFFFE'',
    ''.............             .....'',
    ''.............             .....'',
    ''.............             .....'',
    ''.............             .....'',
    ''.........                 .....'',
    ''.........                 .....'',
    ''.........                 .....'',
    ''.........                 .....'',
    ''.........                 .....'',
    ''....         ....         .....'',
    ''....         ....         .....'',
    ''....         ....         .....'',
    ''....         ....         .....'',
    ''         ........         .....'',
    ''         ........         .....'',
    ''         ........         .....'',
    ''         ........         .....'',
    ''                              .'',
    ''                               '',
    ''                               '',
    ''                               '',
    ''                               '',
    ''.................         .....'',
    ''.................         .....'',
    ''.................         .....'',
    ''.................         .....'',
    ''.................         .....'',
    ''.................         .....'',
    ''.................         .....'',
    ''.................         .....'',
    ''..................        .....'']"

definition blue_five :: "string list" where
  "blue_five = [
    ''31 31 2 1 '',
    ''  c #0000FF'',
    ''. c #FFFFFE'',
    ''                          .....'',
    ''                          .....'',
    ''                          .....'',
    ''                          .....'',
    ''         ......................'',
    ''         ......................'',
    ''         ......................'',
    ''         ......................'',
    ''         ......................'',
    ''                          .....'',
    ''                          .....'',
    ''                          .....'',
    ''                          .....'',
    ''......................         '',
    ''......................         '',
    ''......................         '',
    ''......................         '',
    ''......................         '',
    ''......................         '',
    ''......................         '',
    ''......................         '',
    ''......................         '',
    ''         .............         '',
    ''         .............         '',
    ''         .............         '',
    ''         .............         '',
    ''....                      .....'',
    ''....                      .....'',
    ''....                      .....'',
    ''....                      .....'',
    ''.....                     .....'']"

definition blue_six :: "string list" where
  "blue_six = [
    ''31 31 2 1 '',
    ''  c #0000FF'',
    ''. c #FFFFFE'',
    ''.........                 .....'',
    ''.........                 .....'',
    ''.........                 .....'',
    ''.........                 .....'',
    ''.....        ..................'',
    ''....         ..................'',
    ''....         ..................'',
    ''....         ..................'',
    ''....         ..................'',
    ''         ......................'',
    ''         ......................'',
    ''         ......................'',
    ''         ......................'',
    ''                          .....'',
    ''                          .....'',
    ''                          .....'',
    ''                          .....'',
    ''                              .'',
    ''         .............         '',
    ''         .............         '',
    ''         .............         '',
    ''         .............         '',
    ''         .............         '',
    ''         .............         '',
    ''         .............         '',
    ''         .............         '',
    ''....                      .....'',
    ''....                      .....'',
    ''....                      .....'',
    ''....                      .....'',
    ''.....                     .....'']"

definition blue_seven :: "string list" where
  "blue_seven = [
    ''31 31 2 1 '',
    ''  c #0000FF'',
    ''. c #FFFFFE'',
    ''                               '',
    ''                               '',
    ''                               '',
    ''                               '',
    ''         .............         '',
    ''         .............         '',
    ''         .............         '',
    ''         .............         '',
    ''         .............        .'',
    ''.................         .....'',
    ''.................         .....'',
    ''.................         .....'',
    ''.................         .....'',
    ''.............         .........'',
    ''.............         .........'',
    ''.............         .........'',
    ''.............         .........'',
    ''.........            ..........'',
    ''.........         .............'',
    ''.........         .............'',
    ''.........         .............'',
    ''.........         .............'',
    ''.........         .............'',
    ''.........         .............'',
    ''.........         .............'',
    ''.........         .............'',
    ''.........         .............'',
    ''.........         .............'',
    ''.........         .............'',
    ''.........         .............'',
    ''.........        ..............'']"

definition blue_eight :: "string list" where
  "blue_eight = [
    ''31 31 2 1 '',
    ''  c #0000FF'',
    ''. c #FFFFFE'',
    ''....                  .........'',
    ''....                  .........'',
    ''....                  .........'',
    ''....                  .........'',
    ''         .............    .....'',
    ''         .............    .....'',
    ''         .............    .....'',
    ''         .............    .....'',
    ''         .............    .....'',
    ''             .........    .....'',
    ''             .........    .....'',
    ''             .........    .....'',
    ''             .........    .....'',
    ''....                  .........'',
    ''....                  .........'',
    ''....                  .........'',
    ''....                  .........'',
    ''                              .'',
    ''    .........                  '',
    ''    .........                  '',
    ''    .........                  '',
    ''    .........                  '',
    ''    ..................         '',
    ''    ..................         '',
    ''    ..................         '',
    ''    ..................         '',
    ''....                      .....'',
    ''....                      .....'',
    ''....                      .....'',
    ''....                      .....'',
    ''.....                     .....'']"

definition blue_nine :: "string list" where
  "blue_nine = [
    ''31 31 2 1 '',
    ''  c #0000FF'',
    ''. c #FFFFFE'',
    ''....                      .....'',
    ''....                      .....'',
    ''....                      .....'',
    ''....                      .....'',
    ''         .............        .'',
    ''         .............         '',
    ''         .............         '',
    ''         .............         '',
    ''         .............         '',
    ''         .............         '',
    ''         .............         '',
    ''         .............         '',
    ''         .............         '',
    ''....                           '',
    ''....                           '',
    ''....                           '',
    ''....                           '',
    ''.....                          '',
    ''......................         '',
    ''......................         '',
    ''......................         '',
    ''......................         '',
    ''.................         .....'',
    ''.................         .....'',
    ''.................         .....'',
    ''.................         .....'',
    ''.....                 .........'',
    ''....                  .........'',
    ''....                  .........'',
    ''....                  .........'',
    ''.....                 .........'']"

end
