(* ===== verification/XpmSprites.thy ===== *)
theory XpmSprites
  imports Main
begin

text \<open>
  The pixmaps of the moving objects, the titles and the separators, \<^verbatim>\<open>model/xpm/\<close>: the rows of
  each array as the source has them.
\<close>

definition xpm_mouse :: "string list" where
  "xpm_mouse = [
    ''12 19 3 1'',
    '' '' @ [CHR 0x09] @ ''c #FFFFFE'',
    ''.'' @ [CHR 0x09] @ ''c #F3F1F3'',
    ''+'' @ [CHR 0x09] @ ''c #000000'',
    ''.           '',
    ''..          '',
    ''.+.         '',
    ''.++.        '',
    ''.+++.       '',
    ''.++++.      '',
    ''.+++++.     '',
    ''.++++++.    '',
    ''.+++++++.   '',
    ''.++++++++.  '',
    ''.+++++++++. '',
    ''.++++++++++.'',
    ''.++++++.....'',
    ''.+++.++.    '',
    ''.++. .++.   '',
    ''.+.  .++.   '',
    ''..    .++.  '',
    ''      .++.  '',
    ''       ..   '']"

definition blue_puck :: "string list" where
  "blue_puck = [
    ''80 80 25 1 '',
    ''  c #FFFFFE'',
    ''. c #0000FF'',
    ''X c #1010FF'',
    ''o c #2020FF'',
    ''O c #3030FF'',
    ''+ c #4040FF'',
    ''@ c #5050FF'',
    ''# c #6060FF'',
    ''$ c #7070FF'',
    ''% c #7F7FFF'',
    ''& c #8080FF'',
    ''* c #8F8FFF'',
    ''= c #9090FF'',
    ''- c #9F9FFF'',
    ''; c #A0A0FF'',
    '': c #AFAFFF'',
    ''> c #B0B0FF'',
    '', c #BFBFFF'',
    ''< c #C0C0FF'',
    ''1 c #CFCFFF'',
    ''2 c #D0D0FF'',
    ''3 c #DFDFFF'',
    ''4 c #E0E0FF'',
    ''5 c #EFEFFF'',
    ''6 c #FFFFFF'',
    ''                                  .............                                 '',
    ''                             ......................                             '',
    ''                          ............................                          '',
    ''                        ................................                        '',
    ''                      ....................................                      '',
    ''                    ........................................                    '',
    ''                  ............................................                  '',
    ''                 ..............................................                 '',
    ''               ..................................................               '',
    ''              ....................................................              '',
    ''             ...................X@$-1366663,:&+X...................             '',
    ''            .................X%,6666666666666666,$o.................            '',
    ''           ................+,6666666666666666666666,+................           '',
    ''          ...............+,666666666666666666666666663@...............          '',
    ''         ..............o,666666666666666666666666666666-o..............         '',
    ''        ..............$56666666664;$OoX...o+$;36666666663#..............        '',
    ''        ............X*666666665&o..............o$366666666*.............        '',
    ''       ............X16666666<+....................#366666661o............       '',
    ''      ............o36666663@........................#36666663o............      '',
    ''      ...........o3666666=X..........................o;6666663X...........      '',
    ''     ............1666666$..............................$6666661X...........     '',
    ''     ...........*666665O................................O566666*............    '',
    ''    ...........#666665O..................................O566666$...........    '',
    ''    ..........o366666O....................................O666665o...........   '',
    ''   ...........;66666$......................................$66666,...........   '',
    ''   ..........@66666-........................................=66666+..........   '',
    ''  ...........366663o........................................X36666,...........  '',
    ''  ..........+66666#..........................................@66666+..........  '',
    ''  ..........,66663............................................,6666,..........  '',
    '' ..........o66666#............................................+66666X.......... '',
    '' ..........$66663..............................................56666&.......... '',
    '' ..........,6666$..............................................&6666,.......... '',
    '' .........X66666o..............................................o66666X......... '',
    ''..........+66663.....................#,565,#....................46666@......... '',
    ''..........&6666-...................o166666663o..................;6666$..........'',
    ''..........>6666$..................o36666666663o.................$6666-..........'',
    ''..........,6666+..................3666666666661.................O66661..........'',
    ''..........46666o.................#6666666666666#................o66663..........'',
    ''..........66666..................,6666666666666,................X66666..........'',
    ''..........66666..................566666666666665.................66666..........'',
    ''..........66666..................666666666666666.................66666..........'',
    ''..........66666X.................566666666666665.................66666..........'',
    ''..........46666o.................,6666666666666<................o66663..........'',
    ''..........16666O.................#6666666666666#................+6666<..........'',
    ''..........;6666$..................1666666666663.................$6666>..........'',
    ''..........$6666-..................o36666666663o.................;6666&..........'',
    '' .........@66663...................o366666661o..................36666+..........'',
    '' .........X66666o....................#<565<#...................o66666X......... '',
    '' ..........,6666&..............................................$6666<.......... '',
    '' ..........&66665..............................................36666$.......... '',
    '' ..........X66666+............................................#66666o.......... '',
    ''  ..........,6666,............................................36666<..........  '',
    ''  ..........+66666@..........................................#66666+..........  '',
    ''  ...........,66663X........................................o366663...........  '',
    ''   ..........+66666*........................................;66666@..........   '',
    ''   ...........,66666$......................................$66666-...........   '',
    ''   ...........o566666O....................................O666663o..........    '',
    ''    ...........$666665O..................................O566666#...........    '',
    ''    ............=666665O................................O566666=............    '',
    ''     ...........X1666666$..............................$6666661............     '',
    ''      ...........X3666666-o..........................X*6666663o...........      '',
    ''      ............o36666663#........................@36666663o............      '',
    ''       ............o166666663#....................+,66666661X............       '',
    ''        .............=666666663$o..............o%566666666=.............        '',
    ''        ..............#36666666663-$+o...XoO$-36666666665$..............        '',
    ''         ..............o;666666666666666666666666666666<o..............         '',
    ''          ...............@366666666666666666666666666<+...............          '',
    ''           ................+<6666666666666666666666<+................           '',
    ''            .................o$<6666666666666666<&X.................            '',
    ''             ...................X+&><4666642;$@X...................             '',
    ''              ....................................................              '',
    ''               ..................................................               '',
    ''                 ..............................................                 '',
    ''                  ............................................                  '',
    ''                    ........................................                    '',
    ''                     ......................................                     '',
    ''                        .................................                       '',
    ''                          ............................                          '',
    ''                             ......................                             '',
    ''                                 .............                                  '']"

definition red_puck :: "string list" where
  "red_puck = [
    ''80 80 25 1 '',
    ''  c #FFFFFE'',
    ''. c #FF0000'',
    ''X c #FF1010'',
    ''o c #FF2020'',
    ''O c #FF3030'',
    ''+ c #FF4040'',
    ''@ c #FF5050'',
    ''# c #FF6060'',
    ''$ c #FF7070'',
    ''% c #FF7F7F'',
    ''& c #FF8080'',
    ''* c #FF8F8F'',
    ''= c #FF9090'',
    ''- c #FF9F9F'',
    ''; c #FFA0A0'',
    '': c #FFAFAF'',
    ''> c #FFB0B0'',
    '', c #FFBFBF'',
    ''< c #FFC0C0'',
    ''1 c #FFCFCF'',
    ''2 c #FFD0D0'',
    ''3 c #FFDFDF'',
    ''4 c #FFE0E0'',
    ''5 c #FFEFEF'',
    ''6 c #FFFFFF'',
    ''                                  .............                                 '',
    ''                             ......................                             '',
    ''                          ............................                          '',
    ''                        ................................                        '',
    ''                      ....................................                      '',
    ''                    ........................................                    '',
    ''                  ............................................                  '',
    ''                 ..............................................                 '',
    ''               ..................................................               '',
    ''              ....................................................              '',
    ''             ...................X@$-1366663,:&+X...................             '',
    ''            .................X%,6666666666666666,$o.................            '',
    ''           ................+,6666666666666666666666,+................           '',
    ''          ...............+,666666666666666666666666663@...............          '',
    ''         ..............o,666666666666666666666666666666-o..............         '',
    ''        ..............$56666666664;$OoX...o+$;36666666663#..............        '',
    ''        ............X*666666665&o..............o$366666666*.............        '',
    ''       ............X16666666<+....................#366666661o............       '',
    ''      ............o36666663@........................#36666663o............      '',
    ''      ...........o3666666=X..........................o;6666663X...........      '',
    ''     ............1666666$..............................$6666661X...........     '',
    ''     ...........*666665O................................O566666*............    '',
    ''    ...........#666665O..................................O566666$...........    '',
    ''    ..........o366666O....................................O666665o...........   '',
    ''   ...........;66666$......................................$66666,...........   '',
    ''   ..........@66666-........................................=66666+..........   '',
    ''  ...........366663o........................................X36666,...........  '',
    ''  ..........+66666#..........................................@66666+..........  '',
    ''  ..........,66663............................................,6666,..........  '',
    '' ..........o66666#............................................+66666X.......... '',
    '' ..........$66663..............................................56666&.......... '',
    '' ..........,6666$..............................................&6666,.......... '',
    '' .........X66666o..............................................o66666X......... '',
    ''..........+66663.....................#,565,#....................46666@......... '',
    ''..........&6666-...................o166666663o..................;6666$..........'',
    ''..........>6666$..................o36666666663o.................$6666-..........'',
    ''..........,6666+..................3666666666661.................O66661..........'',
    ''..........46666o.................#6666666666666#................o66663..........'',
    ''..........66666..................,6666666666666,................X66666..........'',
    ''..........66666..................566666666666665.................66666..........'',
    ''..........66666..................666666666666666.................66666..........'',
    ''..........66666X.................566666666666665.................66666..........'',
    ''..........46666o.................,6666666666666<................o66663..........'',
    ''..........16666O.................#6666666666666#................+6666<..........'',
    ''..........;6666$..................1666666666663.................$6666>..........'',
    ''..........$6666-..................o36666666663o.................;6666&..........'',
    '' .........@66663...................o366666661o..................36666+..........'',
    '' .........X66666o....................#<565<#...................o66666X......... '',
    '' ..........,6666&..............................................$6666<.......... '',
    '' ..........&66665..............................................36666$.......... '',
    '' ..........X66666+............................................#66666o.......... '',
    ''  ..........,6666,............................................36666<..........  '',
    ''  ..........+66666@..........................................#66666+..........  '',
    ''  ...........,66663X........................................o366663...........  '',
    ''   ..........+66666*........................................;66666@..........   '',
    ''   ...........,66666$......................................$66666-...........   '',
    ''   ...........o566666O....................................O666663o..........    '',
    ''    ...........$666665O..................................O566666#...........    '',
    ''    ............=666665O................................O566666=............    '',
    ''     ...........X1666666$..............................$6666661............     '',
    ''      ...........X3666666-o..........................X*6666663o...........      '',
    ''      ............o36666663#........................@36666663o............      '',
    ''       ............o166666663#....................+,66666661X............       '',
    ''        .............=666666663$o..............o%566666666=.............        '',
    ''        ..............#36666666663-$+o...XoO$-36666666665$..............        '',
    ''         ..............o;666666666666666666666666666666<o..............         '',
    ''          ...............@366666666666666666666666666<+...............          '',
    ''           ................+<6666666666666666666666<+................           '',
    ''            .................o$<6666666666666666<&X.................            '',
    ''             ...................X+&><4666642;$@X...................             '',
    ''              ....................................................              '',
    ''               ..................................................               '',
    ''                 ..............................................                 '',
    ''                  ............................................                  '',
    ''                    ........................................                    '',
    ''                     ......................................                     '',
    ''                        .................................                       '',
    ''                          ............................                          '',
    ''                             ......................                             '',
    ''                                 .............                                  '']"

definition disk :: "string list" where
  "disk = [
    ''50 50 2 1 '',
    ''  c #FFFFFE'',
    ''. c #000000'',
    ''                    ..........                    '',
    ''                 .................                '',
    ''              ......................              '',
    ''            ..........................            '',
    ''           ............................           '',
    ''         ................................         '',
    ''        ..................................        '',
    ''       ....................................       '',
    ''      ......................................      '',
    ''     ........................................     '',
    ''     ........................................     '',
    ''    ..........................................    '',
    ''   ............................................   '',
    ''   ............................................   '',
    ''  ..............................................  '',
    ''  ..............................................  '',
    '' ................................................ '',
    '' ................................................ '',
    '' ................................................ '',
    '' ................................................ '',
    ''..................................................'',
    ''..................................................'',
    ''..................................................'',
    ''..................................................'',
    ''..................................................'',
    ''..................................................'',
    ''..................................................'',
    ''..................................................'',
    ''..................................................'',
    ''..................................................'',
    '' ................................................ '',
    '' ................................................ '',
    '' ................................................ '',
    '' ................................................ '',
    ''  ..............................................  '',
    ''  ..............................................  '',
    ''   ............................................   '',
    ''   ............................................   '',
    ''    ..........................................    '',
    ''     ........................................     '',
    ''     ........................................     '',
    ''      ......................................      '',
    ''       ....................................       '',
    ''        ..................................        '',
    ''         ................................         '',
    ''           ............................           '',
    ''            ..........................            '',
    ''              ......................              '',
    ''                ..................                '',
    ''                    ..........                    '']"

definition title_time :: "string list" where
  "title_time = [
    ''132 31 2 1 '',
    ''  c #FFFFFE'',
    ''. c #FFFFFF'',
    ''...........................        ...........................    .........             .........    ...............................'',
    ''...........................        ...........................    .........             .........    ...............................'',
    ''...........................        ...........................    .........             .........    ...............................'',
    ''...........................        ...........................    .........             .........    ...............................'',
    ''         .........                          .........             .............     .............    .........                      '',
    ''         .........                          .........             .............    ..............    .........                      '',
    ''         .........                          .........             .............    ..............    .........                      '',
    ''         .........                          .........             .............    ..............    .........                      '',
    ''         .........                          .........             .............    ..............    .........                      '',
    ''         .........                          .........             ...............................    .........                      '',
    ''         .........                          .........             ...............................    .........                      '',
    ''         .........                          .........             ...............................    .........                      '',
    ''         .........                          .........             ...............................    .........                      '',
    ''         .........                          .........             .........    .....    .........    ..........................     '',
    ''         .........                          .........             .........    .....    .........    ..........................     '',
    ''         .........                          .........             .........    .....    .........    ..........................     '',
    ''         .........                          .........             .........    .....    .........    ..........................     '',
    ''         .........                          .........             .........    .....    .........    ..........................     '',
    ''         .........                          .........             .........    .....    .........    .........                      '',
    ''         .........                          .........             .........    .....    .........    .........                      '',
    ''         .........                          .........             .........    .....    .........    .........                      '',
    ''         .........                          .........             .........    ....     .........    .........                      '',
    ''         .........                          .........             .........             .........    .........                      '',
    ''         .........                          .........             .........             .........    .........                      '',
    ''         .........                          .........             .........             .........    .........                      '',
    ''         .........                          .........             .........             .........    .........                      '',
    ''         .........                  ..........................    .........             .........    ...............................'',
    ''         .........                 ...........................    .........             .........    ...............................'',
    ''         .........                 ...........................    .........             .........    ...............................'',
    ''         .........                 ...........................    .........             .........    ...............................'',
    ''         .........                  .........................     .........             ........     .............................. '']"

definition title_points :: "string list" where
  "title_points = [
    ''206 31 2 1 '',
    ''  c #FFFFFF'',
    ''. c #FFFFFE'',
    ''                          .............                      .............                           ....         .............         ........                           ........                      .....'',
    ''                          .............                      .............                           ....         .............         ........                           ........                      .....'',
    ''                          .............                      .............                           ....         .............         ........                           ........                      .....'',
    ''                          .............                      .............                           ....         .............         ........                           ........                      .....'',
    ''         .............        .....         .............        ..................         .............             .........         .................         .............         .............        .'',
    ''         .............         ....         .............         .................         .............             .........         .................         .............         .............         '',
    ''         .............         ....         .............         .................         .............             .........         .................         .............         .............         '',
    ''         .............         ....         .............         .................         .............             .........         .................         .............         .............         '',
    ''         .............         ....         .............         .................         .............             .........         .................         .............         .............        .'',
    ''         .............         ....         .............         .................         .............                  ....         .................         .............         ......................'',
    ''         .............         ....         .............         .................         .............                  ....         .................         .............         ......................'',
    ''         .............         ....         .............         .................         .............                  ....         .................         .............         ......................'',
    ''         .............         ....         .............         .................         .............                  ....         .................         .............         ......................'',
    ''         .............         ....         .............         .................         .............         ....                  .................         .................                      .....'',
    ''         .............         ....         .............         .................         .............         ....                  .................         .................                      .....'',
    ''         .............         ....         .............         .................         .............         ....                  .................         .................                      .....'',
    ''         .............         ....         .............         .................         .............         ....                  .................         .................                      .....'',
    ''                              .....         .............         .................         .............         .....                 .................         ..................                         .'',
    ''                          .........         .............         .................         .............         ........              .................         ...................................         '',
    ''                          .........         .............         .................         .............         ........              .................         ...................................         '',
    ''                          .........         .............         .................         .............         ........              .................         ...................................         '',
    ''                          .........         .............         .................         .............         .........             .................         ...................................         '',
    ''         ..........................         .............         .................         .............         .............         .................         .............         .............         '',
    ''         ..........................         .............         .................         .............         .............         .................         .............         .............         '',
    ''         ..........................         .............         .................         .............         .............         .................         .............         .............         '',
    ''         ..........................         .............         .................         .............         .............         .................         .............         .............         '',
    ''         ..............................                      ..............                          ....         .............         .................         .................                      .....'',
    ''         ..............................                      .............                           ....         .............         .................         .................                      .....'',
    ''         ..............................                      .............                           ....         .............         .................         .................                      .....'',
    ''         ..............................                      .............                           ....         .............         .................         .................                      .....'',
    ''         ...............................                     ..............                         .....         .............        ..................         ..................                     .....'']"

definition white_time :: "string list" where
  "white_time = [
    ''10 23 2 1 '',
    ''  c #FFFFFF'',
    ''. c #FFFFFE'',
    ''.        .'',
    ''.         '',
    ''.         '',
    ''.         '',
    ''.         '',
    ''.         '',
    ''.         '',
    ''.         '',
    ''.         '',
    ''..........'',
    ''..........'',
    ''..........'',
    ''..........'',
    ''.        .'',
    ''.         '',
    ''.         '',
    ''.         '',
    ''.         '',
    ''.         '',
    ''.         '',
    ''.         '',
    ''.         '',
    ''..........'']"

definition white_points :: "string list" where
  "white_points = [
    ''27 5 2 1 '',
    ''  c #FFFFFF'',
    ''. c #FFFFFE'',
    ''                           '',
    ''                           '',
    ''                           '',
    ''                           '',
    ''.                         .'']"

definition day_separator :: "string list" where
  "day_separator = [
    ''27 5 2 1 '',
    ''  c #FFFFFF'',
    ''. c #FFFFFE'',
    ''                           '',
    ''                           '',
    ''                           '',
    ''                           '',
    ''.                         .'']"

definition time_two_points :: "string list" where
  "time_two_points = [
    ''10 23 2 1 '',
    ''  c #FFFFFF'',
    ''. c #FFFFFE'',
    ''.        .'',
    ''.         '',
    ''.         '',
    ''.         '',
    ''.         '',
    ''.         '',
    ''.         '',
    ''.         '',
    ''.         '',
    ''..........'',
    ''..........'',
    ''..........'',
    ''..........'',
    ''.        .'',
    ''.         '',
    ''.         '',
    ''.         '',
    ''.         '',
    ''.         '',
    ''.         '',
    ''.         '',
    ''.         '',
    ''..........'']"

end
