(* ===== verification/XpmPopOut.thy ===== *)
theory XpmPopOut
  imports Main
begin

text \<open>
  The pixmaps of the buttons shown when a match is over, \<^verbatim>\<open>model/xpm/\<close>.  The header files
  \<^verbatim>\<open>play_again_selected.h\<close> and \<^verbatim>\<open>play_again_unselected.h\<close> each hold the array named like the other.
\<close>

definition leave_selected :: "string list" where
  "leave_selected = [
    ''149 79 5 1 '',
    ''  c #FF0000'',
    ''. c #FF4040'',
    ''X c #FF8080'',
    ''o c #FFBFBF'',
    ''O c #FFFFFF'',
    ''                                                                                                                                                     '',
    ''                                                                                                                                                     '',
    ''                                                                                                                                                     '',
    ''                                                                                                                                                     '',
    ''                                                                                                                                                     '',
    ''                                                                                                                                                     '',
    ''                                                                                                                                                     '',
    ''                                                                                                                                                     '',
    ''                                                                                                                                                     '',
    ''                                                                                                                                                     '',
    ''                                                                                                                                                     '',
    ''                                                                                                                                                     '',
    ''                                                                                                                                                     '',
    ''                                                                                                                                                     '',
    ''                                                                                                                                                     '',
    ''                                                                                                                                                     '',
    ''                                                                                                                                                     '',
    ''                                                                                                                                                     '',
    ''                                                                                                                                                     '',
    ''                                                                                                                                                     '',
    ''                                                                                                                                                     '',
    ''                                                                                                                                                     '',
    ''                                                                                                                                                     '',
    ''                                                                                                                                                     '',
    ''                                                                                                                                                     '',
    ''                                                                                                                                                     '',
    ''                                                                                                                                                     '',
    ''                                                                                                                                                     '',
    ''                                                                                                                                                     '',
    ''                                                                                                                                                     '',
    ''                                      OOOOOOOOOOOOOOOOOX  OOOOO       XOOOOX    XOOOOOOOOOOOOOOX    XOOOOOOOOOOOOOOX                                 '',
    ''                                      OOOOOOOOOOOOOOOOOX  OOOOO       XOOOOX    XOOOOOOOOOOOOOOX    XOOOOOOOOOOOOOOX                                 '',
    ''                                      OOOOOXXXXXXXXXXXX.  OOOOO       XOOOOX    .XXXXoOOOOoXXXX.    .XXXXoOOOOoXXXX.                                 '',
    ''                                      OOOOO               OOOOO       XOOOOX         XOOOOX              XOOOOX                                      '',
    ''                                      OOOOO               OOOOO       XOOOOX         XOOOOX              XOOOOX                                      '',
    ''                                      OOOOO                 XOOOOX  OOOOO            XOOOOX              XOOOOX                                      '',
    ''                                      OOOOO                 XOOOOX  OOOOO            XOOOOX              XOOOOX                                      '',
    ''                                      OOOOOXXXXXXXXXX       .XXOOoXXOOoXX            XOOOOX              XOOOOX                                      '',
    ''                                      OOOOOOOOOOOOOOO          OOOOOOOX              XOOOOX              XOOOOX                                      '',
    ''                                      OOOOOOOOOOOOOOO          OOOOOOOX              XOOOOX              XOOOOX                                      '',
    ''                                      OOOOO                 XOOOOX  OOOOO            XOOOOX              XOOOOX                                      '',
    ''                                      OOOOO                 XOOOOX  OOOOO            XOOOOX              XOOOOX                                      '',
    ''                                      OOOOO               XXoOOXX.  XXoOOXX.         XOOOOX              XOOOOX                                      '',
    ''                                      OOOOO               OOOOO       XOOOOX         XOOOOX              XOOOOX                                      '',
    ''                                      OOOOO               OOOOO       XOOOOX         XOOOOX              XOOOOX                                      '',
    ''                                      OOOOOOOOOOOOOOOOOX  OOOOO       XOOOOX    XOOOOOOOOOOOOOOX         XOOOOX                                      '',
    ''                                      OOOOOOOOOOOOOOOOOX  OOOOO       XOOOOX    XOOOOOOOOOOOOOOX         XOOOOX                                      '',
    ''                                      XXXXXXXXXXXXXXXXX.  XXXXX       .XXXX.    .XXXXXXXXXXXXXX.         .XXXX.                                      '',
    ''                                                                                                                                                     '',
    ''                                                                                                                                                     '',
    ''                                                                                                                                                     '',
    ''                                                                                                                                                     '',
    ''                                                                                                                                                     '',
    ''                                                                                                                                                     '',
    ''                                                                                                                                                     '',
    ''                                                                                                                                                     '',
    ''                                                                                                                                                     '',
    ''                                                                                                                                                     '',
    ''                                                                                                                                                     '',
    ''                                                                                                                                                     '',
    ''                                                                                                                                                     '',
    ''                                                                                                                                                     '',
    ''                                                                                                                                                     '',
    ''                                                                                                                                                     '',
    ''                                                                                                                                                     '',
    ''                                                                                                                                                     '',
    ''                                                                                                                                                     '',
    ''                                                                                                                                                     '',
    ''                                                                                                                                                     '',
    ''                                                                                                                                                     '',
    ''                                                                                                                                                     '',
    ''                                                                                                                                                     '',
    ''                                                                                                                                                     '',
    ''                                                                                                                                                     '',
    ''                                                                                                                                                     '',
    ''                                                                                                                                                     '',
    ''                                                                                                                                                     '',
    ''                                                                                                                                                     '',
    ''                                                                                                                                                     '']"

definition leave_unselected :: "string list" where
  "leave_unselected = [
    ''149 79 5 1 '',
    ''  c #CE0000'',
    ''. c #DA4040'',
    ''X c #E68080'',
    ''o c #F3BFBF'',
    ''O c #FFFFFF'',
    ''                                                                                                                                                     '',
    ''                                                                                                                                                     '',
    ''                                                                                                                                                     '',
    ''                                                                                                                                                     '',
    ''                                                                                                                                                     '',
    ''                                                                                                                                                     '',
    ''                                                                                                                                                     '',
    ''                                                                                                                                                     '',
    ''                                                                                                                                                     '',
    ''                                                                                                                                                     '',
    ''                                                                                                                                                     '',
    ''                                                                                                                                                     '',
    ''                                                                                                                                                     '',
    ''                                                                                                                                                     '',
    ''                                                                                                                                                     '',
    ''                                                                                                                                                     '',
    ''                                                                                                                                                     '',
    ''                                                                                                                                                     '',
    ''                                                                                                                                                     '',
    ''                                                                                                                                                     '',
    ''                                                                                                                                                     '',
    ''                                                                                                                                                     '',
    ''                                                                                                                                                     '',
    ''                                                                                                                                                     '',
    ''                                                                                                                                                     '',
    ''                                                                                                                                                     '',
    ''                                                                                                                                                     '',
    ''                                                                                                                                                     '',
    ''                                                                                                                                                     '',
    ''                                                                                                                                                     '',
    ''                                      OOOOOOOOOOOOOOOOOX  OOOOO       XOOOOX    XOOOOOOOOOOOOOOX    XOOOOOOOOOOOOOOX                                 '',
    ''                                      OOOOOOOOOOOOOOOOOX  OOOOO       XOOOOX    XOOOOOOOOOOOOOOX    XOOOOOOOOOOOOOOX                                 '',
    ''                                      OOOOOXXXXXXXXXXXX.  OOOOO       XOOOOX    .XXXXoOOOOoXXXX.    .XXXXoOOOOoXXXX.                                 '',
    ''                                      OOOOO               OOOOO       XOOOOX         XOOOOX              XOOOOX                                      '',
    ''                                      OOOOO               OOOOO       XOOOOX         XOOOOX              XOOOOX                                      '',
    ''                                      OOOOO                 XOOOOX  OOOOO            XOOOOX              XOOOOX                                      '',
    ''                                      OOOOO                 XOOOOX  OOOOO            XOOOOX              XOOOOX                                      '',
    ''                                      OOOOOXXXXXXXXXX       .XXOOoXXOOoXX            XOOOOX              XOOOOX                                      '',
    ''                                      OOOOOOOOOOOOOOO          OOOOOOOX              XOOOOX              XOOOOX                                      '',
    ''                                      OOOOOOOOOOOOOOO          OOOOOOOX              XOOOOX              XOOOOX                                      '',
    ''                                      OOOOO                 XOOOOX  OOOOO            XOOOOX              XOOOOX                                      '',
    ''                                      OOOOO                 XOOOOX  OOOOO            XOOOOX              XOOOOX                                      '',
    ''                                      OOOOO               XXoOOXX.  XXoOOXX.         XOOOOX              XOOOOX                                      '',
    ''                                      OOOOO               OOOOO       XOOOOX         XOOOOX              XOOOOX                                      '',
    ''                                      OOOOO               OOOOO       XOOOOX         XOOOOX              XOOOOX                                      '',
    ''                                      OOOOOOOOOOOOOOOOOX  OOOOO       XOOOOX    XOOOOOOOOOOOOOOX         XOOOOX                                      '',
    ''                                      OOOOOOOOOOOOOOOOOX  OOOOO       XOOOOX    XOOOOOOOOOOOOOOX         XOOOOX                                      '',
    ''                                      XXXXXXXXXXXXXXXXX.  XXXXX       .XXXX.    .XXXXXXXXXXXXXX.         .XXXX.                                      '',
    ''                                                                                                                                                     '',
    ''                                                                                                                                                     '',
    ''                                                                                                                                                     '',
    ''                                                                                                                                                     '',
    ''                                                                                                                                                     '',
    ''                                                                                                                                                     '',
    ''                                                                                                                                                     '',
    ''                                                                                                                                                     '',
    ''                                                                                                                                                     '',
    ''                                                                                                                                                     '',
    ''                                                                                                                                                     '',
    ''                                                                                                                                                     '',
    ''                                                                                                                                                     '',
    ''                                                                                                                                                     '',
    ''                                                                                                                                                     '',
    ''                                                                                                                                                     '',
    ''                                                                                                                                                     '',
    ''                                                                                                                                                     '',
    ''                                                                                                                                                     '',
    ''                                                                                                                                                     '',
    ''                                                                                                                                                     '',
    ''                                                                                                                                                     '',
    ''                                                                                                                                                     '',
    ''                                                                                                                                                     '',
    ''                                                                                                                                                     '',
    ''                                                                                                                                                     '',
    ''                                                                                                                                                     '',
    ''                                                                                                                                                     '',
    ''                                                                                                                                                     '',
    ''                                                                                                                                                     '',
    ''                                                                                                                                                     '']"

definition play_again_unselected :: "string list" where
  "play_again_unselected = [
    ''241 79 5 1 '',
    ''  c #007A00'',
    ''. c #409B40'',
    ''X c #80BC80'',
    ''o c #BFDEBF'',
    ''O c #FFFFFF'',
    ''                                                                                                                                                                                                                                                 '',
    ''                                                                                                                                                                                                                                                 '',
    ''                                                                                                                                                                                                                                                 '',
    ''                                                                                                                                                                                                                                                 '',
    ''                                                                                                                                                                                                                                                 '',
    ''                                                                                                                                                                                                                                                 '',
    ''                                                                                                                                                                                                                                                 '',
    ''                                                                                                                                                                                                                                                 '',
    ''                                                                                                                                                                                                                                                 '',
    ''                                                                                                                                                                                                                                                 '',
    ''                                                                                                                                                                                                                                                 '',
    ''                                                                                                                                                                                                                                                 '',
    ''                                                                                                                                                                                                                                                 '',
    ''                                                                                                                                                                                                                                                 '',
    ''                                                                                                                                                                                                                                                 '',
    ''                                                                                                                                                                                                                                                 '',
    ''                                                                                                                                                                                                                                                 '',
    ''                                                                                                                                                                                                                                                 '',
    ''                                                                                                                                                                                                                                                 '',
    ''                                                                                                                                                                                                                                                 '',
    ''                                                                                                                                                                                                                                                 '',
    ''                                                                                                                                                                                                                                                 '',
    ''                                                                                                                                                                                                                                                 '',
    ''                                                                                                                                                                                                                                                 '',
    ''                                                                                                                                                                                                                                                 '',
    ''                                                                                                                                                                                                                                                 '',
    ''                                                                                                                                                                                                                                                 '',
    ''                                                                                                                                                                                                                                                 '',
    ''                                                                                                                                                                                                                                                 '',
    ''                     OOOOOOOOOOOOOOO       XOOOOX                 OOOOOOOX         XOOOOX    XOOOOX                           OOOOOOOX            OOOOOOOOOOOOX       OOOOOOOX         XOOOOOOOOOOOOOOX  OOOOO       XOOOOX                      '',
    ''                     OOOOOOOOOOOOOOO       XOOOOX                 OOOOOOOX         XOOOOX    XOOOOX                           OOOOOOOX            OOOOOOOOOOOOX       OOOOOOOX         XOOOOOOOOOOOOOOX  OOOOO       XOOOOX                      '',
    ''                     OOOOOXXXXXXXoOOXX.    XOOOOX              .XXOOoXXOOoXX       XOOOOX    XOOOOX                        .XXOOoXXOOoXX       .XXOOoXXXXXXXXX.    .XXOOoXXOOoXX       .XXXXoOOOOoXXXX.  OOOOOXX.    XOOOOX                      '',
    ''                     OOOOO       XOOOOX    XOOOOX              XOOOOX  OOOOO       XOOOOX    XOOOOX                        XOOOOX  OOOOO       XOOOOX              XOOOOX  OOOOO            XOOOOX       OOOOOOOX    XOOOOX                      '',
    ''                     OOOOO       XOOOOX    XOOOOX              XOOOOX  OOOOO       XOOOOX    XOOOOX                        XOOOOX  OOOOO       XOOOOX              XOOOOX  OOOOO            XOOOOX       OOOOOOOX    XOOOOX                      '',
    ''                     OOOOO       XOOOOX    XOOOOX            OOOOO       XOOOOX    XOOOOX    XOOOOX                      OOOOO       XOOOOX  OOOOO               OOOOO       XOOOOX         XOOOOX       OOOOOOOOOO  XOOOOX                      '',
    ''                     OOOOO       XOOOOX    XOOOOX            OOOOO       XOOOOX    XOOOOX    XOOOOX                      OOOOO       XOOOOX  OOOOO               OOOOO       XOOOOX         XOOOOX       OOOOOOOOOO  XOOOOX                      '',
    ''                     OOOOO       XOOOOX    XOOOOX            OOOOO       XOOOOX    .XXOOoXXXXoOOXX.                      OOOOO       XOOOOX  OOOOO     XXXXXXX.  OOOOO       XOOOOX         XOOOOX       OOOOOXXoOOXXoOOOOX                      '',
    ''                     OOOOO       XOOOOX    XOOOOX            OOOOO       XOOOOX       OOOOOOOOOO                         OOOOO       XOOOOX  OOOOO     OOOOOOOX  OOOOO       XOOOOX         XOOOOX       OOOOO  XOOOOOOOOOX                      '',
    ''                     OOOOO       XOOOOX    XOOOOX            OOOOO       XOOOOX       OOOOOOOOOO                         OOOOO       XOOOOX  OOOOO     OOOOOOOX  OOOOO       XOOOOX         XOOOOX       OOOOO  XOOOOOOOOOX                      '',
    ''                     OOOOOOOOOOOOOOO       XOOOOX            OOOOOOOOOOOOOOOOOX         XOOOOX                           OOOOOOOOOOOOOOOOOX  OOOOO       XOOOOX  OOOOOOOOOOOOOOOOOX         XOOOOX       OOOOO     OOOOOOOX                      '',
    ''                     OOOOOOOOOOOOOOO       XOOOOX            OOOOOOOOOOOOOOOOOX         XOOOOX                           OOOOOOOOOOOOOOOOOX  OOOOO       XOOOOX  OOOOOOOOOOOOOOOOOX         XOOOOX       OOOOO     OOOOOOOX                      '',
    ''                     OOOOOXXXXXXXXXX       XOOOOX            OOOOOXXXXXXXoOOOOX         XOOOOX                           OOOOOXXXXXXXoOOOOX  XXoOOXX.    XOOOOX  OOOOOXXXXXXXoOOOOX         XOOOOX       OOOOO     XXoOOOOX                      '',
    ''                     OOOOO                 XOOOOX            OOOOO       XOOOOX         XOOOOX                           OOOOO       XOOOOX    XOOOOX    XOOOOX  OOOOO       XOOOOX         XOOOOX       OOOOO       XOOOOX                      '',
    ''                     OOOOO                 XOOOOX            OOOOO       XOOOOX         XOOOOX                           OOOOO       XOOOOX    XOOOOX    XOOOOX  OOOOO       XOOOOX         XOOOOX       OOOOO       XOOOOX                      '',
    ''                     OOOOO                 XOOOOOOOOOOOOOOX  OOOOO       XOOOOX         XOOOOX                           OOOOO       XOOOOX       OOOOOOOOOOOOX  OOOOO       XOOOOX    XOOOOOOOOOOOOOOX  OOOOO       XOOOOX                      '',
    ''                     OOOOO                 XOOOOOOOOOOOOOOX  OOOOO       XOOOOX         XOOOOX                           OOOOO       XOOOOX       OOOOOOOOOOOOX  OOOOO       XOOOOX    XOOOOOOOOOOOOOOX  OOOOO       XOOOOX                      '',
    ''                     XXXXX                 .XXXXXXXXXXXXXX.  XXXXX       .XXXX.         .XXXX.                           XXXXX       .XXXX.       XXXXXXXXXXXX.  XXXXX       .XXXX.    .XXXXXXXXXXXXXX.  XXXXX       .XXXX.                      '',
    ''                                                                                                                                                                                                                                                 '',
    ''                                                                                                                                                                                                                                                 '',
    ''                                                                                                                                                                                                                                                 '',
    ''                                                                                                                                                                                                                                                 '',
    ''                                                                                                                                                                                                                                                 '',
    ''                                                                                                                                                                                                                                                 '',
    ''                                                                                                                                                                                                                                                 '',
    ''                                                                                                                                                                                                                                                 '',
    ''                                                                                                                                                                                                                                                 '',
    ''                                                                                                                                                                                                                                                 '',
    ''                                                                                                                                                                                                                                                 '',
    ''                                                                                                                                                                                                                                                 '',
    ''                                                                                                                                                                                                                                                 '',
    ''                                                                                                                                                                                                                                                 '',
    ''                                                                                                                                                                                                                                                 '',
    ''                                                                                                                                                                                                                                                 '',
    ''                                                                                                                                                                                                                                                 '',
    ''                                                                                                                                                                                                                                                 '',
    ''                                                                                                                                                                                                                                                 '',
    ''                                                                                                                                                                                                                                                 '',
    ''                                                                                                                                                                                                                                                 '',
    ''                                                                                                                                                                                                                                                 '',
    ''                                                                                                                                                                                                                                                 '',
    ''                                                                                                                                                                                                                                                 '',
    ''                                                                                                                                                                                                                                                 '',
    ''                                                                                                                                                                                                                                                 '',
    ''                                                                                                                                                                                                                                                 '',
    ''                                                                                                                                                                                                                                                 '',
    ''                                                                                                                                                                                                                                                 '',
    ''                                                                                                                                                                                                                                                 '',
    ''                                                                                                                                                                                                                                                 '',
    ''                                                                                                                                                                                                                                                 '']"

definition play_again_selected :: "string list" where
  "play_again_selected = [
    ''241 79 5 1 '',
    ''  c #02C802'',
    ''. c #41D641'',
    ''X c #80E380'',
    ''o c #C0F1C0'',
    ''O c #FFFFFF'',
    ''                                                                                                                                                                                                                                                 '',
    ''                                                                                                                                                                                                                                                 '',
    ''                                                                                                                                                                                                                                                 '',
    ''                                                                                                                                                                                                                                                 '',
    ''                                                                                                                                                                                                                                                 '',
    ''                                                                                                                                                                                                                                                 '',
    ''                                                                                                                                                                                                                                                 '',
    ''                                                                                                                                                                                                                                                 '',
    ''                                                                                                                                                                                                                                                 '',
    ''                                                                                                                                                                                                                                                 '',
    ''                                                                                                                                                                                                                                                 '',
    ''                                                                                                                                                                                                                                                 '',
    ''                                                                                                                                                                                                                                                 '',
    ''                                                                                                                                                                                                                                                 '',
    ''                                                                                                                                                                                                                                                 '',
    ''                                                                                                                                                                                                                                                 '',
    ''                                                                                                                                                                                                                                                 '',
    ''                                                                                                                                                                                                                                                 '',
    ''                                                                                                                                                                                                                                                 '',
    ''                                                                                                                                                                                                                                                 '',
    ''                                                                                                                                                                                                                                                 '',
    ''                                                                                                                                                                                                                                                 '',
    ''                                                                                                                                                                                                                                                 '',
    ''                                                                                                                                                                                                                                                 '',
    ''                                                                                                                                                                                                                                                 '',
    ''                                                                                                                                                                                                                                                 '',
    ''                                                                                                                                                                                                                                                 '',
    ''                                                                                                                                                                                                                                                 '',
    ''                                                                                                                                                                                                                                                 '',
    ''                     OOOOOOOOOOOOOOO       XOOOOX                 OOOOOOOX         XOOOOX    XOOOOX                           OOOOOOOX            OOOOOOOOOOOOX       OOOOOOOX         XOOOOOOOOOOOOOOX  OOOOO       XOOOOX                      '',
    ''                     OOOOOOOOOOOOOOO       XOOOOX                 OOOOOOOX         XOOOOX    XOOOOX                           OOOOOOOX            OOOOOOOOOOOOX       OOOOOOOX         XOOOOOOOOOOOOOOX  OOOOO       XOOOOX                      '',
    ''                     OOOOOXXXXXXXoOOXX.    XOOOOX              .XXOOoXXOOoXX       XOOOOX    XOOOOX                        .XXOOoXXOOoXX       .XXOOoXXXXXXXXX.    .XXOOoXXOOoXX       .XXXXoOOOOoXXXX.  OOOOOXX.    XOOOOX                      '',
    ''                     OOOOO       XOOOOX    XOOOOX              XOOOOX  OOOOO       XOOOOX    XOOOOX                        XOOOOX  OOOOO       XOOOOX              XOOOOX  OOOOO            XOOOOX       OOOOOOOX    XOOOOX                      '',
    ''                     OOOOO       XOOOOX    XOOOOX              XOOOOX  OOOOO       XOOOOX    XOOOOX                        XOOOOX  OOOOO       XOOOOX              XOOOOX  OOOOO            XOOOOX       OOOOOOOX    XOOOOX                      '',
    ''                     OOOOO       XOOOOX    XOOOOX            OOOOO       XOOOOX    XOOOOX    XOOOOX                      OOOOO       XOOOOX  OOOOO               OOOOO       XOOOOX         XOOOOX       OOOOOOOOOO  XOOOOX                      '',
    ''                     OOOOO       XOOOOX    XOOOOX            OOOOO       XOOOOX    XOOOOX    XOOOOX                      OOOOO       XOOOOX  OOOOO               OOOOO       XOOOOX         XOOOOX       OOOOOOOOOO  XOOOOX                      '',
    ''                     OOOOO       XOOOOX    XOOOOX            OOOOO       XOOOOX    .XXOOoXXXXoOOXX.                      OOOOO       XOOOOX  OOOOO     XXXXXXX.  OOOOO       XOOOOX         XOOOOX       OOOOOXXoOOXXoOOOOX                      '',
    ''                     OOOOO       XOOOOX    XOOOOX            OOOOO       XOOOOX       OOOOOOOOOO                         OOOOO       XOOOOX  OOOOO     OOOOOOOX  OOOOO       XOOOOX         XOOOOX       OOOOO  XOOOOOOOOOX                      '',
    ''                     OOOOO       XOOOOX    XOOOOX            OOOOO       XOOOOX       OOOOOOOOOO                         OOOOO       XOOOOX  OOOOO     OOOOOOOX  OOOOO       XOOOOX         XOOOOX       OOOOO  XOOOOOOOOOX                      '',
    ''                     OOOOOOOOOOOOOOO       XOOOOX            OOOOOOOOOOOOOOOOOX         XOOOOX                           OOOOOOOOOOOOOOOOOX  OOOOO       XOOOOX  OOOOOOOOOOOOOOOOOX         XOOOOX       OOOOO     OOOOOOOX                      '',
    ''                     OOOOOOOOOOOOOOO       XOOOOX            OOOOOOOOOOOOOOOOOX         XOOOOX                           OOOOOOOOOOOOOOOOOX  OOOOO       XOOOOX  OOOOOOOOOOOOOOOOOX         XOOOOX       OOOOO     OOOOOOOX                      '',
    ''                     OOOOOXXXXXXXXXX       XOOOOX            OOOOOXXXXXXXoOOOOX         XOOOOX                           OOOOOXXXXXXXoOOOOX  XXoOOXX.    XOOOOX  OOOOOXXXXXXXoOOOOX         XOOOOX       OOOOO     XXoOOOOX                      '',
    ''                     OOOOO                 XOOOOX            OOOOO       XOOOOX         XOOOOX                           OOOOO       XOOOOX    XOOOOX    XOOOOX  OOOOO       XOOOOX         XOOOOX       OOOOO       XOOOOX                      '',
    ''                     OOOOO                 XOOOOX            OOOOO       XOOOOX         XOOOOX                           OOOOO       XOOOOX    XOOOOX    XOOOOX  OOOOO       XOOOOX         XOOOOX       OOOOO       XOOOOX                      '',
    ''                     OOOOO                 XOOOOOOOOOOOOOOX  OOOOO       XOOOOX         XOOOOX                           OOOOO       XOOOOX       OOOOOOOOOOOOX  OOOOO       XOOOOX    XOOOOOOOOOOOOOOX  OOOOO       XOOOOX                      '',
    ''                     OOOOO                 XOOOOOOOOOOOOOOX  OOOOO       XOOOOX         XOOOOX                           OOOOO       XOOOOX       OOOOOOOOOOOOX  OOOOO       XOOOOX    XOOOOOOOOOOOOOOX  OOOOO       XOOOOX                      '',
    ''                     XXXXX                 .XXXXXXXXXXXXXX.  XXXXX       .XXXX.         .XXXX.                           XXXXX       .XXXX.       XXXXXXXXXXXX.  XXXXX       .XXXX.    .XXXXXXXXXXXXXX.  XXXXX       .XXXX.                      '',
    ''                                                                                                                                                                                                                                                 '',
    ''                                                                                                                                                                                                                                                 '',
    ''                                                                                                                                                                                                                                                 '',
    ''                                                                                                                                                                                                                                                 '',
    ''                                                                                                                                                                                                                                                 '',
    ''                                                                                                                                                                                                                                                 '',
    ''                                                                                                                                                                                                                                                 '',
    ''                                                                                                                                                                                                                                                 '',
    ''                                                                                                                                                                                                                                                 '',
    ''                                                                                                                                                                                                                                                 '',
    ''                                                                                                                                                                                                                                                 '',
    ''                                                                                                                                                                                                                                                 '',
    ''                                                                                                                                                                                                                                                 '',
    ''                                                                                                                                                                                                                                                 '',
    ''                                                                                                                                                                                                                                                 '',
    ''                                                                                                                                                                                                                                                 '',
    ''                                                                                                                                                                                                                                                 '',
    ''                                                                                                                                                                                                                                                 '',
    ''                                                                                                                                                                                                                                                 '',
    ''                                                                                                                                                                                                                                                 '',
    ''                                                                                                                                                                                                                                                 '',
    ''                                                                                                                                                                                                                                                 '',
    ''                                                                                                                                                                                                                                                 '',
    ''                                                                                                                                                                                                                                                 '',
    ''                                                                                                                                                                                                                                                 '',
    ''                                                                                                                                                                                                                                                 '',
    ''                                                                                                                                                                                                                                                 '',
    ''                                                                                                                                                                                                                                                 '',
    ''                                                                                                                                                                                                                                                 '',
    ''                                                                                                                                                                                                                                                 '',
    ''                                                                                                                                                                                                                                                 '',
    ''                                                                                                                                                                                                                                                 '']"

end
