(* ===== verification/XpmPlay.thy ===== *)
theory XpmPlay
  imports Main
begin

text \<open>
  The two pixmaps of the start button of the main menu, \<^verbatim>\<open>model/xpm/\<close>.
\<close>

definition play_unselected :: "string list" where
  "play_unselected = [
    ''310 96 2 1 '',
    ''  c #5991FF'',
    ''. c #FFFFFF'',
    ''                                                                                                                                                                                                                                                                                                                      '',
    ''                                                                                                                                                                                                                                                                                                                      '',
    ''                                                                                                                                                                                                                                                                                                                      '',
    ''                                                                                                                                                                                                                                                                                                                      '',
    ''                                                                                                                                                                                                                                                                                                                      '',
    ''                                                                                                                                                                                                                                                                                                                      '',
    ''                                                                                                                                                                                                                                                                                                                      '',
    ''                                                                                                                                                                                                                                                                                                                      '',
    ''                                                                                                                                                                                                                                                                                                                      '',
    ''                                                                                                                                                                                                                                                                                                                      '',
    ''                                                                                                                                                                                                                                                                                                                      '',
    ''                                                                                                                                                                                                                                                                                                                      '',
    ''                                                                                                                                                                                                                                                                                                                      '',
    ''                                                                                                                                                                                                                                                                                                                      '',
    ''                                                                                                                                                                                                                                                                                                                      '',
    ''                                                                                                                                                                                                                                                                                                                      '',
    ''                                                                                                                                                                                                                                                                                                                      '',
    ''                                                                                                                                                                                                                                                                                                                      '',
    ''                                                                                                                                                                                                                                                                                                                      '',
    ''                                                                                                                                                                                                                                                                                                                      '',
    ''                                                                                                                                                                                                                                                                                                                      '',
    ''                                                                                                                                                                                                                                                                                                                      '',
    ''                                                                                                                                                                                                                                                                                                                      '',
    ''                                                                                                                                                                                                                                                                                                                      '',
    ''                                                                                                                                                                                                                                                                                                                      '',
    ''                                                                                                                                                                                                                                                                                                                      '',
    ''                                                                                                                                                                                                                                                                                                                      '',
    ''                                                                                                                                                                                                                                                                                                                      '',
    ''                                                                                                                                                                                                                                                                                                                      '',
    ''                                                                                                                                                                                                                                                                                                                      '',
    ''                                                                                                                                                                                                                                                                                                                      '',
    ''                                                                                                                                                                                                                                                                                                                      '',
    ''                                                                                                                                                                                                                                                                                                                      '',
    ''                                                                           ..............................               ..........                                   ...............                    ..........          ..........                                                                                '',
    ''                                                                           ..............................               ..........                                   ...............                    ..........          ..........                                                                                '',
    ''                                                                           ..............................               ..........                                   ...............                    ..........          ..........                                                                                '',
    ''                                                                           ..............................               ..........                                   ...............                    ..........          ..........                                                                                '',
    ''                                                                           ..............................               ..........                                   ...............                    ..........          ..........                                                                                '',
    ''                                                                           ..........               ..........          ..........                              ..........     ..........               ..........          ..........                                                                                '',
    ''                                                                           ..........               ..........          ..........                              ..........     ..........               ..........          ..........                                                                                '',
    ''                                                                           ..........               ..........          ..........                              ..........     ..........               ..........          ..........                                                                                '',
    ''                                                                           ..........               ..........          ..........                              ..........     ..........               ..........          ..........                                                                                '',
    ''                                                                           ..........               ..........          ..........                              ..........     ..........               ..........          ..........                                                                                '',
    ''                                                                           ..........               ..........          ..........                         ..........               ..........          ..........          ..........                                                                                '',
    ''                                                                           ..........               ..........          ..........                         ..........               ..........          ..........          ..........                                                                                '',
    ''                                                                           ..........               ..........          ..........                         ..........               ..........          ..........          ..........                                                                                '',
    ''                                                                           ..........               ..........          ..........                         ..........               ..........          ..........          ..........                                                                                '',
    ''                                                                           ..........               ..........          ..........                         ..........               ..........          ..........          ..........                                                                                '',
    ''                                                                           ..........               ..........          ..........                         ..........               ..........               ....................                                                                                     '',
    ''                                                                           ..........               ..........          ..........                         ..........               ..........               ....................                                                                                     '',
    ''                                                                           ..........               ..........          ..........                         ..........               ..........               ....................                                                                                     '',
    ''                                                                           ..........               ..........          ..........                         ..........               ..........               ....................                                                                                     '',
    ''                                                                           ..........               ..........          ..........                         ..........               ..........               ....................                                                                                     '',
    ''                                                                           ..............................               ..........                         ...................................                    ..........                                                                                          '',
    ''                                                                           ..............................               ..........                         ...................................                    ..........                                                                                          '',
    ''                                                                           ..............................               ..........                         ...................................                    ..........                                                                                          '',
    ''                                                                           ..............................               ..........                         ...................................                    ..........                                                                                          '',
    ''                                                                           ..............................               ..........                         ...................................                    ..........                                                                                          '',
    ''                                                                           ..........                                   ..........                         ..........               ..........                    ..........                                                                                          '',
    ''                                                                           ..........                                   ..........                         ..........               ..........                    ..........                                                                                          '',
    ''                                                                           ..........                                   ..........                         ..........               ..........                    ..........                                                                                          '',
    ''                                                                           ..........                                   ..........                         ..........               ..........                    ..........                                                                                          '',
    ''                                                                           ..........                                   ..........                         ..........               ..........                    ..........                                                                                          '',
    ''                                                                           ..........                                   ..............................     ..........               ..........                    ..........                                                                                          '',
    ''                                                                           ..........                                   ..............................     ..........               ..........                    ..........                                                                                          '',
    ''                                                                           ..........                                   ..............................     ..........               ..........                    ..........                                                                                          '',
    ''                                                                           ..........                                   ..............................     ..........               ..........                    ..........                                                                                          '',
    ''                                                                           ..........                                   ..............................     ..........               ..........                    ..........                                                                                          '',
    ''                                                                                                                                                                                                                                                                                                                      '',
    ''                                                                                                                                                                                                                                                                                                                      '',
    ''                                                                                                                                                                                                                                                                                                                      '',
    ''                                                                                                                                                                                                                                                                                                                      '',
    ''                                                                                                                                                                                                                                                                                                                      '',
    ''                                                                                                                                                                                                                                                                                                                      '',
    ''                                                                                                                                                                                                                                                                                                                      '',
    ''                                                                                                                                                                                                                                                                                                                      '',
    ''                                                                                                                                                                                                                                                                                                                      '',
    ''                                                                                                                                                                                                                                                                                                                      '',
    ''                                                                                                                                                                                                                                                                                                                      '',
    ''                                                                                                                                                                                                                                                                                                                      '',
    ''                                                                                                                                                                                                                                                                                                                      '',
    ''                                                                                                                                                                                                                                                                                                                      '',
    ''                                                                                                                                                                                                                                                                                                                      '',
    ''                                                                                                                                                                                                                                                                                                                      '',
    ''                                                                                                                                                                                                                                                                                                                      '',
    ''                                                                                                                                                                                                                                                                                                                      '',
    ''                                                                                                                                                                                                                                                                                                                      '',
    ''                                                                                                                                                                                                                                                                                                                      '',
    ''                                                                                                                                                                                                                                                                                                                      '',
    ''                                                                                                                                                                                                                                                                                                                      '',
    ''                                                                                                                                                                                                                                                                                                                      '',
    ''                                                                                                                                                                                                                                                                                                                      '',
    ''                                                                                                                                                                                                                                                                                                                      '',
    ''                                                                                                                                                                                                                                                                                                                      '',
    ''                                                                                                                                                                                                                                                                                                                      '',
    ''                                                                                                                                                                                                                                                                                                                      '']"

definition play_selected :: "string list" where
  "play_selected = [
    ''310 96 2 1 '',
    ''  c #C45200'',
    ''. c #FFFFFF'',
    ''                                                                                                                                                                                                                                                                                                                      '',
    ''                                                                                                                                                                                                                                                                                                                      '',
    ''                                                                                                                                                                                                                                                                                                                      '',
    ''                                                                                                                                                                                                                                                                                                                      '',
    ''                                                                                                                                                                                                                                                                                                                      '',
    ''                                                                                                                                                                                                                                                                                                                      '',
    ''                                                                                                                                                                                                                                                                                                                      '',
    ''                                                                                                                                                                                                                                                                                                                      '',
    ''                                                                                                                                                                                                                                                                                                                      '',
    ''                                                                                                                                                                                                                                                                                                                      '',
    ''                                                                                                                                                                                                                                                                                                                      '',
    ''                                                                                                                                                                                                                                                                                                                      '',
    ''                                                                                                                                                                                                                                                                                                                      '',
    ''                                                                                                                                                                                                                                                                                                                      '',
    ''                                                                                                                                                                                                                                                                                                                      '',
    ''                                                                                                                                                                                                                                                                                                                      '',
    ''                                                                                                                                                                                                                                                                                                                      '',
    ''                                                                                                                                                                                                                                                                                                                      '',
    ''                                                                                                                                                                                                                                                                                                                      '',
    ''                                                                                                                                                                                                                                                                                                                      '',
    ''                                                                                                                                                                                                                                                                                                                      '',
    ''                                                                                                                                                                                                                                                                                                                      '',
    ''                                                                                                                                                                                                                                                                                                                      '',
    ''                                                                                                                                                                                                                                                                                                                      '',
    ''                                                                                                                                                                                                                                                                                                                      '',
    ''                                                                                                                                                                                                                                                                                                                      '',
    ''                                                                                                                                                                                                                                                                                                                      '',
    ''                                                                                                                                                                                                                                                                                                                      '',
    ''                                                                                                                                                                                                                                                                                                                      '',
    ''                                                                                                                                                                                                                                                                                                                      '',
    ''                                                                                                                                                                                                                                                                                                                      '',
    ''                                                                                                                                                                                                                                                                                                                      '',
    ''                                                                                                                                                                                                                                                                                                                      '',
    ''                                                                           ..............................               ..........                                   ...............                    ..........          ..........                                                                                '',
    ''                                                                           ..............................               ..........                                   ...............                    ..........          ..........                                                                                '',
    ''                                                                           ..............................               ..........                                   ...............                    ..........          ..........                                                                                '',
    ''                                                                           ..............................               ..........                                   ...............                    ..........          ..........                                                                                '',
    ''                                                                           ..............................               ..........                                   ...............                    ..........          ..........                                                                                '',
    ''                                                                           ..........               ..........          ..........                              ..........     ..........               ..........          ..........                                                                                '',
    ''                                                                           ..........               ..........          ..........                              ..........     ..........               ..........          ..........                                                                                '',
    ''                                                                           ..........               ..........          ..........                              ..........     ..........               ..........          ..........                                                                                '',
    ''                                                                           ..........               ..........          ..........                              ..........     ..........               ..........          ..........                                                                                '',
    ''                                                                           ..........               ..........          ..........                              ..........     ..........               ..........          ..........                                                                                '',
    ''                                                                           ..........               ..........          ..........                         ..........               ..........          ..........          ..........                                                                                '',
    ''                                                                           ..........               ..........          ..........                         ..........               ..........          ..........          ..........                                                                                '',
    ''                                                                           ..........               ..........          ..........                         ..........               ..........          ..........          ..........                                                                                '',
    ''                                                                           ..........               ..........          ..........                         ..........               ..........          ..........          ..........                                                                                '',
    ''                                                                           ..........               ..........          ..........                         ..........               ..........          ..........          ..........                                                                                '',
    ''                                                                           ..........               ..........          ..........                         ..........               ..........               ....................                                                                                     '',
    ''                                                                           ..........               ..........          ..........                         ..........               ..........               ....................                                                                                     '',
    ''                                                                           ..........               ..........          ..........                         ..........               ..........               ....................                                                                                     '',
    ''                                                                           ..........               ..........          ..........                         ..........               ..........               ....................                                                                                     '',
    ''                                                                           ..........               ..........          ..........                         ..........               ..........               ....................                                                                                     '',
    ''                                                                           ..............................               ..........                         ...................................                    ..........                                                                                          '',
    ''                                                                           ..............................               ..........                         ...................................                    ..........                                                                                          '',
    ''                                                                           ..............................               ..........                         ...................................                    ..........                                                                                          '',
    ''                                                                           ..............................               ..........                         ...................................                    ..........                                                                                          '',
    ''                                                                           ..............................               ..........                         ...................................                    ..........                                                                                          '',
    ''                                                                           ..........                                   ..........                         ..........               ..........                    ..........                                                                                          '',
    ''                                                                           ..........                                   ..........                         ..........               ..........                    ..........                                                                                          '',
    ''                                                                           ..........                                   ..........                         ..........               ..........                    ..........                                                                                          '',
    ''                                                                           ..........                                   ..........                         ..........               ..........                    ..........                                                                                          '',
    ''                                                                           ..........                                   ..........                         ..........               ..........                    ..........                                                                                          '',
    ''                                                                           ..........                                   ..............................     ..........               ..........                    ..........                                                                                          '',
    ''                                                                           ..........                                   ..............................     ..........               ..........                    ..........                                                                                          '',
    ''                                                                           ..........                                   ..............................     ..........               ..........                    ..........                                                                                          '',
    ''                                                                           ..........                                   ..............................     ..........               ..........                    ..........                                                                                          '',
    ''                                                                           ..........                                   ..............................     ..........               ..........                    ..........                                                                                          '',
    ''                                                                                                                                                                                                                                                                                                                      '',
    ''                                                                                                                                                                                                                                                                                                                      '',
    ''                                                                                                                                                                                                                                                                                                                      '',
    ''                                                                                                                                                                                                                                                                                                                      '',
    ''                                                                                                                                                                                                                                                                                                                      '',
    ''                                                                                                                                                                                                                                                                                                                      '',
    ''                                                                                                                                                                                                                                                                                                                      '',
    ''                                                                                                                                                                                                                                                                                                                      '',
    ''                                                                                                                                                                                                                                                                                                                      '',
    ''                                                                                                                                                                                                                                                                                                                      '',
    ''                                                                                                                                                                                                                                                                                                                      '',
    ''                                                                                                                                                                                                                                                                                                                      '',
    ''                                                                                                                                                                                                                                                                                                                      '',
    ''                                                                                                                                                                                                                                                                                                                      '',
    ''                                                                                                                                                                                                                                                                                                                      '',
    ''                                                                                                                                                                                                                                                                                                                      '',
    ''                                                                                                                                                                                                                                                                                                                      '',
    ''                                                                                                                                                                                                                                                                                                                      '',
    ''                                                                                                                                                                                                                                                                                                                      '',
    ''                                                                                                                                                                                                                                                                                                                      '',
    ''                                                                                                                                                                                                                                                                                                                      '',
    ''                                                                                                                                                                                                                                                                                                                      '',
    ''                                                                                                                                                                                                                                                                                                                      '',
    ''                                                                                                                                                                                                                                                                                                                      '',
    ''                                                                                                                                                                                                                                                                                                                      '',
    ''                                                                                                                                                                                                                                                                                                                      '',
    ''                                                                                                                                                                                                                                                                                                                      '',
    ''                                                                                                                                                                                                                                                                                                                      '']"

end
