(* ===== verification/XpmRules.thy ===== *)
theory XpmRules
  imports Main
begin

text \<open>
  The two pixmaps of the rules button of the main menu, \<^verbatim>\<open>model/xpm/\<close>.
\<close>

definition rules_unselected :: "string list" where
  "rules_unselected = [
    ''310 96 2 1 '',
    ''  c #5991FF'',
    ''. c #FFFFFF'',
    ''                                                                                                                                                                                                                                                                                                                      '',
    ''                                                                                                                                                                                                                                                                                                                      '',
    ''                                                                                                                                                                                                                                                                                                                      '',
    ''                                                                                                                                                                                                                                                                                                                      '',
    ''                                                                                                                                                                                                                                                                                                                      '',
    ''                                                                                                                                                                                                                                                                                                                      '',
    ''                                                                                                                                                                                                                                                                                                                      '',
    ''                                                                                                                                                                                                                                                                                                                      '',
    ''                                                                                                                                                                                                                                                                                                                      '',
    ''                                                                                                                                                                                                                                                                                                                      '',
    ''                                                                                                                                                                                                                                                                                                                      '',
    ''                                                                                                                                                                                                                                                                                                                      '',
    ''                                                                                                                                                                                                                                                                                                                      '',
    ''                                                                                                                                                                                                                                                                                                                      '',
    ''                                                                                                                                                                                                                                                                                                                      '',
    ''                                                                                                                                                                                                                                                                                                                      '',
    ''                                                                                                                                                                                                                                                                                                                      '',
    ''                                                                                                                                                                                                                                                                                                                      '',
    ''                                                                                                                                                                                                                                                                                                                      '',
    ''                                                                                                                                                                                                                                                                                                                      '',
    ''                                                                                                                                                                                                                                                                                                                      '',
    ''                                                                                                                                                                                                                                                                                                                      '',
    ''                                                                                                                                                                                                                                                                                                                      '',
    ''                                                                                                                                                                                                                                                                                                                      '',
    ''                                                                                                                                                                                                                                                                                                                      '',
    ''                                                                                                                                                                                                                                                                                                                      '',
    ''                                                                                                                                                                                                                                                                                                                      '',
    ''                                                                                                                                                                                                                                                                                                                      '',
    ''                                                                                                                                                                                                                                                                                                                      '',
    ''                                                          ..............................          ..........               ..........          ..........                         ...................................          .........................                                                              '',
    ''                                                          ..............................          ..........               ..........          ..........                         ...................................          .........................                                                              '',
    ''                                                          ..............................          ..........               ..........          ..........                         ...................................          .........................                                                              '',
    ''                                                          ..............................          ..........               ..........          ..........                         ...................................          .........................                                                              '',
    ''                                                          ..............................          ..........               ..........          ..........                         ...................................          .........................                                                              '',
    ''                                                          ..........               ..........     ..........               ..........          ..........                         ..........                              ..........               ..........                                                         '',
    ''                                                          ..........               ..........     ..........               ..........          ..........                         ..........                              ..........               ..........                                                         '',
    ''                                                          ..........               ..........     ..........               ..........          ..........                         ..........                              ..........               ..........                                                         '',
    ''                                                          ..........               ..........     ..........               ..........          ..........                         ..........                              ..........               ..........                                                         '',
    ''                                                          ..........               ..........     ..........               ..........          ..........                         ..........                              ..........               ..........                                                         '',
    ''                                                          ..........               ..........     ..........               ..........          ..........                         ..........                              ..........                                                                                  '',
    ''                                                          ..........               ..........     ..........               ..........          ..........                         ..........                              ..........                                                                                  '',
    ''                                                          ..........               ..........     ..........               ..........          ..........                         ..........                              ..........                                                                                  '',
    ''                                                          ..........               ..........     ..........               ..........          ..........                         ..........                              ..........                                                                                  '',
    ''                                                          ..........               ..........     ..........               ..........          ..........                         ..........                              ..........                                                                                  '',
    ''                                                          ..........          ...............     ..........               ..........          ..........                         ..............................               .........................                                                              '',
    ''                                                          ..........          ...............     ..........               ..........          ..........                         ..............................               .........................                                                              '',
    ''                                                          ..........          ...............     ..........               ..........          ..........                         ..............................               .........................                                                              '',
    ''                                                          ..........          ...............     ..........               ..........          ..........                         ..............................               .........................                                                              '',
    ''                                                          ..........          ...............     ..........               ..........          ..........                         ..............................               .........................                                                              '',
    ''                                                          .........................               ..........               ..........          ..........                         ..........                                                       ..........                                                         '',
    ''                                                          .........................               ..........               ..........          ..........                         ..........                                                       ..........                                                         '',
    ''                                                          .........................               ..........               ..........          ..........                         ..........                                                       ..........                                                         '',
    ''                                                          .........................               ..........               ..........          ..........                         ..........                                                       ..........                                                         '',
    ''                                                          .........................               ..........               ..........          ..........                         ..........                                                       ..........                                                         '',
    ''                                                          ..........     ...............          ..........               ..........          ..........                         ..........                              ..........               ..........                                                         '',
    ''                                                          ..........     ...............          ..........               ..........          ..........                         ..........                              ..........               ..........                                                         '',
    ''                                                          ..........     ...............          ..........               ..........          ..........                         ..........                              ..........               ..........                                                         '',
    ''                                                          ..........     ...............          ..........               ..........          ..........                         ..........                              ..........               ..........                                                         '',
    ''                                                          ..........     ...............          ..........               ..........          ..........                         ..........                              ..........               ..........                                                         '',
    ''                                                          ..........          ...............          .........................               ..............................     ...................................          .........................                                                              '',
    ''                                                          ..........          ...............          .........................               ..............................     ...................................          .........................                                                              '',
    ''                                                          ..........          ...............          .........................               ..............................     ...................................          .........................                                                              '',
    ''                                                          ..........          ...............          .........................               ..............................     ...................................          .........................                                                              '',
    ''                                                          ..........          ...............          .........................               ..............................     ...................................          .........................                                                              '',
    ''                                                                                                                                                                                                                                                                                                                      '',
    ''                                                                                                                                                                                                                                                                                                                      '',
    ''                                                                                                                                                                                                                                                                                                                      '',
    ''                                                                                                                                                                                                                                                                                                                      '',
    ''                                                                                                                                                                                                                                                                                                                      '',
    ''                                                                                                                                                                                                                                                                                                                      '',
    ''                                                                                                                                                                                                                                                                                                                      '',
    ''                                                                                                                                                                                                                                                                                                                      '',
    ''                                                                                                                                                                                                                                                                                                                      '',
    ''                                                                                                                                                                                                                                                                                                                      '',
    ''                                                                                                                                                                                                                                                                                                                      '',
    ''                                                                                                                                                                                                                                                                                                                      '',
    ''                                                                                                                                                                                                                                                                                                                      '',
    ''                                                                                                                                                                                                                                                                                                                      '',
    ''                                                                                                                                                                                                                                                                                                                      '',
    ''                                                                                                                                                                                                                                                                                                                      '',
    ''                                                                                                                                                                                                                                                                                                                      '',
    ''                                                                                                                                                                                                                                                                                                                      '',
    ''                                                                                                                                                                                                                                                                                                                      '',
    ''                                                                                                                                                                                                                                                                                                                      '',
    ''                                                                                                                                                                                                                                                                                                                      '',
    ''                                                                                                                                                                                                                                                                                                                      '',
    ''                                                                                                                                                                                                                                                                                                                      '',
    ''                                                                                                                                                                                                                                                                                                                      '',
    ''                                                                                                                                                                                                                                                                                                                      '',
    ''                                                                                                                                                                                                                                                                                                                      '',
    ''                                                                                                                                                                                                                                                                                                                      '',
    ''                                                                                                                                                                                                                                                                                                                      '',
    ''                                                                                                                                                                                                                                                                                                                      '',
    ''                                                                                                                                                                                                                                                                                                                      '',
    ''                                                                                                                                                                                                                                                                                                                      '',
    ''                                                                                                                                                                                                                                                                                                                      '']"

definition rules_selected :: "string list" where
  "rules_selected = [
    ''310 96 2 1 '',
    ''  c #C45200'',
    ''. c #FFFFFF'',
    ''                                                                                                                                                                                                                                                                                                                      '',
    ''                                                                                                                                                                                                                                                                                                                      '',
    ''                                                                                                                                                                                                                                                                                                                      '',
    ''                                                                                                                                                                                                                                                                                                                      '',
    ''                                                                                                                                                                                                                                                                                                                      '',
    ''                                                                                                                                                                                                                                                                                                                      '',
    ''                                                                                                                                                                                                                                                                                                                      '',
    ''                                                                                                                                                                                                                                                                                                                      '',
    ''                                                                                                                                                                                                                                                                                                                      '',
    ''                                                                                                                                                                                                                                                                                                                      '',
    ''                                                                                                                                                                                                                                                                                                                      '',
    ''                                                                                                                                                                                                                                                                                                                      '',
    ''                                                                                                                                                                                                                                                                                                                      '',
    ''                                                                                                                                                                                                                                                                                                                      '',
    ''                                                                                                                                                                                                                                                                                                                      '',
    ''                                                                                                                                                                                                                                                                                                                      '',
    ''                                                                                                                                                                                                                                                                                                                      '',
    ''                                                                                                                                                                                                                                                                                                                      '',
    ''                                                                                                                                                                                                                                                                                                                      '',
    ''                                                                                                                                                                                                                                                                                                                      '',
    ''                                                                                                                                                                                                                                                                                                                      '',
    ''                                                                                                                                                                                                                                                                                                                      '',
    ''                                                                                                                                                                                                                                                                                                                      '',
    ''                                                                                                                                                                                                                                                                                                                      '',
    ''                                                                                                                                                                                                                                                                                                                      '',
    ''                                                                                                                                                                                                                                                                                                                      '',
    ''                                                                                                                                                                                                                                                                                                                      '',
    ''                                                                                                                                                                                                                                                                                                                      '',
    ''                                                                                                                                                                                                                                                                                                                      '',
    ''                                                          ..............................          ..........               ..........          ..........                         ...................................          .........................                                                              '',
    ''                                                          ..............................          ..........               ..........          ..........                         ...................................          .........................                                                              '',
    ''                                                          ..............................          ..........               ..........          ..........                         ...................................          .........................                                                              '',
    ''                                                          ..............................          ..........               ..........          ..........                         ...................................          .........................                                                              '',
    ''                                                          ..............................          ..........               ..........          ..........                         ...................................          .........................                                                              '',
    ''                                                          ..........               ..........     ..........               ..........          ..........                         ..........                              ..........               ..........                                                         '',
    ''                                                          ..........               ..........     ..........               ..........          ..........                         ..........                              ..........               ..........                                                         '',
    ''                                                          ..........               ..........     ..........               ..........          ..........                         ..........                              ..........               ..........                                                         '',
    ''                                                          ..........               ..........     ..........               ..........          ..........                         ..........                              ..........               ..........                                                         '',
    ''                                                          ..........               ..........     ..........               ..........          ..........                         ..........                              ..........               ..........                                                         '',
    ''                                                          ..........               ..........     ..........               ..........          ..........                         ..........                              ..........                                                                                  '',
    ''                                                          ..........               ..........     ..........               ..........          ..........                         ..........                              ..........                                                                                  '',
    ''                                                          ..........               ..........     ..........               ..........          ..........                         ..........                              ..........                                                                                  '',
    ''                                                          ..........               ..........     ..........               ..........          ..........                         ..........                              ..........                                                                                  '',
    ''                                                          ..........               ..........     ..........               ..........          ..........                         ..........                              ..........                                                                                  '',
    ''                                                          ..........          ...............     ..........               ..........          ..........                         ..............................               .........................                                                              '',
    ''                                                          ..........          ...............     ..........               ..........          ..........                         ..............................               .........................                                                              '',
    ''                                                          ..........          ...............     ..........               ..........          ..........                         ..............................               .........................                                                              '',
    ''                                                          ..........          ...............     ..........               ..........          ..........                         ..............................               .........................                                                              '',
    ''                                                          ..........          ...............     ..........               ..........          ..........                         ..............................               .........................                                                              '',
    ''                                                          .........................               ..........               ..........          ..........                         ..........                                                       ..........                                                         '',
    ''                                                          .........................               ..........               ..........          ..........                         ..........                                                       ..........                                                         '',
    ''                                                          .........................               ..........               ..........          ..........                         ..........                                                       ..........                                                         '',
    ''                                                          .........................               ..........               ..........          ..........                         ..........                                                       ..........                                                         '',
    ''                                                          .........................               ..........               ..........          ..........                         ..........                                                       ..........                                                         '',
    ''                                                          ..........     ...............          ..........               ..........          ..........                         ..........                              ..........               ..........                                                         '',
    ''                                                          ..........     ...............          ..........               ..........          ..........                         ..........                              ..........               ..........                                                         '',
    ''                                                          ..........     ...............          ..........               ..........          ..........                         ..........                              ..........               ..........                                                         '',
    ''                                                          ..........     ...............          ..........               ..........          ..........                         ..........                              ..........               ..........                                                         '',
    ''                                                          ..........     ...............          ..........               ..........          ..........                         ..........                              ..........               ..........                                                         '',
    ''                                                          ..........          ...............          .........................               ..............................     ...................................          .........................                                                              '',
    ''                                                          ..........          ...............          .........................               ..............................     ...................................          .........................                                                              '',
    ''                                                          ..........          ...............          .........................               ..............................     ...................................          .........................                                                              '',
    ''                                                          ..........          ...............          .........................               ..............................     ...................................          .........................                                                              '',
    ''                                                          ..........          ...............          .........................               ..............................     ...................................          .........................                                                              '',
    ''                                                                                                                                                                                                                                                                                                                      '',
    ''                                                                                                                                                                                                                                                                                                                      '',
    ''                                                                                                                                                                                                                                                                                                                      '',
    ''                                                                                                                                                                                                                                                                                                                      '',
    ''                                                                                                                                                                                                                                                                                                                      '',
    ''                                                                                                                                                                                                                                                                                                                      '',
    ''                                                                                                                                                                                                                                                                                                                      '',
    ''                                                                                                                                                                                                                                                                                                                      '',
    ''                                                                                                                                                                                                                                                                                                                      '',
    ''                                                                                                                                                                                                                                                                                                                      '',
    ''                                                                                                                                                                                                                                                                                                                      '',
    ''                                                                                                                                                                                                                                                                                                                      '',
    ''                                                                                                                                                                                                                                                                                                                      '',
    ''                                                                                                                                                                                                                                                                                                                      '',
    ''                                                                                                                                                                                                                                                                                                                      '',
    ''                                                                                                                                                                                                                                                                                                                      '',
    ''                                                                                                                                                                                                                                                                                                                      '',
    ''                                                                                                                                                                                                                                                                                                                      '',
    ''                                                                                                                                                                                                                                                                                                                      '',
    ''                                                                                                                                                                                                                                                                                                                      '',
    ''                                                                                                                                                                                                                                                                                                                      '',
    ''                                                                                                                                                                                                                                                                                                                      '',
    ''                                                                                                                                                                                                                                                                                                                      '',
    ''                                                                                                                                                                                                                                                                                                                      '',
    ''                                                                                                                                                                                                                                                                                                                      '',
    ''                                                                                                                                                                                                                                                                                                                      '',
    ''                                                                                                                                                                                                                                                                                                                      '',
    ''                                                                                                                                                                                                                                                                                                                      '',
    ''                                                                                                                                                                                                                                                                                                                      '',
    ''                                                                                                                                                                                                                                                                                                                      '',
    ''                                                                                                                                                                                                                                                                                                                      '',
    ''                                                                                                                                                                                                                                                                                                                      '']"

end
