(* ===== verification/XpmExit.thy ===== *)
theory XpmExit
  imports Main
begin

text \<open>
  The two pixmaps of the exit button of the main menu, \<^verbatim>\<open>model/xpm/\<close>.
\<close>

definition exit_unselected :: "string list" where
  "exit_unselected = [
    ''310 96 2 1 '',
    ''  c #5991FF'',
    ''. c #FFFFFF'',
    ''                                                                                                                                                                                                                                                                                                                      '',
    ''                                                                                                                                                                                                                                                                                                                      '',
    ''                                                                                                                                                                                                                                                                                                                      '',
    ''                                                                                                                                                                                                                                                                                                                      '',
    ''                                                                                                                                                                                                                                                                                                                      '',
    ''                                                                                                                                                                                                                                                                                                                      '',
    ''                                                                                                                                                                                                                                                                                                                      '',
    ''                                                                                                                                                                                                                                                                                                                      '',
    ''                                                                                                                                                                                                                                                                                                                      '',
    ''                                                                                                                                                                                                                                                                                                                      '',
    ''                                                                                                                                                                                                                                                                                                                      '',
    ''                                                                                                                                                                                                                                                                                                                      '',
    ''                                                                                                                                                                                                                                                                                                                      '',
    ''                                                                                                                                                                                                                                                                                                                      '',
    ''                                                                                                                                                                                                                                                                                                                      '',
    ''                                                                                                                                                                                                                                                                                                                      '',
    ''                                                                                                                                                                                                                                                                                                                      '',
    ''                                                                                                                                                                                                                                                                                                                      '',
    ''                                                                                                                                                                                                                                                                                                                      '',
    ''                                                                                                                                                                                                                                                                                                                      '',
    ''                                                                                                                                                                                                                                                                                                                      '',
    ''                                                                                                                                                                                                                                                                                                                      '',
    ''                                                                                                                                                                                                                                                                                                                      '',
    ''                                                                                                                                                                                                                                                                                                                      '',
    ''                                                                                                                                                                                                                                                                                                                      '',
    ''                                                                                                                                                                                                                                                                                                                      '',
    ''                                                                                                                                                                                                                                                                                                                      '',
    ''                                                                                                                                                                                                                                                                                                                      '',
    ''                                                                           ...................................     ..........               ..........          ..............................          ..............................                                                                                '',
    ''                                                                           ...................................     ..........               ..........          ..............................          ..............................                                                                                '',
    ''                                                                           ...................................     ..........               ..........          ..............................          ..............................                                                                                '',
    ''                                                                           ...................................     ..........               ..........          ..............................          ..............................                                                                                '',
    ''                                                                           ...................................     ..........               ..........          ..............................          ..............................                                                                                '',
    ''                                                                           ..........                              ..........               ..........                    ..........                              ..........                                                                                          '',
    ''                                                                           ..........                              ..........               ..........                    ..........                              ..........                                                                                          '',
    ''                                                                           ..........                              ..........               ..........                    ..........                              ..........                                                                                          '',
    ''                                                                           ..........                              ..........               ..........                    ..........                              ..........                                                                                          '',
    ''                                                                           ..........                              ..........               ..........                    ..........                              ..........                                                                                          '',
    ''                                                                           ..........                                   ..........     ..........                         ..........                              ..........                                                                                          '',
    ''                                                                           ..........                                   ..........     ..........                         ..........                              ..........                                                                                          '',
    ''                                                                           ..........                                   ..........     ..........                         ..........                              ..........                                                                                          '',
    ''                                                                           ..........                                   ..........     ..........                         ..........                              ..........                                                                                          '',
    ''                                                                           ..........                                   ..........     ..........                         ..........                              ..........                                                                                          '',
    ''                                                                           ..............................                    ...............                              ..........                              ..........                                                                                          '',
    ''                                                                           ..............................                    ...............                              ..........                              ..........                                                                                          '',
    ''                                                                           ..............................                    ...............                              ..........                              ..........                                                                                          '',
    ''                                                                           ..............................                    ...............                              ..........                              ..........                                                                                          '',
    ''                                                                           ..............................                    ...............                              ..........                              ..........                                                                                          '',
    ''                                                                           ..........                                   ..........     ..........                         ..........                              ..........                                                                                          '',
    ''                                                                           ..........                                   ..........     ..........                         ..........                              ..........                                                                                          '',
    ''                                                                           ..........                                   ..........     ..........                         ..........                              ..........                                                                                          '',
    ''                                                                           ..........                                   ..........     ..........                         ..........                              ..........                                                                                          '',
    ''                                                                           ..........                                   ..........     ..........                         ..........                              ..........                                                                                          '',
    ''                                                                           ..........                              ..........               ..........                    ..........                              ..........                                                                                          '',
    ''                                                                           ..........                              ..........               ..........                    ..........                              ..........                                                                                          '',
    ''                                                                           ..........                              ..........               ..........                    ..........                              ..........                                                                                          '',
    ''                                                                           ..........                              ..........               ..........                    ..........                              ..........                                                                                          '',
    ''                                                                           ..........                              ..........               ..........                    ..........                              ..........                                                                                          '',
    ''                                                                           ...................................     ..........               ..........          ..............................                    ..........                                                                                          '',
    ''                                                                           ...................................     ..........               ..........          ..............................                    ..........                                                                                          '',
    ''                                                                           ...................................     ..........               ..........          ..............................                    ..........                                                                                          '',
    ''                                                                           ...................................     ..........               ..........          ..............................                    ..........                                                                                          '',
    ''                                                                           ...................................     ..........               ..........          ..............................                    ..........                                                                                          '',
    ''                                                                                                                                                                                                                                                                                                                      '',
    ''                                                                                                                                                                                                                                                                                                                      '',
    ''                                                                                                                                                                                                                                                                                                                      '',
    ''                                                                                                                                                                                                                                                                                                                      '',
    ''                                                                                                                                                                                                                                                                                                                      '',
    ''                                                                                                                                                                                                                                                                                                                      '',
    ''                                                                                                                                                                                                                                                                                                                      '',
    ''                                                                                                                                                                                                                                                                                                                      '',
    ''                                                                                                                                                                                                                                                                                                                      '',
    ''                                                                                                                                                                                                                                                                                                                      '',
    ''                                                                                                                                                                                                                                                                                                                      '',
    ''                                                                                                                                                                                                                                                                                                                      '',
    ''                                                                                                                                                                                                                                                                                                                      '',
    ''                                                                                                                                                                                                                                                                                                                      '',
    ''                                                                                                                                                                                                                                                                                                                      '',
    ''                                                                                                                                                                                                                                                                                                                      '',
    ''                                                                                                                                                                                                                                                                                                                      '',
    ''                                                                                                                                                                                                                                                                                                                      '',
    ''                                                                                                                                                                                                                                                                                                                      '',
    ''                                                                                                                                                                                                                                                                                                                      '',
    ''                                                                                                                                                                                                                                                                                                                      '',
    ''                                                                                                                                                                                                                                                                                                                      '',
    ''                                                                                                                                                                                                                                                                                                                      '',
    ''                                                                                                                                                                                                                                                                                                                      '',
    ''                                                                                                                                                                                                                                                                                                                      '',
    ''                                                                                                                                                                                                                                                                                                                      '',
    ''                                                                                                                                                                                                                                                                                                                      '',
    ''                                                                                                                                                                                                                                                                                                                      '',
    ''                                                                                                                                                                                                                                                                                                                      '',
    ''                                                                                                                                                                                                                                                                                                                      '',
    ''                                                                                                                                                                                                                                                                                                                      '',
    ''                                                                                                                                                                                                                                                                                                                      '',
    ''                                                                                                                                                                                                                                                                                                                      '']"

definition exit_selected :: "string list" where
  "exit_selected = [
    ''310 96 2 1 '',
    ''  c #C45200'',
    ''. c #FFFFFF'',
    ''                                                                                                                                                                                                                                                                                                                      '',
    ''                                                                                                                                                                                                                                                                                                                      '',
    ''                                                                                                                                                                                                                                                                                                                      '',
    ''                                                                                                                                                                                                                                                                                                                      '',
    ''                                                                                                                                                                                                                                                                                                                      '',
    ''                                                                                                                                                                                                                                                                                                                      '',
    ''                                                                                                                                                                                                                                                                                                                      '',
    ''                                                                                                                                                                                                                                                                                                                      '',
    ''                                                                                                                                                                                                                                                                                                                      '',
    ''                                                                                                                                                                                                                                                                                                                      '',
    ''                                                                                                                                                                                                                                                                                                                      '',
    ''                                                                                                                                                                                                                                                                                                                      '',
    ''                                                                                                                                                                                                                                                                                                                      '',
    ''                                                                                                                                                                                                                                                                                                                      '',
    ''                                                                                                                                                                                                                                                                                                                      '',
    ''                                                                                                                                                                                                                                                                                                                      '',
    ''                                                                                                                                                                                                                                                                                                                      '',
    ''                                                                                                                                                                                                                                                                                                                      '',
    ''                                                                                                                                                                                                                                                                                                                      '',
    ''                                                                                                                                                                                                                                                                                                                      '',
    ''                                                                                                                                                                                                                                                                                                                      '',
    ''                                                                                                                                                                                                                                                                                                                      '',
    ''                                                                                                                                                                                                                                                                                                                      '',
    ''                                                                                                                                                                                                                                                                                                                      '',
    ''                                                                                                                                                                                                                                                                                                                      '',
    ''                                                                                                                                                                                                                                                                                                                      '',
    ''                                                                                                                                                                                                                                                                                                                      '',
    ''                                                                                                                                                                                                                                                                                                                      '',
    ''                                                                           ...................................     ..........               ..........          ..............................          ..............................                                                                                '',
    ''                                                                           ...................................     ..........               ..........          ..............................          ..............................                                                                                '',
    ''                                                                           ...................................     ..........               ..........          ..............................          ..............................                                                                                '',
    ''                                                                           ...................................     ..........               ..........          ..............................          ..............................                                                                                '',
    ''                                                                           ...................................     ..........               ..........          ..............................          ..............................                                                                                '',
    ''                                                                           ..........                              ..........               ..........                    ..........                              ..........                                                                                          '',
    ''                                                                           ..........                              ..........               ..........                    ..........                              ..........                                                                                          '',
    ''                                                                           ..........                              ..........               ..........                    ..........                              ..........                                                                                          '',
    ''                                                                           ..........                              ..........               ..........                    ..........                              ..........                                                                                          '',
    ''                                                                           ..........                              ..........               ..........                    ..........                              ..........                                                                                          '',
    ''                                                                           ..........                                   ..........     ..........                         ..........                              ..........                                                                                          '',
    ''                                                                           ..........                                   ..........     ..........                         ..........                              ..........                                                                                          '',
    ''                                                                           ..........                                   ..........     ..........                         ..........                              ..........                                                                                          '',
    ''                                                                           ..........                                   ..........     ..........                         ..........                              ..........                                                                                          '',
    ''                                                                           ..........                                   ..........     ..........                         ..........                              ..........                                                                                          '',
    ''                                                                           ..............................                    ...............                              ..........                              ..........                                                                                          '',
    ''                                                                           ..............................                    ...............                              ..........                              ..........                                                                                          '',
    ''                                                                           ..............................                    ...............                              ..........                              ..........                                                                                          '',
    ''                                                                           ..............................                    ...............                              ..........                              ..........                                                                                          '',
    ''                                                                           ..............................                    ...............                              ..........                              ..........                                                                                          '',
    ''                                                                           ..........                                   ..........     ..........                         ..........                              ..........                                                                                          '',
    ''                                                                           ..........                                   ..........     ..........                         ..........                              ..........                                                                                          '',
    ''                                                                           ..........                                   ..........     ..........                         ..........                              ..........                                                                                          '',
    ''                                                                           ..........                                   ..........     ..........                         ..........                              ..........                                                                                          '',
    ''                                                                           ..........                                   ..........     ..........                         ..........                              ..........                                                                                          '',
    ''                                                                           ..........                              ..........               ..........                    ..........                              ..........                                                                                          '',
    ''                                                                           ..........                              ..........               ..........                    ..........                              ..........                                                                                          '',
    ''                                                                           ..........                              ..........               ..........                    ..........                              ..........                                                                                          '',
    ''                                                                           ..........                              ..........               ..........                    ..........                              ..........                                                                                          '',
    ''                                                                           ..........                              ..........               ..........                    ..........                              ..........                                                                                          '',
    ''                                                                           ...................................     ..........               ..........          ..............................                    ..........                                                                                          '',
    ''                                                                           ...................................     ..........               ..........          ..............................                    ..........                                                                                          '',
    ''                                                                           ...................................     ..........               ..........          ..............................                    ..........                                                                                          '',
    ''                                                                           ...................................     ..........               ..........          ..............................                    ..........                                                                                          '',
    ''                                                                           ...................................     ..........               ..........          ..............................                    ..........                                                                                          '',
    ''                                                                                                                                                                                                                                                                                                                      '',
    ''                                                                                                                                                                                                                                                                                                                      '',
    ''                                                                                                                                                                                                                                                                                                                      '',
    ''                                                                                                                                                                                                                                                                                                                      '',
    ''                                                                                                                                                                                                                                                                                                                      '',
    ''                                                                                                                                                                                                                                                                                                                      '',
    ''                                                                                                                                                                                                                                                                                                                      '',
    ''                                                                                                                                                                                                                                                                                                                      '',
    ''                                                                                                                                                                                                                                                                                                                      '',
    ''                                                                                                                                                                                                                                                                                                                      '',
    ''                                                                                                                                                                                                                                                                                                                      '',
    ''                                                                                                                                                                                                                                                                                                                      '',
    ''                                                                                                                                                                                                                                                                                                                      '',
    ''                                                                                                                                                                                                                                                                                                                      '',
    ''                                                                                                                                                                                                                                                                                                                      '',
    ''                                                                                                                                                                                                                                                                                                                      '',
    ''                                                                                                                                                                                                                                                                                                                      '',
    ''                                                                                                                                                                                                                                                                                                                      '',
    ''                                                                                                                                                                                                                                                                                                                      '',
    ''                                                                                                                                                                                                                                                                                                                      '',
    ''                                                                                                                                                                                                                                                                                                                      '',
    ''                                                                                                                                                                                                                                                                                                                      '',
    ''                                                                                                                                                                                                                                                                                                                      '',
    ''                                                                                                                                                                                                                                                                                                                      '',
    ''                                                                                                                                                                                                                                                                                                                      '',
    ''                                                                                                                                                                                                                                                                                                                      '',
    ''                                                                                                                                                                                                                                                                                                                      '',
    ''                                                                                                                                                                                                                                                                                                                      '',
    ''                                                                                                                                                                                                                                                                                                                      '',
    ''                                                                                                                                                                                                                                                                                                                      '',
    ''                                                                                                                                                                                                                                                                                                                      '',
    ''                                                                                                                                                                                                                                                                                                                      '',
    ''                                                                                                                                                                                                                                                                                                                      '']"

end
