(* ===== verification/Assets.thy ===== *)
theory Assets
  imports Platform XpmDigits XpmSprites XpmPopOut XpmPlay XpmRules XpmExit
begin

text \<open>
  What the pixmaps under \<^verbatim>\<open>model/xpm/\<close> promise: a reader of their value lines, the format of an
  XPM array with one character per pixel, and the size of every pixmap the program loads.  The
  conversion to bytes is \<^verbatim>\<open>xpm_load\<close>, a call of the platform; \<open>xpm_loads\<close> states its documented
  result for these pixmaps.
\<close>

section \<open>Reading the values line\<close>

fun words_from :: "string \<Rightarrow> string \<Rightarrow> string list" where
  "words_from acc [] = (if acc = [] then [] else [rev acc])"
| "words_from acc (c # cs) =
     (if c = CHR '' '' then (if acc = [] then words_from [] cs else rev acc # words_from [] cs)
      else words_from (c # acc) cs)"

definition nat_of_dec :: "string \<Rightarrow> nat" where
  "nat_of_dec ds = foldl (\<lambda>n c. 10 * n + (of_char c - 48)) 0 ds"

text \<open>\<^verbatim>\<open>columns rows colors chars-per-pixel\<close>\<close>

definition values_of :: "string \<Rightarrow> nat list" where
  "values_of line = map nat_of_dec (words_from [] line)"

definition xpm_size :: "string \<Rightarrow> nat \<times> nat" where
  "xpm_size line = (case values_of line of w # h # _ \<Rightarrow> (w, h) | _ \<Rightarrow> (0, 0))"

section \<open>The size of every pixmap\<close>

text \<open>The values line of every pixmap: from its array, or as text for the full-screen images.\<close>

definition digit_rows :: "string list list \<Rightarrow> nat \<Rightarrow> string list" where
  "digit_rows family n = (if n < length family then family ! n else [])"

definition white_numbers :: "string list list" where
  "white_numbers = [white_zero, white_one, white_two, white_three, white_four, white_five, white_six,
     white_seven, white_eight, white_nine]"

definition red_numbers :: "string list list" where
  "red_numbers = [red_zero, red_one, red_two, red_three, red_four, red_five, red_six, red_seven,
     red_eight, red_nine]"

definition blue_numbers :: "string list list" where
  "blue_numbers = [blue_zero, blue_one, blue_two, blue_three, blue_four, blue_five, blue_six, blue_seven,
     blue_eight, blue_nine]"

definition values_line :: "string list \<Rightarrow> string" where
  "values_line rows = (case rows of [] \<Rightarrow> [] | line # _ \<Rightarrow> line)"

fun xpm_values :: "xpm_map \<Rightarrow> string" where
  "xpm_values Xpm_mouse = values_line xpm_mouse"
| "xpm_values Blue_puck = values_line blue_puck"
| "xpm_values Red_puck = values_line red_puck"
| "xpm_values Disk = values_line disk"
| "xpm_values (White_number n) = values_line (digit_rows white_numbers n)"
| "xpm_values (Red_number n) = values_line (digit_rows red_numbers n)"
| "xpm_values (Blue_number n) = values_line (digit_rows blue_numbers n)"
| "xpm_values White_time = values_line white_time"
| "xpm_values White_points = values_line white_points"
| "xpm_values Title_time = values_line title_time"
| "xpm_values Title_points = values_line title_points"
| "xpm_values Day_separator = values_line day_separator"
| "xpm_values Time_two_points = values_line time_two_points"
| "xpm_values Play_unselected = values_line play_unselected"
| "xpm_values Play_selected = values_line play_selected"
| "xpm_values Rules_unselected = values_line rules_unselected"
| "xpm_values Rules_selected = values_line rules_selected"
| "xpm_values Exit_unselected = values_line exit_unselected"
| "xpm_values Exit_selected = values_line exit_selected"
| "xpm_values Play_again_selected = values_line play_again_selected"
| "xpm_values Play_again_unselected = values_line play_again_unselected"
| "xpm_values Leave_selected = values_line leave_selected"
| "xpm_values Leave_unselected = values_line leave_unselected"
| "xpm_values Xpm_background = ''1152 864 88 1 ''"
| "xpm_values Menu = ''1152 864 216 2 ''"
| "xpm_values Rules = ''1152 864 3 1 ''"
| "xpm_values Youwon = ''486 299 20 1 ''"
| "xpm_values Youlost = ''486 299 18 1 ''"
| "xpm_values Tie = ''486 299 3 1 ''"

definition xpm_dims :: "xpm_map \<Rightarrow> nat \<times> nat" where
  "xpm_dims x = xpm_size (xpm_values x)"

text \<open>The pixmaps that exist: ten digits in each family.\<close>

definition xpm_exists :: "xpm_map \<Rightarrow> bool" where
  "xpm_exists x = (case x of White_number n \<Rightarrow> n < 10 | Red_number n \<Rightarrow> n < 10 | Blue_number n \<Rightarrow> n < 10 | _ \<Rightarrow> True)"

text \<open>
  Documented behaviour of \<^verbatim>\<open>xpm_load\<close> with enough memory (a hypothesis): every pixmap of the
  program loads, its descriptor has the announced size, and the bytes are four per pixel.
\<close>

definition loads_as :: "'w os \<Rightarrow> xpm_map \<Rightarrow> nat \<Rightarrow> nat \<Rightarrow> bool" where
  "loads_as os x w h \<longleftrightarrow> (\<forall>img0. \<exists>m img. xpm_load os x XPM_8_8_8_8 img0 = (Some m, img) \<and> img_bytes img = Some m \<and>
     unat (img_width img) = w \<and> unat (img_height img) = h \<and> length m = w * h * 4)"

definition xpm_loads :: "'w os \<Rightarrow> bool" where
  "xpm_loads os \<longleftrightarrow> (\<forall>x. xpm_exists x \<longrightarrow> loads_as os x (fst (xpm_dims x)) (snd (xpm_dims x)))"

section \<open>The sizes of the arrays of the source\<close>

lemma sizes:
  "xpm_size ''80 80 25 1 '' = (80, 80)"
  "xpm_size ''50 50 2 1 '' = (50, 50)"
  "xpm_size ''12 19 3 1'' = (12, 19)"
  "xpm_size ''10 23 2 1 '' = (10, 23)"
  "xpm_size ''27 5 2 1 '' = (27, 5)"
  "xpm_size ''132 31 2 1 '' = (132, 31)"
  "xpm_size ''206 31 2 1 '' = (206, 31)"
  "xpm_size ''31 31 2 1 '' = (31, 31)"
  "xpm_size ''27 31 2 1 '' = (27, 31)"
  "xpm_size ''310 96 2 1 '' = (310, 96)"
  "xpm_size ''241 79 5 1 '' = (241, 79)"
  "xpm_size ''149 79 5 1 '' = (149, 79)"
  "xpm_size ''1152 864 88 1 '' = (1152, 864)"
  "xpm_size ''1152 864 216 2 '' = (1152, 864)"
  "xpm_size ''1152 864 3 1 '' = (1152, 864)"
  "xpm_size ''486 299 20 1 '' = (486, 299)"
  "xpm_size ''486 299 18 1 '' = (486, 299)"
  "xpm_size ''486 299 3 1 '' = (486, 299)"
  by code_simp+

lemma white_values: "map values_line white_numbers = [
    ''31 31 2 1 '', ''27 31 2 1 '', ''31 31 2 1 '', ''31 31 2 1 '', ''31 31 2 1 '', ''31 31 2 1 '', ''31 31 2 1 '', ''31 31 2 1 '', ''31 31 2 1 '', ''31 31 2 1 '']"
  by (simp only: white_numbers_def list.map values_line_def white_zero_def white_one_def white_two_def white_three_def white_four_def white_five_def white_six_def white_seven_def white_eight_def white_nine_def list.case)

lemma red_values: "map values_line red_numbers = [
    ''31 31 2 1 '', ''27 31 2 1 '', ''31 31 2 1 '', ''31 31 2 1 '', ''31 31 2 1 '', ''31 31 2 1 '', ''31 31 2 1 '', ''31 31 2 1 '', ''31 31 2 1 '', ''31 31 2 1 '']"
  by (simp only: red_numbers_def list.map values_line_def red_zero_def red_one_def red_two_def red_three_def red_four_def red_five_def red_six_def red_seven_def red_eight_def red_nine_def list.case)

lemma blue_values: "map values_line blue_numbers = [
    ''31 31 2 1 '', ''27 31 2 1 '', ''31 31 2 1 '', ''31 31 2 1 '', ''31 31 2 1 '', ''31 31 2 1 '', ''31 31 2 1 '', ''31 31 2 1 '', ''31 31 2 1 '', ''31 31 2 1 '']"
  by (simp only: blue_numbers_def list.map values_line_def blue_zero_def blue_one_def blue_two_def blue_three_def blue_four_def blue_five_def blue_six_def blue_seven_def blue_eight_def blue_nine_def list.case)

lemma object_values:
  "values_line xpm_mouse = ''12 19 3 1''" "values_line blue_puck = ''80 80 25 1 ''"
  "values_line red_puck = ''80 80 25 1 ''" "values_line disk = ''50 50 2 1 ''"
  "values_line white_time = ''10 23 2 1 ''" "values_line white_points = ''27 5 2 1 ''"
  "values_line title_time = ''132 31 2 1 ''" "values_line title_points = ''206 31 2 1 ''"
  "values_line day_separator = ''27 5 2 1 ''" "values_line time_two_points = ''10 23 2 1 ''"
  by (simp_all only: values_line_def xpm_mouse_def blue_puck_def red_puck_def disk_def white_time_def
      white_points_def title_time_def title_points_def day_separator_def time_two_points_def list.case)

lemma button_values:
  "values_line play_unselected = ''310 96 2 1 ''" "values_line play_selected = ''310 96 2 1 ''"
  "values_line rules_unselected = ''310 96 2 1 ''" "values_line rules_selected = ''310 96 2 1 ''"
  "values_line exit_unselected = ''310 96 2 1 ''" "values_line exit_selected = ''310 96 2 1 ''"
  "values_line play_again_selected = ''241 79 5 1 ''" "values_line play_again_unselected = ''241 79 5 1 ''"
  "values_line leave_selected = ''149 79 5 1 ''" "values_line leave_unselected = ''149 79 5 1 ''"
  by (simp_all only: values_line_def play_unselected_def play_selected_def rules_unselected_def rules_selected_def
      exit_unselected_def exit_selected_def play_again_selected_def play_again_unselected_def
      leave_selected_def leave_unselected_def list.case)

lemma dims_objects [simp]:
  "xpm_dims Xpm_mouse = (12, 19)" "xpm_dims Blue_puck = (80, 80)" "xpm_dims Red_puck = (80, 80)"
  "xpm_dims Disk = (50, 50)"
  by (simp_all only: xpm_dims_def xpm_values.simps object_values sizes)

lemma dims_labels [simp]:
  "xpm_dims White_time = (10, 23)" "xpm_dims White_points = (27, 5)" "xpm_dims Title_time = (132, 31)"
  "xpm_dims Title_points = (206, 31)" "xpm_dims Day_separator = (27, 5)" "xpm_dims Time_two_points = (10, 23)"
  by (simp_all only: xpm_dims_def xpm_values.simps object_values sizes)

lemma dims_buttons [simp]:
  "xpm_dims Play_unselected = (310, 96)" "xpm_dims Play_selected = (310, 96)"
  "xpm_dims Rules_unselected = (310, 96)" "xpm_dims Rules_selected = (310, 96)"
  "xpm_dims Exit_unselected = (310, 96)" "xpm_dims Exit_selected = (310, 96)"
  "xpm_dims Play_again_selected = (241, 79)" "xpm_dims Play_again_unselected = (241, 79)"
  "xpm_dims Leave_selected = (149, 79)" "xpm_dims Leave_unselected = (149, 79)"
  by (simp_all only: xpm_dims_def xpm_values.simps button_values sizes)

lemma dims_images [simp]:
  "xpm_dims Xpm_background = (1152, 864)" "xpm_dims Menu = (1152, 864)" "xpm_dims Rules = (1152, 864)"
  "xpm_dims Youwon = (486, 299)" "xpm_dims Youlost = (486, 299)" "xpm_dims Tie = (486, 299)"
  by (simp_all only: xpm_dims_def xpm_values.simps sizes)

text \<open>A digit is 31 pixels high and 27 (for the one) or 31 wide.\<close>

definition digit_dims :: "nat \<Rightarrow> nat \<times> nat" where
  "digit_dims n = (if n = 1 then 27 else 31, 31)"

lemma digit_family:
  assumes "map values_line family = [''31 31 2 1 '', ''27 31 2 1 '', ''31 31 2 1 '', ''31 31 2 1 '', ''31 31 2 1 '',
    ''31 31 2 1 '', ''31 31 2 1 '', ''31 31 2 1 '', ''31 31 2 1 '', ''31 31 2 1 '']" and "n < 10"
  shows "xpm_size (values_line (digit_rows family n)) = digit_dims n"
proof -
  have len: "length family = 10" using arg_cong [OF assms(1), of length] by simp
  then have "values_line (digit_rows family n) = map values_line family ! n"
    using assms(2) by (simp add: digit_rows_def)
  moreover have "n \<in> {0, 1, 2, 3, 4, 5, 6, 7, 8, 9}" using assms(2) by auto
  ultimately show ?thesis unfolding assms(1) by (auto simp: digit_dims_def sizes)
qed

lemma dims_digits [simp]:
  assumes "n < 10"
  shows "xpm_dims (White_number n) = digit_dims n" "xpm_dims (Red_number n) = digit_dims n"
    "xpm_dims (Blue_number n) = digit_dims n"
  using assms digit_family [OF white_values] digit_family [OF red_values] digit_family [OF blue_values]
  by (simp_all add: xpm_dims_def)

text \<open>A platform whose loader produces images of the announced sizes.\<close>

definition asset_os :: "bench os" where
  "asset_os = bench_os xpm_dims"

lemma digit_dims_small: "fst (digit_dims n) < 65536 \<and> snd (digit_dims n) < 65536"
  by (simp add: digit_dims_def)

lemma bench_loads_as:
  assumes "fst (d x) < 65536" and "snd (d x) < 65536"
  shows "loads_as (bench_os d) x (fst (d x)) (snd (d x))"
  using assms by (simp add: loads_as_def bench_image_def Let_def unsigned_of_nat take_bit_nat_eq_self)

lemma asset_os_loads: "xpm_loads asset_os"
  unfolding xpm_loads_def
proof (intro allI impI)
  fix x assume "xpm_exists x"
  then have "fst (xpm_dims x) < 65536 \<and> snd (xpm_dims x) < 65536"
    by (cases x) (simp_all add: xpm_exists_def digit_dims_small)
  then show "loads_as asset_os x (fst (xpm_dims x)) (snd (xpm_dims x))"
    unfolding asset_os_def by (intro bench_loads_as) simp_all
qed

end
