(* ===== verification/Rtc.thy ===== *)
theory Rtc
  imports Platform
begin

text \<open>
  The real-time clock driver, \<^verbatim>\<open>controller/rtc/rtc.c\<close>: reading the six date and time registers,
  converting them from BCD.
\<close>

section \<open>Registers: rtc.h\<close>

definition RTC_ADDR_REG :: nat where [hw_consts]: "RTC_ADDR_REG = 0x70"
definition RTC_DATA_REG :: nat where [hw_consts]: "RTC_DATA_REG = 0x71"
definition IRQ_RTC :: int where [hw_consts]: "IRQ_RTC = 8"
definition RTC_MASK :: u32 where [hw_consts]: "RTC_MASK = 5"
definition rtc_update :: byte where [hw_consts]: "rtc_update = 10"
definition rtc_count :: byte where [hw_consts]: "rtc_count = 11"
definition DM :: byte where [hw_consts]: "DM = BIT 2"
definition UIP :: byte where [hw_consts]: "UIP = BIT 7"
definition reg_year :: byte where [hw_consts]: "reg_year = 9"
definition reg_month :: byte where [hw_consts]: "reg_month = 8"
definition reg_day :: byte where [hw_consts]: "reg_day = 7"
definition reg_hour :: byte where [hw_consts]: "reg_hour = 4"
definition reg_minute :: byte where [hw_consts]: "reg_minute = 2"
definition reg_second :: byte where [hw_consts]: "reg_second = 0"

record day_time =
  yyyy :: byte
  mm :: byte
  dd :: byte
  dt_h :: byte
  dt_m :: byte
  dt_s :: byte

section \<open>The driver\<close>

definition rtc_hook_init :: int where
  "rtc_hook_init = 5"

definition rtc_subscribe :: "'w os \<Rightarrow> int \<Rightarrow> 'w \<Rightarrow> (int \<times> int) \<times> 'w" where
  "rtc_subscribe os rtc_hook w = sys_irqsetpolicy os IRQ_RTC (IRQ_REENABLE OR IRQ_EXCLUSIVE) rtc_hook w"

definition rtc_unsubscribe :: "'w os \<Rightarrow> int \<Rightarrow> 'w \<Rightarrow> (int \<times> int) \<times> 'w" where
  "rtc_unsubscribe os rtc_hook w = sys_irqrmpolicy os rtc_hook w"

definition rtc_get_config :: "'w os \<Rightarrow> byte \<Rightarrow> cell \<Rightarrow> 'w \<Rightarrow> (int \<times> cell) \<times> 'w" where
  "rtc_get_config os rtc st w =
     (case sys_outb os RTC_ADDR_REG (ucast rtc) w of
        (r, w1) \<Rightarrow>
          if r \<noteq> 0 then ((1, st), w1)
          else (case util_sys_inb os RTC_DATA_REG st w1 of
                  ((r, st'), w2) \<Rightarrow> if r \<noteq> 0 then ((1, st'), w2) else ((0, st'), w2)))"

definition verify_updating :: "'w os \<Rightarrow> 'w \<Rightarrow> int \<times> 'w" where
  "verify_updating os w =
     (case rtc_get_config os rtc_update (Some 0) w of
        ((r, st), w1) \<Rightarrow> if r \<noteq> 0 then (1, w1) else (if the st AND UIP \<noteq> 0 then 1 else 0, w1))"

definition verify_binary :: "'w os \<Rightarrow> 'w \<Rightarrow> int \<times> 'w" where
  "verify_binary os w =
     (case rtc_get_config os rtc_count (Some 0) w of
        ((r, st), w1) \<Rightarrow> if r \<noteq> 0 then (1, w1) else (if the st AND DM \<noteq> 0 then 1 else 0, w1))"

text \<open>All arithmetic is on \<^verbatim>\<open>uint8_t\<close>: it wraps.  The loop state is \<open>(bcd, value, scale)\<close>.\<close>

fun rtc_convert_loop :: "nat \<Rightarrow> byte \<Rightarrow> byte \<Rightarrow> byte \<Rightarrow> byte" where
  "rtc_convert_loop 0 bcd val scale = val"
| "rtc_convert_loop (Suc k) bcd val scale =
     (let lsb = bcd AND 0x0F
      in rtc_convert_loop k (drop_bit 4 bcd) (val + lsb * scale) (scale * 10))"

definition rtc_convert_binary :: "byte \<Rightarrow> int" where
  "rtc_convert_binary bcd = uint (rtc_convert_loop 8 bcd 0 1)"

text \<open>The result goes to \<open>info\<close>, which is returned as it stands when nothing is stored.\<close>

definition rtc_read_convert :: "'w os \<Rightarrow> byte \<Rightarrow> byte \<Rightarrow> 'w \<Rightarrow> (int \<times> byte) \<times> 'w" where
  "rtc_read_convert os reg info w =
     (case rtc_get_config os reg (Some 0) w of
        ((r, rtc), w1) \<Rightarrow>
          if r \<noteq> 0 then ((1, info), w1)
          else (case verify_binary os w1 of
                  (b, w2) \<Rightarrow>
                    if b = 0 then ((0, word_of_int (rtc_convert_binary (the rtc))), w2)
                    else ((0, info), w2)))"

definition rtc_update_info :: "'w os \<Rightarrow> day_time \<Rightarrow> 'w \<Rightarrow> int \<times> day_time \<times> 'w" where
  "rtc_update_info os t w0 =
     (case verify_updating os w0 of (r, w) \<Rightarrow> if r \<noteq> 0 then (1, t, w) else
     (case rtc_read_convert os reg_second (dt_s t) w of ((r, v), w) \<Rightarrow>
        let t = t\<lparr>dt_s := v\<rparr> in if r \<noteq> 0 then (1, t, w) else
     (case rtc_read_convert os reg_minute (dt_m t) w of ((r, v), w) \<Rightarrow>
        let t = t\<lparr>dt_m := v\<rparr> in if r \<noteq> 0 then (1, t, w) else
     (case rtc_read_convert os reg_hour (dt_h t) w of ((r, v), w) \<Rightarrow>
        let t = t\<lparr>dt_h := v\<rparr> in if r \<noteq> 0 then (1, t, w) else
     (case rtc_read_convert os reg_day (dd t) w of ((r, v), w) \<Rightarrow>
        let t = t\<lparr>dd := v\<rparr> in if r \<noteq> 0 then (1, t, w) else
     (case rtc_read_convert os reg_month (mm t) w of ((r, v), w) \<Rightarrow>
        let t = t\<lparr>mm := v\<rparr> in if r \<noteq> 0 then (1, t, w) else
     (case rtc_read_convert os reg_year (yyyy t) w of ((r, v), w) \<Rightarrow>
        let t = t\<lparr>yyyy := v\<rparr> in if r \<noteq> 0 then (1, t, w) else (0, t, w))))))))"

section \<open>Conversion from BCD\<close>

text \<open>The two nibbles of a byte.\<close>

lemma nibble_values:
  fixes b :: byte
  shows "uint (b AND 0x0F) = uint b mod 16" "uint (drop_bit 4 b) = uint b div 16"
proof -
  have m: "(0x0F :: byte) = mask 4" by (simp add: mask_eq_exp_minus_1)
  show "uint (b AND 0x0F) = uint b mod 16"
    unfolding m by (simp add: uint_mod_distrib take_bit_eq_mod flip: take_bit_eq_mask)
  show "uint (drop_bit 4 b) = uint b div 16"
    by (simp add: drop_bit_eq_div uint_div_distrib)
qed

lemma rtc_convert_loop_zero: "rtc_convert_loop k 0 val scale = val"
  by (induction k arbitrary: scale) simp_all

lemma rtc_convert_loop_nibbles:
  "rtc_convert_loop 8 b 0 1 = (b AND 0x0F) + drop_bit 4 b * 10"
proof -
  have m: "(0x0F :: byte) = mask 4" by (simp add: mask_eq_exp_minus_1)
  have "drop_bit 4 (drop_bit 4 b) = 0"
    by (rule bit_word_eqI) (simp add: bit_simps)
  moreover have "drop_bit 4 b AND 0x0F = drop_bit 4 b"
    unfolding m by (rule bit_word_eqI) (auto simp: bit_simps dest: bit_imp_le_length)
  ultimately show ?thesis
    by (simp add: eval_nat_numeral Let_def rtc_convert_loop_zero del: numeral_eq_Suc)
qed

text \<open>The date byte a register holds for a two-digit number.\<close>

definition bcd_of :: "nat \<Rightarrow> byte" where
  "bcd_of n = of_nat (16 * (n div 10) + n mod 10)"

lemma byte_range: "0 \<le> uint (b :: byte)" "uint (b :: byte) < 256"
  using uint_lt2p [of b] by simp_all

lemma rtc_convert_value: "rtc_convert_binary b = uint b mod 16 + 10 * (uint b div 16)"
proof -
  have "uint b div 16 < 16" using byte_range [of b] by simp
  then have "uint b mod 16 + 10 * (uint b div 16) < 256"
    using pos_mod_bound [of 16 "uint b"] by linarith
  moreover have "0 \<le> uint b mod 16 + 10 * (uint b div 16)"
    using byte_range(1) [of b] by (simp add: pos_imp_zdiv_nonneg_iff)
  ultimately show ?thesis
    by (simp add: rtc_convert_binary_def rtc_convert_loop_nibbles uint_word_ariths nibble_values
        mod_add_right_eq mult.commute)
qed

lemma rtc_convert_bound: "0 \<le> rtc_convert_binary b" "rtc_convert_binary b \<le> 165"
proof -
  have "uint b div 16 < 16" using byte_range [of b] by simp
  then show "rtc_convert_binary b \<le> 165"
    using pos_mod_bound [of 16 "uint b"] by (simp add: rtc_convert_value)
  show "0 \<le> rtc_convert_binary b"
    using pos_mod_sign [of 16 "uint b"] byte_range(1) [of b]
    by (simp add: rtc_convert_value pos_imp_zdiv_nonneg_iff)
qed

lemma uint_bcd_of: "n < 100 \<Longrightarrow> uint (bcd_of n) = int (16 * (n div 10) + n mod 10)"
  unfolding bcd_of_def by (simp only: unsigned_of_nat take_bit_nat_eq_self_iff) (simp add: take_bit_nat_eq_self)

section \<open>Properties\<close>

text \<open>BCD conversion: for every two-digit number, converting the byte the clock holds for it
  gives the number back, although the loop runs eight times over a byte and its scale wraps.\<close>

theorem rtc_convert_bcd:
  assumes "n < 100"
  shows "rtc_convert_binary (bcd_of n) = int n"
  using assms by (simp add: rtc_convert_value uint_bcd_of) presburger

theorem rtc_convert_bcd_witness: "rtc_convert_binary (bcd_of 59) = 59"
  using rtc_convert_bcd [of 59] by simp

text \<open>
  A clock chip as the data sheet documents it: writing a register number to the address port and
  then reading the data port returns that register, here with contents \<open>regs\<close> that do not change
  during the reads.
\<close>

definition rtc_chip :: "'w os \<Rightarrow> (byte \<Rightarrow> byte) \<Rightarrow> bool" where
  "rtc_chip os regs \<longleftrightarrow>
     (\<forall>r w. \<exists>w1 v w2. sys_outb os RTC_ADDR_REG (ucast r) w = (0, w1) \<and>
        sys_inb os RTC_DATA_REG w1 = ((0, v), w2) \<and> ucast v = regs r)"

lemma rtc_get_config_chip:
  assumes "rtc_chip os regs"
  shows "\<exists>w'. rtc_get_config os r (Some c) w = ((0, Some (regs r)), w')"
proof -
  obtain w1 v w2 where "sys_outb os RTC_ADDR_REG (ucast r) w = (0, w1)"
    and v: "sys_inb os RTC_DATA_REG w1 = ((0, v), w2)" "ucast v = regs r"
    using assms unfolding rtc_chip_def by blast
  then show ?thesis using util_sys_inb_ok [OF v(1), of c] by (simp add: rtc_get_config_def)
qed

lemma rtc_read_convert_chip:
  assumes "rtc_chip os regs"
  shows "\<exists>w'. rtc_read_convert os r info w =
    ((0, if bit (regs rtc_count) 2 then info else word_of_int (rtc_convert_binary (regs r))), w')"
proof -
  obtain w1 where 1: "rtc_get_config os r (Some 0) w = ((0, Some (regs r)), w1)"
    using rtc_get_config_chip [OF assms] by blast
  obtain w2 where "rtc_get_config os rtc_count (Some 0) w1 = ((0, Some (regs rtc_count)), w2)"
    using rtc_get_config_chip [OF assms] by blast
  then have "verify_binary os w1 = (if bit (regs rtc_count) 2 then 1 else 0, w2)"
    by (simp add: verify_binary_def DM_def)
  with 1 show ?thesis by (simp add: rtc_read_convert_def)
qed

text \<open>
  A clock whose date registers, whenever they are read, hold two decimal digits (the data sheet's
  BCD mode); nothing is said of failing reads or of the control registers.
\<close>

definition bcd_byte :: "byte \<Rightarrow> bool" where
  "bcd_byte b \<longleftrightarrow> uint b mod 16 < 10 \<and> uint b div 16 < 10"

definition bcd_clock :: "'w os \<Rightarrow> bool" where
  "bcd_clock os \<longleftrightarrow>
     (\<forall>r\<in>{reg_second, reg_minute, reg_hour, reg_day, reg_month, reg_year}. \<forall>w b w'.
        rtc_get_config os r (Some 0) w = ((0, Some b), w') \<longrightarrow> bcd_byte b)"

lemma rtc_convert_bcd_byte:
  assumes "bcd_byte b"
  shows "(word_of_int (rtc_convert_binary b) :: byte) < 100"
proof -
  have v: "0 \<le> rtc_convert_binary b" "rtc_convert_binary b < 100"
    using assms rtc_convert_bound(1) [of b] unfolding bcd_byte_def rtc_convert_value by linarith+
  then have "uint (word_of_int (rtc_convert_binary b) :: byte) = rtc_convert_binary b"
    by (simp add: unsigned_of_int take_bit_int_eq_self)
  with v show ?thesis by (simp add: word_less_def)
qed

lemma rtc_get_config_cell:
  assumes "rtc_get_config os r (Some c) w = ((0, st), w')"
  obtains b where "st = Some b"
proof -
  from assms obtain w1 where u: "util_sys_inb os RTC_DATA_REG (Some c) w1 = ((0, st), w')"
    by (auto simp: rtc_get_config_def split: prod.splits if_splits)
  show thesis
    by (cases rule: util_sys_inb_cases [of os RTC_DATA_REG c w1]) (use u that in simp_all)
qed

lemma rtc_read_convert_small:
  assumes "bcd_clock os" and "reg \<in> {reg_second, reg_minute, reg_hour, reg_day, reg_month, reg_year}"
    and "info < 100" and "rtc_read_convert os reg info w = ((r, v), w')"
  shows "v < 100"
proof -
  obtain r1 st w1 where g: "rtc_get_config os reg (Some 0) w = ((r1, st), w1)" by (metis prod.exhaust)
  show ?thesis
  proof (cases "r1 = 0")
    case True
    obtain b where b: "st = Some b" using g True rtc_get_config_cell by metis
    then have "bcd_byte b" using assms(1,2) g True unfolding bcd_clock_def by blast
    then show ?thesis using assms(3,4) g True b rtc_convert_bcd_byte
      by (auto simp: rtc_read_convert_def split: prod.splits if_splits)
  next
    case False
    then show ?thesis using assms(3,4) g by (simp add: rtc_read_convert_def)
  qed
qed

text \<open>The date and time a chip in BCD mode shows.\<close>

definition chip_time :: "(byte \<Rightarrow> byte) \<Rightarrow> day_time" where
  "chip_time regs =
     (let f = (\<lambda>r. word_of_int (rtc_convert_binary (regs r)))
      in \<lparr>yyyy = f reg_year, mm = f reg_month, dd = f reg_day,
          dt_h = f reg_hour, dt_m = f reg_minute, dt_s = f reg_second\<rparr>)"

text \<open>C38 (clock update): while the chip is updating, nothing is stored and 1 is returned; in BCD
  mode all six fields become the converted registers; in binary mode 0 is returned, but no
  field is stored, so the clock on the screen stops.\<close>

theorem rtc_update_info_chip:
  assumes "rtc_chip os regs"
  shows "\<exists>w'. rtc_update_info os t w =
    (if bit (regs rtc_update) 7 then (1, t, w')
     else if bit (regs rtc_count) 2 then (0, t, w')
     else (0, chip_time regs, w'))"
proof -
  obtain w0 where "rtc_get_config os rtc_update (Some 0) w = ((0, Some (regs rtc_update)), w0)"
    using rtc_get_config_chip [OF assms] by blast
  then have u: "verify_updating os w = (if bit (regs rtc_update) 7 then 1 else 0, w0)"
    by (simp add: verify_updating_def UIP_def)
  let ?c = "\<lambda>r info. if bit (regs rtc_count) 2 then info else word_of_int (rtc_convert_binary (regs r))"
  obtain w1 where 1: "rtc_read_convert os reg_second (dt_s t) w0 = ((0, ?c reg_second (dt_s t)), w1)"
    using rtc_read_convert_chip [OF assms] by blast
  obtain w2 where 2: "rtc_read_convert os reg_minute (dt_m t) w1 = ((0, ?c reg_minute (dt_m t)), w2)"
    using rtc_read_convert_chip [OF assms] by blast
  obtain w3 where 3: "rtc_read_convert os reg_hour (dt_h t) w2 = ((0, ?c reg_hour (dt_h t)), w3)"
    using rtc_read_convert_chip [OF assms] by blast
  obtain w4 where 4: "rtc_read_convert os reg_day (dd t) w3 = ((0, ?c reg_day (dd t)), w4)"
    using rtc_read_convert_chip [OF assms] by blast
  obtain w5 where 5: "rtc_read_convert os reg_month (mm t) w4 = ((0, ?c reg_month (mm t)), w5)"
    using rtc_read_convert_chip [OF assms] by blast
  obtain w6 where 6: "rtc_read_convert os reg_year (yyyy t) w5 = ((0, ?c reg_year (yyyy t)), w6)"
    using rtc_read_convert_chip [OF assms] by blast
  show ?thesis
    by (cases "bit (regs rtc_count) 2"; cases "bit (regs rtc_update) 7")
      (use 1 2 3 4 5 6 in \<open>simp_all add: rtc_update_info_def u Let_def chip_time_def\<close>)
qed

text \<open>A chip showing 23:59:58 on 31 December 24.\<close>

definition demo_regs :: "byte \<Rightarrow> byte" where
  "demo_regs r =
     (if r = reg_year then bcd_of 24 else if r = reg_month then bcd_of 12
      else if r = reg_day then bcd_of 31 else if r = reg_hour then bcd_of 23
      else if r = reg_minute then bcd_of 59 else if r = reg_second then bcd_of 58 else 0)"

definition demo_chip :: "byte os" where
  "demo_chip = \<lparr>
     sys_inb = (\<lambda>port a. ((0, ucast (demo_regs a)), a)),
     sys_outb = (\<lambda>port v a. (0, ucast v)),
     sys_irqsetpolicy = (\<lambda>irq pol hook w. ((0, hook), w)),
     sys_irqrmpolicy = (\<lambda>hook w. ((0, hook), w)),
     tickdelay = (\<lambda>t w. w), sys_hz = 60,
     malloc = (\<lambda>n w. (Some (replicate n 0), w)),
     xpm_load = (\<lambda>x ty img. bench_image 1 1),
     vbe_get_mode_info = (\<lambda>m w. ((0, bench_mode), w)),
     sys_int86 = (\<lambda>r w. (0, w)),
     sys_privctl_add_mem = (\<lambda>b l w. (0, w)),
     vm_map_phys = (\<lambda>b n w. (None, w)),
     vg_exit = (\<lambda>w. (0, w))\<rparr>"

lemma demo_chip_ok: "rtc_chip demo_chip demo_regs"
  by (simp add: rtc_chip_def demo_chip_def ucast_down_ucast_id is_down_def)

theorem rtc_update_info_chip_witness:
  "\<exists>w'. rtc_update_info demo_chip \<lparr>yyyy = 0, mm = 0, dd = 0, dt_h = 0, dt_m = 0, dt_s = 0\<rparr> 0 =
     (0, \<lparr>yyyy = 24, mm = 12, dd = 31, dt_h = 23, dt_m = 59, dt_s = 58\<rparr>, w')"
proof -
  have regs: "demo_regs rtc_update = 0" "demo_regs rtc_count = 0"
    by (simp_all add: demo_regs_def rtc_update_def rtc_count_def reg_year_def reg_month_def reg_day_def
        reg_hour_def reg_minute_def reg_second_def)
  have "chip_time demo_regs = \<lparr>yyyy = 24, mm = 12, dd = 31, dt_h = 23, dt_m = 59, dt_s = 58\<rparr>"
    by (simp add: chip_time_def Let_def demo_regs_def reg_year_def reg_month_def reg_day_def
        reg_hour_def reg_minute_def reg_second_def rtc_convert_value uint_bcd_of)
  then show ?thesis using rtc_update_info_chip [OF demo_chip_ok] by (simp add: regs)
qed

end
