(* ===== verification/View.thy ===== *)
theory View
  imports Physics Assets Rtc
begin

text \<open>
  The view, \<^verbatim>\<open>view/view.c\<close>: drawing the frame of each state of the program into the secondary
  buffer and copying it to the screen.
\<close>

section \<open>State\<close>

datatype MainStateMachine = MAIN_MENU | RULES | GAME | STOP | WIN | LOST | TIE

text \<open>
  The sprite pointers of \<^verbatim>\<open>model.h\<close> beside the three of the table, the state of the program, the
  clocks the view shows, and the cached images of \<^verbatim>\<open>view.c\<close>.
\<close>

record 'w scene = "'w arena" +
  mouse :: ptr
  numbers :: "ptr list"
  time_sep :: ptr
  time_title :: ptr
  points_title :: ptr
  numbers_red :: "ptr list"
  numbers_blue :: "ptr list"
  points_sep :: ptr
  two_points :: ptr
  two_points2 :: ptr
  day_sep :: ptr
  day_sep2 :: ptr
  exit_button_unselected :: ptr
  rules_button_unselected :: ptr
  start_button_unselected :: ptr
  buttons_menu_unselected :: "ptr list"
  start_button_selected :: ptr
  rules_button_selected :: ptr
  exit_button_selected :: ptr
  buttons_menu_selected :: "ptr list"
  play_again_button_selected :: ptr
  leave_button_selected :: ptr
  buttons_winlose_selected :: "ptr list"
  play_again_button_unselected :: ptr
  leave_button_unselected :: ptr
  buttons_winlose_unselected :: "ptr list"
  mainState :: MainStateMachine
  time_remaining :: u32
  day_time_info :: day_time
  game_background :: xpm_image
  menu_background :: xpm_image
  youwon_popOut :: xpm_image
  youlost_popOut :: xpm_image
  tie_popOut :: xpm_image
  rules_background :: xpm_image

section \<open>Images\<close>

text \<open>The load on first use that both image routines start with; \<open>None\<close> when it fails.\<close>

definition cached_image :: "'w os \<Rightarrow> xpm_map \<Rightarrow> xpm_image \<Rightarrow> bool \<times> xpm_image" where
  "cached_image os xpm img =
     (if img_bytes img = None then
        (case xpm_load os xpm XPM_8_8_8_8 img of (None, img') \<Rightarrow> (False, img') | (Some _, img') \<Rightarrow> (True, img'))
      else (True, img))"

definition image_mem :: "xpm_image \<Rightarrow> byte list" where
  "image_mem img = (case img_bytes img of None \<Rightarrow> [] | Some m \<Rightarrow> m)"

definition vg_draw_background ::
  "'w os \<Rightarrow> xpm_map \<Rightarrow> xpm_image \<Rightarrow> ('w, 'a) video_scheme \<Rightarrow> (int \<times> xpm_image \<times> ('w, 'a) video_scheme) option" where
  "vg_draw_background os xpm img0 s =
     (case cached_image os xpm img0 of
        (loaded, img) \<Rightarrow>
          if \<not> loaded then Some (1, img, s)
          else do {
            buf \<leftarrow> copy_rows (unat (ucast (img_width img) * bytes_per_pixel s)) (image_mem img)
                     (\<lambda>line. unat ((of_nat line * h_res s) * bytes_per_pixel s))
                     (unat (img_height img)) 0 0 (secondary_buffer s);
            Some (0, img, s\<lparr>secondary_buffer := buf\<rparr>)
          })"

text \<open>
  The loop counter \<^verbatim>\<open>line\<close> is a \<^verbatim>\<open>uint16_t\<close> that starts at the upper margin; when the last line is
  beyond its range it wraps, and the loop never ends inside the image.
\<close>

definition vg_drawn_popOut ::
  "'w os \<Rightarrow> xpm_map \<Rightarrow> xpm_image \<Rightarrow> ('w, 'a) video_scheme \<Rightarrow> (int \<times> xpm_image \<times> ('w, 'a) video_scheme) option" where
  "vg_drawn_popOut os xpm img0 s =
     (case cached_image os xpm img0 of
        (loaded, img) \<Rightarrow>
          if \<not> loaded then Some (1, img, s)
          else do {
            let margin = get_v_res s div 2 - ucast (img_height img) div 2;
            let first = unat (ucast margin :: u16);
            let last = unat (ucast (img_height img) + margin);
            let left = unat ((get_h_res s div 2 - ucast (img_width img) div 2) * bytes_per_pixel s);
            if first < last \<and> 65535 < last then None
            else do {
              buf \<leftarrow> copy_rows (unat (ucast (img_width img) * bytes_per_pixel s)) (image_mem img)
                       (\<lambda>line. left + unat ((of_nat line * h_res s) * bytes_per_pixel s))
                       (last - first) first 0 (secondary_buffer s);
              Some (0, img, s\<lparr>secondary_buffer := buf\<rparr>)
            }
          })"

definition swap_buffers :: "('w, 'a) video_scheme \<Rightarrow> ('w, 'a) video_scheme option" where
  "swap_buffers s =
     do {
       dst \<leftarrow> main_buffer s;
       src \<leftarrow> secondary_buffer s;
       block \<leftarrow> read_bytes src 0 (unat (vram_size s));
       dst' \<leftarrow> memcpy_at dst 0 block;
       Some (s\<lparr>main_buffer := Some dst'\<rparr>)
     }"

section \<open>Digits\<close>

text \<open>Three lines that recur: place the digit of index \<open>i\<close> of an array and draw it.\<close>

definition draw_digit :: "ptr list \<Rightarrow> int \<Rightarrow> int \<Rightarrow> int \<Rightarrow> ('w, 'a) video_scheme \<Rightarrow> ('w, 'a) video_scheme option" where
  "draw_digit digits i x y s =
     do {
       p \<leftarrow> arr_get digits i;
       s1 \<leftarrow> update_sprite p (\<lambda>o1. o1\<lparr>sp_x := x, sp_y := y\<rparr>) s;
       (_, s2) \<leftarrow> vg_draw_sprite p s1;
       Some s2
     }"

definition vg_draw_time :: "u32 \<Rightarrow> int \<Rightarrow> int \<Rightarrow> ('w, 'a) scene_scheme \<Rightarrow> ('w, 'a) scene_scheme option" where
  "vg_draw_time time x y s =
     do {
       let minutes = time div 60;
       let seconds = time mod 60;
       s \<leftarrow> draw_digit (numbers s) (uint (minutes div 10)) x y s;
       s \<leftarrow> draw_digit (numbers s) (uint (minutes mod 10)) (x + 40) y s;
       s \<leftarrow> draw_digit (numbers s) (uint (seconds div 10)) (x + 3 * 40 - 15) y s;
       draw_digit (numbers s) (uint (seconds mod 10)) (x + 4 * 40 - 15) y s
     }"

definition vg_draw_points :: "int \<Rightarrow> int \<Rightarrow> int \<Rightarrow> int \<Rightarrow> ('w, 'a) scene_scheme \<Rightarrow> ('w, 'a) scene_scheme option" where
  "vg_draw_points player_1 player_2 x y s =
     do {
       s \<leftarrow> draw_digit (numbers_red s) player_1 x y s;
       draw_digit (numbers_blue s) player_2 (x + 105) y s
     }"

definition vg_draw_rtc :: "day_time \<Rightarrow> int \<Rightarrow> int \<Rightarrow> ('w, 'a) scene_scheme \<Rightarrow> ('w, 'a) scene_scheme option" where
  "vg_draw_rtc time x y s =
     do {
       s \<leftarrow> draw_digit (numbers s) (uint (dt_h time) div 10) x y s;
       s \<leftarrow> draw_digit (numbers s) (uint (dt_h time) mod 10) (x + 35) y s;
       s \<leftarrow> draw_digit (numbers s) (uint (dt_m time) div 10) (x + 35 * 3) y s;
       s \<leftarrow> draw_digit (numbers s) (uint (dt_m time) mod 10) (x + 35 * 4) y s;
       s \<leftarrow> draw_digit (numbers s) (uint (dt_s time) div 10) (x + 35 * 6) y s;
       s \<leftarrow> draw_digit (numbers s) (uint (dt_s time) mod 10) (x + 35 * 7) y s;
       s \<leftarrow> draw_digit (numbers s) (uint (dd time) div 10) (430 + x + 35 * 10) y s;
       s \<leftarrow> draw_digit (numbers s) (uint (dd time) mod 10) (430 + x + 35 * 11) y s;
       s \<leftarrow> draw_digit (numbers s) (uint (mm time) div 10) (430 + x + 5 + 35 * 13) y s;
       s \<leftarrow> draw_digit (numbers s) (uint (mm time) mod 10) (430 + x + 5 + 35 * 14) y s;
       s \<leftarrow> draw_digit (numbers s) 2 (430 + x + 5 + 35 * 16) y s;
       s \<leftarrow> draw_digit (numbers s) 0 (430 + x + 5 + 35 * 17) y s;
       s \<leftarrow> draw_digit (numbers s) (uint (yyyy time) div 10) (430 + x + 5 + 35 * 18) y s;
       draw_digit (numbers s) (uint (yyyy time) mod 10) (430 + x + 5 + 35 * 19) y s
     }"

section \<open>The frame\<close>

text \<open>A call of \<^verbatim>\<open>vg_draw_sprite\<close> whose result code is ignored.\<close>

definition draw :: "ptr \<Rightarrow> ('w, 'a) video_scheme \<Rightarrow> ('w, 'a) video_scheme option" where
  "draw p s = map_option snd (vg_draw_sprite p s)"

text \<open>\<^verbatim>\<open>if(!u->selected) vg_draw_sprite(u); else vg_draw_sprite(sel);\<close>\<close>

definition draw_button :: "ptr \<Rightarrow> ptr \<Rightarrow> ('w, 'a) video_scheme \<Rightarrow> ('w, 'a) video_scheme option" where
  "draw_button u sel s =
     do { o1 \<leftarrow> deref (heap s) u; if \<not> selected o1 then draw u s else draw sel s }"

definition draw_winlose_buttons :: "('w, 'a) scene_scheme \<Rightarrow> ('w, 'a) scene_scheme option" where
  "draw_winlose_buttons s =
     do {
       s \<leftarrow> draw_button (leave_button_unselected s) (leave_button_selected s) s;
       draw_button (play_again_button_unselected s) (play_again_button_selected s) s
     }"

definition draw_frame :: "'w os \<Rightarrow> ('w, 'a) scene_scheme \<Rightarrow> ('w, 'a) scene_scheme option" where
  "draw_frame os s =
     (case mainState s of
        MAIN_MENU \<Rightarrow> do {
          (_, img, s) \<leftarrow> vg_draw_background os Menu (menu_background s) s;
          let s = s\<lparr>menu_background := img\<rparr>;
          s \<leftarrow> draw_button (start_button_unselected s) (start_button_selected s) s;
          s \<leftarrow> draw_button (rules_button_unselected s) (rules_button_selected s) s;
          s \<leftarrow> draw_button (exit_button_unselected s) (exit_button_selected s) s;
          s \<leftarrow> vg_draw_rtc (day_time_info s) 10 10 s;
          s \<leftarrow> draw (two_points s) s;
          s \<leftarrow> draw (two_points2 s) s;
          s \<leftarrow> draw (day_sep s) s;
          draw (day_sep2 s) s
        }
      | RULES \<Rightarrow> do {
          (_, img, s) \<leftarrow> vg_draw_background os Rules (rules_background s) s;
          Some (s\<lparr>rules_background := img\<rparr>)
        }
      | GAME \<Rightarrow> do {
          (_, img, s) \<leftarrow> vg_draw_background os Xpm_background (game_background s) s;
          let s = s\<lparr>game_background := img\<rparr>;
          s \<leftarrow> draw (redpuck s) s;
          s \<leftarrow> draw (bluepuck s) s;
          s \<leftarrow> draw (mouse s) s;
          s \<leftarrow> draw (ball s) s;
          s \<leftarrow> draw (time_sep s) s;
          s \<leftarrow> draw (time_title s) s;
          s \<leftarrow> draw (points_title s) s;
          s \<leftarrow> draw (points_sep s) s;
          s \<leftarrow> vg_draw_time (time_remaining s) 35 420 s;
          vg_draw_points (player_1_score s) (player_2_score s) 960 425 s
        }
      | WIN \<Rightarrow> do {
          (_, img, s) \<leftarrow> vg_drawn_popOut os Youwon (youwon_popOut s) s;
          draw_winlose_buttons (s\<lparr>youwon_popOut := img\<rparr>)
        }
      | LOST \<Rightarrow> do {
          (_, img, s) \<leftarrow> vg_drawn_popOut os Youlost (youlost_popOut s) s;
          draw_winlose_buttons (s\<lparr>youlost_popOut := img\<rparr>)
        }
      | TIE \<Rightarrow> do {
          (_, img, s) \<leftarrow> vg_drawn_popOut os Tie (tie_popOut s) s;
          draw_winlose_buttons (s\<lparr>tie_popOut := img\<rparr>)
        }
      | STOP \<Rightarrow> Some s)"

section \<open>What drawing needs and what it changes\<close>

text \<open>The digits are moved about by the view; every other sprite it draws is only read.\<close>

definition digit_ptrs :: "('w, 'a) scene_scheme \<Rightarrow> ptr set" where
  "digit_ptrs s = set (numbers s) \<union> set (numbers_red s) \<union> set (numbers_blue s)"

definition fixed_ptrs :: "('w, 'a) scene_scheme \<Rightarrow> ptr set" where
  "fixed_ptrs s = {redpuck s, bluepuck s, ball s, mouse s, time_sep s, time_title s, points_title s, points_sep s,
     two_points s, two_points2 s, day_sep s, day_sep2 s,
     start_button_unselected s, start_button_selected s, rules_button_unselected s, rules_button_selected s,
     exit_button_unselected s, exit_button_selected s, play_again_button_unselected s,
     play_again_button_selected s, leave_button_unselected s, leave_button_selected s}"

definition digit_sprite :: "(ptr \<rightharpoonup> sprite) \<Rightarrow> ptr \<Rightarrow> bool" where
  "digit_sprite h p \<longleftrightarrow> (\<exists>o1. deref h p = Some o1 \<and> pixmap_ok 4 o1 \<and> unat (sp_width o1) \<le> 31 \<and> unat (sp_height o1) \<le> 31)"

definition cache_ok :: "nat \<Rightarrow> nat \<Rightarrow> xpm_image \<Rightarrow> bool" where
  "cache_ok w h img \<longleftrightarrow> (case img_bytes img of None \<Rightarrow> True
     | Some m \<Rightarrow> unat (img_width img) = w \<and> unat (img_height img) = h \<and> length m = w * h * 4)"

definition images_ok :: "('w, 'a) scene_scheme \<Rightarrow> bool" where
  "images_ok s \<longleftrightarrow> cache_ok 1152 864 (game_background s) \<and> cache_ok 1152 864 (menu_background s) \<and>
     cache_ok 1152 864 (rules_background s) \<and> cache_ok 486 299 (youwon_popOut s) \<and>
     cache_ok 486 299 (youlost_popOut s) \<and> cache_ok 486 299 (tie_popOut s)"

definition screen_ok :: "('w, 'a) scene_scheme \<Rightarrow> bool" where
  "screen_ok s \<longleftrightarrow> h_res s = 1152 \<and> v_res s = 864 \<and> bytes_per_pixel s = 4 \<and> (\<exists>buf. framebuf s buf) \<and> images_ok s \<and>
     length (numbers s) = 10 \<and> length (numbers_red s) = 10 \<and> length (numbers_blue s) = 10 \<and>
     fixed_ptrs s \<inter> digit_ptrs s = {} \<and>
     (\<forall>p\<in>fixed_ptrs s. drawable s p) \<and> (\<forall>p\<in>digit_ptrs s. digit_sprite (heap s) p)"

text \<open>Only the secondary buffer, the image caches and the positions of digits change.\<close>

definition same_looks :: "sprite \<Rightarrow> sprite \<Rightarrow> bool" where
  "same_looks o1 o2 \<longleftrightarrow> same_image o1 o2 \<and> xspeed o2 = xspeed o1 \<and> yspeed o2 = yspeed o1"

definition placed :: "ptr set \<Rightarrow> (ptr \<rightharpoonup> sprite) \<Rightarrow> (ptr \<rightharpoonup> sprite) \<Rightarrow> bool" where
  "placed D h h' \<longleftrightarrow> (\<forall>p. (p \<notin> D \<longrightarrow> h' p = h p) \<and>
     (case h p of None \<Rightarrow> h' p = None
      | Some o1 \<Rightarrow> (case h' p of None \<Rightarrow> False | Some o2 \<Rightarrow> same_looks o1 o2)))"

definition draws :: "('w, 'a) scene_scheme \<Rightarrow> ('w, 'a) scene_scheme \<Rightarrow> bool" where
  "draws s s' \<longleftrightarrow> placed (digit_ptrs s) (heap s) (heap s') \<and>
     s'\<lparr>heap := heap s, secondary_buffer := secondary_buffer s, game_background := game_background s,
        menu_background := menu_background s, youwon_popOut := youwon_popOut s,
        youlost_popOut := youlost_popOut s, tie_popOut := tie_popOut s,
        rules_background := rules_background s\<rparr> = s"

lemma placed_refl [simp]: "placed D h h"
  by (simp add: placed_def same_looks_def split: option.splits)

lemma placed_trans:
  assumes "placed D h h'" and "placed D h' h''"
  shows "placed D h h''"
  unfolding placed_def
proof (intro allI conjI impI)
  fix p
  show "h'' p = h p" if "p \<notin> D" using assms that unfolding placed_def by metis
  show "case h p of None \<Rightarrow> h'' p = None
      | Some o1 \<Rightarrow> (case h'' p of None \<Rightarrow> False | Some o2 \<Rightarrow> same_looks o1 o2)"
    using assms [unfolded placed_def, THEN spec, of p]
    by (auto simp: same_looks_def same_image_def split: option.splits)
qed

lemma placed_upd:
  "deref h p = Some o1 \<Longrightarrow> p \<in> D \<Longrightarrow> placed D h (h(p \<mapsto> o1\<lparr>sp_x := x, sp_y := y\<rparr>))"
  by (auto simp: placed_def same_looks_def same_image_def split: option.splits dest: deref_SomeD)

lemma draws_fields [frame_simps]:
  assumes "draws s s'"
  shows "bytes_per_pixel s' = bytes_per_pixel s" "h_res s' = h_res s" "v_res s' = v_res s"
    "world s' = world s" "brk s' = brk s" "main_buffer s' = main_buffer s" "vram_size s' = vram_size s"
    "redpuck s' = redpuck s" "bluepuck s' = bluepuck s" "ball s' = ball s" "is_main_pc s' = is_main_pc s"
    "player_1_score s' = player_1_score s" "player_2_score s' = player_2_score s"
    "numbers s' = numbers s" "numbers_red s' = numbers_red s" "numbers_blue s' = numbers_blue s"
    "mouse s' = mouse s" "mainState s' = mainState s" "time_remaining s' = time_remaining s"
    "day_time_info s' = day_time_info s" "digit_ptrs s' = digit_ptrs s" "fixed_ptrs s' = fixed_ptrs s"
    "scene.more s' = scene.more s"
proof -
  have s: "s = s'\<lparr>heap := heap s, secondary_buffer := secondary_buffer s, game_background := game_background s,
        menu_background := menu_background s, youwon_popOut := youwon_popOut s,
        youlost_popOut := youlost_popOut s, tie_popOut := tie_popOut s,
        rules_background := rules_background s\<rparr>"
    using assms by (simp add: draws_def)
  show "bytes_per_pixel s' = bytes_per_pixel s" "h_res s' = h_res s" "v_res s' = v_res s"
    "world s' = world s" "brk s' = brk s" "main_buffer s' = main_buffer s" "vram_size s' = vram_size s"
    "redpuck s' = redpuck s" "bluepuck s' = bluepuck s" "ball s' = ball s" "is_main_pc s' = is_main_pc s"
    "player_1_score s' = player_1_score s" "player_2_score s' = player_2_score s"
    "numbers s' = numbers s" "numbers_red s' = numbers_red s" "numbers_blue s' = numbers_blue s"
    "mouse s' = mouse s" "mainState s' = mainState s" "time_remaining s' = time_remaining s"
    "day_time_info s' = day_time_info s" "digit_ptrs s' = digit_ptrs s" "fixed_ptrs s' = fixed_ptrs s"
    "scene.more s' = scene.more s"
    by (subst s, simp add: digit_ptrs_def fixed_ptrs_def)+
qed

lemma draws_refl [simp]: "draws s s"
  by (cases s) (simp add: draws_def)

lemma draws_trans:
  assumes "draws s s'" and "draws s' s''"
  shows "draws s s''"
proof -
  have s: "s = s'\<lparr>heap := heap s, secondary_buffer := secondary_buffer s, game_background := game_background s,
        menu_background := menu_background s, youwon_popOut := youwon_popOut s,
        youlost_popOut := youlost_popOut s, tie_popOut := tie_popOut s,
        rules_background := rules_background s\<rparr>"
    and s': "s' = s''\<lparr>heap := heap s', secondary_buffer := secondary_buffer s', game_background := game_background s',
        menu_background := menu_background s', youwon_popOut := youwon_popOut s',
        youlost_popOut := youlost_popOut s', tie_popOut := tie_popOut s',
        rules_background := rules_background s'\<rparr>"
    using assms by (simp_all add: draws_def)
  have "placed (digit_ptrs s) (heap s) (heap s'')"
    using assms draws_fields(21) [OF assms(1)] by (auto simp: draws_def intro: placed_trans)
  moreover have "s''\<lparr>heap := heap s, secondary_buffer := secondary_buffer s, game_background := game_background s,
        menu_background := menu_background s, youwon_popOut := youwon_popOut s,
        youlost_popOut := youlost_popOut s, tie_popOut := tie_popOut s,
        rules_background := rules_background s\<rparr> =
      s'\<lparr>heap := heap s, secondary_buffer := secondary_buffer s, game_background := game_background s,
        menu_background := menu_background s, youwon_popOut := youwon_popOut s,
        youlost_popOut := youlost_popOut s, tie_popOut := tie_popOut s,
        rules_background := rules_background s\<rparr>"
    by (subst s') simp
  ultimately show ?thesis using s by (simp add: draws_def)
qed

section \<open>Drawing steps\<close>

text \<open>A drawing step returns, changes only what drawing may change, and leaves the screen drawable.\<close>

definition goes :: "('w, 'a) scene_scheme \<Rightarrow> ('w, 'a) scene_scheme option \<Rightarrow> bool" where
  "goes s m \<longleftrightarrow> (\<exists>s'. m = Some s' \<and> draws s s' \<and> screen_ok s')"

lemma goes_here: "screen_ok s \<Longrightarrow> goes s (Some s)"
  by (simp add: goes_def)

lemma goes_bind:
  assumes "goes s m" and "\<And>s'. draws s s' \<Longrightarrow> screen_ok s' \<Longrightarrow> goes s' (f s')"
  shows "goes s (Option.bind m f)"
proof -
  obtain s1 where s1: "m = Some s1" "draws s s1" "screen_ok s1" using assms(1) by (auto simp: goes_def)
  from assms(2) [OF s1(2,3)] show ?thesis using s1 by (auto simp: goes_def intro: draws_trans)
qed

lemma draws_step:
  assumes "placed (digit_ptrs s) (heap s) h"
  shows "draws s (s\<lparr>heap := h, secondary_buffer := b\<rparr>)"
  using assms draws_refl [of s] by (simp add: draws_def)

lemma draws_buffer: "draws s (s\<lparr>secondary_buffer := b\<rparr>)"
  using draws_refl [of s] by (simp add: draws_def)

lemma framebuf_buffer:
  "framebuf s buf \<Longrightarrow> length buf' = length buf \<Longrightarrow> framebuf (s\<lparr>secondary_buffer := Some buf'\<rparr>) buf'"
  by (simp add: framebuf_def)

lemma frame_buffer [simp]:
  "digit_ptrs (s\<lparr>secondary_buffer := b\<rparr>) = digit_ptrs s" "fixed_ptrs (s\<lparr>secondary_buffer := b\<rparr>) = fixed_ptrs s"
  "images_ok (s\<lparr>secondary_buffer := b\<rparr>) = images_ok s" "drawable (s\<lparr>secondary_buffer := b\<rparr>) p = drawable s p"
  by (simp_all add: digit_ptrs_def fixed_ptrs_def images_ok_def drawable_def)

lemma frame_heap [simp]:
  "digit_ptrs (s\<lparr>heap := h\<rparr>) = digit_ptrs s" "fixed_ptrs (s\<lparr>heap := h\<rparr>) = fixed_ptrs s"
  "images_ok (s\<lparr>heap := h\<rparr>) = images_ok s"
  by (simp_all add: digit_ptrs_def fixed_ptrs_def images_ok_def)

lemma screen_ok_buffer:
  assumes "screen_ok s" and "framebuf s buf" and "length buf' = length buf"
  shows "screen_ok (s\<lparr>secondary_buffer := Some buf'\<rparr>)"
proof -
  have "framebuf (s\<lparr>secondary_buffer := Some buf'\<rparr>) buf'" by (rule framebuf_buffer [OF assms(2,3)])
  then have "\<exists>b. framebuf (s\<lparr>secondary_buffer := Some buf'\<rparr>) b" by blast
  then show ?thesis using assms(1) by (simp add: screen_ok_def)
qed

lemma goes_draw:
  assumes "screen_ok s" and "drawable s p"
  shows "goes s (draw p s)"
proof -
  obtain buf where buf: "framebuf s buf" using assms(1) by (auto simp: screen_ok_def)
  from vg_draw_sprite_total [OF buf assms(2)] obtain buf' where
    d: "vg_draw_sprite p s = Some (0, s\<lparr>secondary_buffer := Some buf'\<rparr>)"
    "framebuf (s\<lparr>secondary_buffer := Some buf'\<rparr>) buf'" by blast
  have "length buf' = length buf" using buf d(2) by (simp add: framebuf_def)
  then show ?thesis using d(1) screen_ok_buffer [OF assms(1) buf] draws_buffer [of s]
    by (auto simp: goes_def draw_def)
qed

lemma goes_fixed:
  "screen_ok s \<Longrightarrow> p \<in> fixed_ptrs s \<Longrightarrow> goes s (draw p s)"
  by (rule goes_draw) (auto simp: screen_ok_def)

lemma goes_button:
  assumes "screen_ok s" and "u \<in> fixed_ptrs s" and "sel \<in> fixed_ptrs s"
  shows "goes s (draw_button u sel s)"
proof -
  obtain o1 where "deref (heap s) u = Some o1" using assms(1,2) by (auto simp: screen_ok_def drawable_def)
  then show ?thesis using goes_fixed [OF assms(1,2)] goes_fixed [OF assms(1,3)]
    by (simp add: draw_button_def)
qed

text \<open>A digit anywhere on the screen.\<close>

lemma goes_digit:
  assumes ok: "screen_ok s" and ds: "set ds \<subseteq> digit_ptrs s" "length ds = 10" and i: "0 \<le> i" "i < 10"
    and x: "0 \<le> x" "x \<le> 1121" and y: "0 \<le> y" "y \<le> 833"
  shows "goes s (draw_digit ds i x y s)"
proof -
  let ?p = "ds ! nat i"
  have p: "arr_get ds i = Some ?p" and mem: "?p \<in> digit_ptrs s"
    using ds i by (auto intro!: subsetD [OF ds(1)] nth_mem)
  obtain o1 where o1: "deref (heap s) ?p = Some o1" "pixmap_ok 4 o1" "unat (sp_width o1) \<le> 31" "unat (sp_height o1) \<le> 31"
    using ok mem by (auto simp: screen_ok_def digit_sprite_def)
  let ?o2 = "o1\<lparr>sp_x := x, sp_y := y\<rparr>" and ?h = "(heap s)(?p \<mapsto> o1\<lparr>sp_x := x, sp_y := y\<rparr>)"
  let ?s1 = "s\<lparr>heap := ?h\<rparr>"
  obtain buf where buf: "framebuf s buf" using ok by (auto simp: screen_ok_def)
  have pl: "placed (digit_ptrs s) (heap s) ?h" using o1(1) mem by (rule placed_upd)
  have nn: "?p \<noteq> NULL" using o1(1) by (auto dest: deref_SomeD)
  have "uint (sp_width o1) \<le> 31" "uint (sp_height o1) \<le> 31" using o1(3,4) unfolding uint_nat by linarith+
  then have dr: "drawable ?s1 ?p"
    using ok o1(1,2) x y nn by (auto simp: drawable_def screen_ok_def on_screen_def pixmap_ok_def)
  have b1: "framebuf ?s1 buf" using buf by (simp add: framebuf_def)
  from vg_draw_sprite_total [OF b1 dr] obtain buf' where
    d: "vg_draw_sprite ?p ?s1 = Some (0, ?s1\<lparr>secondary_buffer := Some buf'\<rparr>)"
    "framebuf (?s1\<lparr>secondary_buffer := Some buf'\<rparr>) buf'" by blast
  have step: "draw_digit ds i x y s = Some (?s1\<lparr>secondary_buffer := Some buf'\<rparr>)"
    using p o1(1) d(1) by (simp add: draw_digit_def)
  have len: "length buf' = length buf" using b1 d(2) by (simp add: framebuf_def)
  have "screen_ok ?s1"
  proof -
    have "drawable ?s1 q" if "q \<in> fixed_ptrs s" for q
    proof -
      have "q \<noteq> ?p" "drawable s q" using ok that mem by (auto simp: screen_ok_def)
      then show ?thesis by (auto simp: drawable_def)
    qed
    moreover have "digit_sprite ?h q" if "q \<in> digit_ptrs s" for q
      using ok that o1 nn by (auto simp: screen_ok_def digit_sprite_def pixmap_ok_def)
    moreover have "\<exists>b. framebuf ?s1 b" using b1 by blast
    ultimately show ?thesis using ok by (simp add: screen_ok_def)
  qed
  then have "screen_ok (?s1\<lparr>secondary_buffer := Some buf'\<rparr>)" using b1 len by (rule screen_ok_buffer)
  moreover have "draws s (s\<lparr>heap := ?h, secondary_buffer := Some buf'\<rparr>)" using pl by (rule draws_step)
  ultimately show ?thesis using step by (auto simp: goes_def)
qed

section \<open>Images on the screen\<close>

lemma cached_image_ok:
  assumes "loads_as os x w h" and "cache_ok w h img0"
  obtains img m where "cached_image os x img0 = (True, img)" "img_bytes img = Some m" "unat (img_width img) = w"
    "unat (img_height img) = h" "length m = w * h * 4" "cache_ok w h img"
proof (cases "img_bytes img0")
  case None
  obtain m img where l: "xpm_load os x XPM_8_8_8_8 img0 = (Some m, img)" "img_bytes img = Some m"
    "unat (img_width img) = w" "unat (img_height img) = h" "length m = w * h * 4"
    using assms(1) unfolding loads_as_def by blast
  show ?thesis using None l by (intro that [of img m]) (auto simp: cached_image_def cache_ok_def)
next
  case (Some m)
  show ?thesis using Some assms(2) by (intro that [of img0 m]) (auto simp: cached_image_def cache_ok_def)
qed

text \<open>The size of the frame buffer of the program's mode.\<close>

lemma screen_bytes: "screen_ok s \<Longrightarrow> framebuf s buf \<Longrightarrow> length buf = 3981312"
  by (simp add: screen_ok_def framebuf_def)

lemma row_bytes:
  assumes "line < 864"
  shows "unat ((of_nat line * (1152 :: u32)) * 4) = line * 4608"
proof -
  have "(of_nat line * (1152 :: u32)) * 4 = of_nat (line * 4608)" by simp
  then show ?thesis using assms by (simp only: unat_of_nat) simp
qed

lemma background_drawn:
  assumes ok: "screen_ok s" and ld: "loads_as os x 1152 864" and ca: "cache_ok 1152 864 img0"
  obtains img m where "vg_draw_background os x img0 s = Some (0, img, s\<lparr>secondary_buffer := Some m\<rparr>)"
    "cache_ok 1152 864 img" "img_bytes img = Some m" "length m = 3981312"
proof -
  obtain buf where buf: "framebuf s buf" using ok by (auto simp: screen_ok_def)
  obtain img m where c: "cached_image os x img0 = (True, img)" "img_bytes img = Some m"
    "unat (img_width img) = 1152" "unat (img_height img) = 864" "length m = 1152 * 864 * 4" "cache_ok 1152 864 img"
    by (rule cached_image_ok [OF ld ca])
  have geo: "h_res s = 1152" "bytes_per_pixel s = 4" "secondary_buffer s = Some buf"
    using ok buf by (auto simp: screen_ok_def framebuf_def)
  have "ucast (img_width img) = (of_nat (unat (img_width img)) :: u32)" by simp
  then have "ucast (img_width img) = (1152 :: u32)" unfolding c(3) by simp
  then have rowlen: "unat (ucast (img_width img) * (4 :: u32)) = 4608" by simp
  have "copy_rows 4608 m (\<lambda>line. unat ((of_nat line * (1152 :: u32)) * 4)) 864 0 0 (Some buf) =
      copy_rows 4608 m (\<lambda>l. l * 4608) 864 0 (0 * 4608) (Some buf)"
    unfolding mult_0 by (rule copy_rows_cong) (simp only: row_bytes)
  also have "\<dots> = Some (Some m)"
    using screen_bytes [OF ok buf] c(5) by (subst copy_rows_block) simp_all
  finally have "copy_rows 4608 m (\<lambda>line. unat ((of_nat line * (1152 :: u32)) * 4)) 864 0 0 (Some buf) = Some (Some m)" .
  then have "vg_draw_background os x img0 s = Some (0, img, s\<lparr>secondary_buffer := Some m\<rparr>)"
    using c(1,2,4) geo rowlen by (simp add: vg_draw_background_def image_mem_def)
  then show thesis using c by (intro that) simp_all
qed

lemma popOut_drawn:
  assumes ok: "screen_ok s" and ld: "loads_as os x 486 299" and ca: "cache_ok 486 299 img0"
  obtains img buf buf' where "framebuf s buf" "length buf' = length buf"
    "vg_drawn_popOut os x img0 s = Some (0, img, s\<lparr>secondary_buffer := Some buf'\<rparr>)" "cache_ok 486 299 img"
proof -
  obtain buf where buf: "framebuf s buf" using ok by (auto simp: screen_ok_def)
  obtain img m where c: "cached_image os x img0 = (True, img)" "img_bytes img = Some m"
    "unat (img_width img) = 486" "unat (img_height img) = 299" "length m = 486 * 299 * 4" "cache_ok 486 299 img"
    by (rule cached_image_ok [OF ld ca])
  have geo: "h_res s = 1152" "v_res s = 864" "bytes_per_pixel s = 4" "secondary_buffer s = Some buf"
    using ok buf by (auto simp: screen_ok_def framebuf_def)
  have "ucast (img_width img) = (of_nat (unat (img_width img)) :: u32)"
    "ucast (img_height img) = (of_nat (unat (img_height img)) :: u32)" by simp_all
  then have wh: "ucast (img_width img) = (486 :: u32)" "ucast (img_height img) = (299 :: u32)"
    unfolding c(3,4) by simp_all
  have "\<exists>buf'. copy_rows 1944 m (\<lambda>line. 1332 + unat ((of_nat line * (1152 :: u32)) * 4)) 299 283 0 (Some buf) = Some (Some buf') \<and>
      length buf' = length buf"
  proof (rule copy_rows_total)
    fix l :: nat assume "283 \<le> l" "l < 283 + 299"
    then have "unat ((of_nat l * (1152 :: u32)) * 4) = l * 4608" "l * 4608 \<le> 581 * 4608" by (simp_all only: row_bytes)
    then show "1332 + unat ((of_nat l * (1152 :: u32)) * 4) + 1944 \<le> length buf"
      using screen_bytes [OF ok buf] by linarith
  qed (simp add: c(5))
  then obtain buf' where b: "copy_rows 1944 m (\<lambda>line. 1332 + unat ((of_nat line * (1152 :: u32)) * 4)) 299 283 0 (Some buf) = Some (Some buf')"
    "length buf' = length buf" by blast
  have "vg_drawn_popOut os x img0 s = Some (0, img, s\<lparr>secondary_buffer := Some buf'\<rparr>)"
    using c(1,2) geo b(1)
    by (simp add: vg_drawn_popOut_def get_v_res_def get_h_res_def wh image_mem_def Let_def)
  then show thesis using that [OF buf b(2)] c(6) by blast
qed

lemma frame_images [simp]:
  "digit_ptrs (s\<lparr>game_background := img\<rparr>) = digit_ptrs s" "fixed_ptrs (s\<lparr>game_background := img\<rparr>) = fixed_ptrs s"
  "drawable (s\<lparr>game_background := img\<rparr>) p = drawable s p"
  "digit_ptrs (s\<lparr>menu_background := img\<rparr>) = digit_ptrs s" "fixed_ptrs (s\<lparr>menu_background := img\<rparr>) = fixed_ptrs s"
  "drawable (s\<lparr>menu_background := img\<rparr>) p = drawable s p"
  "digit_ptrs (s\<lparr>rules_background := img\<rparr>) = digit_ptrs s" "fixed_ptrs (s\<lparr>rules_background := img\<rparr>) = fixed_ptrs s"
  "drawable (s\<lparr>rules_background := img\<rparr>) p = drawable s p"
  "digit_ptrs (s\<lparr>youwon_popOut := img\<rparr>) = digit_ptrs s" "fixed_ptrs (s\<lparr>youwon_popOut := img\<rparr>) = fixed_ptrs s"
  "drawable (s\<lparr>youwon_popOut := img\<rparr>) p = drawable s p"
  "digit_ptrs (s\<lparr>youlost_popOut := img\<rparr>) = digit_ptrs s" "fixed_ptrs (s\<lparr>youlost_popOut := img\<rparr>) = fixed_ptrs s"
  "drawable (s\<lparr>youlost_popOut := img\<rparr>) p = drawable s p"
  "digit_ptrs (s\<lparr>tie_popOut := img\<rparr>) = digit_ptrs s" "fixed_ptrs (s\<lparr>tie_popOut := img\<rparr>) = fixed_ptrs s"
  "drawable (s\<lparr>tie_popOut := img\<rparr>) p = drawable s p"
  by (simp_all add: digit_ptrs_def fixed_ptrs_def drawable_def)

lemma store_image:
  assumes "screen_ok s"
  shows
    "cache_ok 1152 864 img \<Longrightarrow> screen_ok (s\<lparr>game_background := img\<rparr>)" "draws s (s\<lparr>game_background := img\<rparr>)"
    "cache_ok 1152 864 img \<Longrightarrow> screen_ok (s\<lparr>menu_background := img\<rparr>)" "draws s (s\<lparr>menu_background := img\<rparr>)"
    "cache_ok 1152 864 img \<Longrightarrow> screen_ok (s\<lparr>rules_background := img\<rparr>)" "draws s (s\<lparr>rules_background := img\<rparr>)"
    "cache_ok 486 299 img \<Longrightarrow> screen_ok (s\<lparr>youwon_popOut := img\<rparr>)" "draws s (s\<lparr>youwon_popOut := img\<rparr>)"
    "cache_ok 486 299 img \<Longrightarrow> screen_ok (s\<lparr>youlost_popOut := img\<rparr>)" "draws s (s\<lparr>youlost_popOut := img\<rparr>)"
    "cache_ok 486 299 img \<Longrightarrow> screen_ok (s\<lparr>tie_popOut := img\<rparr>)" "draws s (s\<lparr>tie_popOut := img\<rparr>)"
proof -
  obtain buf where "framebuf s buf" using assms by (auto simp: screen_ok_def)
  then have fb: "\<exists>b. framebuf (s\<lparr>game_background := img\<rparr>) b" "\<exists>b. framebuf (s\<lparr>menu_background := img\<rparr>) b" "\<exists>b. framebuf (s\<lparr>rules_background := img\<rparr>) b" "\<exists>b. framebuf (s\<lparr>youwon_popOut := img\<rparr>) b" "\<exists>b. framebuf (s\<lparr>youlost_popOut := img\<rparr>) b" "\<exists>b. framebuf (s\<lparr>tie_popOut := img\<rparr>) b"
    by (auto simp: framebuf_def)
  note defs = screen_ok_def images_ok_def
  show "cache_ok 1152 864 img \<Longrightarrow> screen_ok (s\<lparr>game_background := img\<rparr>)"
    using assms fb(1) by (simp add: defs)
  show "draws s (s\<lparr>game_background := img\<rparr>)" using draws_refl [of s] by (simp add: draws_def)
  show "cache_ok 1152 864 img \<Longrightarrow> screen_ok (s\<lparr>menu_background := img\<rparr>)"
    using assms fb(2) by (simp add: defs)
  show "draws s (s\<lparr>menu_background := img\<rparr>)" using draws_refl [of s] by (simp add: draws_def)
  show "cache_ok 1152 864 img \<Longrightarrow> screen_ok (s\<lparr>rules_background := img\<rparr>)"
    using assms fb(3) by (simp add: defs)
  show "draws s (s\<lparr>rules_background := img\<rparr>)" using draws_refl [of s] by (simp add: draws_def)
  show "cache_ok 486 299 img \<Longrightarrow> screen_ok (s\<lparr>youwon_popOut := img\<rparr>)"
    using assms fb(4) by (simp add: defs)
  show "draws s (s\<lparr>youwon_popOut := img\<rparr>)" using draws_refl [of s] by (simp add: draws_def)
  show "cache_ok 486 299 img \<Longrightarrow> screen_ok (s\<lparr>youlost_popOut := img\<rparr>)"
    using assms fb(5) by (simp add: defs)
  show "draws s (s\<lparr>youlost_popOut := img\<rparr>)" using draws_refl [of s] by (simp add: draws_def)
  show "cache_ok 486 299 img \<Longrightarrow> screen_ok (s\<lparr>tie_popOut := img\<rparr>)"
    using assms fb(6) by (simp add: defs)
  show "draws s (s\<lparr>tie_popOut := img\<rparr>)" using draws_refl [of s] by (simp add: draws_def)
qed

lemma goes_background:
  assumes ok: "screen_ok s" and ld: "loads_as os x 1152 864" and ca: "cache_ok 1152 864 img0"
    and f: "\<And>img s1. draws s s1 \<Longrightarrow> screen_ok s1 \<Longrightarrow> cache_ok 1152 864 img \<Longrightarrow> goes s1 (f (0, img, s1))"
  shows "goes s (Option.bind (vg_draw_background os x img0 s) f)"
proof -
  obtain buf where buf: "framebuf s buf" using ok by (auto simp: screen_ok_def)
  obtain img m where d: "vg_draw_background os x img0 s = Some (0, img, s\<lparr>secondary_buffer := Some m\<rparr>)"
    "cache_ok 1152 864 img" "img_bytes img = Some m" "length m = 3981312"
    by (rule background_drawn [OF ok ld ca])
  have "screen_ok (s\<lparr>secondary_buffer := Some m\<rparr>)"
    using d(4) screen_bytes [OF ok buf] by (intro screen_ok_buffer [OF ok buf]) simp
  from f [OF draws_buffer this d(2)] show ?thesis
    using d(1) draws_buffer [of s "Some m"] by (auto simp: goes_def intro: draws_trans)
qed

lemma goes_popOut:
  assumes ok: "screen_ok s" and ld: "loads_as os x 486 299" and ca: "cache_ok 486 299 img0"
    and f: "\<And>img s1. draws s s1 \<Longrightarrow> screen_ok s1 \<Longrightarrow> cache_ok 486 299 img \<Longrightarrow> goes s1 (f (0, img, s1))"
  shows "goes s (Option.bind (vg_drawn_popOut os x img0 s) f)"
proof -
  obtain img buf buf' where d: "framebuf s buf" "length buf' = length buf"
    "vg_drawn_popOut os x img0 s = Some (0, img, s\<lparr>secondary_buffer := Some buf'\<rparr>)" "cache_ok 486 299 img"
    by (rule popOut_drawn [OF ok ld ca])
  have "screen_ok (s\<lparr>secondary_buffer := Some buf'\<rparr>)" by (rule screen_ok_buffer [OF ok d(1,2)])
  from f [OF draws_buffer this d(4)] show ?thesis
    using d(3) draws_buffer [of s "Some buf'"] by (auto simp: goes_def intro: draws_trans)
qed

lemma goes_after: "draws s s1 \<Longrightarrow> goes s1 m \<Longrightarrow> goes s m"
  by (auto simp: goes_def intro: draws_trans)

text \<open>A digit of the white family, at a decimal digit.\<close>

lemma goes_white:
  assumes "screen_ok s" and "0 \<le> i" and "i < 10" and "0 \<le> x" and "x \<le> 1121" and "0 \<le> y" and "y \<le> 833"
  shows "goes s (draw_digit (numbers s) i x y s)"
  using assms by (intro goes_digit) (auto simp: digit_ptrs_def screen_ok_def)

lemma goes_time:
  assumes "screen_ok s" and "time < 6000" and "0 \<le> x" and "x \<le> 900" and "0 \<le> y" and "y \<le> 833"
  shows "goes s (vg_draw_time time x y s)"
proof -
  have t: "uint time < 6000" using assms(2) by (simp add: word_less_def)
  have d: "uint (time div 60 div 10) < 10" "uint (time div 60 mod 10) < 10" "uint (time mod 60 div 10) < 10"
    "uint (time mod 60 mod 10) < 10"
    using t by (simp_all add: uint_div uint_mod)
  show ?thesis unfolding vg_draw_time_def Let_def
    using assms d by (intro goes_bind goes_white) (simp_all add: draws_fields)
qed

lemma goes_points:
  assumes "screen_ok s" and "0 \<le> p1" and "p1 < 10" and "0 \<le> p2" and "p2 < 10"
    and "0 \<le> x" and "x \<le> 1000" and "0 \<le> y" and "y \<le> 833"
  shows "goes s (vg_draw_points p1 p2 x y s)"
  unfolding vg_draw_points_def
  using assms by (intro goes_bind goes_digit) (auto simp: digit_ptrs_def screen_ok_def)

text \<open>Every field of the clock has two decimal digits.\<close>

definition two_digits :: "day_time \<Rightarrow> bool" where
  "two_digits t \<longleftrightarrow> yyyy t < 100 \<and> mm t < 100 \<and> dd t < 100 \<and> dt_h t < 100 \<and> dt_m t < 100 \<and> dt_s t < 100"

lemma goes_rtc:
  assumes "screen_ok s" and "two_digits t" and "0 \<le> x" and "x \<le> 10" and "0 \<le> y" and "y \<le> 833"
  shows "goes s (vg_draw_rtc t x y s)"
proof -
  have t: "uint (yyyy t) < 100" "uint (mm t) < 100" "uint (dd t) < 100" "uint (dt_h t) < 100"
    "uint (dt_m t) < 100" "uint (dt_s t) < 100"
    using assms(2) by (simp_all add: two_digits_def word_less_def)
  have d: "uint b div 10 < 10 \<and> 0 \<le> uint b div 10" if "uint b < 100" for b :: byte
    using that uint_ge_0 [of b] by presburger
  show ?thesis unfolding vg_draw_rtc_def
    using assms t [THEN d] by (intro goes_bind goes_white) (simp_all add: draws_fields)
qed

section \<open>The frame of every state\<close>

text \<open>The values a frame shows fit the digits: two decimal digits each, one for a score.\<close>

definition values_ok :: "('w, 'a) scene_scheme \<Rightarrow> bool" where
  "values_ok s \<longleftrightarrow>
     (mainState s = MAIN_MENU \<longrightarrow> two_digits (day_time_info s)) \<and>
     (mainState s = GAME \<longrightarrow> time_remaining s < 6000 \<and> 0 \<le> player_1_score s \<and> player_1_score s < 10 \<and>
        0 \<le> player_2_score s \<and> player_2_score s < 10)"

lemma xpm_loads_images:
  assumes "xpm_loads os"
  shows "loads_as os Menu 1152 864" "loads_as os Rules 1152 864" "loads_as os Xpm_background 1152 864"
    "loads_as os Youwon 486 299" "loads_as os Youlost 486 299" "loads_as os Tie 486 299"
  using assms [unfolded xpm_loads_def, THEN spec, of Menu] assms [unfolded xpm_loads_def, THEN spec, of Rules]
    assms [unfolded xpm_loads_def, THEN spec, of Xpm_background] assms [unfolded xpm_loads_def, THEN spec, of Youwon]
    assms [unfolded xpm_loads_def, THEN spec, of Youlost] assms [unfolded xpm_loads_def, THEN spec, of Tie]
  by (simp_all add: xpm_exists_def)

lemma fixed_ptrs_members:
  "redpuck s \<in> fixed_ptrs s" "bluepuck s \<in> fixed_ptrs s" "ball s \<in> fixed_ptrs s" "mouse s \<in> fixed_ptrs s"
  "time_sep s \<in> fixed_ptrs s" "time_title s \<in> fixed_ptrs s" "points_title s \<in> fixed_ptrs s"
  "points_sep s \<in> fixed_ptrs s" "two_points s \<in> fixed_ptrs s" "two_points2 s \<in> fixed_ptrs s"
  "day_sep s \<in> fixed_ptrs s" "day_sep2 s \<in> fixed_ptrs s" "start_button_unselected s \<in> fixed_ptrs s"
  "start_button_selected s \<in> fixed_ptrs s" "rules_button_unselected s \<in> fixed_ptrs s"
  "rules_button_selected s \<in> fixed_ptrs s" "exit_button_unselected s \<in> fixed_ptrs s"
  "exit_button_selected s \<in> fixed_ptrs s" "play_again_button_unselected s \<in> fixed_ptrs s"
  "play_again_button_selected s \<in> fixed_ptrs s" "leave_button_unselected s \<in> fixed_ptrs s"
  "leave_button_selected s \<in> fixed_ptrs s"
  by (simp_all add: fixed_ptrs_def)

lemma goes_winlose: "screen_ok s \<Longrightarrow> goes s (draw_winlose_buttons s)"
  unfolding draw_winlose_buttons_def
  by (intro goes_bind goes_button) (simp_all add: fixed_ptrs_members)

lemma goes_menu:
  assumes "screen_ok s" and "two_digits (day_time_info s)"
  shows "goes s (do {
          s \<leftarrow> draw_button (start_button_unselected s) (start_button_selected s) s;
          s \<leftarrow> draw_button (rules_button_unselected s) (rules_button_selected s) s;
          s \<leftarrow> draw_button (exit_button_unselected s) (exit_button_selected s) s;
          s \<leftarrow> vg_draw_rtc (day_time_info s) 10 10 s;
          s \<leftarrow> draw (two_points s) s;
          s \<leftarrow> draw (two_points2 s) s;
          s \<leftarrow> draw (day_sep s) s;
          draw (day_sep2 s) s })"
  using assms
  by (intro goes_bind goes_button goes_rtc goes_fixed) (simp_all add: fixed_ptrs_members, simp_all add: draws_fields)

lemma goes_game:
  assumes "screen_ok s" and "time_remaining s < 6000" and "0 \<le> player_1_score s" and "player_1_score s < 10"
    and "0 \<le> player_2_score s" and "player_2_score s < 10"
  shows "goes s (do {
          s \<leftarrow> draw (redpuck s) s;
          s \<leftarrow> draw (bluepuck s) s;
          s \<leftarrow> draw (mouse s) s;
          s \<leftarrow> draw (ball s) s;
          s \<leftarrow> draw (time_sep s) s;
          s \<leftarrow> draw (time_title s) s;
          s \<leftarrow> draw (points_title s) s;
          s \<leftarrow> draw (points_sep s) s;
          s \<leftarrow> vg_draw_time (time_remaining s) 35 420 s;
          vg_draw_points (player_1_score s) (player_2_score s) 960 425 s })"
  using assms
  by (intro goes_bind goes_time goes_points goes_fixed) (simp_all add: fixed_ptrs_members, simp_all add: draws_fields)

lemma draw_frame_goes:
  assumes ok: "screen_ok s" and ld: "xpm_loads os" and v: "values_ok s"
  shows "goes s (draw_frame os s)"
proof (cases "mainState s")
  case MAIN_MENU
  have "cache_ok 1152 864 (menu_background s)" using ok by (simp add: screen_ok_def images_ok_def)
  moreover have "goes s1 (do {
          s \<leftarrow> draw_button (start_button_unselected s2) (start_button_selected s2) s2;
          s \<leftarrow> draw_button (rules_button_unselected s) (rules_button_selected s) s;
          s \<leftarrow> draw_button (exit_button_unselected s) (exit_button_selected s) s;
          s \<leftarrow> vg_draw_rtc (day_time_info s) 10 10 s;
          s \<leftarrow> draw (two_points s) s;
          s \<leftarrow> draw (two_points2 s) s;
          s \<leftarrow> draw (day_sep s) s;
          draw (day_sep2 s) s })"
    if "draws s s1" "screen_ok s1" "cache_ok 1152 864 img" "s2 = s1\<lparr>menu_background := img\<rparr>" for img s1 s2
    unfolding that(4) using that v MAIN_MENU
    by (intro goes_after [OF store_image(4) goes_menu] store_image(3)) (simp_all add: values_ok_def draws_fields)
  ultimately show ?thesis unfolding draw_frame_def MAIN_MENU MainStateMachine.case
    by (intro goes_background [OF ok xpm_loads_images(1) [OF ld]]) (simp_all add: Let_def)
next
  case RULES
  have "cache_ok 1152 864 (rules_background s)" using ok by (simp add: screen_ok_def images_ok_def)
  then show ?thesis unfolding draw_frame_def RULES MainStateMachine.case
    by (intro goes_background [OF ok xpm_loads_images(2) [OF ld]])
      (auto simp: goes_def store_image)
next
  case GAME
  have "cache_ok 1152 864 (game_background s)" using ok by (simp add: screen_ok_def images_ok_def)
  moreover have "goes s1 (do {
          s \<leftarrow> draw (redpuck s2) s2;
          s \<leftarrow> draw (bluepuck s) s;
          s \<leftarrow> draw (mouse s) s;
          s \<leftarrow> draw (ball s) s;
          s \<leftarrow> draw (time_sep s) s;
          s \<leftarrow> draw (time_title s) s;
          s \<leftarrow> draw (points_title s) s;
          s \<leftarrow> draw (points_sep s) s;
          s \<leftarrow> vg_draw_time (time_remaining s) 35 420 s;
          vg_draw_points (player_1_score s) (player_2_score s) 960 425 s })"
    if "draws s s1" "screen_ok s1" "cache_ok 1152 864 img" "s2 = s1\<lparr>game_background := img\<rparr>" for img s1 s2
    unfolding that(4) using that v GAME
    by (intro goes_after [OF store_image(2) goes_game] store_image(1)) (simp_all add: values_ok_def draws_fields)
  ultimately show ?thesis unfolding draw_frame_def GAME MainStateMachine.case
    by (intro goes_background [OF ok xpm_loads_images(3) [OF ld]]) (simp_all add: Let_def)
next
  case STOP
  then show ?thesis using ok by (simp add: draw_frame_def goes_here)
next
  case WIN
  have "cache_ok 486 299 (youwon_popOut s)" using ok by (simp add: screen_ok_def images_ok_def)
  then show ?thesis unfolding draw_frame_def WIN MainStateMachine.case
    by (intro goes_popOut [OF ok xpm_loads_images(4) [OF ld]])
      (auto intro: goes_after [OF store_image(8) goes_winlose] store_image(7))
next
  case LOST
  have "cache_ok 486 299 (youlost_popOut s)" using ok by (simp add: screen_ok_def images_ok_def)
  then show ?thesis unfolding draw_frame_def LOST MainStateMachine.case
    by (intro goes_popOut [OF ok xpm_loads_images(5) [OF ld]])
      (auto intro: goes_after [OF store_image(10) goes_winlose] store_image(9))
next
  case TIE
  have "cache_ok 486 299 (tie_popOut s)" using ok by (simp add: screen_ok_def images_ok_def)
  then show ?thesis unfolding draw_frame_def TIE MainStateMachine.case
    by (intro goes_popOut [OF ok xpm_loads_images(6) [OF ld]])
      (auto intro: goes_after [OF store_image(12) goes_winlose] store_image(11))
qed

end
