(* ===== verification/Keyboard.thy ===== *)
theory Keyboard
  imports Platform
begin

text \<open>
  The keyboard driver, \<^verbatim>\<open>controller/keyboard/keyboard.c\<close>: the interrupt handler polls the
  controller for a byte a bounded number of times.
\<close>

section \<open>Registers: keyboard.h\<close>

definition KEYBOARD1_IRQ :: int where [hw_consts]: "KEYBOARD1_IRQ = 1"
definition KEYBOARD_MASK :: u32 where [hw_consts]: "KEYBOARD_MASK = BIT 1"
definition KBC_OUT_BUF :: nat where [hw_consts]: "KBC_OUT_BUF = 0x60"
definition KBC_ST_REG :: nat where [hw_consts]: "KBC_ST_REG = 0x64"
definition KBC_CMD_REG :: nat where [hw_consts]: "KBC_CMD_REG = 0x64"
definition KBC_OBF :: byte where [hw_consts]: "KBC_OBF = BIT 0"
definition KBC_IBF :: byte where [hw_consts]: "KBC_IBF = BIT 1"
definition KBC_AUX :: byte where [hw_consts]: "KBC_AUX = BIT 5"
definition KBC_TO_ERR :: byte where [hw_consts]: "KBC_TO_ERR = BIT 6"
definition KBC_PAR_ERR :: byte where [hw_consts]: "KBC_PAR_ERR = BIT 7"
definition ESC_BREAK_CODE :: byte where [hw_consts]: "ESC_BREAK_CODE = 0x81"
definition SPACE_BREAK_CODE :: byte where [hw_consts]: "SPACE_BREAK_CODE = 0xb9"
definition S_BREAK_CODE :: byte where [hw_consts]: "S_BREAK_CODE = 0x1F"
definition W_BREAK_CODE :: byte where [hw_consts]: "W_BREAK_CODE = 0x11"
definition WAIT_KBC :: u32 where [hw_consts]: "WAIT_KBC = 20000"
definition KBC_RETRY_CNT :: nat where [hw_consts]: "KBC_RETRY_CNT = 10"

section \<open>The driver\<close>

record kbd_state =
  kbc_hook_id :: int
  scancode :: byte
  keyboard_error :: bool

definition kbd_init :: kbd_state where
  "kbd_init = \<lparr>kbc_hook_id = KEYBOARD1_IRQ, scancode = 0, keyboard_error = False\<rparr>"

definition keyboard_get_conf :: "'w os \<Rightarrow> cell \<Rightarrow> 'w \<Rightarrow> (int \<times> cell) \<times> 'w" where
  "keyboard_get_conf os st w =
     (case st of None \<Rightarrow> ((1, None), w)
      | Some _ \<Rightarrow>
          (case util_sys_inb os KBC_ST_REG st w of
             ((r, st'), w') \<Rightarrow> if r \<noteq> 0 then ((1, st'), w') else ((0, st'), w')))"

definition keyboard_subscribe_int :: "'w os \<Rightarrow> kbd_state \<Rightarrow> 'w \<Rightarrow> int \<times> kbd_state \<times> 'w" where
  "keyboard_subscribe_int os k w =
     (case sys_irqsetpolicy os KEYBOARD1_IRQ (IRQ_REENABLE OR IRQ_EXCLUSIVE) (kbc_hook_id k) w of
        ((r, hook), w') \<Rightarrow> (r, k\<lparr>kbc_hook_id := hook\<rparr>, w'))"

definition keyboard_unsubscribe_int :: "'w os \<Rightarrow> kbd_state \<Rightarrow> 'w \<Rightarrow> int \<times> kbd_state \<times> 'w" where
  "keyboard_unsubscribe_int os k w =
     (case sys_irqrmpolicy os (kbc_hook_id k) w of
        ((r, hook), w') \<Rightarrow> (r, k\<lparr>kbc_hook_id := hook\<rparr>, w'))"

text \<open>The polling loop with its remaining attempts; \<^verbatim>\<open>continue\<close> skips the delay.\<close>

fun kbc_ih_loop :: "'w os \<Rightarrow> nat \<Rightarrow> kbd_state \<Rightarrow> 'w \<Rightarrow> kbd_state \<times> 'w" where
  "kbc_ih_loop os 0 k w = (k, w)"
| "kbc_ih_loop os (Suc n) k w =
     (case keyboard_get_conf os (Some 0) w of
        ((r, stat), w1) \<Rightarrow>
          if r \<noteq> 0 then kbc_ih_loop os n k w1
          else if the stat AND KBC_OBF \<noteq> 0 then
            (case util_sys_inb os KBC_OUT_BUF (Some 0) w1 of
               ((r, data), w2) \<Rightarrow>
                 if r \<noteq> 0 then kbc_ih_loop os n k w2
                 else if the stat AND (KBC_PAR_ERR OR KBC_TO_ERR) = 0
                 then (k\<lparr>scancode := the data\<rparr>, w2)
                 else (k\<lparr>keyboard_error := True\<rparr>, w2))
          else kbc_ih_loop os n k (tickdelay os WAIT_KBC w1))"

definition kbc_ih :: "'w os \<Rightarrow> kbd_state \<Rightarrow> 'w \<Rightarrow> kbd_state \<times> 'w" where
  "kbc_ih os k w = kbc_ih_loop os KBC_RETRY_CNT (k\<lparr>keyboard_error := False\<rparr>) w"

section \<open>Polling the controller\<close>

text \<open>
  What a bounded poll of the 8042 controller does, shared by the keyboard and the mouse handler:
  \<open>good\<close> is the test on the status byte, \<open>store\<close> and \<open>flag_error\<close> the two outcomes of a read.
\<close>

locale kbc_poll =
  fixes os :: "'w os"
    and loop :: "nat \<Rightarrow> 's \<Rightarrow> 'w \<Rightarrow> 's \<times> 'w"
    and good :: "byte \<Rightarrow> bool"
    and store :: "byte \<Rightarrow> 's \<Rightarrow> 's"
    and flag_error :: "'s \<Rightarrow> 's"
  assumes loop_0: "loop 0 s w = (s, w)"
    and poll_retry_status: "sys_inb os KBC_ST_REG w = ((r, st), w1) \<Longrightarrow> r \<noteq> 0 \<Longrightarrow>
      loop (Suc n) s w = loop n s w1"
    and poll_empty: "sys_inb os KBC_ST_REG w = ((0, st), w1) \<Longrightarrow> \<not> bit st 0 \<Longrightarrow>
      loop (Suc n) s w = loop n s (tickdelay os WAIT_KBC w1)"
    and poll_retry_data: "sys_inb os KBC_ST_REG w = ((0, st), w1) \<Longrightarrow> bit st 0 \<Longrightarrow>
      sys_inb os KBC_OUT_BUF w1 = ((r, d), w2) \<Longrightarrow> r \<noteq> 0 \<Longrightarrow> loop (Suc n) s w = loop n s w2"
    and poll_read: "sys_inb os KBC_ST_REG w = ((0, st), w1) \<Longrightarrow> bit st 0 \<Longrightarrow>
      sys_inb os KBC_OUT_BUF w1 = ((0, d), w2) \<Longrightarrow>
      loop (Suc n) s w = (if good (ucast st) then store (ucast d) s else flag_error s, w2)"
begin

text \<open>However the polls go, the state is untouched, has stored one byte, or has its error flag set.\<close>

lemma loop_result:
  "\<exists>w'. loop n s w = (s, w') \<or> (\<exists>d. loop n s w = (store d s, w')) \<or> loop n s w = (flag_error s, w')"
proof (induction n arbitrary: w)
  case 0
  then show ?case by (auto simp: loop_0)
next
  case (Suc n)
  obtain r st w1 where st: "sys_inb os KBC_ST_REG w = ((r, st), w1)" by (metis prod.exhaust)
  obtain r2 d w2 where d: "sys_inb os KBC_OUT_BUF w1 = ((r2, d), w2)" by (metis prod.exhaust)
  consider (err) "r \<noteq> 0" | (empty) "r = 0" "\<not> bit st 0" | (retry) "r = 0" "bit st 0" "r2 \<noteq> 0"
    | (read) "r = 0" "bit st 0" "r2 = 0" by blast
  then show ?case
  proof cases
    case err
    with poll_retry_status [OF st] Suc.IH [of w1] show ?thesis by simp
  next
    case empty
    with poll_empty st Suc.IH [of "tickdelay os WAIT_KBC w1"] show ?thesis by simp
  next
    case retry
    with poll_retry_data st d Suc.IH [of w2] show ?thesis by simp
  next
    case read
    with poll_read st d show ?thesis by (cases "good (ucast st)") auto
  qed
qed

text \<open>A controller whose output buffer stays empty: all attempts pass and nothing happens.\<close>

lemma loop_silent:
  assumes "\<forall>w. \<exists>st w'. sys_inb os KBC_ST_REG w = ((0, st), w') \<and> \<not> bit st 0"
  shows "\<exists>w'. loop n s w = (s, w')"
proof (induction n arbitrary: w)
  case 0
  then show ?case by (simp add: loop_0)
next
  case (Suc n)
  obtain st w1 where "sys_inb os KBC_ST_REG w = ((0, st), w1)" "\<not> bit st 0"
    using assms by blast
  from poll_empty [OF this] Suc.IH show ?case by simp
qed

end

lemma keyboard_get_conf_Some:
  "keyboard_get_conf os (Some v) w = util_sys_inb os KBC_ST_REG (Some v) w"
  by (auto simp: keyboard_get_conf_def util_sys_inb_def split: prod.splits)

interpretation kbd: kbc_poll os "kbc_ih_loop os" "\<lambda>st. \<not> bit st 6 \<and> \<not> bit st 7"
    "\<lambda>d k. k\<lparr>scancode := d\<rparr>" "\<lambda>k. k\<lparr>keyboard_error := True\<rparr>" for os :: "'w os"
  by unfold_locales
    (auto simp: keyboard_get_conf_Some util_sys_inb_def KBC_OBF_def KBC_PAR_ERR_def KBC_TO_ERR_def bit_simps)

section \<open>Properties\<close>

lemma kbc_ih_frame: "kbc_hook_id (fst (kbc_ih os k w)) = kbc_hook_id k"
  using kbd.loop_result [of os KBC_RETRY_CNT "k\<lparr>keyboard_error := False\<rparr>" w]
  by (auto simp: kbc_ih_def)

lemma kbc_ih_read:
  assumes "sys_inb os KBC_ST_REG w = ((0, st), w1)" and "bit st 0"
    and "sys_inb os KBC_OUT_BUF w1 = ((0, d), w2)"
  shows "kbc_ih os k w =
    (if \<not> bit st 6 \<and> \<not> bit st 7 then (k\<lparr>scancode := ucast d, keyboard_error := False\<rparr>, w2)
     else (k\<lparr>keyboard_error := True\<rparr>, w2))"
  using kbd.poll_read [OF assms, of 9 "k\<lparr>keyboard_error := False\<rparr>"]
  by (simp add: kbc_ih_def KBC_RETRY_CNT_def eval_nat_numeral bit_simps)

text \<open>A key reaches the game: when the controller reports a full output buffer without a
  parity or timeout error, the first poll stores the byte as the scancode and clears the error
  flag; with an error it stores nothing and sets the flag.\<close>

theorem kbc_ih_reads_scancode:
  assumes "sys_inb os KBC_ST_REG w = ((0, st), w1)" and "bit st 0"
    and "sys_inb os KBC_OUT_BUF w1 = ((0, d), w2)"
  shows "kbc_ih os k w =
    (if \<not> bit st 6 \<and> \<not> bit st 7 then (k\<lparr>scancode := ucast d, keyboard_error := False\<rparr>, w2)
     else (k\<lparr>keyboard_error := True\<rparr>, w2))"
  by (rule kbc_ih_read [OF assms])

text \<open>A silent controller leaves the old key in place: if the output buffer never fills, the
  handler gives up after ten polls with no error reported and the previous scancode still
  stored, so the game acts on that key again.\<close>

theorem kbc_ih_stale_scancode:
  assumes "\<forall>w. \<exists>st w'. sys_inb os KBC_ST_REG w = ((0, st), w') \<and> \<not> bit st 0"
  shows "\<exists>w'. kbc_ih os k w = (k\<lparr>keyboard_error := False\<rparr>, w')"
  using kbd.loop_silent [OF assms] by (simp add: kbc_ih_def)

definition kbc_bench :: "u32 list \<Rightarrow> bench" where
  "kbc_bench rs = \<lparr>replies = rs, writes = []\<rparr>"

theorem kbc_ih_reads_scancode_witness:
  "kbc_ih (bench_os (\<lambda>_. (1, 1))) kbd_init (kbc_bench [0x01, 0xB9]) =
     (kbd_init\<lparr>scancode := SPACE_BREAK_CODE, keyboard_error := False\<rparr>, kbc_bench [])"
proof -
  have "bit (0x01 :: u32) 0" by simp
  then show ?thesis
    using kbc_ih_reads_scancode [where os = "bench_os (\<lambda>_. (1, 1))" and w = "kbc_bench [0x01, 0xB9]"
        and st = "0x01" and ?w1.0 = "kbc_bench [0xB9]" and d = "0xB9" and ?w2.0 = "kbc_bench []" and k = kbd_init]
    by (simp add: kbc_bench_def SPACE_BREAK_CODE_def)
qed

theorem kbc_ih_stale_scancode_witness:
  "\<exists>w'. kbc_ih (steady_os 0) (kbd_init\<lparr>scancode := ESC_BREAK_CODE\<rparr>) (kbc_bench []) =
     (kbd_init\<lparr>scancode := ESC_BREAK_CODE, keyboard_error := False\<rparr>, w')"
  using kbc_ih_stale_scancode [where os = "steady_os 0" and k = "kbd_init\<lparr>scancode := ESC_BREAK_CODE\<rparr>" and w = "kbc_bench []"]
  by simp

end
