(* ===== verification/Mouse.thy ===== *)
theory Mouse
  imports Keyboard
begin

text \<open>
  The mouse driver, \<^verbatim>\<open>controller/mouse/mouse.c\<close>: the interrupt handler, the commands sent through
  the keyboard controller, the two retry loops that switch data reporting on and off, and the
  sign extension of the nine-bit displacements.  The controller's registers are those of
  \<^verbatim>\<open>keyboard.h\<close>, which \<^verbatim>\<open>mouse.h\<close> repeats.
\<close>

section \<open>Constants: mouse.h\<close>

definition MOUSE12_IRQ :: int where [hw_consts]: "MOUSE12_IRQ = 12"
definition MOUSE_MASK :: u32 where [hw_consts]: "MOUSE_MASK = BIT 3"
definition SYNC_BIT :: byte where [hw_consts]: "SYNC_BIT = BIT 3"
definition LMB_BIT :: byte where [hw_consts]: "LMB_BIT = BIT 0"
definition RMB_BIT :: byte where [hw_consts]: "RMB_BIT = BIT 1"
definition MMB_BIT :: byte where [hw_consts]: "MMB_BIT = BIT 2"
definition MSB_X_DELTA :: byte where [hw_consts]: "MSB_X_DELTA = BIT 4"
definition MSB_Y_DELTA :: byte where [hw_consts]: "MSB_Y_DELTA = BIT 5"
definition X_OVFL :: byte where [hw_consts]: "X_OVFL = BIT 6"
definition Y_OVFL :: byte where [hw_consts]: "Y_OVFL = BIT 7"
definition MOUSE_WRITE_CMD :: byte where [hw_consts]: "MOUSE_WRITE_CMD = 0xD4"
definition DSABL_DATA_REPORTING :: byte where [hw_consts]: "DSABL_DATA_REPORTING = 0xF5"
definition ENBL_DATA_REPORTING :: byte where [hw_consts]: "ENBL_DATA_REPORTING = 0xF4"
definition MOUSE_ACK :: byte where [hw_consts]: "MOUSE_ACK = 0xFA"

section \<open>The driver\<close>

record mouse_state =
  mouse_hook_id :: int
  mouse_byte :: byte
  mouse_error :: bool

definition mouse_init :: mouse_state where
  "mouse_init = \<lparr>mouse_hook_id = 3, mouse_byte = 0, mouse_error = False\<rparr>"

definition mouse_get_conf :: "'w os \<Rightarrow> cell \<Rightarrow> 'w \<Rightarrow> (int \<times> cell) \<times> 'w" where
  "mouse_get_conf os st w =
     (case st of None \<Rightarrow> ((1, None), w)
      | Some _ \<Rightarrow>
          (case util_sys_inb os KBC_ST_REG st w of
             ((r, st'), w') \<Rightarrow> if r \<noteq> 0 then ((1, st'), w') else ((0, st'), w')))"

definition mouse_subscribe_int :: "'w os \<Rightarrow> mouse_state \<Rightarrow> 'w \<Rightarrow> int \<times> mouse_state \<times> 'w" where
  "mouse_subscribe_int os m w =
     (case sys_irqsetpolicy os MOUSE12_IRQ (IRQ_REENABLE OR IRQ_EXCLUSIVE) (mouse_hook_id m) w of
        ((r, hook), w') \<Rightarrow> (r, m\<lparr>mouse_hook_id := hook\<rparr>, w'))"

definition mouse_unsubscribe_int :: "'w os \<Rightarrow> mouse_state \<Rightarrow> 'w \<Rightarrow> int \<times> mouse_state \<times> 'w" where
  "mouse_unsubscribe_int os m w =
     (case sys_irqrmpolicy os (mouse_hook_id m) w of
        ((r, hook), w') \<Rightarrow> (r, m\<lparr>mouse_hook_id := hook\<rparr>, w'))"

fun mouse_ih_loop :: "'w os \<Rightarrow> nat \<Rightarrow> mouse_state \<Rightarrow> 'w \<Rightarrow> mouse_state \<times> 'w" where
  "mouse_ih_loop os 0 m w = (m, w)"
| "mouse_ih_loop os (Suc n) m w =
     (case mouse_get_conf os (Some 0) w of
        ((r, stat), w1) \<Rightarrow>
          if r \<noteq> 0 then mouse_ih_loop os n m w1
          else if the stat AND KBC_OBF \<noteq> 0 then
            (case util_sys_inb os KBC_OUT_BUF (Some 0) w1 of
               ((r, data), w2) \<Rightarrow>
                 if r \<noteq> 0 then mouse_ih_loop os n m w2
                 else if the stat AND (KBC_PAR_ERR OR KBC_TO_ERR) = 0 \<and> the stat AND KBC_AUX \<noteq> 0
                 then (m\<lparr>mouse_byte := the data\<rparr>, w2)
                 else (m\<lparr>mouse_error := True\<rparr>, w2))
          else mouse_ih_loop os n m (tickdelay os WAIT_KBC w1))"

definition mouse_ih :: "'w os \<Rightarrow> mouse_state \<Rightarrow> 'w \<Rightarrow> mouse_state \<times> 'w" where
  "mouse_ih os m w = mouse_ih_loop os KBC_RETRY_CNT (m\<lparr>mouse_error := False\<rparr>) w"

section \<open>Commands\<close>

text \<open>Both writing loops of the source, with their remaining attempts.\<close>

fun kbc_write_cmd_loop :: "'w os \<Rightarrow> nat \<Rightarrow> byte \<Rightarrow> 'w \<Rightarrow> int \<times> 'w" where
  "kbc_write_cmd_loop os 0 cmd w = (1, w)"
| "kbc_write_cmd_loop os (Suc n) cmd w =
     (case util_sys_inb os KBC_ST_REG (Some 0) w of
        ((r, stat), w1) \<Rightarrow>
          if r \<noteq> 0 then (1, w1)
          else if the stat AND KBC_IBF = 0 then
            (case sys_outb os KBC_CMD_REG (ucast cmd) w1 of
               (r, w2) \<Rightarrow> if r \<noteq> 0 then (1, w2) else (0, w2))
          else kbc_write_cmd_loop os n cmd (tickdelay os WAIT_KBC w1))"

definition kbc_write_cmd :: "'w os \<Rightarrow> byte \<Rightarrow> 'w \<Rightarrow> int \<times> 'w" where
  "kbc_write_cmd os cmd w = kbc_write_cmd_loop os KBC_RETRY_CNT cmd w"

fun kbc_write_argument_loop :: "'w os \<Rightarrow> nat \<Rightarrow> byte \<Rightarrow> 'w \<Rightarrow> int \<times> 'w" where
  "kbc_write_argument_loop os 0 cmd w = (1, w)"
| "kbc_write_argument_loop os (Suc n) cmd w =
     (case util_sys_inb os KBC_ST_REG (Some 0) w of
        ((r, stat), w1) \<Rightarrow>
          if r \<noteq> 0 then (1, w1)
          else if the stat AND KBC_IBF = 0 then
            (case sys_outb os KBC_OUT_BUF (ucast cmd) w1 of
               (r, w2) \<Rightarrow> if r \<noteq> 0 then (1, w2) else (0, w2))
          else kbc_write_argument_loop os n cmd (tickdelay os WAIT_KBC w1))"

definition kbc_write_argument :: "'w os \<Rightarrow> byte \<Rightarrow> 'w \<Rightarrow> int \<times> 'w" where
  "kbc_write_argument os cmd w = kbc_write_argument_loop os KBC_RETRY_CNT cmd w"

text \<open>
  The first pass of the reading loop always returns (its test is the constant \<^verbatim>\<open>true\<close>), with the
  two error bits of the status as the result code.
\<close>

definition kbc_read_return :: "'w os \<Rightarrow> cell \<Rightarrow> 'w \<Rightarrow> (int \<times> cell) \<times> 'w" where
  "kbc_read_return os cmd w =
     (case cmd of None \<Rightarrow> ((1, None), w)
      | Some _ \<Rightarrow>
          (case util_sys_inb os KBC_ST_REG (Some 0) w of
             ((r, stat), w1) \<Rightarrow>
               if r \<noteq> 0 then ((1, cmd), w1)
               else (case util_sys_inb os KBC_OUT_BUF cmd w1 of
                       ((r, cmd'), w2) \<Rightarrow>
                         if r \<noteq> 0 then ((1, cmd'), w2)
                         else ((uint (the stat AND (KBC_PAR_ERR OR KBC_TO_ERR)), cmd'), w2))))"

definition write_mouse_cmd :: "'w os \<Rightarrow> byte \<Rightarrow> 'w \<Rightarrow> int \<times> 'w" where
  "write_mouse_cmd os cmd w =
     (case kbc_write_cmd os MOUSE_WRITE_CMD w of (r, w1) \<Rightarrow> if r \<noteq> 0 then (1, w1) else
     (case kbc_write_argument os cmd w1 of (r, w2) \<Rightarrow> if r \<noteq> 0 then (1, w2) else
     (case kbc_read_return os (Some 0) w2 of ((r, response), w3) \<Rightarrow> if r \<noteq> 0 then (1, w3) else
       (if the response = MOUSE_ACK then 0 else 1, w3))))"

text \<open>\<^verbatim>\<open>while (true) { if (write_mouse_cmd(c)) continue; break; }\<close>\<close>

partial_function (option) retry_mouse_cmd :: "'w os \<Rightarrow> byte \<Rightarrow> 'w \<Rightarrow> 'w option" where
  "retry_mouse_cmd os cmd w =
     (case write_mouse_cmd os cmd w of
        (r, w') \<Rightarrow> if r \<noteq> 0 then retry_mouse_cmd os cmd w' else Some w')"

definition mouse_enable_reporting :: "'w os \<Rightarrow> 'w \<Rightarrow> (int \<times> 'w) option" where
  "mouse_enable_reporting os w = do { w' \<leftarrow> retry_mouse_cmd os ENBL_DATA_REPORTING w; Some (0, w') }"

definition mouse_disable_reporting :: "'w os \<Rightarrow> 'w \<Rightarrow> (int \<times> 'w) option" where
  "mouse_disable_reporting os w = do { w' \<leftarrow> retry_mouse_cmd os DSABL_DATA_REPORTING w; Some (0, w') }"

section \<open>Nine-bit displacements\<close>

text \<open>The \<^verbatim>\<open>int\<close> arithmetic of \<^verbatim>\<open>number | ~(BIT(9) - 1)\<close>, cut to 16 bits by the return type.\<close>

definition nine_bit_sign_extension :: "u16 \<Rightarrow> i16" where
  "nine_bit_sign_extension number = ucast ((ucast number :: 32 word) OR NOT (BIT 9 - 1))"

lemma nine_bit_value:
  "sint (nine_bit_sign_extension (BIT 8 + ucast (b :: byte))) = uint b - 256"
proof -
  have m: "(BIT 9 - 1 :: 32 word) = mask 9" by (simp add: BIT_def mask_eq_exp_minus_1 push_bit_eq_mult)
  have d: "(BIT 8 :: u16) AND ucast b = 0"
    by (rule bit_word_eqI) (auto simp: bit_simps dest: bit_imp_le_length)
  have "(BIT 8 :: u16) + ucast b = BIT 8 OR ucast b" by (rule disjunctive_add_eq_or [OF d])
  then have e: "nine_bit_sign_extension (BIT 8 + ucast b) = ucast b OR NOT (mask 8)"
    unfolding nine_bit_sign_extension_def m
    by (simp only: \<open>(BIT 8 :: u16) + ucast b = BIT 8 OR ucast b\<close>) (rule bit_word_eqI, auto simp: bit_simps)
  have "(ucast b :: i16) AND NOT (mask 8) = 0"
    by (rule bit_word_eqI) (auto simp: bit_simps dest: bit_imp_le_length)
  then have "ucast b OR NOT (mask 8) = (ucast b :: i16) + NOT (mask 8)"
    by (rule disjunctive_add_eq_or [symmetric])
  also have "\<dots> = word_of_int (uint b - 256)"
  proof -
    have "(ucast b :: i16) = word_of_int (uint b)" by (rule ucast_eq)
    moreover have "NOT (mask 8) = (word_of_int (- 256) :: i16)"
      by (simp add: mask_eq_exp_minus_1)
    moreover have "word_of_int (uint b) + word_of_int (- 256) = (word_of_int (uint b - 256) :: i16)"
      by (metis uminus_add_conv_diff add.commute wi_hom_add)
    ultimately show ?thesis by (simp only:)
  qed
  finally have "nine_bit_sign_extension (BIT 8 + ucast b) = word_of_int (uint b - 256)" using e by simp
  moreover have "0 \<le> uint b" "uint b < 256" using uint_lt2p [of b] by simp_all
  ultimately show ?thesis using sint_word_of_int16 [of "uint b - 256"] by simp
qed

section \<open>Properties\<close>

lemma mouse_get_conf_Some:
  "mouse_get_conf os (Some v) w = util_sys_inb os KBC_ST_REG (Some v) w"
  by (auto simp: mouse_get_conf_def util_sys_inb_def split: prod.splits)

interpretation mse: kbc_poll os "mouse_ih_loop os" "\<lambda>st. \<not> bit st 6 \<and> \<not> bit st 7 \<and> bit st 5"
    "\<lambda>d m. m\<lparr>mouse_byte := d\<rparr>" "\<lambda>m. m\<lparr>mouse_error := True\<rparr>" for os :: "'w os"
  by unfold_locales
    (auto simp: mouse_get_conf_Some util_sys_inb_def KBC_OBF_def KBC_PAR_ERR_def KBC_TO_ERR_def
      KBC_AUX_def bit_simps)

lemma mouse_ih_frame: "mouse_hook_id (fst (mouse_ih os m w)) = mouse_hook_id m"
  using mse.loop_result [of os KBC_RETRY_CNT "m\<lparr>mouse_error := False\<rparr>" w]
  by (auto simp: mouse_ih_def)

lemma mouse_ih_read:
  assumes "sys_inb os KBC_ST_REG w = ((0, st), w1)" and "bit st 0"
    and "sys_inb os KBC_OUT_BUF w1 = ((0, d), w2)"
  shows "mouse_ih os m w =
    (if \<not> bit st 6 \<and> \<not> bit st 7 \<and> bit st 5 then (m\<lparr>mouse_byte := ucast d, mouse_error := False\<rparr>, w2)
     else (m\<lparr>mouse_error := True\<rparr>, w2))"
  using mse.poll_read [OF assms, of 9 "m\<lparr>mouse_error := False\<rparr>"]
  by (simp add: mouse_ih_def KBC_RETRY_CNT_def eval_nat_numeral bit_simps)

text \<open>A mouse byte reaches the game: with a full output buffer, a clean status and the
  auxiliary bit set, the byte is stored and the error flag cleared; a parity error, a timeout
  or a byte that came from the keyboard sets the flag and keeps the old byte.\<close>

theorem mouse_ih_reads_byte:
  assumes "sys_inb os KBC_ST_REG w = ((0, st), w1)" and "bit st 0"
    and "sys_inb os KBC_OUT_BUF w1 = ((0, d), w2)"
  shows "mouse_ih os m w =
    (if \<not> bit st 6 \<and> \<not> bit st 7 \<and> bit st 5 then (m\<lparr>mouse_byte := ucast d, mouse_error := False\<rparr>, w2)
     else (m\<lparr>mouse_error := True\<rparr>, w2))"
  by (rule mouse_ih_read [OF assms])

text \<open>Sign extension: for the nine-bit number made of a set sign bit and a byte, the extension
  is the two's complement value of the pair, between -256 and -1.\<close>

theorem nine_bit_sign_extension_value:
  "sint (nine_bit_sign_extension (BIT 8 + ucast (b :: byte))) = uint b - 256"
  by (rule nine_bit_value)

text \<open>
  \<open>cmd_attempts\<close> runs the command a number of times and keeps the device state in between.
\<close>

fun cmd_attempts :: "'w os \<Rightarrow> byte \<Rightarrow> nat \<Rightarrow> 'w \<Rightarrow> int \<times> 'w" where
  "cmd_attempts os cmd 0 w = (1, w)"
| "cmd_attempts os cmd (Suc n) w =
     (case write_mouse_cmd os cmd w of (r, w') \<Rightarrow> if r = 0 then (0, w') else cmd_attempts os cmd n w')"

lemma retry_mouse_cmd_Some:
  "cmd_attempts os cmd n w = (0, w') \<Longrightarrow> retry_mouse_cmd os cmd w = Some w'"
proof (induction n arbitrary: w)
  case 0
  then show ?case by simp
next
  case (Suc n)
  then show ?case
    by (subst retry_mouse_cmd.simps) (auto split: prod.splits if_splits)
qed

lemma retry_mouse_cmd_SomeD:
  assumes "retry_mouse_cmd os cmd w = Some w'"
  shows "\<exists>n. cmd_attempts os cmd n w = (0, w')"
proof (rule retry_mouse_cmd.raw_induct
    [where P = "\<lambda>os cmd w w'. \<exists>n. cmd_attempts os cmd n w = (0, w')", OF _ assms])
  fix f :: "'a os \<Rightarrow> byte \<Rightarrow> 'a \<Rightarrow> 'a option" and os cmd w w'
  assume IH: "\<And>os cmd w w'. f os cmd w = Some w' \<Longrightarrow> \<exists>n. cmd_attempts os cmd n w = (0, w')"
    and eq: "(case write_mouse_cmd os cmd w of (r, w') \<Rightarrow> if r \<noteq> 0 then f os cmd w' else Some w') = Some w'"
  obtain r w1 where w1: "write_mouse_cmd os cmd w = (r, w1)" by (rule prod.exhaust)
  show "\<exists>n. cmd_attempts os cmd n w = (0, w')"
  proof (cases "r = 0")
    case True
    then show ?thesis using eq w1 by (intro exI [of _ 1]) simp
  next
    case False
    then obtain n where "cmd_attempts os cmd n w1 = (0, w')" using eq w1 IH by fastforce
    then show ?thesis using w1 False by (intro exI [of _ "Suc n"]) simp
  qed
qed


theorem mouse_ih_reads_byte_witness:
  "mouse_ih (bench_os (\<lambda>_. (1, 1))) mouse_init (kbc_bench [0x21, 0x09]) =
     (mouse_init\<lparr>mouse_byte := 9, mouse_error := False\<rparr>, kbc_bench [])"
proof -
  have "bit (0x21 :: u32) 0" by simp
  then show ?thesis
    using mouse_ih_reads_byte [where os = "bench_os (\<lambda>_. (1, 1))" and w = "kbc_bench [0x21, 0x09]"
        and st = "0x21" and ?w1.0 = "kbc_bench [0x09]" and d = "0x09" and ?w2.0 = "kbc_bench []" and m = mouse_init]
    by (simp add: kbc_bench_def)
qed

end
