(* ===== verification/Timer.thy ===== *)
theory Timer
  imports Platform
begin

text \<open>
  The i8254 timer driver, \<^verbatim>\<open>controller/timer/timer.c\<close> and \<^verbatim>\<open>i8254.h\<close>: the tick counter the game
  runs on and the programming of a timer's frequency.
\<close>

section \<open>Registers: i8254.h\<close>

definition TIMER_FREQ :: u32 where [hw_consts]: "TIMER_FREQ = 1193182"
definition TIMER0_IRQ :: int where [hw_consts]: "TIMER0_IRQ = 0"
definition TIMER_MASK :: u32 where [hw_consts]: "TIMER_MASK = BIT 0"
definition TIMER_0 :: nat where [hw_consts]: "TIMER_0 = 0x40"
definition TIMER_CTRL :: nat where [hw_consts]: "TIMER_CTRL = 0x43"
definition TIMER_SEL0 :: byte where [hw_consts]: "TIMER_SEL0 = 0x00"
definition TIMER_SEL1 :: byte where [hw_consts]: "TIMER_SEL1 = BIT 6"
definition TIMER_SEL2 :: byte where [hw_consts]: "TIMER_SEL2 = BIT 7"
definition TIMER_RB_CMD :: u32 where [hw_consts]: "TIMER_RB_CMD = BIT 7 OR BIT 6"
definition TIMER_LSB :: byte where [hw_consts]: "TIMER_LSB = BIT 4"
definition TIMER_MSB :: byte where [hw_consts]: "TIMER_MSB = BIT 5"
definition TIMER_LSB_MSB :: byte where [hw_consts]: "TIMER_LSB_MSB = TIMER_LSB OR TIMER_MSB"
definition TIMER_RB_COUNT :: u32 where [hw_consts]: "TIMER_RB_COUNT = BIT 5"
definition TIMER_RB_SEL :: "nat \<Rightarrow> u32" where [hw_consts]: "TIMER_RB_SEL n = BIT (n + 1)"

section \<open>The driver\<close>

record timer_state =
  hook_id :: int
  time_count :: u32

definition timer_init :: timer_state where
  "timer_init = \<lparr>hook_id = TIMER0_IRQ, time_count = 0\<rparr>"

definition timer_get_conf :: "'w os \<Rightarrow> byte \<Rightarrow> cell \<Rightarrow> 'w \<Rightarrow> (int \<times> cell) \<times> 'w" where
  "timer_get_conf os timer st w =
     (if st = None \<or> timer > 2 then ((1, st), w)
      else
        let command = TIMER_RB_CMD OR TIMER_RB_COUNT OR TIMER_RB_SEL (unat timer) in
        case sys_outb os TIMER_CTRL command w of
          (r, w1) \<Rightarrow>
            if r \<noteq> 0 then ((1, st), w1)
            else (case util_sys_inb os (TIMER_0 + unat timer) st w1 of
                    ((r, st'), w2) \<Rightarrow> if r \<noteq> 0 then ((1, st'), w2) else ((0, st'), w2)))"

text \<open>The \<^verbatim>\<open>switch\<close> on the timer; its \<^verbatim>\<open>default\<close> cannot be reached past the guard.\<close>

definition timer_select :: "byte \<Rightarrow> byte option" where
  "timer_select timer =
     (if timer = 0 then Some TIMER_SEL0 else if timer = 1 then Some TIMER_SEL1
      else if timer = 2 then Some TIMER_SEL2 else None)"

definition timer_set_frequency :: "'w os \<Rightarrow> byte \<Rightarrow> u32 \<Rightarrow> 'w \<Rightarrow> int \<times> 'w" where
  "timer_set_frequency os timer freq w =
     (if timer > 2 \<or> freq > TIMER_FREQ \<or> freq < 19 then (1, w)
      else
        case timer_get_conf os timer (Some 0) w of
          ((r, conf), w1) \<Rightarrow>
            if r \<noteq> 0 then (1, w1)
            else
              case timer_select timer of
                None \<Rightarrow> (1, w1)
              | Some sel \<Rightarrow>
                let command = ((the conf AND 0xF) OR TIMER_LSB_MSB) OR sel;
                    count = (ucast (TIMER_FREQ div freq) :: u16)
                in case sys_outb os TIMER_CTRL (ucast command) w1 of
                     (r, w2) \<Rightarrow>
                       if r \<noteq> 0 then (1, w2)
                       else case util_get_LSB count (Some 0) of
                         (r, lsb) \<Rightarrow>
                           if r \<noteq> 0 then (1, w2)
                           else case sys_outb os (TIMER_0 + unat timer) (ucast (the lsb)) w2 of
                             (r, w3) \<Rightarrow>
                               if r \<noteq> 0 then (1, w3)
                               else case util_get_MSB count lsb of
                                 (r, msb) \<Rightarrow>
                                   if r \<noteq> 0 then (1, w3)
                                   else case sys_outb os (TIMER_0 + unat timer) (ucast (the msb)) w3 of
                                     (r, w4) \<Rightarrow> if r \<noteq> 0 then (1, w4) else (0, w4))"

definition timer_subscribe_interrupt :: "'w os \<Rightarrow> timer_state \<Rightarrow> 'w \<Rightarrow> int \<times> timer_state \<times> 'w" where
  "timer_subscribe_interrupt os t w =
     (case sys_irqsetpolicy os TIMER0_IRQ IRQ_REENABLE (hook_id t) w of
        ((r, hook), w') \<Rightarrow> (r, t\<lparr>hook_id := hook\<rparr>, w'))"

definition timer_unsubscribe_interrupt :: "'w os \<Rightarrow> timer_state \<Rightarrow> 'w \<Rightarrow> int \<times> timer_state \<times> 'w" where
  "timer_unsubscribe_interrupt os t w =
     (case sys_irqrmpolicy os (hook_id t) w of
        ((r, hook), w') \<Rightarrow> (r, t\<lparr>hook_id := hook\<rparr>, w'))"

definition timer_int_handler :: "timer_state \<Rightarrow> timer_state" where
  "timer_int_handler t = t\<lparr>time_count := time_count t + 1\<rparr>"

section \<open>Properties\<close>

text \<open>The divisor of every accepted frequency fits the 16 bits it is stored in.\<close>

lemma timer_divisor_fits:
  assumes "\<not> freq > TIMER_FREQ" and "\<not> freq < 19"
  shows "unat (ucast (TIMER_FREQ div freq) :: u16) = 1193182 div unat freq"
proof -
  have f: "19 \<le> unat freq" using assms(2) by (simp add: not_less word_le_nat_alt)
  have "unat (TIMER_FREQ div freq) = 1193182 div unat freq"
    by (simp add: unat_div_distrib TIMER_FREQ_def)
  moreover have "1193182 div unat freq \<le> 1193182 div 19" using f by (rule div_le_mono2 [rotated]) simp
  ultimately show ?thesis by (simp add: unsigned_ucast_eq take_bit_nat_eq_self)
qed

lemma timer_get_conf_logged:
  assumes "logged_ports os log" and "\<not> timer > 2"
  shows "\<exists>b w'. timer_get_conf os timer (Some 0) w = ((0, Some b), w') \<and>
    log w' = log w @ [(TIMER_CTRL, TIMER_RB_CMD OR TIMER_RB_COUNT OR TIMER_RB_SEL (unat timer))]"
proof -
  let ?c = "TIMER_RB_CMD OR TIMER_RB_COUNT OR TIMER_RB_SEL (unat timer)"
  obtain w1 where o1: "sys_outb os TIMER_CTRL ?c w = (0, w1)" "log w1 = log w @ [(TIMER_CTRL, ?c)]"
    using assms(1) unfolding logged_ports_def by blast
  obtain v w2 where i1: "sys_inb os (TIMER_0 + unat timer) w1 = ((0, v), w2)" "log w2 = log w1"
    using assms(1) unfolding logged_ports_def by blast
  show ?thesis
    using o1 util_sys_inb_ok [OF i1(1), of 0] i1(2) assms(2) by (simp add: timer_get_conf_def)
qed

lemma count_bytes:
  fixes c :: u16
  shows "unat (ucast c :: byte) + 256 * unat (ucast (drop_bit 8 (c AND 0xFF00)) :: byte) = unat c"
proof -
  have m: "(0xFF00 :: u16) = NOT (mask 8)" by (simp add: mask_eq_exp_minus_1)
  have d: "drop_bit 8 (c AND 0xFF00) = drop_bit 8 c"
    unfolding m by (rule bit_word_eqI) (auto simp: bit_simps dest: bit_imp_le_length)
  have "unat c < 65536" using unsigned_less [of c, where 'a = nat] by simp
  then have "unat (drop_bit 8 c) < 256" by (simp add: drop_bit_eq_div unat_div_distrib)
  then show ?thesis
    unfolding d by (simp add: unsigned_ucast_eq take_bit_eq_mod drop_bit_eq_div unat_div_distrib)
qed

text \<open>Programming a frequency: for every timer and every frequency the guard accepts, with
  working ports, the driver reads the timer's configuration back, writes a control word that
  selects this timer in LSB-then-MSB mode, and then the low and the high byte of
  1193182 / freq, which never exceeds 16 bits.\<close>

theorem timer_set_frequency_writes:
  assumes "logged_ports os log" and "\<not> timer > 2" and "\<not> freq > TIMER_FREQ" and "\<not> freq < 19"
  shows "\<exists>w' conf lsb msb. timer_set_frequency os timer freq w = (0, w') \<and>
    log w' = log w @
      [(TIMER_CTRL, TIMER_RB_CMD OR TIMER_RB_COUNT OR TIMER_RB_SEL (unat timer)),
       (TIMER_CTRL, ucast (((conf AND 0xF) OR TIMER_LSB_MSB) OR push_bit 6 timer)),
       (TIMER_0 + unat timer, ucast lsb), (TIMER_0 + unat timer, ucast msb)] \<and>
    unat (lsb :: byte) + 256 * unat (msb :: byte) = 1193182 div unat freq"
proof -
  define count where "count = (ucast (TIMER_FREQ div freq) :: u16)"
  obtain conf w1 where g: "timer_get_conf os timer (Some 0) w = ((0, Some conf), w1)"
    "log w1 = log w @ [(TIMER_CTRL, TIMER_RB_CMD OR TIMER_RB_COUNT OR TIMER_RB_SEL (unat timer))]"
    using timer_get_conf_logged [OF assms(1,2)] by blast
  let ?cw = "((conf AND 0xF) OR TIMER_LSB_MSB) OR push_bit 6 timer"
  let ?lsb = "ucast count :: byte" and ?msb = "ucast (drop_bit 8 (count AND 0xFF00)) :: byte"
  let ?port = "TIMER_0 + unat timer"
  obtain w2 where o2: "sys_outb os TIMER_CTRL (ucast ?cw) w1 = (0, w2)"
    "log w2 = log w1 @ [(TIMER_CTRL, ucast ?cw)]"
    using assms(1) unfolding logged_ports_def by blast
  obtain w3 where o3: "sys_outb os ?port (ucast ?lsb) w2 = (0, w3)" "log w3 = log w2 @ [(?port, ucast ?lsb)]"
    using assms(1) unfolding logged_ports_def by blast
  obtain w4 where o4: "sys_outb os ?port (ucast ?msb) w3 = (0, w4)" "log w4 = log w3 @ [(?port, ucast ?msb)]"
    using assms(1) unfolding logged_ports_def by blast
  have "timer = 0 \<or> timer = 1 \<or> timer = 2"
  proof -
    have "unat timer \<le> 2" using assms(2) by (simp add: not_less word_le_nat_alt)
    then have "unat timer = 0 \<or> unat timer = 1 \<or> unat timer = 2" by linarith
    then show ?thesis by (simp add: word_unat_eq_iff)
  qed
  then have sel: "timer_select timer = Some (push_bit 6 timer)"
    by (auto simp: timer_select_def TIMER_SEL0_def TIMER_SEL1_def TIMER_SEL2_def BIT_def push_bit_eq_mult)
  have "timer_set_frequency os timer freq w = (0, w4)"
    unfolding timer_set_frequency_def using assms(2-4) g(1) o2(1) o3(1) o4(1)
    by (simp add: sel Let_def count_def)
  moreover have "unat ?lsb + 256 * unat ?msb = 1193182 div unat freq"
    using count_bytes [of count] timer_divisor_fits [OF assms(3,4)] by (simp add: count_def)
  ultimately show ?thesis
    using g(2) o2(2) o3(2) o4(2)
    by (intro exI [of _ w4] exI [of _ conf] exI [of _ ?lsb] exI [of _ ?msb]) simp
qed

text \<open>Rejected frequencies: outside its guard the driver returns 1 without touching a port.\<close>

theorem timer_set_frequency_rejects:
  assumes "timer > 2 \<or> freq > TIMER_FREQ \<or> freq < 19"
  shows "timer_set_frequency os timer freq w = (1, w)"
  using assms by (auto simp: timer_set_frequency_def)

theorem timer_set_frequency_writes_witness:
  "\<exists>w' conf lsb msb. timer_set_frequency (steady_os 0) 0 60 \<lparr>replies = [], writes = []\<rparr> = (0, w') \<and>
    writes w' =
      [(TIMER_CTRL, TIMER_RB_CMD OR TIMER_RB_COUNT OR TIMER_RB_SEL 0),
       (TIMER_CTRL, ucast ((conf AND 0xF) OR TIMER_LSB_MSB)),
       (TIMER_0, ucast lsb), (TIMER_0, ucast msb)] \<and>
    unat (lsb :: byte) + 256 * unat (msb :: byte) = 19886"
  using timer_set_frequency_writes [OF steady_os_logged, of 0 60 0 "\<lparr>replies = [], writes = []\<rparr>"]
  by (simp add: TIMER_FREQ_def)

theorem timer_set_frequency_rejects_witness:
  "timer_set_frequency (steady_os 0) 3 60 \<lparr>replies = [], writes = []\<rparr> = (1, \<lparr>replies = [], writes = []\<rparr>)"
  using timer_set_frequency_rejects [of 3 60 "steady_os 0" "\<lparr>replies = [], writes = []\<rparr>"] by simp

end
