(* ===== verification/Model.thy ===== *)
theory Model
  imports View Serial Keyboard Mouse Timer
begin

text \<open>
  The model, \<^verbatim>\<open>model/model.c\<close>: the globals of the game, the five interrupt handlers, the buttons,
  and loading and unloading the sprites.
\<close>

section \<open>State\<close>

text \<open>The globals of \<^verbatim>\<open>model.c\<close> and of the device drivers; \<^verbatim>\<open>option\<close> is \<open>option_index\<close>.\<close>

record 'w game = "'w scene" +
  packet_bytes :: "byte list"
  count :: int
  option_index :: int
  previous_x :: int
  previous_y :: int
  idle_game :: u32
  start_time :: u32
  puck_transmit :: u32
  stored_x :: u16
  is_stored_x :: bool
  inQueue :: "queue option"
  keyboard_dev :: kbd_state
  mouse_dev :: mouse_state
  timer_dev :: timer_state
  rtc_hook_id :: int
  sp_hook_id :: int

text \<open>\<^verbatim>\<open>struct packet\<close> of \<^verbatim>\<open>lcom/lab4.h\<close>.\<close>

record packet =
  pk_bytes :: "byte list"
  rb :: bool
  mb :: bool
  lb :: bool
  delta_x :: i16
  delta_y :: i16
  x_ov :: bool
  y_ov :: bool

section \<open>Buttons\<close>

text \<open>\<^verbatim>\<open>buttons[i]->selected = v\<close>\<close>

definition set_selected :: "ptr list \<Rightarrow> int \<Rightarrow> bool \<Rightarrow> ('w, 'a) game_scheme \<Rightarrow> ('w, 'a) game_scheme option" where
  "set_selected buttons i v s =
     do { p \<leftarrow> arr_get buttons i; update_sprite p (\<lambda>o1. o1\<lparr>selected := v\<rparr>) s }"

definition option_up :: "ptr list \<Rightarrow> ptr list \<Rightarrow> int \<Rightarrow> ('w, 'a) game_scheme \<Rightarrow> ('w, 'a) game_scheme option" where
  "option_up buttons_unselected buttons_selected n s =
     do {
       s \<leftarrow> set_selected buttons_unselected (option_index s) False s;
       s \<leftarrow> set_selected buttons_selected (option_index s) False s;
       let s = s\<lparr>option_index := option_index s - 1\<rparr>;
       let s = (if option_index s = - 1 then s\<lparr>option_index := n - 1\<rparr> else s);
       s \<leftarrow> set_selected buttons_unselected (option_index s) True s;
       set_selected buttons_selected (option_index s) True s
     }"

definition option_down :: "ptr list \<Rightarrow> ptr list \<Rightarrow> int \<Rightarrow> ('w, 'a) game_scheme \<Rightarrow> ('w, 'a) game_scheme option" where
  "option_down buttons_unselected buttons_selected n s =
     do {
       s \<leftarrow> set_selected buttons_unselected (option_index s) False s;
       s \<leftarrow> set_selected buttons_selected (option_index s) False s;
       let s = s\<lparr>option_index := option_index s + 1\<rparr>;
       let s = (if option_index s = n then s\<lparr>option_index := 0\<rparr> else s);
       s \<leftarrow> set_selected buttons_unselected (option_index s) True s;
       set_selected buttons_selected (option_index s) True s
     }"

section \<open>Starting a match\<close>

definition reset_game_state :: "'w os \<Rightarrow> ('w, 'a) game_scheme \<Rightarrow> ('w, 'a) game_scheme option" where
  "reset_game_state os s =
     (if sys_hz os = 0 then None
      else do {
        let s = s\<lparr>time_remaining := 200, start_time := time_count (timer_dev s) div sys_hz os,
                  timer_dev := (timer_dev s)\<lparr>time_count := 0\<rparr>,
                  player_1_score := 0, player_2_score := 0\<rparr>;
        s \<leftarrow> update_sprite (ball s) (\<lambda>b. b\<lparr>sp_x := 550, sp_y := 410, xspeed := 0, yspeed := 0\<rparr>) s;
        s \<leftarrow> update_sprite (bluepuck s) (\<lambda>b. b\<lparr>xspeed := 0, yspeed := 0, sp_x := 535, sp_y := 730\<rparr>) s;
        s \<leftarrow> update_sprite (redpuck s) (\<lambda>r. r\<lparr>xspeed := 0, yspeed := 0, sp_x := 535, sp_y := 55\<rparr>) s;
        Some (s\<lparr>previous_x := 535, previous_y := 730\<rparr>)
      })"

text \<open>Calls of the serial driver on the state of the game.\<close>

definition reset_fifo :: "'w os \<Rightarrow> ('w, 'a) game_scheme \<Rightarrow> ('w, 'a) game_scheme option" where
  "reset_fifo os s =
     do { (_, q, w) \<leftarrow> serialPort_resetFIFO os (inQueue s) (world s); Some (s\<lparr>inQueue := q, world := w\<rparr>) }"

definition announce :: "'w os \<Rightarrow> ('w, 'a) game_scheme \<Rightarrow> ('w, 'a) game_scheme" where
  "announce os s = s\<lparr>world := send_signal os signal1 (world s)\<rparr>"

definition receive :: "'w os \<Rightarrow> ('w, 'a) game_scheme \<Rightarrow> ('w, 'a) game_scheme option" where
  "receive os s = do { (q, w) \<leftarrow> sp_ih os (inQueue s) (world s); Some (s\<lparr>inQueue := q, world := w\<rparr>) }"

definition next_signal :: "u16 \<Rightarrow> ('w, 'a) game_scheme \<Rightarrow> (int \<times> u16 \<times> ('w, 'a) game_scheme) option" where
  "next_signal v s = do { (r, v', q) \<leftarrow> read_next_signal (inQueue s) v; Some (r, v', s\<lparr>inQueue := q\<rparr>) }"

section \<open>Timer\<close>

text \<open>What happens once a second of a match.\<close>

definition match_second :: "('w, 'a) game_scheme \<Rightarrow> ('w, 'a) game_scheme" where
  "match_second s =
     (if time_remaining s > 0 then
        let s = s\<lparr>time_remaining := time_remaining s - 1\<rparr> in
        if player_1_score s = 3 then s\<lparr>mainState := LOST\<rparr>
        else if player_2_score s = 3 then s\<lparr>mainState := WIN\<rparr>
        else s
      else if player_1_score s = player_2_score s then s\<lparr>mainState := TIE\<rparr>
      else if player_1_score s > player_2_score s then s\<lparr>mainState := LOST\<rparr>
      else if player_1_score s < player_2_score s then s\<lparr>mainState := WIN\<rparr>
      else s)"

definition transmit_puck :: "'w os \<Rightarrow> ('w, 'a) game_scheme \<Rightarrow> ('w, 'a) game_scheme option" where
  "transmit_puck os s =
     do {
       (px, py, w) \<leftarrow> transmit_puck_change os (heap s) (bluepuck s) (previous_x s) (previous_y s) (world s);
       Some (s\<lparr>previous_x := px, previous_y := py, world := w\<rparr>)
     }"

text \<open>The case \<^verbatim>\<open>GAME\<close> of \<^verbatim>\<open>timer_int\<close>, before it draws.\<close>

definition match_tick :: "'w os \<Rightarrow> ('w, 'a) game_scheme \<Rightarrow> ('w, 'a) game_scheme option" where
  "match_tick os s =
     do {
       let s = s\<lparr>puck_transmit := puck_transmit s + 1\<rparr>;
       s \<leftarrow> (if puck_transmit s = 2 then do { s \<leftarrow> transmit_puck os s; Some (s\<lparr>puck_transmit := 0\<rparr>) } else Some s);
       s \<leftarrow> (if sys_hz os = 0 then None
            else if time_count (timer_dev s) mod sys_hz os = 0 then Some (match_second s) else Some s);
       b \<leftarrow> deref (heap s) (ball s);
       if xspeed b \<noteq> 0 \<or> yspeed b \<noteq> 0
       then move os (ball s) (word_of_int (xspeed b)) (word_of_int (yspeed b)) 1 s
       else Some s
     }"

definition timer_int :: "'w os \<Rightarrow> ('w, 'a) game_scheme \<Rightarrow> ('w, 'a) game_scheme option" where
  "timer_int os s =
     do {
       let s = s\<lparr>timer_dev := timer_int_handler (timer_dev s)\<rparr>;
       s \<leftarrow> swap_buffers s;
       case mainState s of
         MAIN_MENU \<Rightarrow> draw_frame os s
       | GAME \<Rightarrow> do { s \<leftarrow> match_tick os s; draw_frame os s }
       | _ \<Rightarrow> Some s
     }"

section \<open>Keyboard\<close>

text \<open>\<^verbatim>\<open>if (button->selected && scancode == SPACE_BREAK_CODE) f\<close> and \<^verbatim>\<open>if (scancode == code) f\<close>.\<close>

definition on_space ::
  "ptr \<Rightarrow> (('w, 'a) game_scheme \<Rightarrow> ('w, 'a) game_scheme option) \<Rightarrow> ('w, 'a) game_scheme \<Rightarrow> ('w, 'a) game_scheme option" where
  "on_space button f s =
     do {
       o1 \<leftarrow> deref (heap s) button;
       if selected o1 \<and> scancode (keyboard_dev s) = SPACE_BREAK_CODE then f s else Some s
     }"

definition on_key ::
  "byte \<Rightarrow> (('w, 'a) game_scheme \<Rightarrow> ('w, 'a) game_scheme option) \<Rightarrow> ('w, 'a) game_scheme \<Rightarrow> ('w, 'a) game_scheme option" where
  "on_key code f s = (if scancode (keyboard_dev s) = code then f s else Some s)"

definition popOutButtons :: "'w os \<Rightarrow> ('w, 'a) game_scheme \<Rightarrow> ('w, 'a) game_scheme option" where
  "popOutButtons os s =
     do {
       s \<leftarrow> on_space (leave_button_selected s)
             (\<lambda>s. do { s \<leftarrow> reset_fifo os s; Some (s\<lparr>mainState := STOP\<rparr>) }) s;
       s \<leftarrow> on_space (play_again_button_selected s)
             (\<lambda>s. do { s \<leftarrow> reset_fifo os s; reset_game_state os (s\<lparr>mainState := GAME\<rparr>) }) s;
       s \<leftarrow> on_key W_BREAK_CODE
             (\<lambda>s. option_up (buttons_winlose_unselected s) (buttons_winlose_selected s) 2 s) s;
       on_key S_BREAK_CODE (\<lambda>s. option_down (buttons_winlose_unselected s) (buttons_winlose_selected s) 2 s) s
     }"

definition menu_keys :: "'w os \<Rightarrow> ('w, 'a) game_scheme \<Rightarrow> ('w, 'a) game_scheme option" where
  "menu_keys os s =
     do {
       s \<leftarrow> on_space (exit_button_selected s) (\<lambda>s. Some (s\<lparr>mainState := STOP\<rparr>)) s;
       s \<leftarrow> on_space (start_button_selected s)
             (\<lambda>s. do {
               s \<leftarrow> reset_fifo os s;
               reset_game_state os ((announce os s)\<lparr>is_main_pc := True, mainState := GAME\<rparr>)
             }) s;
       s \<leftarrow> on_space (rules_button_selected s) (\<lambda>s. Some (s\<lparr>mainState := RULES\<rparr>)) s;
       s \<leftarrow> on_key S_BREAK_CODE (\<lambda>s. option_down (buttons_menu_unselected s) (buttons_menu_selected s) 3 s) s;
       on_key W_BREAK_CODE (\<lambda>s. option_up (buttons_menu_unselected s) (buttons_menu_selected s) 3 s) s
     }"

definition keyboard_keys :: "'w os \<Rightarrow> ('w, 'a) game_scheme \<Rightarrow> ('w, 'a) game_scheme option" where
  "keyboard_keys os s =
     (case mainState s of
        MAIN_MENU \<Rightarrow> menu_keys os s
      | GAME \<Rightarrow> do {
          s \<leftarrow> (if scancode (keyboard_dev s) = ESC_BREAK_CODE
               then do { s \<leftarrow> reset_fifo os s; Some ((announce os s)\<lparr>mainState := MAIN_MENU\<rparr>) }
               else Some s);
          Some (s\<lparr>idle_game := time_count (timer_dev s)\<rparr>)
        }
      | RULES \<Rightarrow> Some (if scancode (keyboard_dev s) = ESC_BREAK_CODE then s\<lparr>mainState := MAIN_MENU\<rparr> else s)
      | WIN \<Rightarrow> popOutButtons os s
      | LOST \<Rightarrow> popOutButtons os s
      | TIE \<Rightarrow> popOutButtons os s
      | STOP \<Rightarrow> Some s)"

definition keyboard_int :: "'w os \<Rightarrow> ('w, 'a) game_scheme \<Rightarrow> ('w, 'a) game_scheme option" where
  "keyboard_int os s =
     (case kbc_ih os (keyboard_dev s) (world s) of
        (k, w) \<Rightarrow>
          let s = s\<lparr>keyboard_dev := k, world := w\<rparr> in
          if keyboard_error k then Some s
          else do { s \<leftarrow> keyboard_keys os s; draw_frame os s })"

section \<open>Mouse\<close>

definition parse_mouse_data :: "byte list \<Rightarrow> packet option" where
  "parse_mouse_data bytes =
     do {
       b0 \<leftarrow> arr_get bytes 0; b1 \<leftarrow> arr_get bytes 1; b2 \<leftarrow> arr_get bytes 2;
       Some \<lparr>pk_bytes = [b0, b1, b2],
         rb = (b0 AND RMB_BIT \<noteq> 0), mb = (b0 AND MMB_BIT \<noteq> 0), lb = (b0 AND LMB_BIT \<noteq> 0),
         delta_x = (if b0 AND MSB_X_DELTA \<noteq> 0 then nine_bit_sign_extension (BIT 8 + ucast b1) else ucast b1),
         delta_y = (if b0 AND MSB_Y_DELTA \<noteq> 0 then nine_bit_sign_extension (BIT 8 + ucast b2) else ucast b2),
         x_ov = (b0 AND X_OVFL \<noteq> 0), y_ov = (b0 AND Y_OVFL \<noteq> 0)\<rparr>
     }"

definition mouse_update_position :: "'w os \<Rightarrow> ptr \<Rightarrow> packet \<Rightarrow> ('w, 'a) arena_scheme \<Rightarrow> ('w, 'a) arena_scheme option" where
  "mouse_update_position os m parsing s =
     (if x_ov parsing \<or> y_ov parsing then Some s
      else move os m (delta_x parsing) (delta_y parsing) 0 s)"

text \<open>What the handler does with a complete packet.\<close>

definition mouse_packet :: "'w os \<Rightarrow> packet \<Rightarrow> ('w, 'a) game_scheme \<Rightarrow> ('w, 'a) game_scheme option" where
  "mouse_packet os parsing s =
     do {
       s \<leftarrow> mouse_update_position os (mouse s) parsing s;
       if lb parsing then do {
         s \<leftarrow> move os (bluepuck s) (delta_x parsing) (delta_y parsing) 2 s;
         update_sprite (mouse s) (\<lambda>m. m\<lparr>visibility := False\<rparr>) s
       } else do {
         s \<leftarrow> update_sprite (mouse s) (\<lambda>m. m\<lparr>visibility := True\<rparr>) s;
         update_sprite (bluepuck s) (\<lambda>b. b\<lparr>xspeed := 0, yspeed := 0\<rparr>) s
       }
     }"

definition mouse_int :: "'w os \<Rightarrow> ('w, 'a) game_scheme \<Rightarrow> ('w, 'a) game_scheme option" where
  "mouse_int os s =
     (case mouse_ih os (mouse_dev s) (world s) of
        (m, w) \<Rightarrow>
          let s = s\<lparr>mouse_dev := m, world := w\<rparr> in
          if mouse_error m then Some s
          else if count s = 0 \<and> mouse_byte m AND SYNC_BIT = 0 then Some s
          else do {
            bytes \<leftarrow> arr_set (packet_bytes s) (count s) (mouse_byte m);
            let s = s\<lparr>packet_bytes := bytes, count := count s + 1\<rparr>;
            if count s = 3 then do {
              let s = s\<lparr>count := 0\<rparr>;
              parsing \<leftarrow> parse_mouse_data (packet_bytes s);
              mouse_packet os parsing s
            } else Some s
          })"

section \<open>Serial port and clock\<close>

definition sp_int_menu :: "'w os \<Rightarrow> ('w, 'a) game_scheme \<Rightarrow> ('w, 'a) game_scheme option" where
  "sp_int_menu os s =
     do {
       s \<leftarrow> receive os s;
       (r, temp_x, s) \<leftarrow> next_signal 0 s;
       if r \<noteq> 0 then Some s
       else if temp_x = signal1 then do {
         s \<leftarrow> reset_fifo os s;
         s \<leftarrow> reset_game_state os (s\<lparr>mainState := GAME\<rparr>);
         Some (s\<lparr>is_main_pc := False\<rparr>)
       } else Some s
     }"

text \<open>A ball message: the two speeds are the bytes of \<open>temp_y\<close>, mirrored.\<close>

definition set_ball_speed :: "u16 \<Rightarrow> ('w, 'a) game_scheme \<Rightarrow> ('w, 'a) game_scheme option" where
  "set_ball_speed temp_y s =
     (let aux = (ucast (temp_y AND 0x00FF) :: byte) in
      update_sprite (ball s)
        (\<lambda>b. b\<lparr>xspeed := - sint aux, yspeed := - sint (ucast (drop_bit 8 temp_y) :: byte)\<rparr>) s)"

definition sp_int_game :: "'w os \<Rightarrow> ('w, 'a) game_scheme \<Rightarrow> ('w, 'a) game_scheme option" where
  "sp_int_game os s =
     do {
       s \<leftarrow> receive os s;
       (r, temp_x, s) \<leftarrow> (if is_stored_x s then Some (0, stored_x s, s\<lparr>is_stored_x := False\<rparr>) else next_signal 0 s);
       if r \<noteq> 0 then Some s
       else if temp_x = signal1 then draw_frame os (s\<lparr>mainState := MAIN_MENU\<rparr>)
       else do {
         (r2, temp_y, s) \<leftarrow> next_signal 0 s;
         if r2 \<noteq> 0 then Some (s\<lparr>stored_x := temp_x, is_stored_x := True\<rparr>)
         else if temp_x = ball_signal then set_ball_speed temp_y s
         else move os (redpuck s) (- temp_x) temp_y 2 s
       }
     }"

definition sp_int :: "'w os \<Rightarrow> ('w, 'a) game_scheme \<Rightarrow> ('w, 'a) game_scheme option" where
  "sp_int os s =
     (case mainState s of MAIN_MENU \<Rightarrow> sp_int_menu os s | GAME \<Rightarrow> sp_int_game os s | _ \<Rightarrow> Some s)"

definition rtc_int :: "'w os \<Rightarrow> ('w, 'a) game_scheme \<Rightarrow> ('w, 'a) game_scheme" where
  "rtc_int os s =
     (case rtc_update_info os (day_time_info s) (world s) of (_, t, w) \<Rightarrow> s\<lparr>day_time_info := t, world := w\<rparr>)"

section \<open>The program at start\<close>

text \<open>The initial values of the globals; those without an initialiser are zero in C.\<close>

definition game_init :: "'w \<Rightarrow> 'w game" where
  "game_init w = \<lparr>world = w, heap = Map.empty, brk = 1, main_buffer = None, secondary_buffer = None,
     vram_size = 0, h_res = 0, v_res = 0, bytes_per_pixel = 0, memory_model = 0, red_mask_size = 0,
     red_field_position = 0, green_mask_size = 0, green_field_position = 0, blue_mask_size = 0,
     blue_field_position = 0, vram_base = 0,
     redpuck = NULL, bluepuck = NULL, ball = NULL, player_1_score = 0, player_2_score = 0, is_main_pc = True,
     mouse = NULL, numbers = replicate 10 NULL, time_sep = NULL, time_title = NULL, points_title = NULL,
     numbers_red = replicate 10 NULL, numbers_blue = replicate 10 NULL, points_sep = NULL, two_points = NULL,
     two_points2 = NULL, day_sep = NULL, day_sep2 = NULL, exit_button_unselected = NULL,
     rules_button_unselected = NULL, start_button_unselected = NULL,
     buttons_menu_unselected = replicate 3 NULL, start_button_selected = NULL, rules_button_selected = NULL,
     exit_button_selected = NULL, buttons_menu_selected = replicate 3 NULL,
     play_again_button_selected = NULL, leave_button_selected = NULL,
     buttons_winlose_selected = replicate 2 NULL, play_again_button_unselected = NULL,
     leave_button_unselected = NULL, buttons_winlose_unselected = replicate 2 NULL,
     mainState = MAIN_MENU, time_remaining = 0,
     day_time_info = \<lparr>yyyy = 0, mm = 0, dd = 0, dt_h = 0, dt_m = 0, dt_s = 0\<rparr>,
     game_background = xpm_image_zero, menu_background = xpm_image_zero, youwon_popOut = xpm_image_zero,
     youlost_popOut = xpm_image_zero, tie_popOut = xpm_image_zero, rules_background = xpm_image_zero,
     packet_bytes = [0, 0, 0], count = 0, option_index = 0, previous_x = 0, previous_y = 0, idle_game = 0,
     start_time = 0, puck_transmit = 0, stored_x = 0, is_stored_x = False, inQueue = None,
     keyboard_dev = kbd_init, mouse_dev = mouse_init, timer_dev = timer_init, rtc_hook_id = rtc_hook_init,
     sp_hook_id = 4\<rparr>"

end
