(* ===== verification/Loader.thy ===== *)
theory Loader
  imports Model
begin

text \<open>
  Loading and unloading the sprites, \<^verbatim>\<open>loader_sprite\<close> and \<^verbatim>\<open>unloader_sprite\<close> of \<^verbatim>\<open>model/model.c\<close>:
  every sprite the view and the physics reach through a pointer is created once, on the screen,
  and freed once.
\<close>

section \<open>The sprites of the program\<close>

text \<open>
  The calls of \<^verbatim>\<open>create_sprite\<close> in the order of the code: pixmap, position, and whether the call
  is followed by \<^verbatim>\<open>->selected = true\<close>.
\<close>

type_synonym sprite_spec = "xpm_map \<times> int \<times> int \<times> bool"

definition loader_specs :: "sprite_spec list" where
  "loader_specs =
     [(Xpm_mouse, 576, 150, False),
      (Play_unselected, 421, 350, True), (Play_selected, 421, 350, True),
      (Red_puck, 535, 55, False), (Blue_puck, 535, 730, False), (Disk, 550, 410, False)] @
     map (\<lambda>i. (White_number i, 0, 0, False)) [0..<10] @
     [(White_time, 115, 425, False), (Title_time, 55, 370, False),
      (Title_points, 925, 370, False), (White_points, 1015, 440, False),
      (Time_two_points, 20 + 35 * 2, 15, False), (Time_two_points, 20 + 35 * 5, 15, False),
      (Day_separator, 445 + 35 * 12, 25, False), (Day_separator, 445 + 35 * 15, 25, False)] @
     map (\<lambda>i. (Blue_number i, 0, 425, False)) [0..<10] @
     map (\<lambda>i. (Red_number i, 0, 425, False)) [0..<10] @
     [(Play_again_selected, 450, 380, True), (Play_again_unselected, 450, 380, True),
      (Exit_unselected, 421, 650, False), (Rules_unselected, 421, 500, False),
      (Rules_selected, 421, 500, False), (Exit_selected, 421, 650, False),
      (Leave_selected, 495, 480, False), (Leave_unselected, 495, 480, False)]"

text \<open>One creation; selecting a sprite that could not be created is undefined.\<close>

fun load_all :: "'w os \<Rightarrow> sprite_spec list \<Rightarrow> ('w, 'a) store_scheme \<Rightarrow> (ptr list \<times> ('w, 'a) store_scheme) option" where
  "load_all os [] s = Some ([], s)"
| "load_all os ((xpm, x, y, sel) # specs) s =
     (case create_sprite os xpm x y s of
        (p, s1) \<Rightarrow> do {
          s2 \<leftarrow> (if sel then update_sprite p (\<lambda>o1. o1\<lparr>selected := True\<rparr>) s1 else Some s1);
          (ps, s3) \<leftarrow> load_all os specs s2;
          Some (p # ps, s3)
        })"

text \<open>The variable or array element each creation is stored in.\<close>

definition assign_sprites :: "ptr list \<Rightarrow> ('w, 'a) scene_scheme \<Rightarrow> ('w, 'a) scene_scheme" where
  "assign_sprites ps s = s\<lparr>
     mouse := ps ! 0, start_button_unselected := ps ! 1, start_button_selected := ps ! 2,
     redpuck := ps ! 3, bluepuck := ps ! 4, ball := ps ! 5,
     numbers := take 10 (drop 6 ps),
     time_sep := ps ! 16, time_title := ps ! 17, points_title := ps ! 18, points_sep := ps ! 19,
     two_points := ps ! 20, two_points2 := ps ! 21, day_sep := ps ! 22, day_sep2 := ps ! 23,
     numbers_blue := take 10 (drop 24 ps), numbers_red := take 10 (drop 34 ps),
     play_again_button_selected := ps ! 44, play_again_button_unselected := ps ! 45,
     exit_button_unselected := ps ! 46, rules_button_unselected := ps ! 47,
     rules_button_selected := ps ! 48, exit_button_selected := ps ! 49,
     buttons_menu_unselected := [ps ! 1, ps ! 47, ps ! 46],
     buttons_menu_selected := [ps ! 2, ps ! 48, ps ! 49],
     leave_button_selected := ps ! 50, leave_button_unselected := ps ! 51,
     buttons_winlose_selected := [ps ! 44, ps ! 50],
     buttons_winlose_unselected := [ps ! 45, ps ! 51]\<rparr>"

definition loader_sprite :: "'w os \<Rightarrow> ('w, 'a) scene_scheme \<Rightarrow> ('w, 'a) scene_scheme option" where
  "loader_sprite os s = do { (ps, s) \<leftarrow> load_all os loader_specs s; Some (assign_sprites ps s) }"

fun delete_all :: "ptr list \<Rightarrow> ('w, 'a) store_scheme \<Rightarrow> ('w, 'a) store_scheme option" where
  "delete_all [] s = Some s"
| "delete_all (p # ps) s = do { s \<leftarrow> delete_sprite p s; delete_all ps s }"

text \<open>The pointers \<^verbatim>\<open>unloader_sprite\<close> deletes, in its order.\<close>

definition sprite_list :: "('w, 'a) scene_scheme \<Rightarrow> ptr list" where
  "sprite_list s =
     [mouse s, start_button_unselected s, start_button_selected s, rules_button_unselected s,
      rules_button_selected s, exit_button_unselected s, exit_button_selected s,
      redpuck s, bluepuck s, ball s] @
     buttons_winlose_selected s @ buttons_winlose_unselected s @ numbers s @
     [time_sep s, time_title s, points_title s, points_sep s, two_points s, two_points2 s,
      day_sep s, day_sep2 s] @ numbers_blue s @ numbers_red s"

definition unloader_sprite :: "('w, 'a) scene_scheme \<Rightarrow> ('w, 'a) scene_scheme option" where
  "unloader_sprite s = delete_all (sprite_list s) s"

section \<open>Creating a list of sprites\<close>

definition loaded_as :: "sprite_spec \<Rightarrow> sprite \<Rightarrow> bool" where
  "loaded_as sp o1 = (case sp of (xpm, x, y, sel) \<Rightarrow>
     sp_x o1 = x \<and> sp_y o1 = y \<and> xspeed o1 = 0 \<and> yspeed o1 = 0 \<and> selected o1 = sel \<and> visibility o1 \<and>
     unat (sp_width o1) = fst (xpm_dims xpm) \<and> unat (sp_height o1) = snd (xpm_dims xpm) \<and> pixmap_ok 4 o1)"

lemma create_loaded:
  assumes "malloc_total os" and "xpm_loads os" and "xpm_exists xpm"
  obtains w o1 where "create_sprite os xpm x y s =
      (brk s, s\<lparr>world := w, brk := brk s + 1, heap := (heap s)(brk s \<mapsto> o1)\<rparr>)" "loaded_as (xpm, x, y, False) o1"
proof -
  obtain b w where m: "malloc os sizeof_Sprite (world s) = (Some b, w)"
    using assms(1) unfolding malloc_total_def by (metis not_Some_eq prod.collapse)
  obtain d img where l: "xpm_load os xpm XPM_8_8_8_8 xpm_image_zero = (Some d, img)"
    "unat (img_width img) = fst (xpm_dims xpm)" "unat (img_height img) = snd (xpm_dims xpm)"
    "length d = fst (xpm_dims xpm) * snd (xpm_dims xpm) * 4"
    using assms(2,3) unfolding xpm_loads_def loads_as_def by metis
  show thesis
    by (rule that [where w = w and ?o1.0 = "\<lparr>sp_x = x, sp_y = y, sp_width = img_width img, sp_height = img_height img,
        xspeed = 0, yspeed = 0, sp_map = Some d, selected = False, visibility = True\<rparr>"])
      (simp_all add: create_sprite_def m l loaded_as_def pixmap_ok_def)
qed

lemma loaded_select: "loaded_as (xpm, x, y, False) o1 \<Longrightarrow> loaded_as (xpm, x, y, True) (o1\<lparr>selected := True\<rparr>)"
  by (auto simp: loaded_as_def pixmap_ok_def)

text \<open>One creation of the loader: a fresh address, and nothing else in the heap changes.\<close>

lemma load_step:
  assumes "malloc_total os" and "xpm_loads os" and "xpm_exists xpm" and "0 < brk s"
  obtains w o1 where "load_all os ((xpm, x, y, sel) # specs) s =
      do { (ps, s3) \<leftarrow> load_all os specs (s\<lparr>world := w, brk := brk s + 1, heap := (heap s)(brk s \<mapsto> o1)\<rparr>);
           Some (brk s # ps, s3) }"
    "loaded_as (xpm, x, y, sel) o1"
proof -
  obtain w o1 where c: "create_sprite os xpm x y s =
      (brk s, s\<lparr>world := w, brk := brk s + 1, heap := (heap s)(brk s \<mapsto> o1)\<rparr>)" "loaded_as (xpm, x, y, False) o1"
    by (rule create_loaded [OF assms(1-3)])
  show thesis
  proof (cases sel)
    case True
    then show ?thesis using c assms(4)
      by (intro that [where w = w and ?o1.0 = "o1\<lparr>selected := True\<rparr>"]) (simp_all add: loaded_select)
  next
    case False
    then show ?thesis using c by (intro that [where w = w and ?o1.0 = o1]) simp_all
  qed
qed

lemma load_all_spec:
  assumes "malloc_total os" and "xpm_loads os" and "\<forall>sp\<in>set specs. xpm_exists (fst sp)" and "0 < brk s"
  shows "\<exists>w h. load_all os specs s = Some ([brk s ..< brk s + length specs],
      s\<lparr>world := w, brk := brk s + length specs, heap := h\<rparr>) \<and>
    (\<forall>i < length specs. \<exists>o1. h (brk s + i) = Some o1 \<and> loaded_as (specs ! i) o1) \<and>
    (\<forall>p. p < brk s \<or> brk s + length specs \<le> p \<longrightarrow> h p = heap s p)"
  using assms(3,4)
proof (induction specs arbitrary: s)
  case Nil
  then show ?case by (auto intro!: exI [of _ "world s"] exI [of _ "heap s"])
next
  case (Cons sp specs)
  obtain xpm x y sel where sp: "sp = (xpm, x, y, sel)" by (cases sp) auto
  have ex: "xpm_exists xpm" "0 < brk s" using Cons.prems sp by auto
  obtain w1 o1 where st: "load_all os (sp # specs) s =
      do { (ps, s3) \<leftarrow> load_all os specs (s\<lparr>world := w1, brk := brk s + 1, heap := (heap s)(brk s \<mapsto> o1)\<rparr>);
           Some (brk s # ps, s3) }" "loaded_as sp o1"
    unfolding sp by (rule load_step [OF assms(1,2) ex])
  let ?s1 = "s\<lparr>world := w1, brk := brk s + 1, heap := (heap s)(brk s \<mapsto> o1)\<rparr>"
  obtain w h where ih: "load_all os specs ?s1 = Some ([brk s + 1 ..< brk s + 1 + length specs],
      ?s1\<lparr>world := w, brk := brk s + 1 + length specs, heap := h\<rparr>)"
    "\<forall>i < length specs. \<exists>o1. h (brk s + 1 + i) = Some o1 \<and> loaded_as (specs ! i) o1"
    "\<forall>p. p < brk s + 1 \<or> brk s + 1 + length specs \<le> p \<longrightarrow> h p = ((heap s)(brk s \<mapsto> o1)) p"
    using Cons.IH [of ?s1] Cons.prems by auto
  have "\<exists>o1. h (brk s + i) = Some o1 \<and> loaded_as ((sp # specs) ! i) o1" if "i < length (sp # specs)" for i
  proof (cases i)
    case 0
    then show ?thesis using ih(3) st(2) by simp
  next
    case (Suc j)
    then show ?thesis using ih(2) that by auto
  qed
  moreover have "h p = heap s p" if "p < brk s \<or> brk s + length (sp # specs) \<le> p" for p
    using ih(3) that by auto
  moreover have upt: "[brk s ..< brk s + length (sp # specs)] = brk s # [brk s + 1 ..< brk s + 1 + length specs]"
    by (subst upt_conv_Cons) simp_all
  have "load_all os (sp # specs) s = Some ([brk s ..< brk s + length (sp # specs)],
      s\<lparr>world := w, brk := brk s + length (sp # specs), heap := h\<rparr>)"
    unfolding upt st(1) ih(1) by simp
  ultimately show ?case by blast
qed

section \<open>The loaded program\<close>

lemma loader_specs_length [simp]: "length loader_specs = 52"
  by (simp add: loader_specs_def)

lemma loader_specs_exist: "\<forall>sp\<in>set loader_specs. xpm_exists (fst sp)"
  by (auto simp: loader_specs_def xpm_exists_def)

definition spec_on_screen :: "sprite_spec \<Rightarrow> bool" where
  "spec_on_screen sp = (case sp of (xpm, x, y, sel) \<Rightarrow>
     0 \<le> x \<and> x + int (fst (xpm_dims xpm)) \<le> 1152 \<and> 0 \<le> y \<and> y + int (snd (xpm_dims xpm)) \<le> 864)"

lemma loader_specs_on_screen: "\<forall>sp\<in>set loader_specs. spec_on_screen sp"
  by (auto simp: loader_specs_def spec_on_screen_def digit_dims_def)

text \<open>The entries the physics counts on, and the digits.\<close>

lemma loader_specs_objects:
  "loader_specs ! 0 = (Xpm_mouse, 576, 150, False)" "loader_specs ! 3 = (Red_puck, 535, 55, False)"
  "loader_specs ! 4 = (Blue_puck, 535, 730, False)" "loader_specs ! 5 = (Disk, 550, 410, False)"
  by (simp_all add: loader_specs_def nth_append)

lemma loader_specs_digits:
  assumes "i < 10"
  shows "loader_specs ! (6 + i) = (White_number i, 0, 0, False)"
    "loader_specs ! (24 + i) = (Blue_number i, 0, 425, False)"
    "loader_specs ! (34 + i) = (Red_number i, 0, 425, False)"
  using assms by (simp_all add: loader_specs_def nth_append)

lemma assigned_ptrs:
  fixes b :: nat
  defines "ps \<equiv> [b ..< b + 52]"
  shows "mouse (assign_sprites ps s) = b" "redpuck (assign_sprites ps s) = b + 3"
    "bluepuck (assign_sprites ps s) = b + 4" "ball (assign_sprites ps s) = b + 5"
    "numbers (assign_sprites ps s) = [b + 6 ..< b + 16]" "numbers_blue (assign_sprites ps s) = [b + 24 ..< b + 34]"
    "numbers_red (assign_sprites ps s) = [b + 34 ..< b + 44]"
    "fixed_ptrs (assign_sprites ps s) = (+) b ` {0, 1, 2, 3, 4, 5, 16, 17, 18, 19, 20, 21, 22, 23, 44, 45, 46, 47, 48, 49, 50, 51}"
    "buttons_menu_unselected (assign_sprites ps s) = [b + 1, b + 47, b + 46]"
    "buttons_menu_selected (assign_sprites ps s) = [b + 2, b + 48, b + 49]"
    "buttons_winlose_unselected (assign_sprites ps s) = [b + 45, b + 51]"
    "buttons_winlose_selected (assign_sprites ps s) = [b + 44, b + 50]"
  unfolding ps_def by (auto simp: assign_sprites_def fixed_ptrs_def add.commute [of _ b])

lemma assigned_digits:
  "digit_ptrs (assign_sprites [b ..< b + 52] s) = (+) b ` ({6 ..< 16} \<union> {24 ..< 44})"
proof -
  have "{b + 6 ..< b + 16} = (+) b ` {6 ..< 16}" "{b + 24 ..< b + 34} \<union> {b + 34 ..< b + 44} = (+) b ` {24 ..< 44}"
    by (simp_all add: ivl_disj_un_two(3) add.commute [of b])
  then show ?thesis unfolding digit_ptrs_def assigned_ptrs set_upt by (simp add: image_Un Un_commute Un_left_commute Un_assoc)
qed

lemma assigned_frame:
  "heap (assign_sprites ps s) = heap s" "h_res (assign_sprites ps s) = h_res s" "v_res (assign_sprites ps s) = v_res s"
  "bytes_per_pixel (assign_sprites ps s) = bytes_per_pixel s" "framebuf (assign_sprites ps s) buf = framebuf s buf"
  "images_ok (assign_sprites ps s) = images_ok s" "brk (assign_sprites ps s) = brk s"
  "main_buffer (assign_sprites ps s) = main_buffer s" "vram_size (assign_sprites ps s) = vram_size s"
  "mainState (assign_sprites ps s) = mainState s" "day_time_info (assign_sprites ps s) = day_time_info s"
  "scene.more (assign_sprites ps s) = scene.more s" "world (assign_sprites ps s) = world s"
  "player_1_score (assign_sprites ps s) = player_1_score s" "player_2_score (assign_sprites ps s) = player_2_score s"
  "time_remaining (assign_sprites ps s) = time_remaining s" "is_main_pc (assign_sprites ps s) = is_main_pc s"
  by (simp_all add: assign_sprites_def framebuf_def images_ok_def)

text \<open>The heap after loading at base \<open>b\<close>.\<close>

definition loaded_heap :: "nat \<Rightarrow> (ptr \<rightharpoonup> sprite) \<Rightarrow> bool" where
  "loaded_heap b h \<longleftrightarrow> 0 < b \<and> (\<forall>i < 52. \<exists>o1. h (b + i) = Some o1 \<and> loaded_as (loader_specs ! i) o1)"

lemma loaded_sprite:
  assumes "loaded_heap b h" and "i < 52"
  obtains o1 where "deref h (b + i) = Some o1" "loaded_as (loader_specs ! i) o1"
  using assms by (auto simp: loaded_heap_def deref_def)

lemma loaded_drawable:
  assumes "loaded_heap b h" and "i < 52"
  shows "\<exists>o1. deref h (b + i) = Some o1 \<and> pixmap_ok 4 o1 \<and> on_screen 1152 864 o1"
proof -
  obtain o1 where o1: "deref h (b + i) = Some o1" "loaded_as (loader_specs ! i) o1"
    by (rule loaded_sprite [OF assms])
  have "spec_on_screen (loader_specs ! i)" using loader_specs_on_screen assms(2) by (simp add: nth_mem)
  then have "on_screen 1152 864 o1" using o1(2)
    unfolding loaded_as_def spec_on_screen_def on_screen_def uint_nat by (cases "loader_specs ! i") auto
  then show ?thesis using o1 by (auto simp: loaded_as_def split: prod.splits)
qed

lemma loader_spec:
  assumes "malloc_total os" and "xpm_loads os" and "store_ok s"
  obtains w h where "loader_sprite os s =
      Some (assign_sprites [brk s ..< brk s + 52] (s\<lparr>world := w, brk := brk s + 52, heap := h\<rparr>))"
    "loaded_heap (brk s) h" "\<forall>p. p < brk s \<or> brk s + 52 \<le> p \<longrightarrow> h p = heap s p"
proof -
  have b: "0 < brk s" using assms(3) by (simp add: store_ok_def)
  from load_all_spec [OF assms(1,2) loader_specs_exist b] obtain w h where
    l: "load_all os loader_specs s = Some ([brk s ..< brk s + 52], s\<lparr>world := w, brk := brk s + 52, heap := h\<rparr>)"
    "\<forall>i < 52. \<exists>o1. h (brk s + i) = Some o1 \<and> loaded_as (loader_specs ! i) o1"
    "\<forall>p. p < brk s \<or> brk s + 52 \<le> p \<longrightarrow> h p = heap s p"
    unfolding loader_specs_length by blast
  show thesis by (rule that [where w = w and h = h]) (use l b in \<open>simp_all add: loader_sprite_def loaded_heap_def\<close>)
qed

section \<open>Loading makes the program ready\<close>

text \<open>The objects of the table and the mouse pointer are inside the play area.\<close>

definition objects_in_area :: "('w, 'a) scene_scheme \<Rightarrow> bool" where
  "objects_in_area s \<longleftrightarrow> mouse s \<notin> {redpuck s, bluepuck s, ball s} \<and>
     (\<forall>p\<in>{mouse s, redpuck s, bluepuck s, ball s}. \<exists>o1. deref (heap s) p = Some o1 \<and> in_area o1)"

lemma loaded_object:
  assumes "loaded_heap b h" and "i < 52" and "loader_specs ! i = (xpm, x, y, sel)" and "xpm_dims xpm = (w, ht)"
  obtains o1 where "deref h (b + i) = Some o1" "sp_x o1 = x" "sp_y o1 = y" "xspeed o1 = 0" "yspeed o1 = 0"
    "unat (sp_width o1) = w" "unat (sp_height o1) = ht" "pixmap_ok 4 o1"
proof -
  obtain o1 where "deref h (b + i) = Some o1" "loaded_as (loader_specs ! i) o1"
    by (rule loaded_sprite [OF assms(1,2)])
  then show thesis using assms(3,4) that by (auto simp: loaded_as_def)
qed

lemma loaded_digit:
  assumes "loaded_heap b h" and "i \<in> {6 ..< 16} \<union> {24 ..< 44}"
  shows "digit_sprite h (b + i)"
proof -
  have "i < 52" using assms(2) by auto
  then obtain o1 where o1: "deref h (b + i) = Some o1" "loaded_as (loader_specs ! i) o1"
    by (rule loaded_sprite [OF assms(1)])
  have "\<exists>j. j < 10 \<and> (i = 6 + j \<or> i = 24 + j \<or> i = 34 + j)"
    using assms(2) by (intro exI [of _ "if i < 16 then i - 6 else if i < 34 then i - 24 else i - 34"]) auto
  then have "unat (sp_width o1) \<le> 31 \<and> unat (sp_height o1) \<le> 31 \<and> pixmap_ok 4 o1"
    using o1(2) loader_specs_digits by (auto simp: loaded_as_def digit_dims_def)
  then show ?thesis using o1(1) by (auto simp: digit_sprite_def)
qed

lemma loaded_screen_ok:
  assumes h: "loaded_heap b (heap s)" and f: "framebuf s buf" and "images_ok s" and "h_res s = 1152" and "v_res s = 864"
    and "bytes_per_pixel s = 4"
  shows "screen_ok (assign_sprites [b ..< b + 52] s)"
  unfolding screen_ok_def
proof (intro conjI ballI)
  show "fixed_ptrs (assign_sprites [b ..< b + 52] s) \<inter> digit_ptrs (assign_sprites [b ..< b + 52] s) = {}"
    unfolding assigned_ptrs assigned_digits by auto
  fix p assume "p \<in> fixed_ptrs (assign_sprites [b ..< b + 52] s)"
  then obtain i where "p = b + i" "i < 52" unfolding assigned_ptrs by auto
  then show "drawable (assign_sprites [b ..< b + 52] s) p"
    using loaded_drawable [OF h] assms(4-6) by (simp add: drawable_def assigned_frame)
next
  fix p assume "p \<in> digit_ptrs (assign_sprites [b ..< b + 52] s)"
  then show "digit_sprite (heap (assign_sprites [b ..< b + 52] s)) p"
    unfolding assigned_digits assigned_frame using loaded_digit [OF h] by auto
qed (use assms in \<open>auto simp: assigned_ptrs assigned_frame\<close>)

lemma loaded_arena_ok:
  assumes h: "loaded_heap b (heap s)" and bpp: "bytes_per_pixel s = 4"
  shows "arena_ok (assign_sprites [b ..< b + 52] s)" and "objects_in_area (assign_sprites [b ..< b + 52] s)"
proof -
  obtain m where m: "deref (heap s) (b + 0) = Some m" "sp_x m = 576" "sp_y m = 150" "unat (sp_width m) = 12"
    "unat (sp_height m) = 19"
    by (rule loaded_object [OF h _ loader_specs_objects(1)]) simp_all
  obtain r where r: "deref (heap s) (b + 3) = Some r" "sp_x r = 535" "sp_y r = 55" "unat (sp_width r) = 80"
    "unat (sp_height r) = 80" "pixmap_ok 4 r"
    by (rule loaded_object [OF h _ loader_specs_objects(2)]) simp_all
  obtain u where u: "deref (heap s) (b + 4) = Some u" "sp_x u = 535" "sp_y u = 730" "unat (sp_width u) = 80"
    "unat (sp_height u) = 80" "pixmap_ok 4 u"
    by (rule loaded_object [OF h _ loader_specs_objects(3)]) simp_all
  obtain k where k: "deref (heap s) (b + 5) = Some k" "sp_x k = 550" "sp_y k = 410" "unat (sp_width k) = 50"
    "unat (sp_height k) = 50" "pixmap_ok 4 k"
    by (rule loaded_object [OF h _ loader_specs_objects(4)]) simp_all
  have "shaped 4 80 80 r" "shaped 4 80 80 u" "shaped 4 50 50 k"
    using r u k by (simp_all add: shaped_def indexable_def)
  then show "arena_ok (assign_sprites [b ..< b + 52] s)"
    using r(1) u(1) k(1) bpp by (simp add: arena_ok_def assigned_ptrs assigned_frame)
  have "in_area m" "in_area r" "in_area u" "in_area k"
    using m r u k unfolding in_area_def fits_at_def uint_nat by simp_all
  then show "objects_in_area (assign_sprites [b ..< b + 52] s)"
    using m(1) r(1) u(1) k(1) by (simp add: objects_in_area_def assigned_ptrs assigned_frame)
qed

lemma loader_makes_ready:
  assumes "malloc_total os" and "xpm_loads os" and "store_ok s" and "framebuf s buf" and "images_ok s"
    and "h_res s = 1152" and "v_res s = 864" and "bytes_per_pixel s = 4"
  shows "\<exists>w h. loader_sprite os s =
      Some (assign_sprites [brk s ..< brk s + 52] (s\<lparr>world := w, brk := brk s + 52, heap := h\<rparr>)) \<and>
    screen_ok (assign_sprites [brk s ..< brk s + 52] (s\<lparr>world := w, brk := brk s + 52, heap := h\<rparr>)) \<and>
    arena_ok (assign_sprites [brk s ..< brk s + 52] (s\<lparr>world := w, brk := brk s + 52, heap := h\<rparr>)) \<and>
    objects_in_area (assign_sprites [brk s ..< brk s + 52] (s\<lparr>world := w, brk := brk s + 52, heap := h\<rparr>)) \<and>
    dom h = dom (heap s) \<union> {brk s ..< brk s + 52} \<and> loaded_heap (brk s) h"
proof -
  obtain w h where l: "loader_sprite os s =
      Some (assign_sprites [brk s ..< brk s + 52] (s\<lparr>world := w, brk := brk s + 52, heap := h\<rparr>))"
    "loaded_heap (brk s) h" "\<forall>p. p < brk s \<or> brk s + 52 \<le> p \<longrightarrow> h p = heap s p"
    by (rule loader_spec [OF assms(1-3)])
  have "(h p \<noteq> None) = (heap s p \<noteq> None \<or> brk s \<le> p \<and> p < brk s + 52)" for p
  proof (cases "brk s \<le> p \<and> p < brk s + 52")
    case True
    then have "p - brk s < 52" "brk s + (p - brk s) = p" by arith+
    then obtain o1 where "h p = Some o1" using l(2) unfolding loaded_heap_def by metis
    then show ?thesis using True by simp
  next
    case False
    then show ?thesis using l(3) by (metis not_le)
  qed
  then have dom: "dom h = dom (heap s) \<union> {brk s ..< brk s + 52}" by (auto simp: dom_def)
  let ?s = "s\<lparr>world := w, brk := brk s + 52, heap := h\<rparr>"
  have "loaded_heap (brk s) (heap ?s)" using l(2) by simp
  moreover have "framebuf ?s buf" using assms(4) by (simp add: framebuf_def)
  moreover have "images_ok ?s" using assms(5) by (simp add: images_ok_def)
  moreover have "h_res ?s = 1152" "v_res ?s = 864" "bytes_per_pixel ?s = 4" using assms(6-8) by simp_all
  ultimately show ?thesis using l(1) loaded_screen_ok [of "brk s" ?s buf] loaded_arena_ok [of "brk s" ?s] dom l(2) by blast
qed

text \<open>Loading: when memory lasts and the pixmaps load, \<^verbatim>\<open>loader_sprite\<close> creates every sprite of
  the program: all of them can be drawn on the screen of the mode, the pucks, the ball and the
  pointer are distinct, of the right size and inside the play area.\<close>

theorem loader_sprite_ready:
  assumes "malloc_total os" and "xpm_loads os" and "store_ok s" and "framebuf s buf" and "images_ok s"
    and "h_res s = 1152" and "v_res s = 864" and "bytes_per_pixel s = 4"
  shows "\<exists>s'. loader_sprite os s = Some s' \<and> screen_ok s' \<and> arena_ok s' \<and> objects_in_area s'"
  using loader_makes_ready [OF assms] by blast

text \<open>The program after \<^verbatim>\<open>vg_init\<close>, before its sprites are loaded, on a platform with the pixmaps.\<close>

definition booted :: "bench game" where
  "booted = (game_init \<lparr>replies = [], writes = []\<rparr>)
     \<lparr>main_buffer := Some (replicate 3981312 0), secondary_buffer := Some (replicate 3981312 0),
      vram_size := 3981312, h_res := 1152, v_res := 864, bytes_per_pixel := 4\<rparr>"

lemma booted_ok: "store_ok booted" "framebuf booted (replicate 3981312 0)" "images_ok booted"
  "h_res booted = 1152" "v_res booted = 864" "bytes_per_pixel booted = 4"
  by (simp_all add: booted_def game_init_def store_ok_def framebuf_def images_ok_def cache_ok_def xpm_image_zero_def)

lemma asset_os_malloc: "malloc_total asset_os"
  by (simp add: asset_os_def)

theorem loader_sprite_ready_witness:
  "\<exists>s'. loader_sprite asset_os booted = Some s' \<and> screen_ok s' \<and> arena_ok s' \<and> objects_in_area s'"
  by (rule loader_sprite_ready [OF asset_os_malloc asset_os_loads booted_ok])

section \<open>Unloading frees everything\<close>

lemma delete_all_spec:
  assumes "distinct ps" and "\<forall>p\<in>set ps. deref (heap s) p \<noteq> None"
  shows "\<exists>s'. delete_all ps s = Some s' \<and> heap s' = heap s |` (- set ps)"
  using assms
proof (induction ps arbitrary: s)
  case Nil
  then show ?case by simp
next
  case (Cons p ps)
  obtain o1 where o1: "deref (heap s) p = Some o1" using Cons.prems(2) by auto
  then have d: "delete_sprite p s = Some (s\<lparr>heap := (heap s)(p := None)\<rparr>)"
    using deref_SomeD [OF o1] by (simp add: delete_sprite_def)
  let ?s1 = "s\<lparr>heap := (heap s)(p := None)\<rparr>"
  have "\<forall>q\<in>set ps. deref (heap ?s1) q \<noteq> None"
    using Cons.prems by (auto simp: deref_def split: if_splits)
  then obtain s' where s': "delete_all ps ?s1 = Some s'" "heap s' = heap ?s1 |` (- set ps)"
    using Cons.IH [of ?s1] Cons.prems(1) by (metis distinct.simps(2))
  have "heap ?s1 |` (- set ps) = heap s |` (- set (p # ps))"
    by (rule ext) (simp add: restrict_map_def)
  then show ?case using d s' by simp
qed

lemma assigned_list:
  fixes b :: nat
  shows "distinct (sprite_list (assign_sprites [b ..< b + 52] s))"
    and "set (sprite_list (assign_sprites [b ..< b + 52] s)) = {b ..< b + 52}"
proof -
  let ?ps = "[b, b + 1, b + 2, b + 47, b + 48, b + 46, b + 49, b + 3, b + 4, b + 5] @ [b + 44, b + 50] @ [b + 45, b + 51] @
    [b + 6 ..< b + 16] @ [b + 16, b + 17, b + 18, b + 19, b + 20, b + 21, b + 22, b + 23] @
    [b + 24 ..< b + 34] @ [b + 34 ..< b + 44]"
  have u: "sprite_list (assign_sprites [b ..< b + 52] s) = ?ps"
    by (simp add: sprite_list_def assign_sprites_def add.commute [of _ b])
  have dist: "distinct ?ps" by auto
  have sub: "set ?ps \<subseteq> {b ..< b + 52}" by auto
  have len: "length ?ps = 52" by simp
  have "card (set ?ps) = card {b ..< b + 52}" using distinct_card [OF dist] unfolding len by simp
  then show "set (sprite_list (assign_sprites [b ..< b + 52] s)) = {b ..< b + 52}"
    unfolding u by (rule card_subset_eq [OF finite_atLeastLessThan sub])
  show "distinct (sprite_list (assign_sprites [b ..< b + 52] s))" unfolding u by (rule dist)
qed

text \<open>Nothing is leaked or freed twice: \<^verbatim>\<open>unloader_sprite\<close> after \<^verbatim>\<open>loader_sprite\<close> frees every
  sprite exactly once; the heap is what it was before loading.\<close>

theorem load_unload:
  assumes "malloc_total os" and "xpm_loads os" and "store_ok s"
  shows "\<exists>s' s''. loader_sprite os s = Some s' \<and> unloader_sprite s' = Some s'' \<and> heap s'' = heap s"
proof -
  define b where "b = brk s"
  obtain w h where l: "loader_sprite os s =
      Some (assign_sprites [b ..< b + 52] (s\<lparr>world := w, brk := b + 52, heap := h\<rparr>))"
    "loaded_heap b h" "\<forall>p. p < b \<or> b + 52 \<le> p \<longrightarrow> h p = heap s p"
    unfolding b_def by (rule loader_spec [OF assms])
  let ?s = "assign_sprites [b ..< b + 52] (s\<lparr>world := w, brk := b + 52, heap := h\<rparr>)"
  let ?ps = "sprite_list ?s"
  have u: "unloader_sprite ?s = delete_all ?ps ?s" by (simp add: unloader_sprite_def)
  have dist: "distinct ?ps" and set: "set ?ps = {b ..< b + 52}" by (rule assigned_list)+
  have "\<forall>p\<in>set ?ps. deref (heap ?s) p \<noteq> None"
  proof
    fix p assume "p \<in> set ?ps"
    then have p: "b \<le> p" "p < b + 52" unfolding set by simp_all
    then have i: "p - b < 52" "b + (p - b) = p" by simp_all
    obtain o1 where "deref h (b + (p - b)) = Some o1" by (rule loaded_sprite [OF l(2) i(1)])
    then have "deref h p = Some o1" unfolding i(2) .
    then show "deref (heap ?s) p \<noteq> None" by (simp add: assigned_frame(1))
  qed
  from delete_all_spec [OF dist this] obtain s'' where
    s'': "delete_all ?ps ?s = Some s''" "heap s'' = h |` (- {b ..< b + 52})"
    unfolding set by (auto simp: assigned_frame)
  have "(h |` (- {b ..< b + 52})) p = heap s p" for p
    using l(3) assms(3) by (cases "p \<in> {b ..< b + 52}") (auto simp: restrict_map_def store_ok_def b_def)
  then have "heap s'' = heap s" using s''(2) by auto
  then show ?thesis using l(1) u s''(1) by auto
qed

theorem load_unload_witness:
  "\<exists>s' s''. loader_sprite asset_os booted = Some s' \<and> unloader_sprite s' = Some s'' \<and> heap s'' = heap booted"
  by (rule load_unload [OF asset_os_malloc asset_os_loads booted_ok(1)])

end
