(* ===== verification/Safety.thy ===== *)
theory Safety
  imports Loader
begin

text \<open>
  The handlers are safe: on a loaded program every interrupt handler of \<^verbatim>\<open>model.c\<close> returns, with no
  access outside an array, a pixmap or the frame buffer and no use of a dead sprite, and leaves the
  program in a state where the next one can run.
\<close>

section \<open>What the view and the physics read\<close>

definition view_of where
  "view_of s = ((heap s, secondary_buffer s, h_res s, v_res s, bytes_per_pixel s),
     (redpuck s, bluepuck s, ball s, mouse s, numbers s, numbers_red s, numbers_blue s, fixed_ptrs s),
     (game_background s, menu_background s, youwon_popOut s, youlost_popOut s, tie_popOut s, rules_background s))"

definition ready :: "('w, 'a) scene_scheme \<Rightarrow> bool" where
  "ready s \<longleftrightarrow> screen_ok s \<and> arena_ok s \<and> objects_in_area s \<and> mouse s \<noteq> ball s"

lemma ready_view:
  assumes "ready s" and v: "view_of s' = view_of s"
  shows "ready s'"
proof -
  have e: "heap s' = heap s" "secondary_buffer s' = secondary_buffer s" "h_res s' = h_res s" "v_res s' = v_res s"
    "bytes_per_pixel s' = bytes_per_pixel s" "redpuck s' = redpuck s" "bluepuck s' = bluepuck s" "ball s' = ball s"
    "mouse s' = mouse s" "numbers s' = numbers s" "numbers_red s' = numbers_red s" "numbers_blue s' = numbers_blue s"
    "fixed_ptrs s' = fixed_ptrs s" "game_background s' = game_background s" "menu_background s' = menu_background s"
    "youwon_popOut s' = youwon_popOut s" "youlost_popOut s' = youlost_popOut s" "tie_popOut s' = tie_popOut s"
    "rules_background s' = rules_background s"
    using v by (simp_all add: view_of_def)
  show ?thesis using assms(1)
    unfolding ready_def screen_ok_def arena_ok_def objects_in_area_def framebuf_def images_ok_def digit_ptrs_def
      drawable_def e .
qed

lemma view_frame [simp]:
  "view_of (s\<lparr>world := w\<rparr>) = view_of s" "view_of (s\<lparr>brk := n\<rparr>) = view_of s"
  "view_of (s\<lparr>main_buffer := b\<rparr>) = view_of s" "view_of (s\<lparr>vram_size := v\<rparr>) = view_of s"
  "view_of (s\<lparr>player_1_score := i\<rparr>) = view_of s" "view_of (s\<lparr>player_2_score := i\<rparr>) = view_of s"
  "view_of (s\<lparr>is_main_pc := c\<rparr>) = view_of s" "view_of (s\<lparr>mainState := m\<rparr>) = view_of s"
  "view_of (s\<lparr>time_remaining := t\<rparr>) = view_of s" "view_of (s\<lparr>day_time_info := d\<rparr>) = view_of s"
  by (simp_all add: view_of_def fixed_ptrs_def)

lemma view_frame_game [simp]:
  "view_of (s\<lparr>packet_bytes := bs\<rparr>) = view_of s" "view_of (s\<lparr>count := i\<rparr>) = view_of s"
  "view_of (s\<lparr>option_index := i\<rparr>) = view_of s" "view_of (s\<lparr>previous_x := i\<rparr>) = view_of s"
  "view_of (s\<lparr>previous_y := i\<rparr>) = view_of s" "view_of (s\<lparr>idle_game := u\<rparr>) = view_of s"
  "view_of (s\<lparr>start_time := u\<rparr>) = view_of s" "view_of (s\<lparr>puck_transmit := u\<rparr>) = view_of s"
  "view_of (s\<lparr>stored_x := v\<rparr>) = view_of s" "view_of (s\<lparr>is_stored_x := c\<rparr>) = view_of s"
  "view_of (s\<lparr>inQueue := q\<rparr>) = view_of s" "view_of (s\<lparr>keyboard_dev := k\<rparr>) = view_of s"
  "view_of (s\<lparr>mouse_dev := md\<rparr>) = view_of s" "view_of (s\<lparr>timer_dev := td\<rparr>) = view_of s"
  by (simp_all add: view_of_def fixed_ptrs_def)

section \<open>Changing one sprite\<close>

text \<open>A drawable sprite of the table may move inside the play area, and any drawable sprite may
  change its speed, selection or visibility.\<close>

lemma in_area_on_screen: "in_area o1 \<Longrightarrow> on_screen 1152 864 o1"
  unfolding in_area_def fits_at_def on_screen_def by simp

definition same_shape :: "sprite \<Rightarrow> sprite \<Rightarrow> bool" where
  "same_shape o1 o2 \<longleftrightarrow> sp_width o2 = sp_width o1 \<and> sp_height o2 = sp_height o1 \<and> sp_map o2 = sp_map o1"

text \<open>The same size, and a pixmap that is complete when the other one is.\<close>

definition alike :: "sprite \<Rightarrow> sprite \<Rightarrow> bool" where
  "alike o1 o2 \<longleftrightarrow> sp_width o2 = sp_width o1 \<and> sp_height o2 = sp_height o1 \<and> (\<forall>b. pixmap_ok b o2 = pixmap_ok b o1)"

lemma same_shape_alike: "same_shape o1 o2 \<Longrightarrow> alike o1 o2"
  by (simp add: same_shape_def alike_def pixmap_ok_def)

lemma ready_alike:
  assumes ok: "ready s" and p: "p \<in> fixed_ptrs s" and o1: "deref (heap s) p = Some o1" and sh: "alike o1 o2"
    and pl: "sp_x o2 = sp_x o1 \<and> sp_y o2 = sp_y o1 \<or> in_area o2"
  shows "ready (s\<lparr>heap := (heap s)(p \<mapsto> o2)\<rparr>)"
proof -
  let ?s = "s\<lparr>heap := (heap s)(p \<mapsto> o2)\<rparr>"
  have scr: "screen_ok s" and ar: "arena_ok s" and ob: "objects_in_area s" using ok by (simp_all add: ready_def)
  have nn: "p \<noteq> NULL" using o1 by (auto dest: deref_SomeD)
  have pix: "pixmap_ok b o2 = pixmap_ok b o1" for b using sh by (simp add: alike_def)
  have shp: "shaped b w h o2 = shaped b w h o1" for b w h
    using sh pix by (simp add: shaped_def indexable_def alike_def)
  have "pixmap_ok 4 o1" "on_screen 1152 864 o1" using scr p o1 by (auto simp: screen_ok_def drawable_def)
  then have dr: "pixmap_ok 4 o2" "on_screen 1152 864 o2"
    using pix pl in_area_on_screen [of o2] sh by (auto simp: on_screen_def alike_def)
  have nd: "p \<notin> digit_ptrs s" using scr p by (auto simp: screen_ok_def)
  have "drawable ?s q" if "q \<in> fixed_ptrs s" for q
    using scr that dr nn by (auto simp: screen_ok_def drawable_def)
  moreover have "digit_sprite ((heap s)(p \<mapsto> o2)) q" if "q \<in> digit_ptrs s" for q
    using scr that nd by (auto simp: screen_ok_def digit_sprite_def)
  moreover have "\<exists>b. framebuf ?s b" using scr by (auto simp: screen_ok_def framebuf_def)
  ultimately have "screen_ok ?s" using scr by (simp add: screen_ok_def)
  moreover have "arena_ok ?s" using ar o1 shp nn by (auto simp: arena_ok_def)
  moreover have "objects_in_area ?s"
  proof -
    have "in_area o2" if "in_area o1" using that pl sh by (auto simp: in_area_def fits_at_def alike_def)
    then show ?thesis using ob o1 nn by (auto simp: objects_in_area_def)
  qed
  moreover have "mouse ?s \<noteq> ball ?s" using ok by (simp add: ready_def)
  ultimately show ?thesis by (simp add: ready_def)
qed

lemma ready_upd:
  assumes "ready s" and "p \<in> fixed_ptrs s" and "deref (heap s) p = Some o1" and "same_shape o1 o2"
    and "sp_x o2 = sp_x o1 \<and> sp_y o2 = sp_y o1 \<or> in_area o2"
  shows "ready (s\<lparr>heap := (heap s)(p \<mapsto> o2)\<rparr>)"
  by (rule ready_alike [OF assms(1-3) same_shape_alike [OF assms(4)] assms(5)])

lemma ready_object:
  assumes "ready s" and "p \<in> {mouse s, redpuck s, bluepuck s, ball s}"
  obtains o1 where "deref (heap s) p = Some o1" "in_area o1" "p \<in> fixed_ptrs s"
  using assms fixed_ptrs_members [of s] unfolding ready_def objects_in_area_def by auto

section \<open>The state between two interrupts\<close>

text \<open>
  What every handler relies on and keeps: a loaded program, the receive queue of the driver, a
  mouse packet being assembled, mapped buffers of one screen, scores that are counted up from zero,
  a match clock and a real-time clock that fit their digits, and the arrays of buttons.
\<close>

definition buttons_ok :: "('w, 'a) game_scheme \<Rightarrow> bool" where
  "buttons_ok s \<longleftrightarrow>
     buttons_menu_unselected s = [start_button_unselected s, rules_button_unselected s, exit_button_unselected s] \<and>
     buttons_menu_selected s = [start_button_selected s, rules_button_selected s, exit_button_selected s] \<and>
     buttons_winlose_unselected s = [play_again_button_unselected s, leave_button_unselected s] \<and>
     buttons_winlose_selected s = [play_again_button_selected s, leave_button_selected s] \<and>
     distinct (sprite_list s) \<and> dom (heap s) = set (sprite_list s) \<and> NULL \<notin> set (sprite_list s)"

definition devices_ok :: "('w, 'a) game_scheme \<Rightarrow> bool" where
  "devices_ok s \<longleftrightarrow> rx_ok (inQueue s) \<and> length (packet_bytes s) = 3 \<and> 0 \<le> count s \<and> count s < 3 \<and>
     (\<exists>mb. main_buffer s = Some mb \<and> length mb = 3981312) \<and> vram_size s = 3981312 \<and>
     two_digits (day_time_info s) \<and> time_remaining s < 6000 \<and> 0 \<le> player_1_score s \<and> 0 \<le> player_2_score s"

definition game_ok :: "('w, 'a) game_scheme \<Rightarrow> bool" where
  "game_ok s \<longleftrightarrow> ready s \<and> buttons_ok s \<and> devices_ok s"

text \<open>A state that only differs in what \<open>ready\<close> and the button arrays do not read.\<close>

definition buttons_of where
  "buttons_of s = (buttons_menu_unselected s, buttons_menu_selected s, buttons_winlose_unselected s,
     buttons_winlose_selected s, fixed_ptrs s, sprite_list s, dom (heap s),
     [start_button_unselected s, rules_button_unselected s, exit_button_unselected s, start_button_selected s,
      rules_button_selected s, exit_button_selected s, play_again_button_unselected s, leave_button_unselected s,
      play_again_button_selected s, leave_button_selected s])"

lemma buttons_ok_frame: "buttons_ok s \<Longrightarrow> buttons_of s' = buttons_of s \<Longrightarrow> buttons_ok s'"
  by (simp add: buttons_ok_def buttons_of_def)

lemma buttons_arrays:
  assumes "buttons_ok s"
  shows "length (buttons_menu_unselected s) = 3" "length (buttons_menu_selected s) = 3"
    "length (buttons_winlose_unselected s) = 2" "length (buttons_winlose_selected s) = 2"
    "set (buttons_menu_unselected s) \<subseteq> fixed_ptrs s" "set (buttons_menu_selected s) \<subseteq> fixed_ptrs s"
    "set (buttons_winlose_unselected s) \<subseteq> fixed_ptrs s" "set (buttons_winlose_selected s) \<subseteq> fixed_ptrs s"
  using assms by (simp_all add: buttons_ok_def fixed_ptrs_members)

lemma buttons_frame [simp]:
  "buttons_of (s\<lparr>world := w\<rparr>) = buttons_of s"
  "buttons_of (s\<lparr>main_buffer := b\<rparr>) = buttons_of s"
  "buttons_of (s\<lparr>player_1_score := i\<rparr>) = buttons_of s" "buttons_of (s\<lparr>player_2_score := i\<rparr>) = buttons_of s"
  "buttons_of (s\<lparr>is_main_pc := c\<rparr>) = buttons_of s" "buttons_of (s\<lparr>mainState := m\<rparr>) = buttons_of s"
  "buttons_of (s\<lparr>time_remaining := t\<rparr>) = buttons_of s" "buttons_of (s\<lparr>day_time_info := d\<rparr>) = buttons_of s"
  by (simp_all add: buttons_of_def fixed_ptrs_def sprite_list_def)

lemma buttons_heap [simp]: "dom h = dom (heap s) \<Longrightarrow> buttons_of (s\<lparr>heap := h\<rparr>) = buttons_of s"
  by (simp add: buttons_of_def fixed_ptrs_def sprite_list_def)

lemma dom_update: "deref h p = Some o1 \<Longrightarrow> dom (h(p \<mapsto> o2)) = dom h"
  by (auto dest: deref_SomeD)

lemma buttons_upd: "deref (heap s) p = Some o1 \<Longrightarrow> buttons_of (s\<lparr>heap := (heap s)(p \<mapsto> o2)\<rparr>) = buttons_of s"
  by (rule buttons_heap [OF dom_update])

lemma placed_dom: "placed D h h' \<Longrightarrow> dom h' = dom h"
  unfolding placed_def dom_def by (auto split: option.splits)

lemma buttons_frame_game [simp]:
  "buttons_of (s\<lparr>packet_bytes := bs\<rparr>) = buttons_of s" "buttons_of (s\<lparr>count := i\<rparr>) = buttons_of s"
  "buttons_of (s\<lparr>option_index := i\<rparr>) = buttons_of s" "buttons_of (s\<lparr>previous_x := i\<rparr>) = buttons_of s"
  "buttons_of (s\<lparr>previous_y := i\<rparr>) = buttons_of s" "buttons_of (s\<lparr>idle_game := u\<rparr>) = buttons_of s"
  "buttons_of (s\<lparr>start_time := u\<rparr>) = buttons_of s" "buttons_of (s\<lparr>puck_transmit := u\<rparr>) = buttons_of s"
  "buttons_of (s\<lparr>stored_x := v\<rparr>) = buttons_of s" "buttons_of (s\<lparr>is_stored_x := c\<rparr>) = buttons_of s"
  "buttons_of (s\<lparr>inQueue := q\<rparr>) = buttons_of s" "buttons_of (s\<lparr>keyboard_dev := k\<rparr>) = buttons_of s"
  "buttons_of (s\<lparr>mouse_dev := md\<rparr>) = buttons_of s" "buttons_of (s\<lparr>timer_dev := td\<rparr>) = buttons_of s"
  by (simp_all add: buttons_of_def fixed_ptrs_def sprite_list_def)

lemma game_ok_frame:
  assumes "game_ok s" and "view_of s' = view_of s" and "buttons_of s' = buttons_of s" and "devices_ok s'"
  shows "game_ok s'"
  using assms ready_view [of s s'] buttons_ok_frame [of s s'] by (simp add: game_ok_def)

lemma game_ok_devices [simp]: "game_ok s \<Longrightarrow> devices_ok s"
  by (simp add: game_ok_def)

text \<open>Drawing keeps the state.\<close>

lemma draws_buttons:
  assumes "draws s s'"
  shows "buttons_of s' = buttons_of s"
proof -
  let ?s = "s'\<lparr>heap := heap s, secondary_buffer := secondary_buffer s, game_background := game_background s,
        menu_background := menu_background s, youwon_popOut := youwon_popOut s,
        youlost_popOut := youlost_popOut s, tie_popOut := tie_popOut s,
        rules_background := rules_background s\<rparr>"
  have "dom (heap s) = dom (heap s')" using assms placed_dom [of "digit_ptrs s" "heap s" "heap s'"] by (simp add: draws_def)
  then have "buttons_of ?s = buttons_of s'" by (simp add: buttons_of_def fixed_ptrs_def sprite_list_def)
  moreover have "?s = s" using assms by (simp add: draws_def)
  then have "buttons_of ?s = buttons_of s" by (rule arg_cong)
  ultimately show ?thesis by simp
qed

lemma game_ok_draws:
  assumes ok: "game_ok s" and d: "draws s s'" and scr: "screen_ok s'"
  shows "game_ok s'"
proof -
  have s: "s = s'\<lparr>heap := heap s, secondary_buffer := secondary_buffer s, game_background := game_background s,
        menu_background := menu_background s, youwon_popOut := youwon_popOut s,
        youlost_popOut := youlost_popOut s, tie_popOut := tie_popOut s,
        rules_background := rules_background s\<rparr>"
    and pl: "placed (digit_ptrs s) (heap s) (heap s')"
    using d by (simp_all add: draws_def)
  have "p \<notin> digit_ptrs s" if "p \<in> fixed_ptrs s" for p
    using ok that by (auto simp: game_ok_def ready_def screen_ok_def)
  then have same: "deref (heap s') p = deref (heap s) p" if "p \<in> fixed_ptrs s" for p
    using pl that unfolding placed_def deref_def by metis
  have "arena_ok s'" using ok same [OF fixed_ptrs_members(1)] same [OF fixed_ptrs_members(2)] same [OF fixed_ptrs_members(3)]
    unfolding game_ok_def ready_def arena_ok_def by (simp add: draws_fields [OF d])
  moreover have "objects_in_area s'"
    using ok same [OF fixed_ptrs_members(1)] same [OF fixed_ptrs_members(2)] same [OF fixed_ptrs_members(3)]
      same [OF fixed_ptrs_members(4)]
    unfolding game_ok_def ready_def objects_in_area_def by (simp add: draws_fields [OF d])
  moreover have "buttons_of s' = buttons_of s" by (rule draws_buttons [OF d])
  then have "buttons_ok s'" using ok buttons_ok_frame by (auto simp: game_ok_def)
  moreover have "devices_ok s'"
  proof -
    have "inQueue s' = inQueue s" "packet_bytes s' = packet_bytes s" "count s' = count s"
      by (subst s, simp)+
    then show ?thesis using ok by (simp add: game_ok_def devices_ok_def draws_fields [OF d])
  qed
  moreover have "mouse s' \<noteq> ball s'" using ok by (simp add: game_ok_def ready_def draws_fields [OF d])
  ultimately show ?thesis using scr by (simp add: game_ok_def ready_def)
qed

text \<open>So does a change of one sprite, and a move.\<close>

lemma game_ok_alike:
  assumes "game_ok s" and "p \<in> fixed_ptrs s" and "deref (heap s) p = Some o1" and "alike o1 o2"
    and "sp_x o2 = sp_x o1 \<and> sp_y o2 = sp_y o1 \<or> in_area o2"
  shows "game_ok (s\<lparr>heap := (heap s)(p \<mapsto> o2)\<rparr>)"
proof -
  have "devices_ok (s\<lparr>heap := (heap s)(p \<mapsto> o2)\<rparr>)" using assms(1) by (simp add: game_ok_def devices_ok_def)
  then show ?thesis using assms ready_alike [OF _ assms(2-5)] buttons_ok_frame [of s "s\<lparr>heap := (heap s)(p \<mapsto> o2)\<rparr>"]
      buttons_upd [OF assms(3)]
    by (simp add: game_ok_def)
qed

lemma game_ok_upd:
  assumes "game_ok s" and "p \<in> fixed_ptrs s" and "deref (heap s) p = Some o1" and "same_shape o1 o2"
    and "sp_x o2 = sp_x o1 \<and> sp_y o2 = sp_y o1 \<or> in_area o2"
  shows "game_ok (s\<lparr>heap := (heap s)(p \<mapsto> o2)\<rparr>)"
  by (rule game_ok_alike [OF assms(1-3) same_shape_alike [OF assms(4)] assms(5)])

lemma game_ok_moved:
  assumes ok: "game_ok s" and mo: "moves_only s s'" and p: "p \<in> fixed_ptrs s" and o1: "deref (heap s) p = Some o1"
    and h: "heap s' = (heap s)(p \<mapsto> o2)" and sh: "same_image o1 o2" and ar: "in_area o2"
    and sc: "0 \<le> player_1_score s'" "0 \<le> player_2_score s'"
  shows "game_ok s'"
proof -
  let ?s = "s\<lparr>heap := (heap s)(p \<mapsto> o2)\<rparr>"
  have s: "s = s'\<lparr>heap := heap s, world := world s, player_1_score := player_1_score s,
      player_2_score := player_2_score s\<rparr>"
    using mo by (simp add: moves_only_def)
  have "game_ok ?s" using sh ar by (intro game_ok_upd [OF ok p o1]) (simp_all add: same_shape_def same_image_def)
  moreover have "view_of s' = view_of ?s" by (subst s) (simp add: view_of_def fixed_ptrs_def h)
  moreover have "buttons_of s' = buttons_of ?s" by (subst s) (simp add: buttons_of_def fixed_ptrs_def sprite_list_def h)
  moreover have "devices_ok s'"
  proof -
    have "inQueue s = inQueue s'" "packet_bytes s = packet_bytes s'" "count s = count s'" "main_buffer s = main_buffer s'"
      "vram_size s = vram_size s'" "day_time_info s = day_time_info s'" "time_remaining s = time_remaining s'"
      by (subst s, simp)+
    then show ?thesis using ok sc by (simp add: game_ok_def devices_ok_def)
  qed
  ultimately show ?thesis by (rule game_ok_frame)
qed

end
