(* ===== verification/Handlers.thy ===== *)
theory Handlers
  imports Safety
begin

text \<open>
  Total correctness of the interrupt handlers of \<^verbatim>\<open>model.c\<close>: on a state that satisfies \<open>game_ok\<close>
  each of them returns, and leaves such a state.  \<open>returns\<close> is the triple the proofs compose;
  \<open>stays\<close> is the frame most operations keep.
\<close>

section \<open>Operations that return\<close>

definition returns :: "'s option \<Rightarrow> ('s \<Rightarrow> bool) \<Rightarrow> bool" where
  "returns m P \<longleftrightarrow> (\<exists>s'. m = Some s' \<and> P s')"

lemma returns_Some [simp]: "returns (Some s) P \<longleftrightarrow> P s"
  by (simp add: returns_def)

lemma returns_bind: "returns m Q \<Longrightarrow> (\<And>s'. Q s' \<Longrightarrow> returns (f s') P) \<Longrightarrow> returns (Option.bind m f) P"
  by (auto simp: returns_def)

lemma returns_mono: "returns m Q \<Longrightarrow> (\<And>s'. Q s' \<Longrightarrow> P s') \<Longrightarrow> returns m P"
  by (auto simp: returns_def)

lemma returns_if: "(b \<Longrightarrow> returns m P) \<Longrightarrow> (\<not> b \<Longrightarrow> returns n P) \<Longrightarrow> returns (if b then m else n) P"
  by simp

section \<open>What most operations keep\<close>

text \<open>The part of the state the control flow of the handlers reads.\<close>

definition ctl_of where
  "ctl_of s = (mainState s, option_index s, keyboard_dev s, timer_dev s, time_remaining s,
     player_1_score s, player_2_score s, is_main_pc s)"

definition stays :: "('w, 'a) game_scheme \<Rightarrow> ('w, 'a) game_scheme \<Rightarrow> bool" where
  "stays s s' \<longleftrightarrow> game_ok s' \<and> ctl_of s' = ctl_of s \<and> buttons_of s' = buttons_of s"

lemma stays_refl: "game_ok s \<Longrightarrow> stays s s"
  by (simp add: stays_def)

lemma stays_trans: "stays s s' \<Longrightarrow> stays s' s'' \<Longrightarrow> stays s s''"
  by (simp add: stays_def)

lemma staysD:
  assumes "stays s s'"
  shows "game_ok s'" "mainState s' = mainState s" "option_index s' = option_index s"
    "keyboard_dev s' = keyboard_dev s" "timer_dev s' = timer_dev s" "time_remaining s' = time_remaining s"
    "player_1_score s' = player_1_score s" "player_2_score s' = player_2_score s" "is_main_pc s' = is_main_pc s"
    "buttons_menu_unselected s' = buttons_menu_unselected s" "buttons_menu_selected s' = buttons_menu_selected s"
    "buttons_winlose_unselected s' = buttons_winlose_unselected s" "buttons_winlose_selected s' = buttons_winlose_selected s"
    "fixed_ptrs s' = fixed_ptrs s"
  using assms by (simp_all add: stays_def ctl_of_def buttons_of_def)

lemma stays_bind:
  assumes "returns m (stays s)" and "\<And>s'. stays s s' \<Longrightarrow> returns (f s') (stays s')"
  shows "returns (Option.bind m f) (stays s)"
proof (rule returns_bind [OF assms(1)])
  fix s' assume a: "stays s s'"
  show "returns (f s') (stays s)" by (rule returns_mono [OF assms(2) [OF a] stays_trans [OF a]])
qed

lemma stays_frame:
  assumes "game_ok s" and "view_of s' = view_of s" and "buttons_of s' = buttons_of s" and "devices_ok s'"
    and "ctl_of s' = ctl_of s"
  shows "stays s s'"
  using game_ok_frame [OF assms(1-4)] assms(3,5) by (simp add: stays_def)

lemma devices_world [simp]: "devices_ok (s\<lparr>world := w\<rparr>) = devices_ok s"
  by (simp add: devices_ok_def)

lemma stays_world: "game_ok s \<Longrightarrow> stays s (s\<lparr>world := w\<rparr>)"
  by (rule stays_frame) (simp_all add: ctl_of_def)

lemma stays_queue: "game_ok s \<Longrightarrow> rx_ok q \<Longrightarrow> stays s (s\<lparr>inQueue := q, world := w\<rparr>)"
  by (rule stays_frame) (auto simp: ctl_of_def devices_ok_def dest!: game_ok_devices)

text \<open>A sprite of the table of pointers is alive, and may be changed in place.\<close>

lemma game_ok_deref:
  assumes "game_ok s" and "p \<in> fixed_ptrs s"
  obtains o1 where "deref (heap s) p = Some o1"
  using assms by (auto simp: game_ok_def ready_def screen_ok_def drawable_def)

lemma stays_sprite:
  assumes ok: "game_ok s" and p: "p \<in> fixed_ptrs s"
    and f: "\<And>o1. deref (heap s) p = Some o1 \<Longrightarrow> same_shape o1 (f o1) \<and> (sp_x (f o1) = sp_x o1 \<and> sp_y (f o1) = sp_y o1 \<or> in_area (f o1))"
  shows "returns (update_sprite p f s) (stays s)"
proof -
  obtain o1 where o1: "deref (heap s) p = Some o1" by (rule game_ok_deref [OF ok p])
  have "game_ok (s\<lparr>heap := (heap s)(p \<mapsto> f o1)\<rparr>)" using f [OF o1] by (intro game_ok_upd [OF ok p o1]) simp_all
  then show ?thesis using o1 by (simp add: update_sprite_def stays_def ctl_of_def buttons_upd [OF o1])
qed

lemma stays_selected:
  assumes "game_ok s" and "set bs \<subseteq> fixed_ptrs s" and "0 \<le> i" and "i < int (length bs)"
  shows "returns (set_selected bs i v s) (stays s)"
proof -
  have g: "arr_get bs i = Some (bs ! nat i)" using assms(3,4) by (simp add: arr_get_def)
  have "bs ! nat i \<in> fixed_ptrs s" using assms(2-4) nth_mem [of "nat i" bs] by auto
  from stays_sprite [OF assms(1) this, of "selected_update (\<lambda>_. v)"]
  show ?thesis by (simp add: set_selected_def g same_shape_def)
qed

section \<open>The serial driver and the view\<close>

lemma game_ok_rx: "game_ok s \<Longrightarrow> rx_ok (inQueue s)"
  by (auto simp: devices_ok_def dest!: game_ok_devices)

lemma stays_reset_fifo:
  assumes "game_ok s"
  shows "returns (reset_fifo os s) (stays s)"
proof -
  obtain r q' w' where "serialPort_resetFIFO os (inQueue s) (world s) = Some (r, q', w')" "rx_ok q'"
    using resetFIFO_spec [OF game_ok_rx [OF assms], of os "world s"] by blast
  with stays_queue [OF assms] show ?thesis by (simp add: reset_fifo_def)
qed

lemma stays_announce: "game_ok s \<Longrightarrow> stays s (announce os s)"
  by (simp add: announce_def stays_world)

lemma stays_next_signal:
  assumes "game_ok s"
  obtains r v' s' where "next_signal v s = Some (r, v', s')" "stays s s'"
proof -
  obtain r c' q' where r: "read_next_signal (inQueue s) v = Some (r, c', q')" "rx_ok q'"
    using read_next_signal_total [OF game_ok_rx [OF assms], of v] by blast
  have "stays s (s\<lparr>inQueue := q'\<rparr>)" using stays_queue [OF assms r(2), of "world s"] by simp
  then show thesis using that r(1) by (simp add: next_signal_def)
qed

text \<open>Every frame can be drawn, as long as a score has one digit.\<close>

definition scores_fit :: "('w, 'a) game_scheme \<Rightarrow> bool" where
  "scores_fit s \<longleftrightarrow> (mainState s = GAME \<longrightarrow> player_1_score s < 10 \<and> player_2_score s < 10)"

lemma stays_draw:
  assumes ok: "game_ok s" and ld: "xpm_loads os" and sc: "scores_fit s"
  shows "returns (draw_frame os s) (stays s)"
proof -
  have "screen_ok s" using ok by (simp add: game_ok_def ready_def)
  moreover have "values_ok s" using ok sc by (auto simp: values_ok_def game_ok_def devices_ok_def scores_fit_def)
  ultimately obtain s' where s': "draw_frame os s = Some s'" "draws s s'" "screen_ok s'"
    using draw_frame_goes [OF _ ld] by (auto simp: goes_def)
  have s: "s = s'\<lparr>heap := heap s, secondary_buffer := secondary_buffer s, game_background := game_background s,
        menu_background := menu_background s, youwon_popOut := youwon_popOut s,
        youlost_popOut := youlost_popOut s, tie_popOut := tie_popOut s,
        rules_background := rules_background s\<rparr>"
    using s'(2) by (simp add: draws_def)
  have "ctl_of s' = ctl_of s" by (subst s) (simp add: ctl_of_def)
  moreover have "buttons_of s' = buttons_of s" by (rule draws_buttons [OF s'(2)])
  ultimately show ?thesis using s'(1) game_ok_draws [OF ok s'(2,3)] by (simp add: stays_def)
qed

text \<open>A frame leaves every sprite alone but the digits.\<close>

lemma draw_frame_draws:
  assumes ok: "game_ok s" and ld: "xpm_loads os" and sc: "scores_fit s" and d: "draw_frame os s = Some s'"
  shows "draws s s'" and "p \<in> fixed_ptrs s \<Longrightarrow> deref (heap s') p = deref (heap s) p"
proof -
  have scr: "screen_ok s" using ok by (simp add: game_ok_def ready_def)
  moreover have "values_ok s" using ok sc by (auto simp: values_ok_def game_ok_def devices_ok_def scores_fit_def)
  ultimately have "goes s (draw_frame os s)" by (intro draw_frame_goes ld)
  then show ds: "draws s s'" using d by (simp add: goes_def)
  show "deref (heap s') p = deref (heap s) p" if "p \<in> fixed_ptrs s"
  proof -
    have "p \<notin> digit_ptrs s" using scr that by (auto simp: screen_ok_def)
    then show ?thesis using ds unfolding draws_def placed_def deref_def by metis
  qed
qed

lemma stays_swap:
  assumes "game_ok s"
  shows "returns (swap_buffers s) (stays s)"
proof -
  obtain mb where mb: "main_buffer s = Some mb" "length mb = 3981312" "vram_size s = 3981312"
    using assms by (auto simp: devices_ok_def dest!: game_ok_devices)
  obtain sb where sb: "secondary_buffer s = Some sb" "length sb = 3981312"
    using assms by (auto simp: game_ok_def ready_def screen_ok_def framebuf_def)
  have sw: "swap_buffers s = Some (s\<lparr>main_buffer := Some sb\<rparr>)"
    using mb sb by (simp add: swap_buffers_def memcpy_at_def read_bytes_def)
  have "stays s (s\<lparr>main_buffer := Some sb\<rparr>)"
    using assms sb by (intro stays_frame) (auto simp: ctl_of_def devices_ok_def dest!: game_ok_devices)
  then show ?thesis by (simp add: sw)
qed

section \<open>Moves\<close>

lemma moves_ctl:
  assumes "moves_only s s'" and "player_1_score s' = player_1_score s" and "player_2_score s' = player_2_score s"
  shows "ctl_of s' = ctl_of s" and "buttons_of s' = buttons_of s"
proof -
  have s: "s = s'\<lparr>heap := heap s, world := world s, player_1_score := player_1_score s,
      player_2_score := player_2_score s\<rparr>"
    using assms(1) by (simp add: moves_only_def)
  show "ctl_of s' = ctl_of s" by (subst s) (use assms(2,3) in \<open>simp add: ctl_of_def\<close>)
  let ?s = "s'\<lparr>heap := heap s, world := world s, player_1_score := player_1_score s,
      player_2_score := player_2_score s\<rparr>"
  have "same_images (heap s) (heap s')" using assms(1) by (simp add: moves_only_def)
  then have "dom (heap s) = dom (heap s')" unfolding same_images_def dom_def by (auto split: option.splits)
  then have "buttons_of ?s = buttons_of s'" by (simp add: buttons_of_def fixed_ptrs_def sprite_list_def)
  moreover have "buttons_of s = buttons_of ?s" using s by (rule arg_cong)
  ultimately show "buttons_of s' = buttons_of s" by simp
qed

lemma scores_nonneg: "game_ok s \<Longrightarrow> 0 \<le> player_1_score s \<and> 0 \<le> player_2_score s"
  by (auto simp: devices_ok_def dest!: game_ok_devices)

text \<open>A move that puts one object of the table somewhere in the play area.\<close>

lemma stays_moved:
  assumes ok: "game_ok s" and mo: "moves_only s s'" and p: "p \<in> {mouse s, redpuck s, bluepuck s, ball s}"
    and o1: "deref (heap s) p = Some o1" and h: "heap s' = (heap s)(p \<mapsto> o2)" and sh: "same_image o1 o2"
    and ar: "in_area o1 \<Longrightarrow> in_area o2"
    and sc: "player_1_score s' = player_1_score s" "player_2_score s' = player_2_score s"
  shows "stays s s'"
proof -
  have "ready s" using ok by (simp add: game_ok_def)
  from ready_object [OF this p] o1 have a: "in_area o1" "p \<in> fixed_ptrs s" by auto
  have "game_ok s'" using scores_nonneg [OF ok] sc by (intro game_ok_moved [OF ok mo a(2) o1 h sh ar [OF a(1)]]) simp_all
  then show ?thesis using moves_ctl [OF mo sc] by (simp add: stays_def)
qed

lemma game_ok_arena: "game_ok s \<Longrightarrow> arena_ok s"
  by (simp add: game_ok_def ready_def)

lemma stays_move_puck:
  assumes ok: "game_ok s" and p: "p = redpuck s \<or> p = bluepuck s"
  shows "returns (move os p x y 2 s) (stays s)"
proof -
  have ar: "arena_ok s" by (rule game_ok_arena [OF ok])
  have rd: "ready s" using ok by (simp add: game_ok_def)
  obtain o1 where o1: "deref (heap s) p = Some o1" "in_area o1"
    using ready_object [OF rd, of p] p by auto
  have size: "uint (sp_width o1) = 80" "uint (sp_height o1) = 80"
    using ar p o1 shapedD [of "bytes_per_pixel s" 80 80 o1] by (auto simp: arena_ok_def)
  have pm: "p \<in> {mouse s, redpuck s, bluepuck s, ball s}" using p by auto
  note fin = stays_moved [OF ok _ pm o1(1)]
  show ?thesis using ar p o1(1)
  proof (cases rule: puck_move [where os = os and x = x and y = y])
    case (wall s')
    have "stays s s'"
      using o1(2) size
      by (intro fin [OF wall(3,4) _ _ wall(5,6)]) (auto simp: in_area_def fits_at_def same_image_def)
    then show ?thesis using wall(2) by simp
  next
    case (middle s')
    have "stays s s'"
      using o1(2) size
      by (intro fin [OF middle(4,5) _ _ middle(6,7)]) (auto simp: in_area_def fits_at_def same_image_def)
    then show ?thesis using middle(3) by simp
  next
    case (ball s' k' k0)
    have "stays s s'"
      using ball(8,9) size
      by (intro stays_moved [OF ok ball(2) _ ball(6,3,7) _ ball(4,5)])
        (use ball(7) in \<open>auto simp: in_area_def fits_at_def same_image_def\<close>)
    then show ?thesis using ball(1) by simp
  next
    case (free s')
    have "stays s s'"
      using free(1)
      by (intro fin [OF free(4,5) _ _ free(6,7)]) (auto simp: in_area_def fits_at_def same_image_def)
    then show ?thesis using free(3) by simp
  qed
qed

lemma stays_move_mouse:
  assumes ok: "game_ok s"
  shows "returns (move os (mouse s) x y 0 s) (stays s)"
proof -
  have nb: "mouse s \<noteq> ball s" using ok by (simp add: game_ok_def ready_def)
  have rd: "ready s" using ok by (simp add: game_ok_def)
  obtain o1 where o1: "deref (heap s) (mouse s) = Some o1" "in_area o1"
    using ready_object [OF rd, of "mouse s"] by auto
  obtain s' o2 where m: "move os (mouse s) x y 0 s = Some s'" "moves_only s s'" "same_image o1 o2" "in_area o2"
    "heap s' = (heap s)(mouse s \<mapsto> o2)" "player_1_score s' = player_1_score s"
    "player_2_score s' = player_2_score s"
    using mouse_move [OF o1(1) nb o1(2), of os x y] by blast
  have "stays s s'" by (intro stays_moved [OF ok m(2) _ o1(1) m(5,3) m(4) m(6,7)]) simp
  then show ?thesis using m(1) by simp
qed

lemma stays_transmit_puck:
  assumes "game_ok s"
  shows "returns (transmit_puck os s) (stays s)"
proof -
  obtain b where "deref (heap s) (bluepuck s) = Some b"
    by (rule game_ok_deref [OF assms fixed_ptrs_members(2)])
  then have "\<exists>px py w. transmit_puck_change os (heap s) (bluepuck s) (previous_x s) (previous_y s) (world s) = Some (px, py, w)"
    by (simp add: transmit_puck_change_def Let_def)
  then obtain px py w where
    t: "transmit_puck_change os (heap s) (bluepuck s) (previous_x s) (previous_y s) (world s) = Some (px, py, w)"
    by blast
  have "stays s (s\<lparr>previous_x := px, previous_y := py, world := w\<rparr>)"
    using assms by (intro stays_frame) (auto simp: ctl_of_def devices_ok_def dest!: game_ok_devices)
  then show ?thesis by (simp add: transmit_puck_def t)
qed

text \<open>The move of the ball may score, once.\<close>

definition scored :: "('w, 'a) game_scheme \<Rightarrow> ('w, 'a) game_scheme \<Rightarrow> bool" where
  "scored s s' \<longleftrightarrow> game_ok s' \<and> mainState s' = mainState s \<and>
     player_1_score s \<le> player_1_score s' \<and> player_1_score s' \<le> player_1_score s + 1 \<and>
     player_2_score s \<le> player_2_score s' \<and> player_2_score s' \<le> player_2_score s + 1 \<and>
     option_index s' = option_index s \<and> keyboard_dev s' = keyboard_dev s \<and> timer_dev s' = timer_dev s \<and>
     time_remaining s' = time_remaining s \<and> is_main_pc s' = is_main_pc s"

lemma moves_state:
  assumes "moves_only s s'"
  shows "mainState s' = mainState s" "option_index s' = option_index s" "keyboard_dev s' = keyboard_dev s"
    "timer_dev s' = timer_dev s" "time_remaining s' = time_remaining s" "is_main_pc s' = is_main_pc s"
proof -
  have s: "s = s'\<lparr>heap := heap s, world := world s, player_1_score := player_1_score s,
      player_2_score := player_2_score s\<rparr>"
    using assms by (simp add: moves_only_def)
  show "mainState s' = mainState s" "option_index s' = option_index s" "keyboard_dev s' = keyboard_dev s"
    "timer_dev s' = timer_dev s" "time_remaining s' = time_remaining s" "is_main_pc s' = is_main_pc s"
    by (subst s, simp)+
qed

lemma scored_move_ball:
  assumes ok: "game_ok s"
  shows "returns (move os (ball s) x y 1 s) (scored s)"
proof -
  have rd: "ready s" using ok by (simp add: game_ok_def)
  obtain k where k: "deref (heap s) (ball s) = Some k" "in_area k" "ball s \<in> fixed_ptrs s"
    using ready_object [OF rd, of "ball s"] by auto
  have size: "uint (sp_width k) = 50" "uint (sp_height k) = 50"
    using game_ok_arena [OF ok] k(1) shapedD [of "bytes_per_pixel s" 50 50 k] by (auto simp: arena_ok_def)
  have fin: "scored s s'"
    if "moves_only s s'" "heap s' = (heap s)(ball s \<mapsto> k')" "same_image k k'" "in_area k'"
      "player_1_score s \<le> player_1_score s'" "player_1_score s' \<le> player_1_score s + 1"
      "player_2_score s \<le> player_2_score s'" "player_2_score s' \<le> player_2_score s + 1" for s' k'
    using game_ok_moved [OF ok that(1) k(3,1) that(2-4)] that(5-8) scores_nonneg [OF ok] moves_state [OF that(1)]
    by (simp add: scored_def)
  from game_ok_arena [OF ok] k(1) show ?thesis
  proof (cases rule: ball_move [where os = os and x = x and y = y])
    case (goal s')
    have "scored s s'"
      by (rule fin [OF goal(3,4)]) (use goal(5,6) size in \<open>auto simp: kick_off_def same_image_def in_area_def fits_at_def\<close>)
    then show ?thesis using goal(2) by simp
  next
    case (stay s' k')
    have "in_area k'" using k(2) stay(8,9,10) by (simp add: in_area_def fits_at_def same_image_def)
    then have "scored s s'" using stay(6,7) by (intro fin [OF stay(4,5,10)]) simp_all
    then show ?thesis using stay(3) by simp
  next
    case (free s')
    have "scored s s'" using free(3,7,8) by (intro fin [OF free(5,6)]) (simp_all add: same_image_def in_area_def fits_at_def)
    then show ?thesis using free(4) by simp
  qed
qed

section \<open>Assignments to globals\<close>

lemma game_ok_cong:
  "view_of s' = view_of s \<Longrightarrow> buttons_of s' = buttons_of s \<Longrightarrow> devices_ok s' = devices_ok s \<Longrightarrow> game_ok s' = game_ok s"
  using game_ok_frame [of s s'] game_ok_frame [of s' s] game_ok_devices [of s] game_ok_devices [of s'] by metis

lemma game_ok_global [simp]:
  "game_ok (s\<lparr>mainState := m\<rparr>) = game_ok s" "game_ok (s\<lparr>timer_dev := td\<rparr>) = game_ok s"
  "game_ok (s\<lparr>keyboard_dev := k\<rparr>) = game_ok s" "game_ok (s\<lparr>mouse_dev := md\<rparr>) = game_ok s"
  "game_ok (s\<lparr>world := w\<rparr>) = game_ok s" "game_ok (s\<lparr>option_index := i\<rparr>) = game_ok s"
  "game_ok (s\<lparr>idle_game := u\<rparr>) = game_ok s" "game_ok (s\<lparr>start_time := u\<rparr>) = game_ok s"
  "game_ok (s\<lparr>puck_transmit := u\<rparr>) = game_ok s" "game_ok (s\<lparr>is_main_pc := c\<rparr>) = game_ok s"
  "game_ok (s\<lparr>stored_x := v\<rparr>) = game_ok s" "game_ok (s\<lparr>is_stored_x := c\<rparr>) = game_ok s"
  "game_ok (s\<lparr>previous_x := i\<rparr>) = game_ok s" "game_ok (s\<lparr>previous_y := i\<rparr>) = game_ok s"
  by (intro game_ok_cong; simp add: devices_ok_def)+

section \<open>Timer\<close>

text \<open>A second of a match counts down, or ends the match.\<close>

definition ends_match :: "MainStateMachine \<Rightarrow> MainStateMachine \<Rightarrow> bool" where
  "ends_match m m' \<longleftrightarrow> m' = m \<or> m = GAME \<and> m' \<in> {WIN, LOST, TIE}"

lemma match_second_ok:
  assumes "game_ok s"
  shows "game_ok (match_second s)"
proof -
  have "game_ok (s\<lparr>time_remaining := time_remaining s - 1\<rparr>)" if "0 < time_remaining s"
  proof (rule game_ok_frame [OF assms])
    have "time_remaining s - 1 < 6000"
      using that assms unat_minus_one [of "time_remaining s"] word_gt_0 [of "time_remaining s"]
      by (auto simp: game_ok_def devices_ok_def word_less_nat_alt)
    then show "devices_ok (s\<lparr>time_remaining := time_remaining s - 1\<rparr>)"
      using assms by (simp add: game_ok_def devices_ok_def)
  qed simp_all
  then show ?thesis using assms by (simp add: match_second_def Let_def)
qed

lemma match_second_fields [simp]:
  "player_1_score (match_second s) = player_1_score s" "player_2_score (match_second s) = player_2_score s"
  "option_index (match_second s) = option_index s" "keyboard_dev (match_second s) = keyboard_dev s"
  "timer_dev (match_second s) = timer_dev s" "ball (match_second s) = ball s" "heap (match_second s) = heap s"
  by (simp_all add: match_second_def Let_def)

lemma match_second_edge: "mainState s = GAME \<Longrightarrow> ends_match GAME (mainState (match_second s))"
  by (simp add: match_second_def Let_def ends_match_def)

text \<open>The clock of the match, on a tick: at the end of a second \<open>match_second\<close>.\<close>

definition match_clock :: "'w os \<Rightarrow> ('w, 'a) game_scheme \<Rightarrow> ('w, 'a) game_scheme" where
  "match_clock os s =
     (if mainState s = GAME \<and> time_count (timer_dev s) mod sys_hz os = 0 then match_second s else s)"

text \<open>What a timer tick does to the control state.\<close>

definition ticks :: "'w os \<Rightarrow> ('w, 'a) game_scheme \<Rightarrow> ('w, 'a) game_scheme \<Rightarrow> bool" where
  "ticks os s s' \<longleftrightarrow> game_ok s' \<and> mainState s' = mainState (match_clock os s) \<and>
     time_remaining s' = time_remaining (match_clock os s) \<and> option_index s' = option_index s \<and>
     keyboard_dev s' = keyboard_dev s \<and> timer_dev s' = timer_dev s \<and>
     player_1_score s \<le> player_1_score s' \<and> player_1_score s' \<le> player_1_score s + 1 \<and>
     player_2_score s \<le> player_2_score s' \<and> player_2_score s' \<le> player_2_score s + 1"

lemma match_clock_edge: "ends_match (mainState s) (mainState (match_clock os s))"
  using match_second_edge [of s] by (simp add: match_clock_def ends_match_def)

lemma match_clock_fields [simp]:
  "player_1_score (match_clock os s) = player_1_score s" "player_2_score (match_clock os s) = player_2_score s"
  "option_index (match_clock os s) = option_index s" "keyboard_dev (match_clock os s) = keyboard_dev s"
  "timer_dev (match_clock os s) = timer_dev s" "game_ok s \<Longrightarrow> game_ok (match_clock os s)"
  by (simp_all add: match_clock_def match_second_ok)

lemma ticks_edge: "ticks os s s' \<Longrightarrow> ends_match (mainState s) (mainState s')"
  using match_clock_edge [of s os] by (simp add: ticks_def)

text \<open>The clock only reads the control state.\<close>

lemma match_clock_cong:
  assumes "ctl_of s1 = ctl_of s"
  shows "mainState (match_clock os s1) = mainState (match_clock os s)"
    and "time_remaining (match_clock os s1) = time_remaining (match_clock os s)"
  using assms by (auto simp: match_clock_def match_second_def ctl_of_def Let_def)

lemma ticks_stays: "mainState s \<noteq> GAME \<Longrightarrow> stays s s' \<Longrightarrow> ticks os s s'"
  by (simp add: stays_def ctl_of_def ticks_def match_clock_def)

lemma ticks_after: "stays s s1 \<Longrightarrow> ticks os s1 s' \<Longrightarrow> ticks os s s'"
  using match_clock_cong [of s1 s os] by (simp add: ticks_def stays_def ctl_of_def)

lemma match_tick_returns:
  fixes s :: "('w, 'a) game_scheme"
  assumes ok: "game_ok s" and m: "mainState s = GAME" and hz: "sys_hz os \<noteq> 0"
  shows "returns (match_tick os s) (ticks os s)"
proof -
  let ?s = "s\<lparr>puck_transmit := puck_transmit s + 1\<rparr>"
  have tr: "returns (if puck_transmit ?s = 2 then do { s \<leftarrow> transmit_puck os ?s; Some (s\<lparr>puck_transmit := 0\<rparr>) } else Some ?s)
      (\<lambda>s1. stays s s1)"
  proof (rule returns_if)
    have ok1: "game_ok ?s" using ok by simp
    show "returns (do { s \<leftarrow> transmit_puck os ?s; Some (s\<lparr>puck_transmit := 0\<rparr>) }) (stays s)"
      using stays_transmit_puck [OF ok1, of os]
      by (rule returns_bind) (simp add: stays_def ctl_of_def)
  qed (use ok in \<open>simp add: stays_def ctl_of_def\<close>)
  show ?thesis unfolding match_tick_def Let_def
  proof (rule returns_bind [OF tr])
    fix s1 assume s1: "stays s s1"
    let ?s2 = "match_clock os s1"
    have ok2: "game_ok ?s2" using staysD(1) [OF s1] by simp
    have sec: "(if sys_hz os = 0 then None
      else if time_count (timer_dev s1) mod sys_hz os = 0 then Some (match_second s1) else Some s1) = Some ?s2"
      using hz m staysD(2) [OF s1] by (simp add: match_clock_def)
    obtain b where b: "deref (heap ?s2) (ball ?s2) = Some b" by (rule game_ok_deref [OF ok2 fixed_ptrs_members(3)])
    have t: "ticks os s1 s3" if "scored ?s2 s3" for s3 using that by (simp add: ticks_def scored_def)
    have "ticks os s1 ?s2" using ok2 by (simp add: ticks_def)
    then have "returns (if xspeed b \<noteq> 0 \<or> yspeed b \<noteq> 0
        then move os (ball ?s2) (word_of_int (xspeed b)) (word_of_int (yspeed b)) 1 ?s2 else Some ?s2) (ticks os s1)"
      using returns_mono [OF scored_move_ball [OF ok2] t] by simp
    then show "returns (Option.bind (if sys_hz os = 0 then None
      else if time_count (timer_dev s1) mod sys_hz os = 0 then Some (match_second s1) else Some s1)
      (\<lambda>s. Option.bind (deref (heap s) (ball s)) (\<lambda>b. if xspeed b \<noteq> 0 \<or> yspeed b \<noteq> 0
        then move os (ball s) (word_of_int (xspeed b)) (word_of_int (yspeed b)) 1 s else Some s))) (ticks os s)"
      unfolding sec using b by (simp add: returns_mono [OF _ ticks_after [OF s1]])
  qed
qed

lemma timer_int_returns:
  assumes ok: "game_ok s" and ld: "xpm_loads os" and hz: "sys_hz os \<noteq> 0"
    and sc: "mainState s = GAME \<Longrightarrow> player_1_score s < 9 \<and> player_2_score s < 9"
  shows "returns (timer_int os s) (\<lambda>s'. ticks os (s\<lparr>timer_dev := timer_int_handler (timer_dev s)\<rparr>) s')"
proof -
  let ?s = "s\<lparr>timer_dev := timer_int_handler (timer_dev s)\<rparr>"
  have ok1: "game_ok ?s" using ok by simp
  show ?thesis unfolding timer_int_def Let_def
  proof (rule returns_bind [OF stays_swap [OF ok1]])
    fix s1 assume s1: "stays ?s s1"
    note d1 = staysD [OF s1]
    have fr: "returns (draw_frame os s2) (ticks os ?s)" if "ticks os ?s s2" "scores_fit s2" for s2
    proof (rule returns_mono [OF stays_draw [OF _ ld that(2)]])
      show "game_ok s2" using that(1) by (simp add: ticks_def)
      show "ticks os ?s s'" if "stays s2 s'" for s'
        using that \<open>ticks os ?s s2\<close> by (simp add: ticks_def stays_def ctl_of_def)
    qed
    have t1: "ticks os ?s s1" if "mainState s1 \<noteq> GAME" using ticks_stays [OF _ s1] that d1(2) by simp
    have sc1: "mainState s1 = GAME \<Longrightarrow> player_1_score s1 < 9 \<and> player_2_score s1 < 9" using d1 sc by simp
    show "returns (case mainState s1 of MAIN_MENU \<Rightarrow> draw_frame os s1
         | GAME \<Rightarrow> Option.bind (match_tick os s1) (draw_frame os) | _ \<Rightarrow> Some s1) (ticks os ?s)"
    proof (cases "mainState s1")
      case GAME
      show ?thesis unfolding GAME MainStateMachine.case
      proof (rule returns_bind [OF match_tick_returns [OF d1(1) GAME hz]])
        fix s2 assume s2: "ticks os s1 s2"
        have "ticks os ?s s2" by (rule ticks_after [OF s1 s2])
        moreover have "scores_fit s2" using s2 sc1 [OF GAME] by (auto simp: ticks_def scores_fit_def)
        ultimately show "returns (draw_frame os s2) (ticks os ?s)" by (rule fr)
      qed
    qed (use fr t1 in \<open>simp_all add: scores_fit_def\<close>)
  qed
qed

section \<open>Mouse\<close>

lemma stays_mouse_packet:
  assumes ok: "game_ok s"
  shows "returns (mouse_packet os parsing s) (stays s)"
proof -
  have sel: "returns (update_sprite (mouse s1) (\<lambda>m. m\<lparr>visibility := v\<rparr>) s1) (stays s1)" if "game_ok s1" for s1 v
    using that by (intro stays_sprite fixed_ptrs_members) (simp_all add: same_shape_def)
  have stop: "returns (update_sprite (bluepuck s1) (\<lambda>b. b\<lparr>xspeed := 0, yspeed := 0\<rparr>) s1) (stays s1)" if "game_ok s1" for s1
    using that by (intro stays_sprite fixed_ptrs_members) (simp_all add: same_shape_def)
  have "returns (mouse_update_position os (mouse s) parsing s) (stays s)"
    using stays_move_mouse [OF ok] stays_refl [OF ok] by (simp add: mouse_update_position_def)
  then show ?thesis unfolding mouse_packet_def
    by (intro stays_bind returns_if sel stop stays_move_puck) (auto dest: staysD)
qed

lemma devices_packet:
  assumes "game_ok s" and "length bs = 3" and "0 \<le> c" and "c < 3"
  shows "stays s (s\<lparr>packet_bytes := bs, count := c\<rparr>)"
  using assms by (intro stays_frame) (auto simp: ctl_of_def devices_ok_def dest!: game_ok_devices)

lemma stays_mouse_int:
  assumes ok: "game_ok s"
  shows "returns (mouse_int os s) (stays s)"
proof -
  obtain m w where mw: "mouse_ih os (mouse_dev s) (world s) = (m, w)" by (cases "mouse_ih os (mouse_dev s) (world s)")
  let ?s = "s\<lparr>mouse_dev := m, world := w\<rparr>"
  have ok1: "game_ok ?s" using ok by simp
  have s1: "stays s ?s" using ok by (simp add: stays_def ctl_of_def)
  have p: "length (packet_bytes s) = 3" "0 \<le> count s" "count s < 3"
    using game_ok_devices [OF ok] by (simp_all add: devices_ok_def)
  let ?bs = "(packet_bytes s)[nat (count s) := mouse_byte m]"
  have set: "arr_set (packet_bytes s) (count s) (mouse_byte m) = Some ?bs" using p by (simp add: arr_set_def)
  have more: "stays ?s (?s\<lparr>packet_bytes := ?bs, count := count s + 1\<rparr>)" if "count s + 1 \<noteq> 3"
    using that p by (intro devices_packet [OF ok1]) simp_all
  have full: "stays ?s (?s\<lparr>packet_bytes := ?bs, count := 0\<rparr>)"
    using p by (intro devices_packet [OF ok1]) simp_all
  obtain parsing where ps: "parse_mouse_data ?bs = Some parsing"
    using p by (simp add: parse_mouse_data_def arr_get_def)
  have "returns (mouse_packet os parsing (?s\<lparr>packet_bytes := ?bs, count := 0\<rparr>)) (stays ?s)"
    using returns_mono [OF stays_mouse_packet [OF staysD(1) [OF full]] stays_trans [OF full]] .
  from returns_mono [OF this stays_trans [OF s1]]
  have pk: "returns (mouse_packet os parsing (?s\<lparr>packet_bytes := ?bs, count := 0\<rparr>)) (stays s)" .
  show ?thesis unfolding mouse_int_def mw
    using s1 set pk ps stays_trans [OF s1 more] by (cases "count s = 2") (simp_all add: Let_def)
qed

section \<open>A new match\<close>

text \<open>Everything a match starts from.\<close>

definition kicked_off :: "('w, 'a) game_scheme \<Rightarrow> ('w, 'a) game_scheme \<Rightarrow> bool" where
  "kicked_off s s' \<longleftrightarrow> game_ok s' \<and> mainState s' = mainState s \<and> option_index s' = option_index s \<and>
     keyboard_dev s' = keyboard_dev s \<and> is_main_pc s' = is_main_pc s \<and> buttons_of s' = buttons_of s \<and>
     player_1_score s' = 0 \<and> player_2_score s' = 0 \<and> time_remaining s' = 200 \<and> time_count (timer_dev s') = 0"

lemma object_size:
  assumes "game_ok s" and "deref (heap s) p = Some o1"
  shows "p = ball s \<Longrightarrow> uint (sp_width o1) = 50 \<and> uint (sp_height o1) = 50"
    and "p = redpuck s \<or> p = bluepuck s \<Longrightarrow> uint (sp_width o1) = 80 \<and> uint (sp_height o1) = 80"
  using game_ok_arena [OF assms(1)] assms(2) shapedD [of "bytes_per_pixel s" 50 50 o1]
    shapedD [of "bytes_per_pixel s" 80 80 o1] by (auto simp: arena_ok_def)

lemma stays_place_ball:
  assumes ok: "game_ok s" and f: "\<And>o1. same_shape o1 (f o1) \<and> sp_x (f o1) = x \<and> sp_y (f o1) = y"
    and "273 \<le> x" and "x \<le> 829" and "21 \<le> y" and "y \<le> 793"
  shows "returns (update_sprite (ball s) f s) (stays s)"
proof (rule stays_sprite [OF ok fixed_ptrs_members(3)])
  fix o1 assume "deref (heap s) (ball s) = Some o1"
  from object_size(1) [OF ok this] show "same_shape o1 (f o1) \<and>
      (sp_x (f o1) = sp_x o1 \<and> sp_y (f o1) = sp_y o1 \<or> in_area (f o1))"
    using f [of o1] assms(3-6) by (simp add: in_area_def fits_at_def same_shape_def)
qed

lemma stays_place_puck:
  assumes ok: "game_ok s" and p: "p = redpuck s \<or> p = bluepuck s"
    and f: "\<And>o1. same_shape o1 (f o1) \<and> sp_x (f o1) = x \<and> sp_y (f o1) = y"
    and "273 \<le> x" and "x \<le> 799" and "21 \<le> y" and "y \<le> 763"
  shows "returns (update_sprite p f s) (stays s)"
proof (rule stays_sprite [OF ok])
  show "p \<in> fixed_ptrs s" using p fixed_ptrs_members(1,2) [of s] by auto
  fix o1 assume "deref (heap s) p = Some o1"
  from object_size(2) [OF ok this p] show "same_shape o1 (f o1) \<and>
      (sp_x (f o1) = sp_x o1 \<and> sp_y (f o1) = sp_y o1 \<or> in_area (f o1))"
    using f [of o1] assms(4-7) by (simp add: in_area_def fits_at_def same_shape_def)
qed

lemma reset_returns:
  assumes ok: "game_ok s" and hz: "sys_hz os \<noteq> 0"
  shows "returns (reset_game_state os s) (kicked_off s)"
proof -
  let ?s = "s\<lparr>time_remaining := 200, start_time := time_count (timer_dev s) div sys_hz os,
                  timer_dev := (timer_dev s)\<lparr>time_count := 0\<rparr>,
                  player_1_score := 0, player_2_score := 0\<rparr>"
  have ok1: "game_ok ?s"
    using ok by (intro game_ok_frame [OF ok]) (simp_all add: game_ok_def devices_ok_def)
  have k: "kicked_off s s1" if "stays ?s s1" for s1
    using that by (simp add: kicked_off_def stays_def ctl_of_def)
  have fin: "returns (Some (s3\<lparr>previous_x := 535, previous_y := 730\<rparr>)) (kicked_off s)" if "stays ?s s3" for s3
  proof -
    have "stays ?s (s3\<lparr>previous_x := 535, previous_y := 730\<rparr>)"
      using that by (simp add: stays_def ctl_of_def)
    from k [OF this] show ?thesis by simp
  qed
  show ?thesis unfolding reset_game_state_def Let_def if_not_P [OF hz]
  proof (rule returns_bind [OF stays_place_ball [OF ok1, where x = 550 and y = 410]])
    fix s1 assume s1: "stays ?s s1"
    show "returns (do {
        s \<leftarrow> update_sprite (bluepuck s1) (\<lambda>b. b\<lparr>xspeed := 0, yspeed := 0, sp_x := 535, sp_y := 730\<rparr>) s1;
        s \<leftarrow> update_sprite (redpuck s) (\<lambda>r. r\<lparr>xspeed := 0, yspeed := 0, sp_x := 535, sp_y := 55\<rparr>) s;
        Some (s\<lparr>previous_x := 535, previous_y := 730\<rparr>) }) (kicked_off s)"
    proof (rule returns_bind [OF stays_place_puck [OF staysD(1) [OF s1], where x = 535 and y = 730]])
      fix s2 assume s2: "stays s1 s2"
      show "returns (do {
        s \<leftarrow> update_sprite (redpuck s2) (\<lambda>r. r\<lparr>xspeed := 0, yspeed := 0, sp_x := 535, sp_y := 55\<rparr>) s2;
        Some (s\<lparr>previous_x := 535, previous_y := 730\<rparr>) }) (kicked_off s)"
      proof (rule returns_bind [OF stays_place_puck [OF staysD(1) [OF s2], where x = 535 and y = 55]])
        fix s3 assume "stays s2 s3"
        with s1 s2 show "returns (Some (s3\<lparr>previous_x := 535, previous_y := 730\<rparr>)) (kicked_off s)"
          by (intro fin stays_trans [OF s1] stays_trans [OF s2])
      qed (simp_all add: same_shape_def)
    qed (simp_all add: same_shape_def)
  qed (simp_all add: same_shape_def)
qed

section \<open>The state machine\<close>

text \<open>The changes of \<^verbatim>\<open>mainState\<close> the program makes; nothing leaves \<open>STOP\<close>.\<close>

inductive transition :: "MainStateMachine \<Rightarrow> MainStateMachine \<Rightarrow> bool" where
  start_match: "transition MAIN_MENU GAME"
| show_rules: "transition MAIN_MENU RULES"
| exit_program: "transition MAIN_MENU STOP"
| hide_rules: "transition RULES MAIN_MENU"
| abandon_match: "transition GAME MAIN_MENU"
| finish_match: "m \<in> {WIN, LOST, TIE} \<Longrightarrow> transition GAME m"
| play_again: "m \<in> {WIN, LOST, TIE} \<Longrightarrow> transition m GAME"
| leave_program: "m \<in> {WIN, LOST, TIE} \<Longrightarrow> transition m STOP"

code_pred transition .

inductive_simps transition_simps [simp]:
  "transition MAIN_MENU m" "transition RULES m" "transition GAME m" "transition STOP m" "transition WIN m"
  "transition LOST m" "transition TIE m"

definition edge :: "MainStateMachine \<Rightarrow> MainStateMachine \<Rightarrow> bool" where
  "edge m m' \<longleftrightarrow> m' = m \<or> transition m m'"

lemma edge_refl [simp]: "edge m m"
  by (simp add: edge_def)

lemma edge_ends: "ends_match m m' \<Longrightarrow> edge m m'"
  by (auto simp: ends_match_def edge_def)

text \<open>What a handler may do to the state: one step of the machine; the scores stay or are cleared.\<close>

definition reacts :: "('w, 'a) game_scheme \<Rightarrow> ('w, 'a) game_scheme \<Rightarrow> bool" where
  "reacts s s' \<longleftrightarrow> game_ok s' \<and> edge (mainState s) (mainState s') \<and>
     (player_1_score s' = player_1_score s \<and> player_2_score s' = player_2_score s \<or>
      player_1_score s' = 0 \<and> player_2_score s' = 0)"

lemma reacts_stays: "stays s s' \<Longrightarrow> reacts s s'"
  by (simp add: stays_def ctl_of_def reacts_def)

section \<open>Serial port and clock\<close>

lemma stays_receive:
  assumes "uart_finite os pending" and "game_ok s"
  shows "returns (receive os s) (stays s)"
proof -
  obtain q' w' where "sp_ih os (inQueue s) (world s) = Some (q', w')" "rx_ok q'"
    using sp_ih_total [OF assms(1) game_ok_rx [OF assms(2)], of "world s"] by blast
  with stays_queue [OF assms(2)] show ?thesis by (simp add: receive_def)
qed

text \<open>A read of the queue that continues in one of two ways.\<close>

lemma returns_signal:
  assumes "game_ok s" and "\<And>r v' s'. stays s s' \<Longrightarrow> returns (f r v' s') P"
  shows "returns (Option.bind (next_signal v s) (\<lambda>(r, v', s'). f r v' s')) P"
proof -
  obtain r v' s' where "next_signal v s = Some (r, v', s')" "stays s s'" by (rule stays_next_signal [OF assms(1)])
  then show ?thesis using assms(2) by simp
qed

lemma sp_int_menu_returns:
  assumes fin: "uart_finite os pending" and hz: "sys_hz os \<noteq> 0" and ok: "game_ok s" and m: "mainState s = MAIN_MENU"
  shows "returns (sp_int_menu os s) (\<lambda>s'. reacts s s' \<and> option_index s' = option_index s)"
  unfolding sp_int_menu_def
proof (rule returns_bind [OF stays_receive [OF fin ok]])
  fix s1 assume s1: "stays s s1"
  let ?f = "\<lambda>r temp_x s. if r \<noteq> 0 then Some s
       else if temp_x = signal1 then do {
         s \<leftarrow> reset_fifo os s;
         s \<leftarrow> reset_game_state os (s\<lparr>mainState := GAME\<rparr>);
         Some (s\<lparr>is_main_pc := False\<rparr>)
       } else Some s"
  show "returns (Option.bind (next_signal 0 s1) (\<lambda>(r, temp_x, s). ?f r temp_x s))
      (\<lambda>s'. reacts s s' \<and> option_index s' = option_index s)"
  proof (rule returns_signal [OF staysD(1) [OF s1]])
    fix r and temp_x :: u16 and s2 assume "stays s1 s2"
    with s1 have s2: "stays s s2" by (rule stays_trans)
    have "returns (do {
         s \<leftarrow> reset_fifo os s2;
         s \<leftarrow> reset_game_state os (s\<lparr>mainState := GAME\<rparr>);
         Some (s\<lparr>is_main_pc := False\<rparr>) }) (\<lambda>s'. reacts s s' \<and> option_index s' = option_index s)"
    proof (rule returns_bind [OF stays_reset_fifo [OF staysD(1) [OF s2]]])
      fix s3 assume "stays s2 s3"
      with s2 have s3: "stays s s3" by (rule stays_trans)
      have "game_ok (s3\<lparr>mainState := GAME\<rparr>)" using s3 by (simp add: stays_def)
      from reset_returns [OF this hz] show "returns (do {
         s \<leftarrow> reset_game_state os (s3\<lparr>mainState := GAME\<rparr>);
         Some (s\<lparr>is_main_pc := False\<rparr>) }) (\<lambda>s'. reacts s s' \<and> option_index s' = option_index s)"
        by (rule returns_bind) (use m staysD(3) [OF s3] in \<open>simp add: kicked_off_def reacts_def edge_def\<close>)
    qed
    then show "returns (?f r temp_x s2) (\<lambda>s'. reacts s s' \<and> option_index s' = option_index s)"
      using reacts_stays [OF s2] staysD(3) [OF s2] by simp
  qed
qed

lemma stays_ball_speed:
  assumes "game_ok s"
  shows "returns (set_ball_speed v s) (stays s)"
  unfolding set_ball_speed_def Let_def
  using assms by (intro stays_sprite fixed_ptrs_members) (simp_all add: same_shape_def)

lemma game_ok_store [simp]: "game_ok (s\<lparr>stored_x := v, is_stored_x := c\<rparr>) = game_ok s"
  by (intro game_ok_cong) (simp_all add: devices_ok_def)

lemma stays_store: "game_ok s \<Longrightarrow> stays s (s\<lparr>stored_x := v, is_stored_x := c\<rparr>)"
  by (simp add: stays_def ctl_of_def)

text \<open>The first signal of a message: the stored one, or the next in the queue.\<close>

lemma returns_first:
  assumes ok: "game_ok s" and f: "\<And>r v' s'. stays s s' \<Longrightarrow> returns (f r v' s') P"
  shows "returns (Option.bind (if is_stored_x s then Some (0, stored_x s, s\<lparr>is_stored_x := False\<rparr>) else next_signal 0 s)
      (\<lambda>(r, v', s'). f r v' s')) P"
proof (cases "is_stored_x s")
  case True
  have "stays s (s\<lparr>is_stored_x := False\<rparr>)" using ok by (simp add: stays_def ctl_of_def)
  then show ?thesis using f True by simp
next
  case False
  then show ?thesis using returns_signal [OF ok f, of "\<lambda>r v s. s" 0] by simp
qed

lemma sp_int_game_returns:
  assumes fin: "uart_finite os pending" and ld: "xpm_loads os" and ok: "game_ok s" and m: "mainState s = GAME"
  shows "returns (sp_int_game os s) (\<lambda>s'. reacts s s' \<and> option_index s' = option_index s)"
  unfolding sp_int_game_def
proof (rule returns_bind [OF stays_receive [OF fin ok]])
  let ?P = "\<lambda>s'. reacts s s' \<and> option_index s' = option_index s"
  have P: "?P s'" if "stays s s'" for s' using that reacts_stays [OF that] staysD(3) [OF that] by simp
  fix s1 assume s1: "stays s s1"
  let ?g = "\<lambda>temp_x r2 temp_y s. if r2 \<noteq> 0 then Some (s\<lparr>stored_x := temp_x, is_stored_x := True\<rparr>)
         else if temp_x = ball_signal then set_ball_speed temp_y s
         else move os (redpuck s) (- temp_x) temp_y 2 s"
  let ?f = "\<lambda>r temp_x s. if r \<noteq> 0 then Some s
       else if temp_x = signal1 then draw_frame os (s\<lparr>mainState := MAIN_MENU\<rparr>)
       else Option.bind (next_signal 0 s) (\<lambda>(r2, temp_y, s). ?g temp_x r2 temp_y s)"
  show "returns (Option.bind (if is_stored_x s1 then Some (0, stored_x s1, s1\<lparr>is_stored_x := False\<rparr>) else next_signal 0 s1)
      (\<lambda>(r, temp_x, s). ?f r temp_x s)) ?P"
  proof (rule returns_first [OF staysD(1) [OF s1]])
    fix r and temp_x :: u16 and s2 assume "stays s1 s2"
    with s1 have s2: "stays s s2" by (rule stays_trans)
    have menu: "returns (draw_frame os (s2\<lparr>mainState := MAIN_MENU\<rparr>)) ?P"
    proof (rule returns_mono [OF stays_draw [OF _ ld]])
      show "game_ok (s2\<lparr>mainState := MAIN_MENU\<rparr>)" using s2 by (simp add: stays_def)
      show "scores_fit (s2\<lparr>mainState := MAIN_MENU\<rparr>)" by (simp add: scores_fit_def)
      show "?P s'" if "stays (s2\<lparr>mainState := MAIN_MENU\<rparr>) s'" for s'
        using that s2 m by (simp add: stays_def ctl_of_def reacts_def edge_def)
    qed
    have "returns (Option.bind (next_signal 0 s2) (\<lambda>(r2, temp_y, s). ?g temp_x r2 temp_y s)) ?P"
    proof (rule returns_signal [OF staysD(1) [OF s2]])
      fix r2 and temp_y :: u16 and s3 assume "stays s2 s3"
      with s2 have s3: "stays s s3" by (rule stays_trans)
      note ok3 = staysD(1) [OF s3]
      have "returns (?g temp_x r2 temp_y s3) (stays s3)"
        using stays_store [OF ok3] stays_ball_speed [OF ok3] stays_move_puck [OF ok3] by simp
      then show "returns (?g temp_x r2 temp_y s3) ?P"
        by (rule returns_mono) (rule P [OF stays_trans [OF s3]])
    qed
    with menu show "returns (?f r temp_x s2) ?P" using P [OF s2] by simp
  qed
qed

lemma sp_int_returns:
  assumes "uart_finite os pending" and "xpm_loads os" and "sys_hz os \<noteq> 0" and "game_ok s"
  shows "returns (sp_int os s) (\<lambda>s'. reacts s s' \<and> option_index s' = option_index s)"
proof (cases "mainState s")
  case MAIN_MENU
  then show ?thesis using sp_int_menu_returns [OF assms(1,3,4)] by (simp add: sp_int_def)
next
  case GAME
  then show ?thesis using sp_int_game_returns [OF assms(1,2,4)] by (simp add: sp_int_def)
qed (use reacts_stays [OF stays_refl [OF assms(4)]] in \<open>simp_all add: sp_int_def\<close>)

text \<open>The clock keeps the state as long as its registers hold two decimal digits.\<close>

lemma rtc_int_stays:
  assumes "game_ok s" and "two_digits (day_time_info (rtc_int os s))"
  shows "stays s (rtc_int os s)"
proof -
  obtain r t w where u: "rtc_update_info os (day_time_info s) (world s) = (r, t, w)" by (rule prod_cases3)
  have "devices_ok (rtc_int os s)"
    using game_ok_devices [OF assms(1)] assms(2) by (simp add: rtc_int_def u devices_ok_def)
  then show ?thesis using assms(1) by (intro stays_frame) (simp_all add: rtc_int_def u ctl_of_def)
qed

lemma two_digits_update:
  assumes "bcd_clock os" and "two_digits t" and "rtc_update_info os t w = (r, t', w')"
  shows "two_digits t'"
proof -
  note small = rtc_read_convert_small [OF assms(1)]
  have "yyyy t < 100" "mm t < 100" "dd t < 100" "dt_h t < 100" "dt_m t < 100" "dt_s t < 100"
    using assms(2) by (simp_all add: two_digits_def)
  then show ?thesis using assms(3)
    unfolding rtc_update_info_def Let_def two_digits_def
    by (auto split: prod.splits if_splits dest!: small [rotated -1])
qed

lemma rtc_int_returns:
  assumes "game_ok s" and "bcd_clock os"
  shows "stays s (rtc_int os s)"
proof -
  obtain r t w where u: "rtc_update_info os (day_time_info s) (world s) = (r, t, w)" by (rule prod_cases3)
  have "two_digits (day_time_info s)" using game_ok_devices [OF assms(1)] by (simp add: devices_ok_def)
  from two_digits_update [OF assms(2) this u] show ?thesis
    by (intro rtc_int_stays [OF assms(1)]) (simp add: rtc_int_def u)
qed

section \<open>Keyboard\<close>

text \<open>The index of the selected button is inside the arrays of the current screen.\<close>

definition menu_size :: "MainStateMachine \<Rightarrow> int" where
  "menu_size m = (case m of MAIN_MENU \<Rightarrow> 3 | WIN \<Rightarrow> 2 | LOST \<Rightarrow> 2 | TIE \<Rightarrow> 2 | _ \<Rightarrow> 0)"

definition index_ok :: "('w, 'a) game_scheme \<Rightarrow> bool" where
  "index_ok s \<longleftrightarrow> 0 \<le> option_index s \<and>
     (menu_size (mainState s) \<noteq> 0 \<longrightarrow> option_index s < menu_size (mainState s))"

lemma stays_index: "game_ok s \<Longrightarrow> game_ok (s\<lparr>option_index := i\<rparr>)"
  by simp

lemma index_frame [simp]:
  "fixed_ptrs (s\<lparr>option_index := i\<rparr>) = fixed_ptrs s" "ctl_of (s\<lparr>option_index := i\<rparr>) = ctl_of s \<longleftrightarrow> option_index s = i"
  by (auto simp: fixed_ptrs_def ctl_of_def)

text \<open>Moving the highlight from button \<open>i\<close> to button \<open>j\<close> of a menu.\<close>

lemma highlight_returns:
  assumes ok: "game_ok s" and bs: "set us \<subseteq> fixed_ptrs s" "set ss \<subseteq> fixed_ptrs s" "length us = n" "length ss = n"
    and i: "0 \<le> i" "i < int n" and j: "0 \<le> j" "j < int n"
  shows "returns (do {
       s \<leftarrow> set_selected us i False s;
       s \<leftarrow> set_selected ss i False s;
       s \<leftarrow> set_selected us j True (s\<lparr>option_index := j\<rparr>);
       set_selected ss j True s }) (stays (s\<lparr>option_index := j\<rparr>))"
proof -
  have k: "stays (s\<lparr>option_index := j\<rparr>) s1 \<Longrightarrow> returns (set_selected us j True s1) (stays s1)"
    "stays (s\<lparr>option_index := j\<rparr>) s1 \<Longrightarrow> returns (set_selected ss j True s1) (stays s1)" for s1
    using bs j staysD [of "s\<lparr>option_index := j\<rparr>" s1] by (auto intro!: stays_selected)
  have o: "stays (s\<lparr>option_index := j\<rparr>) (s1\<lparr>option_index := j\<rparr>)" if "stays s s1" for s1
    using that by (simp add: stays_def ctl_of_def)
  have r1: "returns (set_selected us i False s) (stays s)" using bs i by (intro stays_selected [OF ok]) simp_all
  show ?thesis
  proof (rule returns_bind [OF r1])
    fix s1 assume s1: "stays s s1"
    have r2: "returns (set_selected ss i False s1) (stays s1)"
      using bs i staysD [OF s1] by (intro stays_selected) simp_all
    show "returns (do {
       s \<leftarrow> set_selected ss i False s1;
       s \<leftarrow> set_selected us j True (s\<lparr>option_index := j\<rparr>);
       set_selected ss j True s }) (stays (s\<lparr>option_index := j\<rparr>))"
    proof (rule returns_bind [OF r2])
      fix s2 assume "stays s1 s2"
      with s1 have s2: "stays (s\<lparr>option_index := j\<rparr>) (s2\<lparr>option_index := j\<rparr>)" by (rule o [OF stays_trans])
      show "returns (do { s \<leftarrow> set_selected us j True (s2\<lparr>option_index := j\<rparr>); set_selected ss j True s })
          (stays (s\<lparr>option_index := j\<rparr>))"
      proof (rule returns_bind [OF k(1) [OF s2]])
        fix s3 assume "stays (s2\<lparr>option_index := j\<rparr>) s3"
        with s2 have s3: "stays (s\<lparr>option_index := j\<rparr>) s3" by (rule stays_trans)
        show "returns (set_selected ss j True s3) (stays (s\<lparr>option_index := j\<rparr>))"
          by (rule returns_mono [OF k(2) [OF s3] stays_trans [OF s3]])
      qed
    qed
  qed
qed

text \<open>The next button down, and up, of a menu of \<open>n\<close>.\<close>

definition button_down :: "int \<Rightarrow> int \<Rightarrow> int" where
  "button_down n i = (if i + 1 = n then 0 else i + 1)"

definition button_up :: "int \<Rightarrow> int \<Rightarrow> int" where
  "button_up n i = (if i = 0 then n - 1 else i - 1)"

lemma button_range:
  "0 \<le> i \<Longrightarrow> i < n \<Longrightarrow> 0 \<le> button_down n i \<and> button_down n i < n \<and> 0 \<le> button_up n i \<and> button_up n i < n"
  by (auto simp: button_down_def button_up_def)

lemma set_selected_index:
  assumes "set_selected bs i v s = Some s'"
  shows "option_index s' = option_index s"
  using assms by (auto simp: set_selected_def update_sprite_def dest!: bind_SomeD)

lemma option_down_eq:
  "option_down us ss n s = do {
       s1 \<leftarrow> set_selected us (option_index s) False s;
       s2 \<leftarrow> set_selected ss (option_index s) False s1;
       s3 \<leftarrow> set_selected us (button_down n (option_index s)) True (s2\<lparr>option_index := button_down n (option_index s)\<rparr>);
       set_selected ss (button_down n (option_index s)) True s3 }"
  unfolding option_down_def
  by (intro Option.bind_cong refl)
    (auto simp: Let_def button_down_def dest!: set_selected_index intro!: Option.bind_cong)

lemma option_up_eq:
  "option_up us ss n s = do {
       s1 \<leftarrow> set_selected us (option_index s) False s;
       s2 \<leftarrow> set_selected ss (option_index s) False s1;
       s3 \<leftarrow> set_selected us (button_up n (option_index s)) True (s2\<lparr>option_index := button_up n (option_index s)\<rparr>);
       set_selected ss (button_up n (option_index s)) True s3 }"
  unfolding option_up_def
  by (intro Option.bind_cong refl)
    (auto simp: Let_def button_up_def dest!: set_selected_index intro!: Option.bind_cong)

lemma option_returns:
  assumes ok: "game_ok s" and bs: "set us \<subseteq> fixed_ptrs s" "set ss \<subseteq> fixed_ptrs s" "length us = n" "length ss = n"
    and i: "0 \<le> option_index s" "option_index s < int n"
  shows "returns (option_down us ss (int n) s) (stays (s\<lparr>option_index := button_down (int n) (option_index s)\<rparr>))"
    and "returns (option_up us ss (int n) s) (stays (s\<lparr>option_index := button_up (int n) (option_index s)\<rparr>))"
  using highlight_returns [OF ok bs i, of "button_down (int n) (option_index s)"]
    highlight_returns [OF ok bs i, of "button_up (int n) (option_index s)"] button_range [OF i]
  by (simp_all add: option_down_eq option_up_eq)

lemma menu_option_returns:
  assumes "game_ok s" and "0 \<le> option_index s" and "option_index s < 3"
  shows "returns (option_down (buttons_menu_unselected s) (buttons_menu_selected s) 3 s)
      (stays (s\<lparr>option_index := button_down 3 (option_index s)\<rparr>))"
    and "returns (option_up (buttons_menu_unselected s) (buttons_menu_selected s) 3 s)
      (stays (s\<lparr>option_index := button_up 3 (option_index s)\<rparr>))"
  using option_returns [OF assms(1), of "buttons_menu_unselected s" "buttons_menu_selected s" 3] assms buttons_arrays [of s]
  by (simp_all add: game_ok_def)

lemma popOut_option_returns:
  assumes "game_ok s" and "0 \<le> option_index s" and "option_index s < 2"
  shows "returns (option_down (buttons_winlose_unselected s) (buttons_winlose_selected s) 2 s)
      (stays (s\<lparr>option_index := button_down 2 (option_index s)\<rparr>))"
    and "returns (option_up (buttons_winlose_unselected s) (buttons_winlose_selected s) 2 s)
      (stays (s\<lparr>option_index := button_up 2 (option_index s)\<rparr>))"
  using option_returns [OF assms(1), of "buttons_winlose_unselected s" "buttons_winlose_selected s" 2] assms buttons_arrays [of s]
  by (simp_all add: game_ok_def)

text \<open>The part of a key's work before the highlight moves.\<close>

definition acts :: "('w, 'a) game_scheme \<Rightarrow> ('w, 'a) game_scheme \<Rightarrow> bool" where
  "acts s s' \<longleftrightarrow> reacts s s' \<and> option_index s' = option_index s \<and> keyboard_dev s' = keyboard_dev s"

lemma acts_refl: "game_ok s \<Longrightarrow> acts s s"
  by (simp add: acts_def reacts_def)

lemma acts_stays: "acts s s1 \<Longrightarrow> stays s1 s2 \<Longrightarrow> acts s s2"
  by (simp add: acts_def reacts_def stays_def ctl_of_def)

lemma acts_state: "acts s s1 \<Longrightarrow> transition (mainState s) m \<Longrightarrow> acts s (s1\<lparr>mainState := m\<rparr>)"
  by (simp add: acts_def reacts_def edge_def)

lemma acts_ok: "acts s s' \<Longrightarrow> game_ok s'"
  by (simp add: acts_def reacts_def)

lemma returns_on_space:
  assumes "game_ok s" and "p \<in> fixed_ptrs s" and "P s" and "returns (f s) P"
  shows "returns (on_space p f s) P"
proof -
  obtain o1 where "deref (heap s) p = Some o1" by (rule game_ok_deref [OF assms(1,2)])
  then show ?thesis using assms(3,4) by (simp add: on_space_def)
qed

lemma returns_on_key: "P s \<Longrightarrow> returns (f s) P \<Longrightarrow> returns (on_key c f s) P"
  by (simp add: on_key_def)

text \<open>Starting a match from a menu.\<close>

lemma acts_new_match:
  assumes a: "acts s s1" and tr: "transition (mainState s) GAME" and hz: "sys_hz os \<noteq> 0"
    and f: "\<And>s2. stays s1 s2 \<Longrightarrow> game_ok (f s2) \<and> mainState (f s2) = GAME \<and> option_index (f s2) = option_index s2 \<and>
        keyboard_dev (f s2) = keyboard_dev s2"
  shows "returns (do { s \<leftarrow> reset_fifo os s1; reset_game_state os (f s) }) (acts s)"
proof (rule returns_bind [OF stays_reset_fifo [OF acts_ok [OF a]]])
  fix s2 assume s2: "stays s1 s2"
  show "returns (reset_game_state os (f s2)) (acts s)"
    using reset_returns [of "f s2", OF _ hz] f [OF s2] a tr staysD(3,4) [OF s2]
    by (auto elim!: returns_mono simp: kicked_off_def acts_def reacts_def edge_def)
qed

text \<open>The two keys that move the highlight, after the rest of a key's work.\<close>

definition in_menu :: "int \<Rightarrow> ('w, 'a) game_scheme \<Rightarrow> ('w, 'a) game_scheme \<Rightarrow> bool" where
  "in_menu n s s' \<longleftrightarrow> reacts s s' \<and> 0 \<le> option_index s' \<and> option_index s' < n"

lemma in_menu_acts: "acts s s' \<Longrightarrow> 0 \<le> option_index s \<Longrightarrow> option_index s < n \<Longrightarrow> in_menu n s s'"
  by (simp add: in_menu_def acts_def)

lemma in_menu_moved:
  "in_menu n s s1 \<Longrightarrow> stays (s1\<lparr>option_index := i\<rparr>) s2 \<Longrightarrow> 0 \<le> i \<Longrightarrow> i < n \<Longrightarrow> in_menu n s s2"
  by (simp add: in_menu_def reacts_def stays_def ctl_of_def)

lemma in_menu_option:
  assumes m: "in_menu n s s1"
    and "returns (option_down us ss n s1) (stays (s1\<lparr>option_index := button_down n (option_index s1)\<rparr>))"
    and "returns (option_up us ss n s1) (stays (s1\<lparr>option_index := button_up n (option_index s1)\<rparr>))"
  shows "returns (option_down us ss n s1) (in_menu n s)" and "returns (option_up us ss n s1) (in_menu n s)"
proof -
  have r: "0 \<le> button_down n (option_index s1)" "button_down n (option_index s1) < n"
    "0 \<le> button_up n (option_index s1)" "button_up n (option_index s1) < n"
    using button_range [of "option_index s1" n] m by (auto simp: in_menu_def)
  show "returns (option_down us ss n s1) (in_menu n s)"
    by (rule returns_mono [OF assms(2)], erule in_menu_moved [OF m]) (rule r)+
  show "returns (option_up us ss n s1) (in_menu n s)"
    by (rule returns_mono [OF assms(3)], erule in_menu_moved [OF m]) (rule r)+
qed

lemma in_menu_ok: "in_menu n s s' \<Longrightarrow> game_ok s' \<and> 0 \<le> option_index s' \<and> option_index s' < n"
  by (simp add: in_menu_def reacts_def)

lemma menu_move:
  assumes "in_menu 3 s s1"
  shows "returns (option_down (buttons_menu_unselected s1) (buttons_menu_selected s1) 3 s1) (in_menu 3 s)"
    and "returns (option_up (buttons_menu_unselected s1) (buttons_menu_selected s1) 3 s1) (in_menu 3 s)"
  using in_menu_option [OF assms menu_option_returns] in_menu_ok [OF assms] by auto

lemma popOut_move:
  assumes "in_menu 2 s s1"
  shows "returns (option_down (buttons_winlose_unselected s1) (buttons_winlose_selected s1) 2 s1) (in_menu 2 s)"
    and "returns (option_up (buttons_winlose_unselected s1) (buttons_winlose_selected s1) 2 s1) (in_menu 2 s)"
  using in_menu_option [OF assms popOut_option_returns] in_menu_ok [OF assms] by auto

lemma returns_keys:
  assumes "returns m (acts s)" and "\<And>s'. acts s s' \<Longrightarrow> returns (f s') P"
  shows "returns (Option.bind m f) P"
  using assms by (rule returns_bind)

lemma menu_highlight:
  assumes "in_menu 3 s s1"
  shows "returns (do {
       s \<leftarrow> on_key S_BREAK_CODE (\<lambda>s. option_down (buttons_menu_unselected s) (buttons_menu_selected s) 3 s) s1;
       on_key W_BREAK_CODE (\<lambda>s. option_up (buttons_menu_unselected s) (buttons_menu_selected s) 3 s) s }) (in_menu 3 s)"
proof (rule returns_bind)
  show "returns (on_key S_BREAK_CODE (\<lambda>s. option_down (buttons_menu_unselected s) (buttons_menu_selected s) 3 s) s1)
      (in_menu 3 s)"
    using menu_move(1) [OF assms] assms by (simp add: on_key_def)
qed (simp add: on_key_def menu_move(2))

lemma popOut_highlight:
  assumes "in_menu 2 s s1"
  shows "returns (do {
       s \<leftarrow> on_key W_BREAK_CODE (\<lambda>s. option_up (buttons_winlose_unselected s) (buttons_winlose_selected s) 2 s) s1;
       on_key S_BREAK_CODE (\<lambda>s. option_down (buttons_winlose_unselected s) (buttons_winlose_selected s) 2 s) s })
     (in_menu 2 s)"
proof (rule returns_bind)
  show "returns (on_key W_BREAK_CODE (\<lambda>s. option_up (buttons_winlose_unselected s) (buttons_winlose_selected s) 2 s) s1)
      (in_menu 2 s)"
    using popOut_move(2) [OF assms] assms by (simp add: on_key_def)
qed (simp add: on_key_def popOut_move(1))

lemma menu_keys_returns:
  assumes ok: "game_ok s" and hz: "sys_hz os \<noteq> 0" and m: "mainState s = MAIN_MENU"
    and i: "0 \<le> option_index s" "option_index s < 3"
  shows "returns (menu_keys os s) (in_menu 3 s)"
proof -
  have exit: "returns (on_space (exit_button_selected s1) (\<lambda>s. Some (s\<lparr>mainState := STOP\<rparr>)) s1) (acts s)"
    if "acts s s1" for s1
    using that m acts_state [OF that] by (intro returns_on_space acts_ok fixed_ptrs_members) auto
  have start: "returns (on_space (start_button_selected s1) (\<lambda>s. do {
        s \<leftarrow> reset_fifo os s; reset_game_state os ((announce os s)\<lparr>is_main_pc := True, mainState := GAME\<rparr>) }) s1) (acts s)"
    if "acts s s1" for s1
    using that m by (intro returns_on_space acts_ok fixed_ptrs_members acts_new_match hz) (auto simp: stays_def announce_def)
  have rules: "returns (on_space (rules_button_selected s1) (\<lambda>s. Some (s\<lparr>mainState := RULES\<rparr>)) s1) (in_menu 3 s)"
    if "acts s s1" for s1
    using that m acts_state [OF that] in_menu_acts i by (intro returns_on_space acts_ok fixed_ptrs_members) auto
  show ?thesis unfolding menu_keys_def
    by (rule returns_bind [OF exit [OF acts_refl [OF ok]]], erule returns_bind [OF start],
        erule returns_bind [OF rules], erule menu_highlight)
qed

lemma popOutButtons_returns:
  assumes ok: "game_ok s" and hz: "sys_hz os \<noteq> 0" and m: "mainState s \<in> {WIN, LOST, TIE}"
    and i: "0 \<le> option_index s" "option_index s < 2"
  shows "returns (popOutButtons os s) (in_menu 2 s)"
proof -
  have tr: "transition (mainState s) STOP" "transition (mainState s) GAME" using m by auto
  have leave: "returns (on_space (leave_button_selected s)
      (\<lambda>s. do { s \<leftarrow> reset_fifo os s; Some (s\<lparr>mainState := STOP\<rparr>) }) s) (acts s)"
    using acts_refl [OF ok] acts_state [OF _ tr(1)] acts_stays [OF acts_refl [OF ok]]
    by (intro returns_on_space ok fixed_ptrs_members returns_bind [OF stays_reset_fifo [OF ok]]) auto
  have again: "returns (on_space (play_again_button_selected s1)
      (\<lambda>s. do { s \<leftarrow> reset_fifo os s; reset_game_state os (s\<lparr>mainState := GAME\<rparr>) }) s1) (in_menu 2 s)"
    if a: "acts s s1" for s1
  proof (rule returns_mono [OF _ in_menu_acts [OF _ i]])
    show "returns (on_space (play_again_button_selected s1)
      (\<lambda>s. do { s \<leftarrow> reset_fifo os s; reset_game_state os (s\<lparr>mainState := GAME\<rparr>) }) s1) (acts s)"
      using a tr(2) by (intro returns_on_space acts_ok fixed_ptrs_members acts_new_match hz) (auto simp: stays_def)
  qed
  show ?thesis unfolding popOutButtons_def
    by (rule returns_bind [OF leave], erule returns_bind [OF again], erule popOut_highlight)
qed

text \<open>The whole handler.\<close>

lemma keyboard_keys_returns:
  assumes ok: "game_ok s" and hz: "sys_hz os \<noteq> 0" and i: "index_ok s"
  shows "returns (keyboard_keys os s) (\<lambda>s'. reacts s s' \<and> (mainState s' = mainState s \<longrightarrow> index_ok s'))"
proof -
  note s0 = reacts_stays [OF stays_refl [OF ok]]
  have fifo: "returns (do { s \<leftarrow> reset_fifo os s; Some ((announce os s)\<lparr>mainState := MAIN_MENU\<rparr>) })
      (\<lambda>s'. reacts s s' \<and> mainState s' = MAIN_MENU)" if "mainState s = GAME"
    by (rule returns_bind [OF stays_reset_fifo [OF ok]])
      (use that in \<open>simp add: announce_def stays_def ctl_of_def reacts_def edge_def\<close>)
  have pop: "returns (popOutButtons os s) (\<lambda>s'. reacts s s' \<and> (mainState s' = mainState s \<longrightarrow> index_ok s'))"
    if "mainState s \<in> {WIN, LOST, TIE}"
    by (rule returns_mono [OF popOutButtons_returns [OF ok hz that]])
      (use that i in \<open>auto simp: index_ok_def menu_size_def in_menu_def\<close>)
  show ?thesis
  proof (cases "mainState s")
    case MAIN_MENU
    have "returns (menu_keys os s) (\<lambda>s'. reacts s s' \<and> (mainState s' = mainState s \<longrightarrow> index_ok s'))"
      by (rule returns_mono [OF menu_keys_returns [OF ok hz MAIN_MENU]])
        (use MAIN_MENU i in \<open>auto simp: index_ok_def menu_size_def in_menu_def\<close>)
    then show ?thesis using MAIN_MENU by (simp add: keyboard_keys_def)
  next
    case GAME
    have "returns (if scancode (keyboard_dev s) = ESC_BREAK_CODE
        then do { s \<leftarrow> reset_fifo os s; Some ((announce os s)\<lparr>mainState := MAIN_MENU\<rparr>) } else Some s)
        (\<lambda>s'. reacts s s' \<and> (mainState s' = GAME \<longrightarrow> index_ok s'))"
      using fifo [OF GAME] s0 i by (auto elim: returns_mono)
    then have "returns (keyboard_keys os s) (\<lambda>s'. reacts s s' \<and> (mainState s' = GAME \<longrightarrow> index_ok s'))"
      unfolding keyboard_keys_def GAME MainStateMachine.case
      by (rule returns_bind) (simp add: reacts_def index_ok_def menu_size_def)
    then show ?thesis using GAME by simp
  next
    case RULES
    then show ?thesis using s0 i by (simp add: keyboard_keys_def reacts_def edge_def index_ok_def menu_size_def)
  qed (use pop s0 i in \<open>simp_all add: keyboard_keys_def\<close>)
qed

lemma keyboard_int_returns:
  assumes ok: "game_ok s" and ld: "xpm_loads os" and hz: "sys_hz os \<noteq> 0" and i: "index_ok s"
    and sc: "player_1_score s < 10" "player_2_score s < 10"
  shows "returns (keyboard_int os s) (\<lambda>s'. reacts s s' \<and> (mainState s' = mainState s \<longrightarrow> index_ok s'))"
proof -
  obtain k w where kw: "kbc_ih os (keyboard_dev s) (world s) = (k, w)" by (cases "kbc_ih os (keyboard_dev s) (world s)")
  let ?s = "s\<lparr>keyboard_dev := k, world := w\<rparr>"
  have ok1: "game_ok ?s" and i1: "index_ok ?s" using ok i by (simp_all add: index_ok_def )
  have r: "reacts s s' = reacts ?s s'" for s' by (simp add: reacts_def)
  have "returns (do { s \<leftarrow> keyboard_keys os ?s; draw_frame os s })
      (\<lambda>s'. reacts s s' \<and> (mainState s' = mainState s \<longrightarrow> index_ok s'))"
  proof (rule returns_bind [OF keyboard_keys_returns [OF ok1 hz i1]])
    fix s1 assume s1: "reacts ?s s1 \<and> (mainState s1 = mainState ?s \<longrightarrow> index_ok s1)"
    show "returns (draw_frame os s1) (\<lambda>s'. reacts s s' \<and> (mainState s' = mainState s \<longrightarrow> index_ok s'))"
    proof (rule returns_mono [OF stays_draw [OF _ ld]])
      show "game_ok s1" "scores_fit s1" using s1 sc by (auto simp: reacts_def scores_fit_def)
      fix s2 assume "stays s1 s2"
      with s1 show "reacts s s2 \<and> (mainState s2 = mainState s \<longrightarrow> index_ok s2)"
        by (simp add: reacts_def stays_def ctl_of_def index_ok_def)
    qed
  qed
  then show ?thesis using ok1 i1 unfolding keyboard_int_def kw by (simp add: Let_def reacts_def)
qed

end
