(* ===== verification/Menu.thy ===== *)
theory Menu
  imports Handlers
begin

text \<open>
  The menus: one button of a menu is highlighted, the keys S and W move the highlight round the menu,
  and the space bar runs the highlighted button.  The two menus of the program are two
  interpretations of one interface.
\<close>

section \<open>The highlight\<close>

text \<open>The pictures of button \<open>i\<close>, plain and highlighted, are the ones marked as selected.\<close>

definition highlighted :: "(ptr \<rightharpoonup> sprite) \<Rightarrow> ptr list \<Rightarrow> ptr list \<Rightarrow> int \<Rightarrow> bool" where
  "highlighted h us ss i \<longleftrightarrow>
     (\<forall>p \<in> set us \<union> set ss. \<exists>o1. deref h p = Some o1 \<and> (selected o1 \<longleftrightarrow> p = us ! nat i \<or> p = ss ! nat i))"

text \<open>The sprites of \<open>A\<close> with exactly those of \<open>B\<close> selected.\<close>

definition relight :: "ptr set \<Rightarrow> ptr set \<Rightarrow> (ptr \<rightharpoonup> sprite) \<Rightarrow> (ptr \<rightharpoonup> sprite)" where
  "relight A B h p = (if p \<in> A then map_option (\<lambda>o1. o1\<lparr>selected := p \<in> B\<rparr>) (h p) else h p)"

lemma relight_relight [simp]: "relight A B (relight A C h) = relight A B h"
proof
  show "relight A B (relight A C h) p = relight A B h p" for p by (cases "h p") (simp_all add: relight_def)
qed

lemma selected_same [simp]: "o1\<lparr>selected := selected o1\<rparr> = o1"
  by (cases o1) simp

lemma highlightedD:
  assumes "highlighted h us ss i" and "p \<in> set us \<union> set ss"
  obtains o1 where "h p = Some o1" "p \<noteq> NULL" "deref h p = Some o1"
    "selected o1 \<longleftrightarrow> p \<in> {us ! nat i, ss ! nat i}"
proof -
  obtain o1 where "deref h p = Some o1" "selected o1 \<longleftrightarrow> p = us ! nat i \<or> p = ss ! nat i"
    using bspec [OF assms(1) [unfolded highlighted_def] assms(2)] by blast
  then show thesis using that [of o1] by (auto dest: deref_SomeD)
qed

lemma highlighted_relight:
  assumes "highlighted h us ss i"
  shows "relight (set us \<union> set ss) {us ! nat i, ss ! nat i} h = h"
proof
  fix p
  show "relight (set us \<union> set ss) {us ! nat i, ss ! nat i} h p = h p"
  proof (cases "p \<in> set us \<union> set ss")
    case True
    then obtain o1 where "h p = Some o1" "selected o1 \<longleftrightarrow> p \<in> {us ! nat i, ss ! nat i}"
      by (rule highlightedD [OF assms])
    then show ?thesis using True selected_same [of o1] by (simp add: relight_def)
  qed (simp add: relight_def)
qed

lemma relight_highlighted:
  assumes "\<And>p. p \<in> set us \<union> set ss \<Longrightarrow> deref h p \<noteq> None"
  shows "highlighted (relight (set us \<union> set ss) {us ! nat i, ss ! nat i} h) us ss i"
  unfolding highlighted_def
proof
  fix p assume p: "p \<in> set us \<union> set ss"
  then obtain o1 where "deref h p = Some o1" using assms by blast
  then show "\<exists>o1. deref (relight (set us \<union> set ss) {us ! nat i, ss ! nat i} h) p = Some o1 \<and>
      (selected o1 \<longleftrightarrow> p = us ! nat i \<or> p = ss ! nat i)"
    using p by (auto simp: deref_def relight_def split: if_splits)
qed

lemma set_selected_at:
  assumes "arr_get ps i = Some p" and "deref (heap s) p = Some o1"
  shows "set_selected ps i v s = Some (s\<lparr>heap := (heap s)(p \<mapsto> o1\<lparr>selected := v\<rparr>)\<rparr>)"
  using assms by (simp add: set_selected_def update_sprite_def)

text \<open>Moving the highlight from button \<open>i\<close> to button \<open>j\<close>.\<close>

lemma relight_moves:
  assumes hl: "highlighted h us ss i" and e: "a = us ! nat i" "b = ss ! nat i"
    and u: "a \<in> set us \<union> set ss" "b \<in> set us \<union> set ss" "c \<in> set us \<union> set ss" "d \<in> set us \<union> set ss"
    and ne: "a \<noteq> b" "c \<noteq> d" "a \<noteq> d" "b \<noteq> c"
    and o: "h a = Some oa" "h b = Some ob" "h c = Some oc" "h d = Some od"
  shows "h(a \<mapsto> oa\<lparr>selected := False\<rparr>, b \<mapsto> ob\<lparr>selected := False\<rparr>, c \<mapsto> oc\<lparr>selected := True\<rparr>, d \<mapsto> od\<lparr>selected := True\<rparr>) =
    relight (set us \<union> set ss) {c, d} h" (is "?h = ?r")
proof
  fix p
  consider "p = d" | "p = c" | "p = b" "p \<noteq> d" | "p = a" "p \<noteq> c" | "p \<notin> {a, b, c, d}" by blast
  then show "?h p = ?r p"
  proof cases
    case 5
    then have same: "?h p = h p" by simp
    show ?thesis
    proof (cases "p \<in> set us \<union> set ss")
      case True
      then obtain o1 where "h p = Some o1" "selected o1 \<longleftrightarrow> p \<in> {a, b}" unfolding e by (rule highlightedD [OF hl])
      then show ?thesis using 5 True same selected_same [of o1] by (simp add: relight_def)
    next
      case False
      then show ?thesis using same by (simp add: relight_def)
    qed
  qed (use u ne o in \<open>simp_all add: relight_def\<close>)
qed

lemma move_highlight:
  fixes s :: "('w, 'a) game_scheme"
  assumes d: "distinct (us @ ss)" and l: "length us = n" "length ss = n" and hl: "highlighted (heap s) us ss i"
    and i: "0 \<le> i" "i < int n" and j: "0 \<le> j" "j < int n"
  shows "do { s1 \<leftarrow> set_selected us i False s; s2 \<leftarrow> set_selected ss i False s1;
       s3 \<leftarrow> set_selected us j True (s2\<lparr>option_index := j\<rparr>); set_selected ss j True s3 } =
     Some (s\<lparr>heap := relight (set us \<union> set ss) {us ! nat j, ss ! nat j} (heap s), option_index := j\<rparr>)"
proof -
  let ?a = "us ! nat i" and ?b = "ss ! nat i" and ?c = "us ! nat j" and ?d = "ss ! nat j"
  have k: "nat i < n" "nat j < n" using i j by simp_all
  then have m: "?a \<in> set us" "?b \<in> set ss" "?c \<in> set us" "?d \<in> set ss" using l by (simp_all add: nth_mem)
  have g: "arr_get us i = Some ?a" "arr_get ss i = Some ?b" "arr_get us j = Some ?c" "arr_get ss j = Some ?d"
    using l i j by (simp_all add: arr_get_def)
  have ne: "?a \<noteq> ?b" "?c \<noteq> ?d" "?a \<noteq> ?d" "?b \<noteq> ?c" using d m by auto
  have eq: "?a = ?c \<longleftrightarrow> nat i = nat j" "?b = ?d \<longleftrightarrow> nat i = nat j"
    using d k l by (simp_all add: nth_eq_iff_index_eq)
  have u: "?a \<in> set us \<union> set ss" "?b \<in> set us \<union> set ss" "?c \<in> set us \<union> set ss" "?d \<in> set us \<union> set ss"
    using m by simp_all
  obtain oa where oa: "heap s ?a = Some oa" "?a \<noteq> NULL" by (rule highlightedD [OF hl u(1)])
  obtain ob where ob: "heap s ?b = Some ob" "?b \<noteq> NULL" by (rule highlightedD [OF hl u(2)])
  obtain oc where oc: "heap s ?c = Some oc" "?c \<noteq> NULL" by (rule highlightedD [OF hl u(3)])
  obtain od where od: "heap s ?d = Some od" "?d \<noteq> NULL" by (rule highlightedD [OF hl u(4)])
  let ?A = "set us \<union> set ss"
  let ?h1 = "(heap s)(?a \<mapsto> oa\<lparr>selected := False\<rparr>)"
  let ?h2 = "?h1(?b \<mapsto> ob\<lparr>selected := False\<rparr>)"
  let ?h3 = "?h2(?c \<mapsto> oc\<lparr>selected := True\<rparr>)"
  let ?h4 = "?h3(?d \<mapsto> od\<lparr>selected := True\<rparr>)"
  let ?r = "relight ?A {?c, ?d} (heap s)"
  have "?h4 = ?r" by (rule relight_moves [OF hl refl refl u ne oa(1) ob(1) oc(1) od(1)])
  have s1: "set_selected us i False s = Some (s\<lparr>heap := ?h1\<rparr>)"
    using oa by (intro set_selected_at [OF g(1)]) (simp add: deref_def)
  have s2: "set_selected ss i False (s\<lparr>heap := ?h1\<rparr>) = Some (s\<lparr>heap := ?h2\<rparr>)"
    using set_selected_at [OF g(2), of "s\<lparr>heap := ?h1\<rparr>" ob] ob ne(1) by (simp add: deref_def)
  have s3: "set_selected us j True (s\<lparr>heap := ?h2, option_index := j\<rparr>) = Some (s\<lparr>heap := ?h3, option_index := j\<rparr>)"
  proof (cases "?c = ?a")
    case True
    then show ?thesis
      using set_selected_at [OF g(3), of "s\<lparr>heap := ?h2, option_index := j\<rparr>" "oa\<lparr>selected := False\<rparr>" True] oa oc ne(4)
      by (simp add: deref_def)
  next
    case False
    then show ?thesis
      using set_selected_at [OF g(3), of "s\<lparr>heap := ?h2, option_index := j\<rparr>" oc True] oc ne(4) by (simp add: deref_def)
  qed
  have s4: "set_selected ss j True (s\<lparr>heap := ?h3, option_index := j\<rparr>) = Some (s\<lparr>heap := ?h4, option_index := j\<rparr>)"
  proof (cases "?d = ?b")
    case True
    then show ?thesis
      using set_selected_at [OF g(4), of "s\<lparr>heap := ?h3, option_index := j\<rparr>" "ob\<lparr>selected := False\<rparr>" True] ob od ne
      by (simp add: deref_def)
  next
    case False
    then show ?thesis
      using set_selected_at [OF g(4), of "s\<lparr>heap := ?h3, option_index := j\<rparr>" od True] od ne by (simp add: deref_def)
  qed
  show ?thesis using s1 s2 s3 s4 \<open>?h4 = ?r\<close> by simp
qed

section \<open>The interface of a menu\<close>

text \<open>Exactly the button \<open>option_index\<close> of the menu is highlighted.\<close>

definition menu_lit :: "(('w, 'a) game_scheme \<Rightarrow> ptr list) \<Rightarrow> (('w, 'a) game_scheme \<Rightarrow> ptr list) \<Rightarrow> nat \<Rightarrow>
    ('w, 'a) game_scheme \<Rightarrow> bool" where
  "menu_lit us ss n s \<longleftrightarrow> 0 \<le> option_index s \<and> option_index s < int n \<and>
     highlighted (heap s) (us s) (ss s) (option_index s)"

text \<open>The state with the highlight on button \<open>j\<close>.\<close>

definition light :: "(('w, 'a) game_scheme \<Rightarrow> ptr list) \<Rightarrow> (('w, 'a) game_scheme \<Rightarrow> ptr list) \<Rightarrow> int \<Rightarrow>
    ('w, 'a) game_scheme \<Rightarrow> ('w, 'a) game_scheme" where
  "light us ss j s = s\<lparr>heap := relight (set (us s) \<union> set (ss s)) {us s ! nat j, ss s ! nat j} (heap s),
     option_index := j\<rparr>"

lemma button_up_down: "0 \<le> i \<Longrightarrow> i < n \<Longrightarrow> button_up n (button_down n i) = i"
  by (auto simp: button_up_def button_down_def)

lemma button_down_mod: "0 \<le> i \<Longrightarrow> i < n \<Longrightarrow> button_down n i = (i + 1) mod n"
  by (simp add: button_down_def)

lemma button_up_mod: "0 \<le> i \<Longrightarrow> i < n \<Longrightarrow> button_up n i = (i - 1) mod n"
  by (auto simp: button_up_def zmod_minus1)

locale button_menu =
  fixes us ss :: "('w, 'a) game_scheme \<Rightarrow> ptr list" and n :: nat
  assumes arrays: "game_ok s \<Longrightarrow> length (us s) = n \<and> length (ss s) = n \<and> distinct (us s @ ss s)"
    and alive: "game_ok s \<Longrightarrow> p \<in> set (us s) \<union> set (ss s) \<Longrightarrow> deref (heap s) p \<noteq> None"
    and kept: "us (s\<lparr>heap := h, option_index := i\<rparr>) = us s" "ss (s\<lparr>heap := h, option_index := i\<rparr>) = ss s"
begin

lemma light_lit:
  assumes "game_ok s" and "0 \<le> j" and "j < int n"
  shows "menu_lit us ss n (light us ss j s)"
  using assms relight_highlighted [of "us s" "ss s" "heap s" j] alive by (simp add: menu_lit_def light_def kept)

lemma move:
  assumes ok: "game_ok s" and lit: "menu_lit us ss n s" and j: "0 \<le> j" "j < int n"
  shows "do { s1 \<leftarrow> set_selected (us s) (option_index s) False s; s2 \<leftarrow> set_selected (ss s) (option_index s) False s1;
       s3 \<leftarrow> set_selected (us s) j True (s2\<lparr>option_index := j\<rparr>); set_selected (ss s) j True s3 } = Some (light us ss j s)"
  using move_highlight [of "us s" "ss s" n s "option_index s" j] arrays [OF ok] lit j
  by (simp add: menu_lit_def light_def)

lemma down:
  assumes "game_ok s" and "menu_lit us ss n s"
  shows "option_down (us s) (ss s) (int n) s = Some (light us ss (button_down (int n) (option_index s)) s)"
  using move [OF assms, of "button_down (int n) (option_index s)"] assms(2) button_range [of "option_index s" "int n"]
  by (simp add: option_down_eq menu_lit_def)

lemma up:
  assumes "game_ok s" and "menu_lit us ss n s"
  shows "option_up (us s) (ss s) (int n) s = Some (light us ss (button_up (int n) (option_index s)) s)"
  using move [OF assms, of "button_up (int n) (option_index s)"] assms(2) button_range [of "option_index s" "int n"]
  by (simp add: option_up_eq menu_lit_def)

lemma light_back:
  assumes "menu_lit us ss n s"
  shows "light us ss (option_index s) (light us ss j s) = s"
proof -
  have "light us ss (option_index s) (light us ss j s) =
      s\<lparr>heap := relight (set (us s) \<union> set (ss s)) {us s ! nat (option_index s), ss s ! nat (option_index s)} (heap s),
        option_index := option_index s\<rparr>"
    by (simp add: light_def kept)
  also have "\<dots> = s" using assms highlighted_relight by (simp add: menu_lit_def)
  finally show ?thesis .
qed

lemma down_up:
  assumes ok: "game_ok s" and lit: "menu_lit us ss n s" and ok': "game_ok (light us ss (button_down (int n) (option_index s)) s)"
  shows "do { s1 \<leftarrow> option_down (us s) (ss s) (int n) s; option_up (us s1) (ss s1) (int n) s1 } = Some s"
proof -
  let ?j = "button_down (int n) (option_index s)"
  have i: "0 \<le> option_index s" "option_index s < int n" using lit by (simp_all add: menu_lit_def)
  have "menu_lit us ss n (light us ss ?j s)" using button_range [OF i] by (intro light_lit [OF ok]) simp_all
  moreover have "button_up (int n) (option_index (light us ss ?j s)) = option_index s"
    using button_up_down [OF i] by (simp add: light_def)
  ultimately show ?thesis using down [OF ok lit] up [OF ok'] light_back [OF lit] by simp
qed

lemma lit_button:
  assumes ok: "game_ok s" and lit: "menu_lit us ss n s" and k: "k < n"
  obtains o1 where "deref (heap s) (ss s ! k) = Some o1" "selected o1 \<longleftrightarrow> option_index s = int k"
proof -
  let ?i = "nat (option_index s)"
  have i: "?i < n" "0 \<le> option_index s" using lit by (auto simp: menu_lit_def)
  have a: "length (us s) = n" "length (ss s) = n" "distinct (us s @ ss s)" using arrays [OF ok] by simp_all
  have m: "ss s ! k \<in> set (ss s)" "us s ! ?i \<in> set (us s)" using k i a by (simp_all add: nth_mem)
  then obtain o1 where o1: "deref (heap s) (ss s ! k) = Some o1" "selected o1 \<longleftrightarrow> ss s ! k \<in> {us s ! ?i, ss s ! ?i}"
    using highlightedD [of "heap s" "us s" "ss s" "option_index s" "ss s ! k"] lit by (auto simp: menu_lit_def)
  have "ss s ! k \<noteq> us s ! ?i" using m a(3) by auto
  moreover have "ss s ! k = ss s ! ?i \<longleftrightarrow> k = ?i" using a k i by (simp add: nth_eq_iff_index_eq)
  moreover have "k = ?i \<longleftrightarrow> option_index s = int k" using i(2) by auto
  ultimately have "selected o1 \<longleftrightarrow> option_index s = int k" using o1(2) by simp
  then show thesis by (rule that [OF o1(1)])
qed

end

lemma sprite_list_buttons:
  assumes "buttons_ok s"
  shows "distinct (buttons_menu_unselected s @ buttons_menu_selected s)"
    and "distinct (buttons_winlose_unselected s @ buttons_winlose_selected s)"
    and "set (buttons_menu_unselected s) \<union> set (buttons_menu_selected s) \<subseteq> set (sprite_list s)"
    and "set (buttons_winlose_unselected s) \<union> set (buttons_winlose_selected s) \<subseteq> set (sprite_list s)"
proof -
  have d: "distinct (sprite_list s)" using assms by (simp add: buttons_ok_def)
  have "distinct [mouse s, start_button_unselected s, start_button_selected s, rules_button_unselected s,
      rules_button_selected s, exit_button_unselected s, exit_button_selected s, redpuck s, bluepuck s, ball s]"
    "distinct (buttons_winlose_selected s)" "distinct (buttons_winlose_unselected s)"
    "set (buttons_winlose_selected s) \<inter> set (buttons_winlose_unselected s) = {}"
    using d unfolding sprite_list_def distinct_append set_append by blast+
  then show "distinct (buttons_menu_unselected s @ buttons_menu_selected s)"
    "distinct (buttons_winlose_unselected s @ buttons_winlose_selected s)"
    using assms by (auto simp: buttons_ok_def)
  show "set (buttons_menu_unselected s) \<union> set (buttons_menu_selected s) \<subseteq> set (sprite_list s)"
    "set (buttons_winlose_unselected s) \<union> set (buttons_winlose_selected s) \<subseteq> set (sprite_list s)"
    using assms by (simp_all add: buttons_ok_def sprite_list_def)
qed

lemma game_ok_alive: "game_ok s \<Longrightarrow> p \<in> set (sprite_list s) \<Longrightarrow> deref (heap s) p \<noteq> None"
  by (auto simp: game_ok_def buttons_ok_def deref_def simp flip: domIff)

interpretation main_menu: button_menu buttons_menu_unselected buttons_menu_selected 3
proof
  fix s :: "('a, 'b) game_scheme" and p assume ok: "game_ok s"
  then have b: "buttons_ok s" by (simp add: game_ok_def)
  show "length (buttons_menu_unselected s) = 3 \<and> length (buttons_menu_selected s) = 3 \<and>
      distinct (buttons_menu_unselected s @ buttons_menu_selected s)"
    using buttons_arrays [OF b] sprite_list_buttons [OF b] by simp
  show "deref (heap s) p \<noteq> None" if "p \<in> set (buttons_menu_unselected s) \<union> set (buttons_menu_selected s)"
    using that sprite_list_buttons(3) [OF b] by (intro game_ok_alive [OF ok]) auto
qed simp_all

interpretation pop_out: button_menu buttons_winlose_unselected buttons_winlose_selected 2
proof
  fix s :: "('a, 'b) game_scheme" and p assume ok: "game_ok s"
  then have b: "buttons_ok s" by (simp add: game_ok_def)
  show "length (buttons_winlose_unselected s) = 2 \<and> length (buttons_winlose_selected s) = 2 \<and>
      distinct (buttons_winlose_unselected s @ buttons_winlose_selected s)"
    using buttons_arrays [OF b] sprite_list_buttons [OF b] by simp
  show "deref (heap s) p \<noteq> None" if "p \<in> set (buttons_winlose_unselected s) \<union> set (buttons_winlose_selected s)"
    using that sprite_list_buttons(4) [OF b] by (intro game_ok_alive [OF ok]) auto
qed simp_all

end
