(* ===== verification/Project.thy ===== *)
theory Project
  imports Menu
begin

text \<open>
  The main program, \<^verbatim>\<open>project.c\<close>: set-up, tear-down, and the loop that receives interrupt
  notifications and calls the handlers.  Of \<^verbatim>\<open>driver_receive\<close> the model keeps what the loop reads: its
  result, whether a notification arrived, whether it came from the hardware, and the interrupt mask.
\<close>

section \<open>Calls of the drivers on the state of the program\<close>

definition start_serial :: "'w os \<Rightarrow> ('w, 'a) game_scheme \<Rightarrow> (int \<times> ('w, 'a) game_scheme) option" where
  "start_serial os s =
     do { (r, q, w) \<leftarrow> serialPort_init os (inQueue s) (world s); Some (r, s\<lparr>inQueue := q, world := w\<rparr>) }"

definition stop_serial :: "('w, 'a) game_scheme \<Rightarrow> (int \<times> ('w, 'a) game_scheme) option" where
  "stop_serial s = do { (r, q) \<leftarrow> serialPort_exit (inQueue s); Some (r, s\<lparr>inQueue := q\<rparr>) }"

definition on_timer :: "(timer_state \<Rightarrow> 'w \<Rightarrow> int \<times> timer_state \<times> 'w) \<Rightarrow> ('w, 'a) game_scheme \<Rightarrow> (int \<times> ('w, 'a) game_scheme) option" where
  "on_timer f s = (case f (timer_dev s) (world s) of (r, t, w) \<Rightarrow> Some (r, s\<lparr>timer_dev := t, world := w\<rparr>))"

definition on_keyboard :: "(kbd_state \<Rightarrow> 'w \<Rightarrow> int \<times> kbd_state \<times> 'w) \<Rightarrow> ('w, 'a) game_scheme \<Rightarrow> (int \<times> ('w, 'a) game_scheme) option" where
  "on_keyboard f s = (case f (keyboard_dev s) (world s) of (r, k, w) \<Rightarrow> Some (r, s\<lparr>keyboard_dev := k, world := w\<rparr>))"

definition on_mouse :: "(mouse_state \<Rightarrow> 'w \<Rightarrow> int \<times> mouse_state \<times> 'w) \<Rightarrow> ('w, 'a) game_scheme \<Rightarrow> (int \<times> ('w, 'a) game_scheme) option" where
  "on_mouse f s = (case f (mouse_dev s) (world s) of (r, m, w) \<Rightarrow> Some (r, s\<lparr>mouse_dev := m, world := w\<rparr>))"

definition on_world :: "('w \<Rightarrow> (int \<times> 'w) option) \<Rightarrow> ('w, 'a) game_scheme \<Rightarrow> (int \<times> ('w, 'a) game_scheme) option" where
  "on_world f s = do { (r, w) \<leftarrow> f (world s); Some (r, s\<lparr>world := w\<rparr>) }"

definition on_rtc :: "(int \<Rightarrow> 'w \<Rightarrow> (int \<times> int) \<times> 'w) \<Rightarrow> ('w, 'a) game_scheme \<Rightarrow> (int \<times> ('w, 'a) game_scheme) option" where
  "on_rtc f s = (case f (rtc_hook_id s) (world s) of ((r, h), w) \<Rightarrow> Some (r, s\<lparr>rtc_hook_id := h, world := w\<rparr>))"

definition on_sp :: "(int \<Rightarrow> 'w \<Rightarrow> (int \<times> int) \<times> 'w) \<Rightarrow> ('w, 'a) game_scheme \<Rightarrow> (int \<times> ('w, 'a) game_scheme) option" where
  "on_sp f s = (case f (sp_hook_id s) (world s) of ((r, h), w) \<Rightarrow> Some (r, s\<lparr>sp_hook_id := h, world := w\<rparr>))"

section \<open>Set-up and tear-down\<close>

text \<open>\<^verbatim>\<open>if (call) return 1;\<close>\<close>

definition check ::
  "(int \<times> ('w, 'a) game_scheme) option \<Rightarrow> (('w, 'a) game_scheme \<Rightarrow> (int \<times> ('w, 'a) game_scheme) option) \<Rightarrow>
   (int \<times> ('w, 'a) game_scheme) option" where
  "check m f = do { (r, s) \<leftarrow> m; if r \<noteq> 0 then Some (1, s) else f s }"

definition init :: "'w os \<Rightarrow> ('w, 'a) game_scheme \<Rightarrow> (int \<times> ('w, 'a) game_scheme) option" where
  "init os s =
     do {
       (buffer, s) \<leftarrow> vg_init os 0x14C s;
       if buffer = None then Some (1, s) else
       check (start_serial os s) (\<lambda>s.
       check (on_timer (timer_subscribe_interrupt os) s) (\<lambda>s.
       check (on_keyboard (keyboard_subscribe_int os) s) (\<lambda>s.
       check (on_world (mouse_enable_reporting os) s) (\<lambda>s.
       check (on_mouse (mouse_subscribe_int os) s) (\<lambda>s.
       check (on_rtc (rtc_subscribe os) s) (\<lambda>s.
       check (on_sp (sp_subscribe_int os) s) (\<lambda>s.
       do { s \<leftarrow> loader_sprite os s; s \<leftarrow> draw_frame os s; Some (0, s) })))))))
     }"

definition finalize :: "'w os \<Rightarrow> ('w, 'a) game_scheme \<Rightarrow> (int \<times> ('w, 'a) game_scheme) option" where
  "finalize os s =
     check (on_world (\<lambda>w. Some (vg_exit os w)) s) (\<lambda>s.
     check (on_timer (timer_unsubscribe_interrupt os) s) (\<lambda>s.
     check (on_keyboard (keyboard_unsubscribe_int os) s) (\<lambda>s.
     check (on_mouse (mouse_unsubscribe_int os) s) (\<lambda>s.
     check (on_world (mouse_disable_reporting os) s) (\<lambda>s.
     check (on_rtc (rtc_unsubscribe os) s) (\<lambda>s.
     check (on_sp (sp_unsubscribe_int os) s) (\<lambda>s.
     check (stop_serial s) (\<lambda>s.
     do { s \<leftarrow> unloader_sprite s; Some (0, s) }))))))))"

section \<open>The loop\<close>

text \<open>What one call of \<^verbatim>\<open>driver_receive\<close> gives: \<^verbatim>\<open>r\<close>, \<^verbatim>\<open>is_ipc_notify(ipc_status)\<close>, whether
  \<^verbatim>\<open>_ENDPOINT_P(msg.m_source)\<close> is \<^verbatim>\<open>HARDWARE\<close>, and \<^verbatim>\<open>msg.m_notify.interrupts\<close>.\<close>

record message =
  receive_error :: int
  is_notify :: bool
  from_hardware :: bool
  interrupts :: "64 word"

text \<open>\<^verbatim>\<open>if (msg.m_notify.interrupts & mask) handler();\<close>\<close>

definition when_irq ::
  "'b::len word \<Rightarrow> u32 \<Rightarrow> (('w, 'a) game_scheme \<Rightarrow> ('w, 'a) game_scheme option) \<Rightarrow> ('w, 'a) game_scheme \<Rightarrow>
   ('w, 'a) game_scheme option" where
  "when_irq irqs m handler s = (if irqs AND ucast m \<noteq> 0 then handler s else Some s)"

definition dispatch :: "'w os \<Rightarrow> 64 word \<Rightarrow> ('w, 'a) game_scheme \<Rightarrow> ('w, 'a) game_scheme option" where
  "dispatch os irqs s =
     do {
       s \<leftarrow> when_irq irqs TIMER_MASK (timer_int os) s;
       s \<leftarrow> when_irq irqs KEYBOARD_MASK (keyboard_int os) s;
       s \<leftarrow> when_irq irqs MOUSE_MASK (mouse_int os) s;
       s \<leftarrow> when_irq irqs RTC_MASK (\<lambda>s. Some (rtc_int os s)) s;
       when_irq irqs SPMASK (sp_int os) s
     }"

definition main_step :: "'w os \<Rightarrow> message \<Rightarrow> ('w, 'a) game_scheme \<Rightarrow> ('w, 'a) game_scheme option" where
  "main_step os msg s =
     (if receive_error msg \<noteq> 0 then Some s
      else if is_notify msg \<and> from_hardware msg then dispatch os (interrupts msg) s
      else Some s)"

text \<open>The loop over the messages that arrive; with none left it waits in \<^verbatim>\<open>driver_receive\<close>.\<close>

fun main_loop :: "'w os \<Rightarrow> message list \<Rightarrow> ('w, 'a) game_scheme \<Rightarrow> ('w, 'a) game_scheme option" where
  "main_loop os [] s = Some s"
| "main_loop os (msg # msgs) s =
     (if mainState s = STOP then Some s else do { s \<leftarrow> main_step os msg s; main_loop os msgs s })"

text \<open>The result is \<open>None\<close> while the loop waits for the next message.\<close>

definition proj_main_loop :: "'w os \<Rightarrow> message list \<Rightarrow> ('w, 'a) game_scheme \<Rightarrow> (int option \<times> ('w, 'a) game_scheme) option" where
  "proj_main_loop os msgs s =
     do {
       (r, s) \<leftarrow> init os s;
       if r \<noteq> 0 then Some (Some 1, s)
       else do {
         s \<leftarrow> main_loop os msgs s;
         if mainState s \<noteq> STOP then Some (None, s)
         else do { (r, s) \<leftarrow> finalize os s; Some (Some (if r \<noteq> 0 then 1 else 0), s) }
       }
     }"

section \<open>Start-up\<close>

lemma assigned_buttons:
  fixes b :: nat
  assumes "dom (heap s) = {b ..< b + 52}" and "0 < b"
  shows "buttons_ok (assign_sprites [b ..< b + 52] s)"
proof -
  have "NULL \<notin> {b ..< b + 52}" using assms(2) by simp
  moreover have "buttons_menu_unselected (assign_sprites ps s) = [ps ! 1, ps ! 47, ps ! 46]"
    "buttons_menu_selected (assign_sprites ps s) = [ps ! 2, ps ! 48, ps ! 49]"
    "buttons_winlose_selected (assign_sprites ps s) = [ps ! 44, ps ! 50]"
    "buttons_winlose_unselected (assign_sprites ps s) = [ps ! 45, ps ! 51]" for ps
    by (simp_all add: assign_sprites_def)
  ultimately show ?thesis using assms(1) assigned_list [of b s]
    by (simp add: buttons_ok_def assigned_frame(1)) (simp add: assign_sprites_def)
qed

lemma assigned_devices: "devices_ok (assign_sprites ps s) = devices_ok s"
  by (simp add: devices_ok_def assign_sprites_def)

text \<open>The first button of either menu is highlighted.\<close>

definition menus_lit :: "('w, 'a) game_scheme \<Rightarrow> bool" where
  "menus_lit s \<longleftrightarrow> menu_lit buttons_menu_unselected buttons_menu_selected 3 s \<and>
     menu_lit buttons_winlose_unselected buttons_winlose_selected 2 s"

lemma menus_lit_same:
  assumes "buttons_ok s" and "\<And>p. p \<in> fixed_ptrs s \<Longrightarrow> deref (heap s') p = deref (heap s) p"
    and "buttons_of s' = buttons_of s" and "option_index s' = option_index s" and "menus_lit s"
  shows "menus_lit s'"
proof -
  have e: "buttons_menu_unselected s' = buttons_menu_unselected s" "buttons_menu_selected s' = buttons_menu_selected s"
    "buttons_winlose_unselected s' = buttons_winlose_unselected s" "buttons_winlose_selected s' = buttons_winlose_selected s"
    using assms(3) by (simp_all add: buttons_of_def)
  have "\<forall>p\<in>set (buttons_menu_unselected s) \<union> set (buttons_menu_selected s). deref (heap s') p = deref (heap s) p"
    "\<forall>p\<in>set (buttons_winlose_unselected s) \<union> set (buttons_winlose_selected s). deref (heap s') p = deref (heap s) p"
    using buttons_arrays(5-8) [OF assms(1)] assms(2) by blast+
  then show ?thesis using assms(4,5) by (simp add: menus_lit_def menu_lit_def highlighted_def e)
qed

lemma draw_keeps_lit:
  assumes ok: "game_ok s" and ld: "xpm_loads os" and fit: "scores_fit s" and d: "draw_frame os s = Some s'"
    and "menus_lit s"
  shows "menus_lit s'"
proof -
  have "stays s s'" using stays_draw [OF ok ld fit] d by (simp add: returns_def)
  then show ?thesis
    using draw_frame_draws(2) [OF ok ld fit d] ok assms(5) staysD(3) [of s s']
    by (intro menus_lit_same [of s s']) (simp_all add: game_ok_def stays_def ctl_of_def)
qed

lemma loader_specs_buttons:
  "snd (snd (snd (loader_specs ! 1)))" "snd (snd (snd (loader_specs ! 2)))" "snd (snd (snd (loader_specs ! 44)))"
  "snd (snd (snd (loader_specs ! 45)))"
  "\<forall>i\<in>{46, 47, 48, 49, 50, 51}. \<not> snd (snd (snd (loader_specs ! i)))"
  by (simp_all add: loader_specs_def nth_append)

lemma loaded_selected:
  assumes "loaded_heap b h" and "i < 52"
  shows "\<exists>o1. deref h (b + i) = Some o1 \<and> (selected o1 \<longleftrightarrow> snd (snd (snd (loader_specs ! i))))"
proof -
  obtain o1 where "deref h (b + i) = Some o1" "loaded_as (loader_specs ! i) o1" by (rule loaded_sprite [OF assms])
  then show ?thesis by (cases "loader_specs ! i") (auto simp: loaded_as_def)
qed

lemma loaded_menus_lit:
  assumes "loaded_heap b (heap s)" and "option_index s = 0"
  shows "menus_lit (assign_sprites [b ..< b + 52] s)"
proof -
  note l = loaded_selected [OF assms(1)]
  have "option_index (assign_sprites [b ..< b + 52] s) = 0" using assms(2) by (simp add: assign_sprites_def)
  then show ?thesis
    using l [of 1] l [of 2] l [of 44] l [of 45] l [of 46] l [of 47] l [of 48] l [of 49] l [of 50] l [of 51] loader_specs_buttons
    by (simp add: menus_lit_def menu_lit_def highlighted_def assigned_ptrs assigned_frame(1))
qed

lemma loaded_game_ok:
  assumes "malloc_total os" and "xpm_loads os" and "store_ok s" and "framebuf s buf" and "images_ok s"
    and "h_res s = 1152" and "v_res s = 864" and "bytes_per_pixel s = 4"
    and "devices_ok s" and "dom (heap s) = {}"
    and "option_index s = 0"
  obtains s' where "loader_sprite os s = Some s'" "game_ok s'" "ctl_of s' = ctl_of s" "inQueue s' = inQueue s" "menus_lit s'"
proof -
  obtain w h where l: "loader_sprite os s =
      Some (assign_sprites [brk s ..< brk s + 52] (s\<lparr>world := w, brk := brk s + 52, heap := h\<rparr>))"
    "screen_ok (assign_sprites [brk s ..< brk s + 52] (s\<lparr>world := w, brk := brk s + 52, heap := h\<rparr>))"
    "arena_ok (assign_sprites [brk s ..< brk s + 52] (s\<lparr>world := w, brk := brk s + 52, heap := h\<rparr>))"
    "objects_in_area (assign_sprites [brk s ..< brk s + 52] (s\<lparr>world := w, brk := brk s + 52, heap := h\<rparr>))"
    "dom h = dom (heap s) \<union> {brk s ..< brk s + 52}" "loaded_heap (brk s) h"
    using loader_makes_ready [OF assms(1-8)] by blast
  let ?s' = "assign_sprites [brk s ..< brk s + 52] (s\<lparr>world := w, brk := brk s + 52, heap := h\<rparr>)"
  have "0 < brk s" using assms(3) by (simp add: store_ok_def)
  then have "buttons_ok ?s'" using l(5) assms(10) by (intro assigned_buttons) simp_all
  moreover have "devices_ok ?s'" unfolding assigned_devices using assms(9) by (simp add: devices_ok_def)
  moreover have "mouse ?s' \<noteq> ball ?s'" by (simp add: assigned_ptrs)
  ultimately have "game_ok ?s'" using l(2-4) by (simp add: game_ok_def ready_def)
  moreover have "ctl_of ?s' = ctl_of s" "inQueue ?s' = inQueue s" by (simp_all add: ctl_of_def assign_sprites_def)
  moreover have "menus_lit ?s'" using l(6) assms(11) by (intro loaded_menus_lit) simp_all
  ultimately show thesis using that l(1) by blast
qed

text \<open>
  A machine on which start-up succeeds: the video calls work and the mode \<^verbatim>\<open>0x14C\<close> is 1152 by 864
  with 32 bits per pixel, memory lasts, the pixmaps load, ports can be read and written, interrupt
  lines can be subscribed, and the mouse acknowledges its command at some attempt.
\<close>

definition machine_up :: "'w os \<Rightarrow> bool" where
  "machine_up os \<longleftrightarrow> video_up os \<and> malloc_sized os \<and> malloc_total os \<and> xpm_loads os \<and>
     (\<forall>w. \<exists>vmi w'. vbe_get_mode_info os 0x14C w = ((0, vmi), w') \<and>
        XResolution vmi = 1152 \<and> YResolution vmi = 864 \<and> BitsPerPixel vmi = 32) \<and>
     (\<forall>port w. fst (fst (sys_inb os port w)) = 0) \<and> (\<forall>port v w. fst (sys_outb os port v w) = 0) \<and>
     (\<forall>irq pol hook w. fst (fst (sys_irqsetpolicy os irq pol hook w)) = 0) \<and>
     (\<forall>w. \<exists>n w'. cmd_attempts os ENBL_DATA_REPORTING n w = (0, w'))"

text \<open>Between the video driver and the loader: nothing is loaded yet, the queue is empty.\<close>

definition booting :: "('w, 'a) game_scheme \<Rightarrow> bool" where
  "booting s \<longleftrightarrow> store_ok s \<and> (\<exists>buf. framebuf s buf) \<and> images_ok s \<and> h_res s = 1152 \<and> v_res s = 864 \<and>
     bytes_per_pixel s = 4 \<and> dom (heap s) = {} \<and> devices_ok s \<and> rx_bytes (inQueue s) = [] \<and>
     mainState s = MAIN_MENU \<and> option_index s = 0 \<and> player_1_score s = 0 \<and> player_2_score s = 0"

lemma booting_frame [simp]:
  "booting (s\<lparr>world := w\<rparr>) = booting s" "booting (s\<lparr>timer_dev := td\<rparr>) = booting s"
  "booting (s\<lparr>keyboard_dev := k\<rparr>) = booting s" "booting (s\<lparr>mouse_dev := m\<rparr>) = booting s"
  "booting (s\<lparr>rtc_hook_id := h\<rparr>) = booting s" "booting (s\<lparr>sp_hook_id := h\<rparr>) = booting s"
  by (simp_all add: booting_def store_ok_def framebuf_def images_ok_def devices_ok_def)

lemma returns_check:
  assumes "returns m (\<lambda>(r, s). r = 0 \<and> Q s)" and "\<And>s. Q s \<Longrightarrow> returns (f s) P"
  shows "returns (check m f) P"
  using assms by (auto simp: returns_def check_def)

lemma irq_ok:
  assumes "machine_up os"
  obtains h' w' where "sys_irqsetpolicy os irq pol h w = ((0, h'), w')"
  using assms unfolding machine_up_def by (metis prod.collapse)

lemma booting_calls:
  assumes up: "machine_up os" and b: "booting s"
  shows "returns (on_timer (timer_subscribe_interrupt os) s) (\<lambda>(r, s). r = 0 \<and> booting s)"
    and "returns (on_keyboard (keyboard_subscribe_int os) s) (\<lambda>(r, s). r = 0 \<and> booting s)"
    and "returns (on_mouse (mouse_subscribe_int os) s) (\<lambda>(r, s). r = 0 \<and> booting s)"
    and "returns (on_rtc (rtc_subscribe os) s) (\<lambda>(r, s). r = 0 \<and> booting s)"
    and "returns (on_sp (sp_subscribe_int os) s) (\<lambda>(r, s). r = 0 \<and> booting s)"
    and "returns (on_world (mouse_enable_reporting os) s) (\<lambda>(r, s). r = 0 \<and> booting s)"
proof -
  show "returns (on_timer (timer_subscribe_interrupt os) s) (\<lambda>(r, s). r = 0 \<and> booting s)"
    using b by (rule_tac irq_ok [OF up, of TIMER0_IRQ IRQ_REENABLE "hook_id (timer_dev s)" "world s"])
      (simp add: on_timer_def timer_subscribe_interrupt_def)
  show "returns (on_keyboard (keyboard_subscribe_int os) s) (\<lambda>(r, s). r = 0 \<and> booting s)"
    using b by (rule_tac irq_ok [OF up, of KEYBOARD1_IRQ "IRQ_REENABLE OR IRQ_EXCLUSIVE" "kbc_hook_id (keyboard_dev s)" "world s"])
      (simp add: on_keyboard_def keyboard_subscribe_int_def)
  show "returns (on_mouse (mouse_subscribe_int os) s) (\<lambda>(r, s). r = 0 \<and> booting s)"
    using b by (rule_tac irq_ok [OF up, of MOUSE12_IRQ "IRQ_REENABLE OR IRQ_EXCLUSIVE" "mouse_hook_id (mouse_dev s)" "world s"])
      (simp add: on_mouse_def mouse_subscribe_int_def)
  show "returns (on_rtc (rtc_subscribe os) s) (\<lambda>(r, s). r = 0 \<and> booting s)"
    using b by (rule_tac irq_ok [OF up, of IRQ_RTC "IRQ_REENABLE OR IRQ_EXCLUSIVE" "rtc_hook_id s" "world s"])
      (simp add: on_rtc_def rtc_subscribe_def)
  show "returns (on_sp (sp_subscribe_int os) s) (\<lambda>(r, s). r = 0 \<and> booting s)"
    using b by (rule_tac irq_ok [OF up, of SP_INTLINE "IRQ_REENABLE OR IRQ_EXCLUSIVE" "sp_hook_id s" "world s"])
      (simp add: on_sp_def sp_subscribe_int_def)
  obtain n w' where "cmd_attempts os ENBL_DATA_REPORTING n (world s) = (0, w')"
    using up unfolding machine_up_def by blast
  from retry_mouse_cmd_Some [OF this]
  show "returns (on_world (mouse_enable_reporting os) s) (\<lambda>(r, s). r = 0 \<and> booting s)"
    using b by (simp add: on_world_def mouse_enable_reporting_def)
qed

lemma start_serial_booting:
  assumes up: "machine_up os"
    and b: "booting (s\<lparr>inQueue := Some fresh_queue\<rparr>)"
  shows "returns (start_serial os s) (\<lambda>(r, s). r = 0 \<and> booting s)"
proof -
  have ports: "fst (fst (sys_inb os p w)) = 0" "fst (sys_outb os p v w) = 0" for p v w
    using up by (simp_all add: machine_up_def)
  obtain r q' w' where i: "serialPort_init os (inQueue s) (world s) = Some (r, q', w')"
    "r = 0 \<and> rx_ok q' \<and> rx_bytes q' = [] \<or> r = 1 \<and> q' = inQueue s"
    using serialPort_init_total [of os "inQueue s" "world s"] up unfolding machine_up_def by blast
  have "r = 0"
  proof (cases rule: util_sys_inb_cases [of os "BASE_ADDR_COM1 + IER" 0 "world s"])
    case (fail w1)
    then show ?thesis using ports(1) [of "BASE_ADDR_COM1 + IER" "world s"]
      by (auto simp: util_sys_inb_def split: prod.splits if_splits)
  next
    case (ok v w1)
    then show ?thesis using i(1) ports(2)
      by (auto simp: serialPort_init_def split: prod.splits if_splits dest!: bind_SomeD) (metis fst_conv)
  qed
  then have "booting (s\<lparr>inQueue := q', world := w'\<rparr>)"
    using b i(2) by (auto simp: booting_def store_ok_def framebuf_def images_ok_def devices_ok_def)
  then show ?thesis using i(1) \<open>r = 0\<close> by (simp add: start_serial_def)
qed

lemma init_starts:
  assumes up: "machine_up os"
  shows "returns (init os (game_init w)) (\<lambda>(r, s). r = 0 \<and> game_ok s \<and> mainState s = MAIN_MENU \<and>
    option_index s = 0 \<and> player_1_score s = 0 \<and> player_2_score s = 0 \<and> menus_lit s)"
proof -
  have h: "video_up os" "malloc_sized os" "malloc_total os" "xpm_loads os" using up by (simp_all add: machine_up_def)
  obtain vmi w1 where vmi: "vbe_get_mode_info os 0x14C w = ((0, vmi), w1)" "XResolution vmi = 1152"
    "YResolution vmi = 864" "BitsPerPixel vmi = 32"
    using up unfolding machine_up_def by blast
  have sz: "mode_bytes vmi = 3981312" "mode_bpp vmi = 4" using vmi by (simp_all add: mode_bytes_def mode_bpp_def)
  have v1: "vbe_get_mode_info os 0x14C (world (game_init w)) = ((0, vmi), w1)" using vmi(1) by (simp add: game_init_def)
  obtain m buf w2 where v: "vg_init os 0x14C (game_init w) = Some (Some m, video_mode vmi ((game_init w)\<lparr>world := w2,
      vram_size := of_nat (mode_bytes vmi), main_buffer := Some m, secondary_buffer := Some buf\<rparr>))"
    "length m = mode_bytes vmi" "length buf = mode_bytes vmi"
    by (rule vg_init_up [OF h(1-3) v1]) (simp_all add: sz)
  let ?s = "video_mode vmi ((game_init w)\<lparr>world := w2,
      vram_size := of_nat (mode_bytes vmi), main_buffer := Some m, secondary_buffer := Some buf\<rparr>)"
  have b: "booting (?s\<lparr>inQueue := Some fresh_queue\<rparr>)"
    using v(2,3) sz vmi fresh_queue_ok
    by (simp add: booting_def video_mode_def game_init_def store_ok_def framebuf_def images_ok_def devices_ok_def
        cache_ok_def xpm_image_zero_def two_digits_def)
  have fin: "returns (do { s \<leftarrow> loader_sprite os s; s \<leftarrow> draw_frame os s; Some (0, s) })
      (\<lambda>(r, s). r = 0 \<and> game_ok s \<and> mainState s = MAIN_MENU \<and>
        option_index s = 0 \<and> player_1_score s = 0 \<and> player_2_score s = 0 \<and> menus_lit s)" if b: "booting s" for s :: "'a game"
  proof -
    obtain buf where buf: "store_ok s" "framebuf s buf" "images_ok s" "h_res s = 1152" "v_res s = 864"
      "bytes_per_pixel s = 4" "devices_ok s" "dom (heap s) = {}" "option_index s = 0" using b by (auto simp: booting_def)
    obtain s1 where s1: "loader_sprite os s = Some s1" "game_ok s1" "ctl_of s1 = ctl_of s" "menus_lit s1"
      by (rule loaded_game_ok [OF h(3,4) buf])
    have fit: "scores_fit s1" using s1(3) b by (simp add: scores_fit_def ctl_of_def booting_def)
    obtain s2 where s2: "draw_frame os s1 = Some s2" "stays s1 s2"
      using stays_draw [OF s1(2) h(4) fit] by (auto simp: returns_def)
    have "menus_lit s2" by (rule draw_keeps_lit [OF s1(2) h(4) fit s2(1) s1(4)])
    then show ?thesis using s1 s2 b by (auto simp: returns_def stays_def ctl_of_def booting_def)
  qed
  show ?thesis unfolding init_def
    using v(1) by (auto intro!: returns_check [OF start_serial_booting [OF up b]]
        returns_check [OF booting_calls(1) [OF up]] returns_check [OF booting_calls(2) [OF up]]
        returns_check [OF booting_calls(3) [OF up]] returns_check [OF booting_calls(4) [OF up]]
        returns_check [OF booting_calls(5) [OF up]] returns_check [OF booting_calls(6) [OF up]] fin)
qed

section \<open>The loop is safe\<close>

text \<open>
  What the handlers count on of the platform while the program runs: the pixmaps load, the clock
  frequency is not zero, the receiver's backlog is finite, and the real-time clock shows decimal digits.
\<close>

definition platform_runs :: "'w os \<Rightarrow> ('w \<Rightarrow> nat) \<Rightarrow> bool" where
  "platform_runs os pending \<longleftrightarrow> xpm_loads os \<and> sys_hz os \<noteq> 0 \<and> uart_finite os pending \<and> bcd_clock os"

text \<open>
  The limits the code itself does not keep: the selected button, which the two menus share, is one of
  the current screen, and a score has not come close to two digits.
\<close>

definition limits :: "('w, 'a) game_scheme \<Rightarrow> bool" where
  "limits s \<longleftrightarrow> 0 \<le> option_index s \<and>
     (mainState s = MAIN_MENU \<longrightarrow> option_index s < 3) \<and>
     (mainState s \<in> {GAME, WIN, LOST, TIE} \<longrightarrow> option_index s < 2) \<and>
     player_1_score s < 9 \<and> player_2_score s < 9"

lemma returns_when: "P s \<Longrightarrow> returns (h s) P \<Longrightarrow> returns (when_irq irqs m h s) P"
  by (simp add: when_irq_def)

definition follows :: "MainStateMachine \<Rightarrow> MainStateMachine \<Rightarrow> bool" where
  "follows = transition\<^sup>*\<^sup>*"

lemma follows_refl [simp]: "follows m m"
  by (simp add: follows_def)

lemma follows_edge: "follows m m' \<Longrightarrow> edge m' m'' \<Longrightarrow> follows m m''"
  unfolding follows_def edge_def by (auto intro: rtranclp.rtrancl_into_rtrancl)

lemma follows_trans: "follows m m' \<Longrightarrow> follows m' m'' \<Longrightarrow> follows m m''"
  unfolding follows_def by (rule rtranclp_trans)

lemma dispatch_returns:
  assumes pf: "platform_runs os pending" and ok: "game_ok s" and lim: "limits s"
  shows "returns (dispatch os irqs s) (\<lambda>s'. game_ok s' \<and> follows (mainState s) (mainState s'))"
proof -
  have ld: "xpm_loads os" and hz: "sys_hz os \<noteq> 0" and fin: "uart_finite os pending" and rtc: "bcd_clock os"
    using pf by (simp_all add: platform_runs_def)
  let ?G = "\<lambda>s'. game_ok s' \<and> follows (mainState s) (mainState s')"
  let ?T = "\<lambda>s1. ?G s1 \<and> index_ok s1 \<and> player_1_score s1 < 10 \<and> player_2_score s1 < 10"
  have t: "returns (when_irq irqs TIMER_MASK (timer_int os) s) ?T"
  proof (rule returns_when)
    show "?T s" using ok lim by (auto simp: limits_def index_ok_def menu_size_def split: MainStateMachine.splits)
    show "returns (timer_int os s) ?T"
    proof (rule returns_mono [OF timer_int_returns [OF ok ld hz]])
      fix s1 assume s1: "ticks os (s\<lparr>timer_dev := timer_int_handler (timer_dev s)\<rparr>) s1"
      from ticks_edge [OF this] have e: "ends_match (mainState s) (mainState s1)" by simp
      have o: "option_index s1 = option_index s" using s1 by (simp add: ticks_def)
      have "index_ok s1" using e lim o
        by (auto simp: limits_def index_ok_def menu_size_def ends_match_def split: MainStateMachine.splits)
      moreover have "follows (mainState s) (mainState s1)" by (rule follows_edge [OF follows_refl edge_ends [OF e]])
      ultimately show "?T s1" using s1 lim by (auto simp: ticks_def limits_def)
    qed (use lim in \<open>simp add: limits_def\<close>)
  qed
  have k: "returns (when_irq irqs KEYBOARD_MASK (keyboard_int os) s1) ?G" if s1: "?T s1" for s1
  proof (rule returns_when)
    have g: "game_ok s1" "index_ok s1" "player_1_score s1 < 10" "player_2_score s1 < 10" using s1 by simp_all
    show "returns (keyboard_int os s1) ?G"
      by (rule returns_mono [OF keyboard_int_returns [OF g(1) ld hz g(2-4)]])
        (use s1 in \<open>auto simp: reacts_def intro: follows_edge\<close>)
  qed (use s1 in simp)
  have m: "returns (when_irq irqs MOUSE_MASK (mouse_int os) s1) ?G" if s1: "?G s1" for s1
    by (intro returns_when returns_mono [OF stays_mouse_int]) (use s1 in \<open>auto dest: staysD\<close>)
  have r: "returns (when_irq irqs RTC_MASK (\<lambda>s. Some (rtc_int os s)) s1) ?G" if s1: "?G s1" for s1
    by (rule returns_when) (use s1 staysD [OF rtc_int_returns [of s1, OF _ rtc]] in auto)
  have p: "returns (when_irq irqs SPMASK (sp_int os) s1) ?G" if s1: "?G s1" for s1
    by (intro returns_when returns_mono [OF sp_int_returns [OF fin ld hz]])
      (use s1 in \<open>auto simp: reacts_def intro: follows_edge\<close>)
  show ?thesis unfolding dispatch_def
    by (rule returns_bind [OF t], erule returns_bind [OF k], erule returns_bind [OF m],
        erule returns_bind [OF r], erule p)
qed

lemma main_loop_append:
  "main_loop os (ms @ [m]) s = do { s \<leftarrow> main_loop os ms s; if mainState s = STOP then Some s else main_step os m s }"
proof (induction ms arbitrary: s)
  case Nil
  show ?case by (cases "main_step os m s") auto
next
  case (Cons a ms)
  show ?case
  proof (cases "mainState s = STOP")
    case False
    then show ?thesis using Cons.IH by (cases "main_step os a s") auto
  qed simp
qed

lemma main_loop_returns:
  assumes pf: "platform_runs os pending" and ok: "game_ok s"
    and lim: "\<And>ms1 ms2 s1. msgs = ms1 @ ms2 \<Longrightarrow> main_loop os ms1 s = Some s1 \<Longrightarrow> limits s1"
  shows "returns (main_loop os msgs s) (\<lambda>s'. game_ok s' \<and> follows (mainState s) (mainState s'))"
  using lim
proof (induction msgs rule: rev_induct)
  case Nil
  then show ?case using ok by simp
next
  case (snoc m ms)
  have l: "limits s1" if "ms = ms1 @ ms2" "main_loop os ms1 s = Some s1" for ms1 ms2 s1
    using snoc.prems [of ms1 "ms2 @ [m]" s1] that by simp
  then have r: "returns (main_loop os ms s) (\<lambda>s'. game_ok s' \<and> follows (mainState s) (mainState s'))" by (rule snoc.IH)
  then obtain s1 where s1: "main_loop os ms s = Some s1" "game_ok s1" "follows (mainState s) (mainState s1)"
    by (auto simp: returns_def)
  have "limits s1" using l [of ms "[]"] s1(1) by simp
  from dispatch_returns [OF pf s1(2) this, of "interrupts m"]
  have "returns (main_step os m s1) (\<lambda>s'. game_ok s' \<and> follows (mainState s1) (mainState s'))"
    using s1(2) by (simp add: main_step_def)
  then show ?case using s1 follows_trans [OF s1(3)] by (auto simp: main_loop_append returns_def)
qed

section \<open>The end of the program\<close>

text \<open>A machine on which tear-down succeeds.\<close>

definition machine_down :: "'w os \<Rightarrow> bool" where
  "machine_down os \<longleftrightarrow> (\<forall>w. fst (vg_exit os w) = 0) \<and> (\<forall>hook w. fst (fst (sys_irqrmpolicy os hook w)) = 0) \<and>
     (\<forall>w. \<exists>n w'. cmd_attempts os DSABL_DATA_REPORTING n w = (0, w'))"

text \<open>What tear-down reads, up to the deletion of the sprites.\<close>

definition closing :: "('w, 'a) game_scheme \<Rightarrow> ('w, 'a) game_scheme \<Rightarrow> bool" where
  "closing s s' \<longleftrightarrow> heap s' = heap s \<and> sprite_list s' = sprite_list s \<and> inQueue s' = inQueue s"

lemma rm_ok:
  assumes "machine_down os"
  obtains h' w' where "sys_irqrmpolicy os h w = ((0, h'), w')"
  using assms unfolding machine_down_def by (metis prod.collapse)

lemma closing_calls:
  assumes dn: "machine_down os" and b: "closing s0 s"
  shows "returns (on_timer (timer_unsubscribe_interrupt os) s) (\<lambda>(r, s). r = 0 \<and> closing s0 s)"
    and "returns (on_keyboard (keyboard_unsubscribe_int os) s) (\<lambda>(r, s). r = 0 \<and> closing s0 s)"
    and "returns (on_mouse (mouse_unsubscribe_int os) s) (\<lambda>(r, s). r = 0 \<and> closing s0 s)"
    and "returns (on_rtc (rtc_unsubscribe os) s) (\<lambda>(r, s). r = 0 \<and> closing s0 s)"
    and "returns (on_sp (sp_unsubscribe_int os) s) (\<lambda>(r, s). r = 0 \<and> closing s0 s)"
    and "returns (on_world (mouse_disable_reporting os) s) (\<lambda>(r, s). r = 0 \<and> closing s0 s)"
    and "returns (on_world (\<lambda>w. Some (vg_exit os w)) s) (\<lambda>(r, s). r = 0 \<and> closing s0 s)"
proof -
  note c = closing_def sprite_list_def
  show "returns (on_timer (timer_unsubscribe_interrupt os) s) (\<lambda>(r, s). r = 0 \<and> closing s0 s)"
    using b by (rule_tac rm_ok [OF dn, of "hook_id (timer_dev s)" "world s"])
      (simp add: on_timer_def timer_unsubscribe_interrupt_def c)
  show "returns (on_keyboard (keyboard_unsubscribe_int os) s) (\<lambda>(r, s). r = 0 \<and> closing s0 s)"
    using b by (rule_tac rm_ok [OF dn, of "kbc_hook_id (keyboard_dev s)" "world s"])
      (simp add: on_keyboard_def keyboard_unsubscribe_int_def c)
  show "returns (on_mouse (mouse_unsubscribe_int os) s) (\<lambda>(r, s). r = 0 \<and> closing s0 s)"
    using b by (rule_tac rm_ok [OF dn, of "mouse_hook_id (mouse_dev s)" "world s"])
      (simp add: on_mouse_def mouse_unsubscribe_int_def c)
  show "returns (on_rtc (rtc_unsubscribe os) s) (\<lambda>(r, s). r = 0 \<and> closing s0 s)"
    using b by (rule_tac rm_ok [OF dn, of "rtc_hook_id s" "world s"]) (simp add: on_rtc_def rtc_unsubscribe_def c)
  show "returns (on_sp (sp_unsubscribe_int os) s) (\<lambda>(r, s). r = 0 \<and> closing s0 s)"
    using b by (rule_tac rm_ok [OF dn, of "sp_hook_id s" "world s"]) (simp add: on_sp_def sp_unsubscribe_int_def c)
  obtain n w' where "cmd_attempts os DSABL_DATA_REPORTING n (world s) = (0, w')"
    using dn unfolding machine_down_def by blast
  from retry_mouse_cmd_Some [OF this]
  show "returns (on_world (mouse_disable_reporting os) s) (\<lambda>(r, s). r = 0 \<and> closing s0 s)"
    using b by (simp add: on_world_def mouse_disable_reporting_def c)
  obtain w1 where "vg_exit os (world s) = (0, w1)" using dn unfolding machine_down_def by (metis prod.collapse)
  then show "returns (on_world (\<lambda>w. Some (vg_exit os w)) s) (\<lambda>(r, s). r = 0 \<and> closing s0 s)"
    using b by (simp add: on_world_def c)
qed

lemma delete_all_frame:
  assumes "delete_all ps s = Some s'"
  shows "\<exists>h. s' = s\<lparr>heap := h\<rparr>"
  using assms
proof (induction ps arbitrary: s)
  case Nil
  then show ?case by (intro exI [of _ "heap s"]) simp
next
  case (Cons p ps)
  then obtain s1 where s1: "delete_sprite p s = Some s1" "delete_all ps s1 = Some s'" by (auto dest!: bind_SomeD)
  have "\<exists>h1. s1 = s\<lparr>heap := h1\<rparr>"
    using s1(1) by (auto simp: delete_sprite_def split: if_splits dest!: bind_SomeD intro: exI [of _ "heap s"])
  then obtain h1 where "s1 = s\<lparr>heap := h1\<rparr>" by blast
  with Cons.IH [OF s1(2)] show ?case by auto
qed

lemma unload_empties:
  assumes "game_ok s" and "heap s' = heap s" and "sprite_list s' = sprite_list s"
  shows "returns (unloader_sprite s') (\<lambda>s''. heap s'' = Map.empty \<and> inQueue s'' = inQueue s')"
proof -
  have b: "distinct (sprite_list s')" "dom (heap s') = set (sprite_list s')" "NULL \<notin> set (sprite_list s')"
    using assms by (simp_all add: game_ok_def buttons_ok_def)
  have "\<forall>p\<in>set (sprite_list s'). deref (heap s') p \<noteq> None"
    using b(2,3) by (auto simp: deref_def simp flip: domIff)
  from delete_all_spec [OF b(1) this] obtain s'' where
    s'': "delete_all (sprite_list s') s' = Some s''" "heap s'' = heap s' |` (- set (sprite_list s'))" by blast
  have "heap s'' = Map.empty" unfolding s''(2) using b(2) by (auto simp: restrict_map_def fun_eq_iff simp flip: domIff)
  moreover have "inQueue s'' = inQueue s'" using delete_all_frame [OF s''(1)] by auto
  ultimately show ?thesis using s''(1) by (simp add: unloader_sprite_def)
qed

lemma finalize_returns:
  assumes dn: "machine_down os" and ok: "game_ok s"
  shows "returns (finalize os s) (\<lambda>(r, s'). r = 0 \<and> heap s' = Map.empty \<and> inQueue s' = None)"
proof -
  have c: "closing s s" by (simp add: closing_def)
  have fin: "returns (check (stop_serial s1) (\<lambda>s. do { s \<leftarrow> unloader_sprite s; Some (0, s) }))
      (\<lambda>(r, s'). r = 0 \<and> heap s' = Map.empty \<and> inQueue s' = None)" if c1: "closing s s1" for s1
  proof -
    obtain q where q: "inQueue s1 = Some q" using c1 game_ok_rx [OF ok] by (auto simp: closing_def rx_ok_def)
    let ?s = "s1\<lparr>inQueue := None\<rparr>"
    have "returns (unloader_sprite ?s) (\<lambda>s''. heap s'' = Map.empty \<and> inQueue s'' = inQueue ?s)"
      using c1 by (intro unload_empties [OF ok]) (simp_all add: closing_def sprite_list_def)
    then show ?thesis using q
      by (auto simp: returns_def stop_serial_def serialPort_exit_def destroy_queue_def check_def)
  qed
  show ?thesis unfolding finalize_def
    by (intro returns_check [OF closing_calls(7) [OF dn c]] returns_check [OF closing_calls(1) [OF dn]]
        returns_check [OF closing_calls(2) [OF dn]] returns_check [OF closing_calls(3) [OF dn]]
        returns_check [OF closing_calls(6) [OF dn]] returns_check [OF closing_calls(4) [OF dn]]
        returns_check [OF closing_calls(5) [OF dn]] fin)
qed

section \<open>A concrete machine\<close>

text \<open>A quiet machine with the pixmaps: the keyboard controller acknowledges, the clock shows decimal
  digits, and nothing arrives at the serial port.\<close>

definition pc_register :: "nat \<Rightarrow> u32" where
  "pc_register port =
     (if port = KBC_OUT_BUF then 0xFA else if port = KBC_ST_REG then 1 else if port = RTC_DATA_REG then 0x23
      else if port = BASE_ADDR_COM1 + LSR then 0x60 else 0)"

definition pc_os :: "bench os" where
  "pc_os = asset_os\<lparr>sys_inb := (\<lambda>port w. ((0, pc_register port), w))\<rparr>"

lemma pc_os_simps [simp]:
  "sys_inb pc_os port w = ((0, pc_register port), w)"
  "sys_outb pc_os port v w = (0, w\<lparr>writes := writes w @ [(port, v)]\<rparr>)"
  "sys_irqsetpolicy pc_os irq pol hook w = ((0, hook), w)" "sys_irqrmpolicy pc_os hook w = ((0, hook), w)"
  "tickdelay pc_os v w = w" "sys_hz pc_os = 60" "malloc pc_os n w = (Some (replicate n 0), w)"
  "vbe_get_mode_info pc_os m w = ((0, bench_mode), w)" "sys_int86 pc_os r w = (0, w)"
  "sys_privctl_add_mem pc_os b l w = (0, w)" "vm_map_phys pc_os b l w = (Some (replicate (unat l) 0), w)"
  "vg_exit pc_os w = (0, w)"
  by (simp_all add: pc_os_def asset_os_def)

lemma pc_os_loads: "xpm_loads pc_os"
proof -
  have "xpm_load pc_os = xpm_load asset_os" by (simp add: pc_os_def)
  then have "loads_as pc_os = loads_as asset_os" by (intro ext) (simp add: loads_as_def)
  then show ?thesis using asset_os_loads by (simp add: xpm_loads_def)
qed

lemma pc_os_inb:
  "util_sys_inb pc_os KBC_ST_REG (Some c) w = ((0, Some 1), w)"
  "util_sys_inb pc_os KBC_OUT_BUF (Some c) w = ((0, Some 0xFA), w)"
  "util_sys_inb pc_os RTC_DATA_REG (Some c) w = ((0, Some 0x23), w)"
  by (simp_all add: util_sys_inb_def pc_register_def KBC_ST_REG_def KBC_OUT_BUF_def RTC_DATA_REG_def)

lemma pc_os_write:
  "\<exists>w'. kbc_write_cmd pc_os cmd w = (0, w')" "\<exists>w'. kbc_write_argument pc_os cmd w = (0, w')"
proof -
  have n: "KBC_RETRY_CNT = Suc 9" by (simp add: KBC_RETRY_CNT_def)
  have ibf: "(1 :: byte) AND KBC_IBF = 0" by (simp add: KBC_IBF_def BIT_def)
  show "\<exists>w'. kbc_write_cmd pc_os cmd w = (0, w')" "\<exists>w'. kbc_write_argument pc_os cmd w = (0, w')"
    unfolding kbc_write_cmd_def kbc_write_argument_def n kbc_write_cmd_loop.simps kbc_write_argument_loop.simps
    by (simp_all add: pc_os_inb ibf)
qed

lemma pc_os_ack: "\<exists>n w'. cmd_attempts pc_os cmd n w = (0, w')"
proof -
  obtain w1 where w1: "kbc_write_cmd pc_os MOUSE_WRITE_CMD w = (0, w1)" using pc_os_write(1) by blast
  obtain w2 where w2: "kbc_write_argument pc_os cmd w1 = (0, w2)" using pc_os_write(2) by blast
  have e: "KBC_PAR_ERR OR KBC_TO_ERR = 0xC0" by (simp add: KBC_PAR_ERR_def KBC_TO_ERR_def BIT_def)
  have "kbc_read_return pc_os (Some 0) w2 = ((0, Some MOUSE_ACK), w2)"
    unfolding kbc_read_return_def e by (simp add: pc_os_inb MOUSE_ACK_def)
  then have "write_mouse_cmd pc_os cmd w = (0, w2)" using w1 w2 by (simp add: write_mouse_cmd_def)
  then have "cmd_attempts pc_os cmd 1 w = (0, w2)" by simp
  then show ?thesis by blast
qed

lemma pc_os_up: "machine_up pc_os"
  unfolding machine_up_def
  using pc_os_loads pc_os_ack
  by (auto simp: video_up_def malloc_sized_def malloc_total_def bench_mode_def)

lemma pc_os_down: "machine_down pc_os"
  unfolding machine_down_def using pc_os_ack by simp

lemma pc_os_runs: "platform_runs pc_os (\<lambda>_. 0)"
proof -
  have "bcd_clock pc_os"
    unfolding bcd_clock_def rtc_get_config_def by (simp add: pc_os_inb bcd_byte_def)
  moreover have "uart_finite pc_os (\<lambda>_. 0)"
    by (simp add: uart_finite_def pc_register_def hw_consts BASE_ADDR_COM1_def LSR_def RBR_def KBC_OUT_BUF_def
        KBC_ST_REG_def RTC_DATA_REG_def)
  ultimately show ?thesis using pc_os_loads by (simp add: platform_runs_def)
qed

section \<open>Properties\<close>

text \<open>C20 (the program starts): on a machine whose devices work, \<^verbatim>\<open>init\<close> returns 0 from the state of
  the uninitialised globals, and leaves a loaded program in the main menu: every sprite is alive
  and on the screen, the receive queue is empty and well-formed, the scores are zero.\<close>

theorem program_starts:
  assumes "machine_up os"
  shows "\<exists>s. init os (game_init w) = Some (0, s) \<and> game_ok s \<and> mainState s = MAIN_MENU \<and> option_index s = 0 \<and>
    player_1_score s = 0 \<and> player_2_score s = 0 \<and> menus_lit s"
  using init_starts [OF assms, of w] by (auto simp: returns_def)

theorem program_starts_witness:
  "\<exists>s. init pc_os (game_init \<lparr>replies = [], writes = []\<rparr>) = Some (0, s) \<and> game_ok s \<and> mainState s = MAIN_MENU"
  using program_starts [OF pc_os_up, of "\<lparr>replies = [], writes = []\<rparr>"] by blast


text \<open>The first timer interrupt: because \<^verbatim>\<open>RTC_MASK\<close> is 5, it also runs the handler of the clock.\<close>

definition tick_message :: message where
  "tick_message = \<lparr>receive_error = 0, is_notify = True, from_hardware = True, interrupts = 1\<rparr>"

lemma tick_limits:
  assumes "game_ok s" and "mainState s = MAIN_MENU" and "option_index s = 0" and "player_1_score s = 0"
    and "player_2_score s = 0" and "main_step pc_os tick_message s = Some s1"
  shows "limits s1"
proof -
  obtain s2 where s2: "timer_int pc_os s = Some s2" "ticks pc_os (s\<lparr>timer_dev := timer_int_handler (timer_dev s)\<rparr>) s2"
    using timer_int_returns [OF assms(1) pc_os_loads] assms(2) by (auto simp: returns_def)
  have irq: "(1 :: 64 word) AND ucast TIMER_MASK \<noteq> 0" "(1 :: 64 word) AND ucast KEYBOARD_MASK = 0"
    "(1 :: 64 word) AND ucast MOUSE_MASK = 0" "(1 :: 64 word) AND ucast RTC_MASK \<noteq> 0" "(1 :: 64 word) AND ucast SPMASK = 0"
    by (simp_all add: TIMER_MASK_def TIMER0_IRQ_def KEYBOARD_MASK_def KEYBOARD1_IRQ_def MOUSE_MASK_def RTC_MASK_def SPMASK_def BIT_def)
  have "game_ok s2" using s2(2) by (simp add: ticks_def)
  from rtc_int_returns [OF this, of pc_os] have "stays s2 (rtc_int pc_os s2)"
    using pc_os_runs by (simp add: platform_runs_def)
  moreover have "s1 = rtc_int pc_os s2"
    using assms(6) s2(1) irq by (simp add: main_step_def tick_message_def dispatch_def when_irq_def)
  ultimately show ?thesis using s2(2) assms(2-5) by (auto simp: limits_def ticks_def match_clock_def stays_def ctl_of_def)
qed

lemma tick_run_limits:
  assumes "game_ok s" and "mainState s = MAIN_MENU" and "option_index s = 0" and "player_1_score s = 0"
    and "player_2_score s = 0" and "[tick_message] = ms1 @ ms2" and "main_loop pc_os ms1 s = Some s1"
  shows "limits s1"
proof (cases ms1)
  case Nil
  then show ?thesis using assms(2-5,7) by (simp add: limits_def)
next
  case (Cons m ms)
  then have "ms1 = [tick_message]" using assms(6) by simp
  then have "main_step pc_os tick_message s = Some s1" using assms(2,7) by (simp add: bind_eq_Some_conv)
  then show ?thesis by (rule tick_limits [OF assms(1-5)])
qed


text \<open>C19 (tear-down): from every state the loop can leave behind, \<^verbatim>\<open>finalize\<close> on a working machine
  returns 0; it frees every sprite exactly once, no sprite is left in the heap, and the receive queue is
  destroyed.\<close>

theorem finalize_frees:
  assumes "machine_down os" and "game_ok s"
  shows "\<exists>s'. finalize os s = Some (0, s') \<and> heap s' = Map.empty \<and> inQueue s' = None"
  using finalize_returns [OF assms] by (auto simp: returns_def)

theorem finalize_frees_witness:
  "\<exists>s s'. init pc_os (game_init \<lparr>replies = [], writes = []\<rparr>) = Some (0, s) \<and> finalize pc_os s = Some (0, s') \<and>
     heap s' = Map.empty"
proof -
  obtain s where s: "init pc_os (game_init \<lparr>replies = [], writes = []\<rparr>) = Some (0, s)" "game_ok s"
    using init_starts [OF pc_os_up, of "\<lparr>replies = [], writes = []\<rparr>"] by (auto simp: returns_def)
  from finalize_frees [OF pc_os_down s(2)] s(1) show ?thesis by blast
qed

lemma program_end:
  assumes "machine_down os" and "init os (game_init w) = Some (0, s0)" and "main_loop os msgs s0 = Some s1" and "game_ok s1"
  shows "if mainState s1 = STOP
    then \<exists>s'. proj_main_loop os msgs (game_init w) = Some (Some 0, s') \<and> heap s' = Map.empty \<and> inQueue s' = None
    else proj_main_loop os msgs (game_init w) = Some (None, s1)"
proof (cases "mainState s1 = STOP")
  case True
  obtain s2 where "finalize os s1 = Some (0, s2)" "heap s2 = Map.empty" "inQueue s2 = None"
    using finalize_returns [OF assms(1,4)] by (auto simp: returns_def)
  then show ?thesis using assms(2,3) True by (simp add: proj_main_loop_def)
qed (use assms(2,3) in \<open>simp add: proj_main_loop_def\<close>)

text \<open>C1 (the whole program): on a machine that works, for every sequence of messages whose states
  stay within the limits, the program starts, handles all messages, and either waits for the next one in
  a good state, or was stopped and has returned 0 with every sprite freed.\<close>

theorem program_runs:
  assumes "machine_up os" and "machine_down os" and "platform_runs os pending"
    and "\<forall>s0 ms1 ms2 s1. init os (game_init w) = Some (0, s0) \<and> msgs = ms1 @ ms2 \<and> main_loop os ms1 s0 = Some s1 \<longrightarrow> limits s1"
  shows "\<exists>r s'. proj_main_loop os msgs (game_init w) = Some (r, s') \<and>
    (r = None \<and> game_ok s' \<and> mainState s' \<noteq> STOP \<or> r = Some 0 \<and> heap s' = Map.empty \<and> inQueue s' = None)"
proof -
  obtain s0 where s0: "init os (game_init w) = Some (0, s0)" "game_ok s0"
    using init_starts [OF assms(1), of w] by (auto simp: returns_def)
  obtain s1 where s1: "main_loop os msgs s0 = Some s1" "game_ok s1"
    using main_loop_returns [OF assms(3) s0(2), of msgs] assms(4) s0(1) by (auto simp: returns_def)
  show ?thesis using program_end [OF assms(2) s0(1) s1] s1(2) by (auto split: if_splits)
qed

theorem program_runs_witness:
  "\<exists>r s'. proj_main_loop pc_os [tick_message] (game_init \<lparr>replies = [], writes = []\<rparr>) = Some (r, s') \<and>
     (r = None \<and> game_ok s' \<and> mainState s' \<noteq> STOP \<or> r = Some 0 \<and> heap s' = Map.empty \<and> inQueue s' = None)"
proof (rule program_runs [OF pc_os_up pc_os_down pc_os_runs], intro allI impI)
  fix s0 :: "bench game" and ms1 ms2 s1
  assume h: "init pc_os (game_init \<lparr>replies = [], writes = []\<rparr>) = Some (0, s0) \<and> [tick_message] = ms1 @ ms2 \<and>
      main_loop pc_os ms1 s0 = Some s1"
  moreover have "game_ok s0" "mainState s0 = MAIN_MENU" "option_index s0 = 0" "player_1_score s0 = 0" "player_2_score s0 = 0"
    using init_starts [OF pc_os_up, of "\<lparr>replies = [], writes = []\<rparr>"] h by (auto simp: returns_def)
  ultimately show "limits s1" using tick_run_limits by blast
qed

end
