(* ===== verification/Parts.thy ===== *)
theory Parts
  imports Project
begin

text \<open>
  The runs of the handlers, taken apart for the proofs that follow one: what a move can alter, the steps of a
  timer interrupt during a match, and the bytes of a mouse packet.
\<close>

section \<open>What the objects of the table leave alone\<close>

text \<open>\<open>s'\<close> differs from \<open>s\<close> in the sprites of \<open>A\<close>, the scores and the device world only.\<close>

definition alters :: "ptr set \<Rightarrow> ('w, 'a) arena_scheme \<Rightarrow> ('w, 'a) arena_scheme \<Rightarrow> bool" where
  "alters A s s' \<longleftrightarrow> (\<exists>h w a b. s' = s\<lparr>heap := h, world := w, player_1_score := a, player_2_score := b\<rparr> \<and>
     (\<forall>q. q \<notin> A \<longrightarrow> h q = heap s q))"

lemma altersI:
  "s' = s\<lparr>heap := h, world := w, player_1_score := a, player_2_score := b\<rparr> \<Longrightarrow> (\<And>q. q \<notin> A \<Longrightarrow> h q = heap s q) \<Longrightarrow> alters A s s'"
  unfolding alters_def by blast

lemma alters_refl [simp]: "alters A s s"
  by (rule altersI [where h = "heap s" and w = "world s" and a = "player_1_score s" and b = "player_2_score s"]) simp_all

lemma alters_fields:
  assumes "alters A s s'"
  shows "ball s' = ball s" "redpuck s' = redpuck s" "bluepuck s' = bluepuck s" "is_main_pc s' = is_main_pc s"
  using assms by (auto simp: alters_def)

lemma alters_heap: "alters A s s' \<Longrightarrow> q \<notin> A \<Longrightarrow> heap s' q = heap s q"
  by (auto simp: alters_def)

lemma alters_trans [trans]:
  assumes "alters A s s1" and "alters A s1 s2"
  shows "alters A s s2"
proof -
  obtain h w a b where 1: "s1 = s\<lparr>heap := h, world := w, player_1_score := a, player_2_score := b\<rparr>" "\<And>q. q \<notin> A \<Longrightarrow> h q = heap s q"
    using assms(1) by (auto simp: alters_def)
  obtain h2 w2 a2 b2 where 2: "s2 = s1\<lparr>heap := h2, world := w2, player_1_score := a2, player_2_score := b2\<rparr>"
    "\<And>q. q \<notin> A \<Longrightarrow> h2 q = heap s1 q"
    using assms(2) by (auto simp: alters_def)
  have "s2 = s\<lparr>heap := h2, world := w2, player_1_score := a2, player_2_score := b2\<rparr>" unfolding 2(1) 1(1) by simp
  then show ?thesis by (rule altersI) (use 1 2(2) in simp)
qed

lemma alters_sprite:
  assumes "update_sprite p f s = Some s'" and "p \<in> A"
  shows "alters A s s'"
proof -
  obtain o1 where "s' = s\<lparr>heap := (heap s)(p \<mapsto> f o1)\<rparr>" using assms(1) by (auto simp: update_sprite_def dest!: bind_SomeD)
  then show ?thesis
    by (intro altersI [where h = "heap s'" and w = "world s" and a = "player_1_score s" and b = "player_2_score s"]) (use assms(2) in auto)
qed

lemma alters_upd: "p \<in> A \<Longrightarrow> alters A s (s\<lparr>heap := (heap s)(p \<mapsto> o1)\<rparr>)"
  by (rule altersI [where h = "(heap s)(p \<mapsto> o1)" and w = "world s" and a = "player_1_score s" and b = "player_2_score s"]) auto

lemma alters_world: "alters A s (s\<lparr>world := w\<rparr>)"
  by (rule altersI [where h = "heap s" and w = w and a = "player_1_score s" and b = "player_2_score s"]) simp_all

lemma alters_goal:
  assumes "detect_goal_collision o1 nx ny s = (g, s')"
  shows "alters A s s'"
proof -
  have "s' = s\<lparr>player_1_score := player_1_score s', player_2_score := player_2_score s'\<rparr>"
    using assms by (auto simp: detect_goal_collision_def Let_def split: if_splits)
  then show ?thesis
    by (intro altersI [where h = "heap s" and w = "world s" and a = "player_1_score s'" and b = "player_2_score s'"]) simp_all
qed

lemma alters_walls: "handle_play_area_collision p info s = Some s' \<Longrightarrow> p \<in> A \<Longrightarrow> alters A s s'"
  by (auto simp: handle_play_area_collision_def intro: alters_sprite dest!: bind_SomeD split: if_splits)

lemma alters_send: "send_speed os p s = Some s' \<Longrightarrow> alters A s s'"
  by (auto simp: send_speed_def alters_world dest!: bind_SomeD)

lemma alters_ball_collision:
  assumes "ball_collision os p s = Some s'" and "ball s \<in> A"
  shows "alters A s s'"
proof -
  obtain f s1 s2 where s: "update_sprite (ball s) f s = Some s1" "normalize_speed (ball s) s1 = Some s2" "send_speed os (ball s) s2 = Some s'"
    using assms(1) by (auto simp: ball_collision_def dest!: bind_SomeD)
  note alters_sprite [OF s(1) assms(2)]
  also note alters_sprite [OF s(2) [unfolded normalize_speed_def] assms(2)]
  also note alters_send [OF s(3)]
  finally show ?thesis .
qed

lemma alters_bounce_off:
  assumes "bounce_off os p q s = Some s'" and p: "p \<in> A"
  shows "alters A s s'"
proof -
  from assms(1) consider f s1 where "update_sprite p f s = Some s1" "send_speed os p s1 = Some s'"
    | f s1 s2 where "update_sprite p f s = Some s1" "normalize_speed p s1 = Some s2" "send_speed os p s2 = Some s'"
    | f where "update_sprite p f s = Some s'"
    by (auto simp: bounce_off_def dest!: bind_SomeD split: if_splits)
  then show ?thesis
  proof cases
    case 1
    note alters_sprite [OF 1(1) p]
    also note alters_send [OF 1(2)]
    finally show ?thesis .
  next
    case 2
    note alters_sprite [OF 2(1) p]
    also note alters_sprite [OF 2(2) [unfolded normalize_speed_def] p]
    also note alters_send [OF 2(3)]
    finally show ?thesis .
  next
    case 3
    then show ?thesis by (rule alters_sprite [OF _ p])
  qed
qed

lemma alters_layer:
  assumes "detect_collision_in_layer os p nx ny l s = Some (hit, s')" and "p \<in> A" and "ball s \<in> A"
  shows "alters A s s'"
proof -
  have t: "alters A s s2" if "detect_goal_collision o1 nx ny s = (g, s1)" "alters A s1 s2" for o1 g s1 s2
    using alters_trans [OF alters_goal [OF that(1)] that(2)] .
  show ?thesis
  proof (cases "l = 1")
    case True
    obtain o1 where o1: "deref (heap s) p = Some o1"
      using assms(1) True by (cases "deref (heap s) p") (auto simp: detect_collision_in_layer_def Let_def)
    obtain g s1 where g: "detect_goal_collision o1 nx ny s = (g, s1)" by (cases "detect_goal_collision o1 nx ny s")
    have b: "alters A s1 s'" if "bounce_off os p q s1 = Some s'" for q
      by (rule alters_bounce_off [OF that assms(2)])
    have "alters A s1 s'"
      using assms(1,2) o1 g True
      by (auto simp: detect_collision_in_layer_def Let_def split: if_splits prod.splits dest!: bind_SomeD
          intro: alters_sprite alters_walls) (rule b, assumption)+
    then show ?thesis by (rule t [OF g])
  next
    case False
    then show ?thesis
      using assms
      by (auto simp: detect_collision_in_layer_def Let_def split: if_splits prod.splits dest!: bind_SomeD
          intro: alters_upd) ((erule alters_walls | erule alters_ball_collision | rule alters_upd), assumption)+
  qed
qed

lemma alters_move:
  assumes "move os p x y l s = Some s'" and "p \<in> A" and "ball s \<in> A"
  shows "alters A s s'"
proof -
  obtain o1 where o1: "deref (heap s) p = Some o1" using assms(1) by (auto simp: move_def dest!: bind_SomeD)
  obtain hit s1 where s: "detect_collision_in_layer os p (sp_x o1 + sint x) (sp_y o1 - sint y) l s = Some (hit, s1)"
    using assms(1) o1 by (auto simp: move_def Let_def dest!: bind_SomeD)
  note alters_layer [OF s assms(2,3)]
  also have "alters A s1 s'"
    using assms(1,2) o1 s by (auto simp: move_def Let_def intro: alters_sprite split: if_splits)
  finally show ?thesis .
qed

section \<open>A timer interrupt, in parts\<close>

lemma match_tick_parts:
  assumes ok: "game_ok s" and m: "mainState s = GAME" and hz: "sys_hz os \<noteq> 0" and t: "match_tick os s = Some s'"
  obtains w px py n k s2 where "s2 = match_clock os (s\<lparr>world := w, previous_x := px, previous_y := py, puck_transmit := n\<rparr>)"
    "game_ok s2" "deref (heap s) (ball s) = Some k"
    "(if xspeed k \<noteq> 0 \<or> yspeed k \<noteq> 0 then move os (ball s) (word_of_int (xspeed k)) (word_of_int (yspeed k)) 1 s2
      else Some s2) = Some s'"
proof -
  let ?p = "s\<lparr>puck_transmit := puck_transmit s + 1\<rparr>"
  obtain s1 where s1: "(if puck_transmit ?p = 2 then do { s \<leftarrow> transmit_puck os ?p; Some (s\<lparr>puck_transmit := 0\<rparr>) }
      else Some ?p) = Some s1"
    "do { s \<leftarrow> (if sys_hz os = 0 then None
            else if time_count (timer_dev s1) mod sys_hz os = 0 then Some (match_second s1) else Some s1);
       b \<leftarrow> deref (heap s) (ball s);
       if xspeed b \<noteq> 0 \<or> yspeed b \<noteq> 0
       then move os (ball s) (word_of_int (xspeed b)) (word_of_int (yspeed b)) 1 s
       else Some s } = Some s'"
    using t unfolding match_tick_def Let_def by (auto dest!: bind_SomeD)
  have "\<exists>w px py n. s1 = s\<lparr>world := w, previous_x := px, previous_y := py, puck_transmit := n\<rparr>"
  proof (cases "puck_transmit ?p = 2")
    case True
    then obtain px py w where "s1 = ?p\<lparr>previous_x := px, previous_y := py, world := w, puck_transmit := 0\<rparr>"
      using s1(1) by (auto simp: transmit_puck_def dest!: bind_SomeD)
    then have "s1 = s\<lparr>world := w, previous_x := px, previous_y := py, puck_transmit := 0\<rparr>" by simp
    then show ?thesis by blast
  next
    case False
    then have "s1 = s\<lparr>world := world s, previous_x := previous_x s, previous_y := previous_y s,
        puck_transmit := puck_transmit s + 1\<rparr>" using s1(1) by simp
    then show ?thesis by blast
  qed
  then obtain w px py n where e: "s1 = s\<lparr>world := w, previous_x := px, previous_y := py, puck_transmit := n\<rparr>" by blast
  let ?s2 = "match_clock os s1"
  have "game_ok s1" using ok by (simp add: e)
  then have ok2: "game_ok ?s2" by simp
  have c: "(if sys_hz os = 0 then None
      else if time_count (timer_dev s1) mod sys_hz os = 0 then Some (match_second s1) else Some s1) = Some ?s2"
    using m hz by (simp add: match_clock_def e)
  have hb: "heap ?s2 = heap s" "ball ?s2 = ball s" by (simp_all add: match_clock_def e)
  obtain k where k: "deref (heap s) (ball s) = Some k" by (rule game_ok_deref [OF ok fixed_ptrs_members(3)])
  have "?s2 = match_clock os (s\<lparr>world := w, previous_x := px, previous_y := py, puck_transmit := n\<rparr>)" by (simp only: e)
  moreover have "(if xspeed k \<noteq> 0 \<or> yspeed k \<noteq> 0
      then move os (ball s) (word_of_int (xspeed k)) (word_of_int (yspeed k)) 1 ?s2 else Some ?s2) = Some s'"
    using s1(2) unfolding c by (simp only: hb k bind.bind_lunit)
  ultimately show thesis using that ok2 k by blast
qed

text \<open>What a timer interrupt in a match shares with the state before it, and the move in between.\<close>

lemma timer_int_parts:
  assumes ok: "game_ok s" and ld: "xpm_loads os" and hz: "sys_hz os \<noteq> 0" and m: "mainState s = GAME"
    and sc: "player_1_score s < 9" "player_2_score s < 9" and t: "timer_int os s = Some s'"
  obtains k s2 s3 where "game_ok s2" "game_ok s3" "draws s3 s'" "deref (heap s) (ball s) = Some k"
    "(if xspeed k \<noteq> 0 \<or> yspeed k \<noteq> 0 then move os (ball s) (word_of_int (xspeed k)) (word_of_int (yspeed k)) 1 s2
      else Some s2) = Some s3"
    "heap s2 = heap s" "ball s2 = ball s" "redpuck s2 = redpuck s" "bluepuck s2 = bluepuck s" "bytes_per_pixel s2 = bytes_per_pixel s"
    "is_main_pc s2 = is_main_pc s" "player_1_score s2 = player_1_score s" "player_2_score s2 = player_2_score s"
    "deref (heap s') (ball s') = deref (heap s3) (ball s3)" "ball s3 = ball s"
    "draw_frame os s3 = Some s'" "scores_fit s3"
    "\<exists>mb w px py n. s2 = match_clock os (s\<lparr>timer_dev := timer_int_handler (timer_dev s), main_buffer := mb, world := w,
      previous_x := px, previous_y := py, puck_transmit := n\<rparr>)"
proof -
  let ?s = "s\<lparr>timer_dev := timer_int_handler (timer_dev s)\<rparr>"
  have ok0: "game_ok ?s" using ok by simp
  obtain s1 where s1: "swap_buffers ?s = Some s1" "stays ?s s1"
    using stays_swap [OF ok0] by (auto simp: returns_def)
  obtain mb where mb: "s1 = ?s\<lparr>main_buffer := mb\<rparr>" using s1(1) by (auto simp: swap_buffers_def dest!: bind_SomeD)
  note ok1 = staysD(1) [OF s1(2)]
  have b1: "ball s1 = ball s" "heap s1 = heap s" by (simp_all add: mb)
  have m1: "mainState s1 = GAME" using mb m by simp
  obtain s3 where s3: "match_tick os s1 = Some s3" "ticks os s1 s3"
    using match_tick_returns [OF ok1 m1 hz] by (auto simp: returns_def)
  have d: "draw_frame os s3 = Some s'" using t s1(1) s3(1) m1 by (simp add: timer_int_def Let_def)
  have ok3: "game_ok s3" "scores_fit s3" using s3(2) sc mb by (auto simp: ticks_def scores_fit_def)
  obtain w px py n k s2 where s2: "s2 = match_clock os (s1\<lparr>world := w, previous_x := px, previous_y := py, puck_transmit := n\<rparr>)"
    "game_ok s2" "deref (heap s1) (ball s1) = Some k"
    "(if xspeed k \<noteq> 0 \<or> yspeed k \<noteq> 0 then move os (ball s1) (word_of_int (xspeed k)) (word_of_int (yspeed k)) 1 s2
      else Some s2) = Some s3"
    by (rule match_tick_parts [OF ok1 m1 hz s3(1)]) blast
  note ds = draw_frame_draws [OF ok3(1) ld ok3(2) d]
  have f: "heap s2 = heap s" "ball s2 = ball s" "redpuck s2 = redpuck s" "bluepuck s2 = bluepuck s" "bytes_per_pixel s2 = bytes_per_pixel s"
    "is_main_pc s2 = is_main_pc s" "player_1_score s2 = player_1_score s" "player_2_score s2 = player_2_score s"
    by (simp_all add: s2(1) match_clock_def match_second_def Let_def mb)
  have "ball s3 = ball s2"
  proof (cases "xspeed k \<noteq> 0 \<or> yspeed k \<noteq> 0")
    case True
    then have "alters {ball s} s2 s3" using s2(4) f by (intro alters_move) (auto simp: mb)
    then show ?thesis by (rule alters_fields)
  qed (use s2(4) in simp)
  moreover have "deref (heap s') (ball s3) = deref (heap s3) (ball s3)" by (rule ds(2)) (rule fixed_ptrs_members)
  ultimately have e: "deref (heap s') (ball s') = deref (heap s3) (ball s3)" "ball s3 = ball s"
    using f(2) draws_fields(10) [OF ds(1)] by simp_all
  show thesis
    by (rule that [OF s2(2) ok3(1) ds(1) s2(3,4) [unfolded b1] f e d ok3(2)]) (use s2(1) mb in blast)
qed

section \<open>A puck and the ball\<close>

text \<open>A moving puck either leaves the ball and the cable alone, or, on the main computer, hits the ball and does
  nothing else.\<close>

lemma puck_ball:
  assumes ok: "game_ok s" and p: "p = redpuck s \<or> p = bluepuck s" and m: "move os p x y 2 s = Some s'"
    and k: "deref (heap s) (ball s) = Some k"
  obtains (past) "deref (heap s') (ball s) = Some k" "world s' = world s"
    | (hit) vx vy where "is_main_pc s" "\<bar>vx\<bar> \<le> 8" "\<bar>vy\<bar> \<le> 8"
        "s' = s\<lparr>heap := (heap s)(ball s \<mapsto> k\<lparr>xspeed := vx, yspeed := vy\<rparr>), world := transmit_ball_speed os vx vy (world s)\<rparr>"
proof -
  note ar = game_ok_arena [OF ok]
  have n: "p \<noteq> ball s" using ar p by (auto simp: arena_ok_def)
  obtain o1 where o1: "deref (heap s) p = Some o1" using ar p by (auto simp: arena_ok_def)
  let ?nx = "sp_x o1 + sint x" and ?ny = "sp_y o1 - sint y"
  note layer = puck_layer [OF ar p o1 k, of os ?nx ?ny]
  show thesis
  proof (cases "is_main_pc s \<and> overlap (unat (bytes_per_pixel s)) o1 ?nx ?ny k \<and> fits_at o1 ?nx ?ny \<and>
      \<not> detect_middle_field_collision o1 ?nx ?ny")
    case True
    then have "move os p x y 2 s = Some (s\<lparr>
           heap := (heap s)(ball s \<mapsto> k\<lparr>xspeed := clamp_velocity (xspeed o1), yspeed := clamp_velocity (yspeed o1)\<rparr>),
           world := transmit_ball_speed os (clamp_velocity (xspeed o1)) (clamp_velocity (yspeed o1)) (world s)\<rparr>)"
      using layer by (intro move_hit [OF o1]) simp
    then show thesis using m True by (intro hit [OF _ clamp_velocity_range clamp_velocity_range]) simp_all
  next
    case False
    then have "deref (heap s') (ball s) = deref (heap s) (ball s) \<and> world s' = world s"
      using m layer o1 n by (auto simp: move_def Let_def update_sprite_def deref_def split: if_splits)
    then show thesis using k by (intro past) simp_all
  qed
qed

section \<open>A mouse interrupt, in parts\<close>

text \<open>A byte of a packet, or an error of the device, changes the driver alone; the third byte hands the packet on.\<close>

lemma mouse_int_parts:
  assumes ok: "game_ok s" and t: "mouse_int os s = Some s'"
  obtains (driver) m w bs n where "s' = s\<lparr>mouse_dev := m, world := w, packet_bytes := bs, count := n\<rparr>"
    | (packet) m w bs pk where "game_ok (s\<lparr>mouse_dev := m, world := w, packet_bytes := bs, count := 0\<rparr>)"
        "mouse_packet os pk (s\<lparr>mouse_dev := m, world := w, packet_bytes := bs, count := 0\<rparr>) = Some s'"
proof -
  obtain m w where mw: "mouse_ih os (mouse_dev s) (world s) = (m, w)" by (cases "mouse_ih os (mouse_dev s) (world s)")
  let ?s = "s\<lparr>mouse_dev := m, world := w\<rparr>"
  show thesis
  proof (cases "mouse_error m \<or> count s = 0 \<and> mouse_byte m AND SYNC_BIT = 0")
    case True
    then have "mouse_int os s = Some ?s" by (auto simp: mouse_int_def mw Let_def)
    then have "s' = s\<lparr>mouse_dev := m, world := w, packet_bytes := packet_bytes s, count := count s\<rparr>" using t by simp
    then show thesis by (rule driver)
  next
    case nf: False
    then obtain bs where bs: "arr_set (packet_bytes s) (count s) (mouse_byte m) = Some bs"
      using t unfolding mouse_int_def mw by (cases "arr_set (packet_bytes s) (count s) (mouse_byte m)") (auto simp: Let_def)
    show thesis
    proof (cases "count s = 2")
      case True
      then obtain pk where pk: "mouse_packet os pk (?s\<lparr>packet_bytes := bs, count := 0\<rparr>) = Some s'"
        using t nf bs unfolding mouse_int_def mw by (cases "parse_mouse_data bs") (auto simp: Let_def)
      have "length bs = length (packet_bytes s)" using bs by (auto simp: arr_set_def split: if_splits)
      then have "length bs = 3" using ok by (auto simp: devices_ok_def dest!: game_ok_devices)
      moreover have "game_ok ?s" using ok by simp
      ultimately have "game_ok (?s\<lparr>packet_bytes := bs, count := 0\<rparr>)"
        using devices_packet [of ?s bs 0] by (simp add: stays_def)
      then show thesis using pk by (intro packet)
    next
      case False
      then have "s' = s\<lparr>mouse_dev := m, world := w, packet_bytes := bs, count := count s + 1\<rparr>"
        using t bs nf unfolding mouse_int_def mw by (auto simp: Let_def)
      then show thesis by (rule driver)
    qed
  qed
qed

end
