(* ===== verification/Match.thy ===== *)
theory Match
  imports Parts
begin

text \<open>
  A match: its clock and its end, the kick-off position, and what a mouse packet does to the
  puck of the player.
\<close>

section \<open>The clock of the match\<close>

text \<open>The next value of the tick counter, as the handler of the timer leaves it.\<close>

definition next_count :: "('w, 'a) game_scheme \<Rightarrow> u32" where
  "next_count s = time_count (timer_dev s) + 1"

text \<open>The state of the program and the seconds left, after the tick.\<close>

definition next_mode :: "'w os \<Rightarrow> ('w, 'a) game_scheme \<Rightarrow> MainStateMachine" where
  "next_mode os s = (if next_count s mod sys_hz os \<noteq> 0 then GAME
       else if time_remaining s > 0
       then (if player_1_score s = 3 then LOST else if player_2_score s = 3 then WIN else GAME)
       else if player_1_score s = player_2_score s then TIE
       else if player_1_score s > player_2_score s then LOST else WIN)"

definition next_time :: "'w os \<Rightarrow> ('w, 'a) game_scheme \<Rightarrow> u32" where
  "next_time os s = (if next_count s mod sys_hz os = 0 \<and> time_remaining s > 0
       then time_remaining s - 1 else time_remaining s)"

lemma timer_int_game:
  assumes ok: "game_ok s" and ld: "xpm_loads os" and hz: "sys_hz os \<noteq> 0" and m: "mainState s = GAME"
    and sc: "player_1_score s < 9" "player_2_score s < 9"
  obtains s' where "timer_int os s = Some s'" "game_ok s'" "time_count (timer_dev s') = next_count s"
    "mainState s' = next_mode os s"
    "time_remaining s' = next_time os s"
    "player_1_score s' \<le> player_1_score s + 1" "player_2_score s' \<le> player_2_score s + 1"
proof -
  obtain s' where s': "timer_int os s = Some s'" "ticks os (s\<lparr>timer_dev := timer_int_handler (timer_dev s)\<rparr>) s'"
    using timer_int_returns [OF ok ld hz] sc by (auto simp: returns_def)
  show thesis
    by (rule that [OF s'(1)])
      (use s'(2) m in \<open>auto simp: ticks_def match_clock_def match_second_def timer_int_handler_def next_count_def next_mode_def next_time_def Let_def\<close>)
qed


section \<open>Every match ends\<close>

text \<open>A number of timer interrupts in a row.\<close>

fun timer_ticks :: "'w os \<Rightarrow> nat \<Rightarrow> ('w, 'a) game_scheme \<Rightarrow> ('w, 'a) game_scheme option" where
  "timer_ticks os 0 s = Some s"
| "timer_ticks os (Suc n) s = do { s \<leftarrow> timer_int os s; timer_ticks os n s }"

text \<open>The ticks until the clock of the match has run out.\<close>

definition ticks_left :: "'w os \<Rightarrow> ('w, 'a) game_scheme \<Rightarrow> nat" where
  "ticks_left os s = unat (time_remaining s) * unat (sys_hz os) +
     (unat (sys_hz os) - unat (time_count (timer_dev s)) mod unat (sys_hz os))"

lemma mod_step:
  fixes c h :: nat
  assumes "0 < h"
  shows "(c + 1) mod h = (if c mod h + 1 = h then 0 else c mod h + 1)"
  using assms by (simp add: mod_Suc)

lemma ticks_left_step:
  assumes hz: "sys_hz os \<noteq> 0" and c: "unat (time_count (timer_dev s)) + 1 < 2 ^ 32"
    and t: "time_count (timer_dev s') = next_count s"
    and r0: "time_remaining s' = next_time os s"
    and go: "\<not> (next_count s mod sys_hz os = 0 \<and> time_remaining s = 0)"
  shows "ticks_left os s = Suc (ticks_left os s')"
proof -
  note r = r0 [unfolded next_time_def]
  have h: "0 < unat (sys_hz os)" using hz by (simp add: unat_gt_0)
  have n: "unat (next_count s) = unat (time_count (timer_dev s)) + 1"
    using c by (simp add: next_count_def unat_word_ariths)
  have z: "next_count s mod sys_hz os = 0 \<longleftrightarrow> (unat (time_count (timer_dev s)) + 1) mod unat (sys_hz os) = 0"
    using n by (metis unat_eq_zero unat_mod)
  let ?c = "unat (time_count (timer_dev s)) mod unat (sys_hz os)" and ?h = "unat (sys_hz os)"
  have lt: "?c < ?h" using h by simp
  show ?thesis
  proof (cases "?c + 1 = ?h")
    case True
    then have "(unat (time_count (timer_dev s)) + 1) mod ?h = 0" using mod_step [OF h, of "unat (time_count (timer_dev s))"] by simp
    then have "time_remaining s > 0" "time_remaining s' = time_remaining s - 1" "unat (next_count s) mod ?h = 0"
      using z go r n by (auto simp: word_gt_0)
    then have "unat (time_remaining s') = unat (time_remaining s) - 1" "0 < unat (time_remaining s)"
      by (auto simp: unat_minus_one unat_gt_0 word_gt_0)
    moreover have "unat (time_remaining s) = Suc (unat (time_remaining s) - 1)" using calculation(2) by simp
    ultimately have "unat (time_remaining s) * ?h = ?h + unat (time_remaining s') * ?h"
      by (metis mult_Suc)
    then show ?thesis using True t \<open>unat (next_count s) mod ?h = 0\<close> lt by (simp add: ticks_left_def)
  next
    case False
    then have m: "unat (next_count s) mod ?h = ?c + 1" using mod_step [OF h, of "unat (time_count (timer_dev s))"] n by simp
    then have "time_remaining s' = time_remaining s" using z n r by auto
    then show ?thesis using m t lt False by (simp add: ticks_left_def)
  qed
qed

text \<open>A goal puts the ball to rest, and a ball at rest scores no goal: so the timer alone brings at most
  one point.\<close>

definition resting :: "('w, 'a) game_scheme \<Rightarrow> bool" where
  "resting s \<longleftrightarrow> (\<exists>b. deref (heap s) (ball s) = Some b \<and> xspeed b = 0 \<and> yspeed b = 0)"

definition points :: "('w, 'a) game_scheme \<Rightarrow> int \<times> int" where
  "points s = (player_1_score s, player_2_score s)"

definition settles :: "('w, 'a) game_scheme \<Rightarrow> ('w, 'a) game_scheme \<Rightarrow> bool" where
  "settles s s' \<longleftrightarrow> (resting s \<longrightarrow> resting s') \<and> (points s' = points s \<or> \<not> resting s \<and> resting s')"

lemma settles_refl: "settles s s"
  by (simp add: settles_def)

lemma settles_trans: "settles s s1 \<Longrightarrow> settles s1 s2 \<Longrightarrow> settles s s2"
  unfolding settles_def by auto

lemma settles_frame:
  assumes "heap s' = heap s" and "ball s' = ball s" and "player_1_score s' = player_1_score s"
    and "player_2_score s' = player_2_score s"
  shows "settles s s'"
  using assms by (simp add: settles_def resting_def points_def)

lemma settles_draw:
  assumes ok: "game_ok s" and ld: "xpm_loads os" and sc: "scores_fit s" and d: "draw_frame os s = Some s'"
  shows "settles s s'"
proof -
  have ds: "draws s s'" by (rule draw_frame_draws(1) [OF ok ld sc d])
  have "deref (heap s') (ball s) = deref (heap s) (ball s)"
    by (rule draw_frame_draws(2) [OF ok ld sc d fixed_ptrs_members(3)])
  then show ?thesis by (simp add: settles_def resting_def points_def draws_fields [OF ds])
qed

lemma settles_move:
  assumes ok: "game_ok s" and nr: "\<not> resting s" and m: "move os (ball s) x y 1 s = Some s'"
  shows "settles s s'"
proof -
  obtain k where k: "deref (heap s) (ball s) = Some k" by (rule game_ok_deref [OF ok fixed_ptrs_members(3)])
  have nn: "ball s \<noteq> NULL" using k by (auto dest: deref_SomeD)
  from game_ok_arena [OF ok] k show ?thesis
  proof (cases rule: ball_move [where os = os and x = x and y = y])
    case (goal s1)
    then have "ball s' = ball s" using m moves_only_fields(5) by (auto simp: moves_only_fields)
    then have "resting s'" using goal m nn by (simp add: resting_def kick_off_def)
    then show ?thesis using nr by (simp add: settles_def)
  qed (use m nr in \<open>auto simp: settles_def points_def\<close>)
qed

lemma settles_timer:
  assumes ok: "game_ok s" and ld: "xpm_loads os" and hz: "sys_hz os \<noteq> 0" and m: "mainState s = GAME"
    and sc: "player_1_score s < 9" "player_2_score s < 9" and t: "timer_int os s = Some s'"
  shows "settles s s'"
proof -
  obtain k s2 s3 where p: "game_ok s2" "game_ok s3" "deref (heap s) (ball s) = Some k"
    "(if xspeed k \<noteq> 0 \<or> yspeed k \<noteq> 0 then move os (ball s) (word_of_int (xspeed k)) (word_of_int (yspeed k)) 1 s2
      else Some s2) = Some s3"
    "heap s2 = heap s" "ball s2 = ball s" "player_1_score s2 = player_1_score s" "player_2_score s2 = player_2_score s"
    "draw_frame os s3 = Some s'" "scores_fit s3"
    by (rule timer_int_parts [OF ok ld hz m sc t])
  have "settles s s2" by (rule settles_frame) (simp_all add: p(5-8))
  moreover have "settles s2 s3"
  proof (cases "xspeed k \<noteq> 0 \<or> yspeed k \<noteq> 0")
    case True
    then have "\<not> resting s2" using p(3,5,6) by (simp add: resting_def)
    then show ?thesis using settles_move [OF p(1)] p(4,6) True by simp
  next
    case False
    then show ?thesis using p(4) settles_refl by simp
  qed
  moreover have "settles s3 s'" by (rule settles_draw [OF p(2) ld p(10,9)])
  ultimately show ?thesis using settles_trans by blast
qed

lemma match_ends_in:
  assumes ld: "xpm_loads os" and hz: "sys_hz os \<noteq> 0"
    and "game_ok s" and "mainState s = GAME" and "unat (time_count (timer_dev s)) + ticks_left os s < 2 ^ 32"
    and "player_1_score s + (if resting s then 0 else 1) < 9" and "player_2_score s + (if resting s then 0 else 1) < 9"
  shows "\<exists>n s'. n \<le> ticks_left os s \<and> timer_ticks os n s = Some s' \<and> game_ok s' \<and> mainState s' \<in> {WIN, LOST, TIE}"
  using assms(3-7)
proof (induction "ticks_left os s" arbitrary: s rule: less_induct)
  case less
  have sc: "player_1_score s < 9" "player_2_score s < 9" using less.prems(4,5) by (auto split: if_splits)
  obtain s1 where s1: "timer_int os s = Some s1" "game_ok s1" "time_count (timer_dev s1) = next_count s"
    "mainState s1 = next_mode os s"
    "time_remaining s1 = next_time os s"
    "player_1_score s1 \<le> player_1_score s + 1" "player_2_score s1 \<le> player_2_score s + 1"
    by (rule timer_int_game [OF less.prems(1) ld hz less.prems(2) sc])
  note md = s1(4) [unfolded next_mode_def]
  have h: "0 < unat (sys_hz os)" using hz by (simp add: unat_gt_0)
  then have pos: "0 < ticks_left os s" using mod_less_divisor [OF h, of "unat (time_count (timer_dev s))"]
    unfolding ticks_left_def by linarith
  show ?case
  proof (cases "mainState s1 = GAME")
    case False
    then have "mainState s1 \<in> {WIN, LOST, TIE}" using md by (auto split: if_splits)
    moreover have "timer_ticks os 1 s = Some s1" using s1(1) by simp
    ultimately show ?thesis using pos s1(2) by (intro exI [of _ 1] exI [of _ s1]) simp
  next
    case True
    then have go: "\<not> (next_count s mod sys_hz os = 0 \<and> time_remaining s = 0)"
      using md by (auto split: if_splits)
    have c: "unat (time_count (timer_dev s)) + 1 < 2 ^ 32" using less.prems(3) pos by linarith
    have st: "ticks_left os s = Suc (ticks_left os s1)" by (rule ticks_left_step [OF hz c s1(3,5) go])
    have n: "unat (time_count (timer_dev s1)) = unat (time_count (timer_dev s)) + 1"
      using c s1(3) by (simp add: next_count_def unat_word_ariths)
    have b: "unat (time_count (timer_dev s1)) + ticks_left os s1 < 2 ^ 32" using less.prems(3) st n by simp
    have "settles s s1" by (rule settles_timer [OF less.prems(1) ld hz less.prems(2) sc s1(1)])
    then have l: "player_1_score s1 + (if resting s1 then 0 else 1) < 9" "player_2_score s1 + (if resting s1 then 0 else 1) < 9"
      using less.prems(4,5) s1(6,7) by (auto simp: settles_def points_def split: if_splits)
    have "ticks_left os s1 < ticks_left os s" using st by simp
    from less.hyps [OF this s1(2) True b l] obtain n s'
      where "n \<le> ticks_left os s1" "timer_ticks os n s1 = Some s'" "game_ok s'" "mainState s' \<in> {WIN, LOST, TIE}" by blast
    then show ?thesis using st s1(1) by (intro exI [of _ "Suc n"] exI [of _ s']) simp
  qed
qed

text \<open>C4 (every match ends): when only the timer interrupts, a match that has \<^verbatim>\<open>time_remaining\<close> seconds left
  ends in a win, a loss or a tie after at most \<open>(time_remaining + 1) * sys_hz\<close> ticks, whatever the ball
  does meanwhile; all these interrupts return.\<close>

theorem match_ends:
  assumes "xpm_loads os" and "sys_hz os \<noteq> 0" and "game_ok s" and "mainState s = GAME"
    and "unat (time_count (timer_dev s)) + (unat (time_remaining s) + 1) * unat (sys_hz os) < 2 ^ 32"
    and "player_1_score s < 8" and "player_2_score s < 8"
  shows "\<exists>n s'. n \<le> (unat (time_remaining s) + 1) * unat (sys_hz os) \<and> timer_ticks os n s = Some s' \<and>
    mainState s' \<in> {WIN, LOST, TIE}"
proof -
  have le: "ticks_left os s \<le> (unat (time_remaining s) + 1) * unat (sys_hz os)" by (simp add: ticks_left_def)
  have "\<exists>n s'. n \<le> ticks_left os s \<and> timer_ticks os n s = Some s' \<and> game_ok s' \<and> mainState s' \<in> {WIN, LOST, TIE}"
    using le assms(5,6,7) by (intro match_ends_in [OF assms(1-4)]) (linarith | simp)+
  then show ?thesis using le le_trans by blast
qed

section \<open>A concrete match\<close>

text \<open>The loaded program of \<^verbatim>\<open>init\<close>, in a match.\<close>

lemma match_state:
  assumes "t < 6000"
  obtains s :: "bench game" where "game_ok s" "mainState s = GAME" "time_remaining s = t" "timer_dev s = timer_init"
    "player_1_score s = 0" "player_2_score s = 0"
proof -
  obtain s :: "bench game" where s: "game_ok s" "player_1_score s = 0" "player_2_score s = 0"
    using init_starts [OF pc_os_up, of "\<lparr>replies = [], writes = []\<rparr>"] by (auto simp: returns_def)
  define s1 where "s1 = s\<lparr>time_remaining := t\<rparr>"
  have s1: "game_ok s1" "time_remaining s1 = t" "player_1_score s1 = 0" "player_2_score s1 = 0"
    unfolding s1_def using game_ok_frame [OF s(1), of "s\<lparr>time_remaining := t\<rparr>"] s assms
    by (auto simp: devices_ok_def dest!: game_ok_devices)
  show thesis by (rule that [of "s1\<lparr>mainState := GAME, timer_dev := timer_init\<rparr>"]) (use s1 in simp_all)
qed


theorem match_ends_witness:
  "\<exists>n s s'. n \<le> 12060 \<and> time_remaining s = 200 \<and> timer_ticks pc_os n (s :: bench game) = Some s' \<and> mainState s' \<in> {WIN, LOST, TIE}"
proof -
  obtain s :: "bench game" where s: "game_ok s" "mainState s = GAME" "time_remaining s = 200" "timer_dev s = timer_init"
    "player_1_score s = 0" "player_2_score s = 0" by (rule match_state [of 200]) simp_all
  from match_ends [OF pc_os_loads _ s(1,2)] s(3-6) show ?thesis by (auto simp: timer_init_def)
qed

section \<open>Kick-off\<close>

text \<open>The objects of the table are none of the buttons.\<close>

lemma objects_distinct:
  assumes "game_ok s"
  shows "distinct [mouse s, start_button_unselected s, start_button_selected s, rules_button_unselected s,
    rules_button_selected s, exit_button_unselected s, exit_button_selected s, redpuck s, bluepuck s, ball s]"
proof -
  have "distinct (sprite_list s)" using assms by (simp add: game_ok_def buttons_ok_def)
  then show ?thesis unfolding sprite_list_def distinct_append by blast
qed

text \<open>A new match, in full: the clock, the scores, and the places of the ball and the pucks.\<close>

definition new_match :: "'w os \<Rightarrow> ('w, 'a) game_scheme \<Rightarrow> ('w, 'a) game_scheme" where
  "new_match os s = s\<lparr>time_remaining := 200, start_time := time_count (timer_dev s) div sys_hz os,
     timer_dev := (timer_dev s)\<lparr>time_count := 0\<rparr>, player_1_score := 0, player_2_score := 0,
     heap := (heap s)(
       ball s := map_option (\<lambda>k. k\<lparr>sp_x := 550, sp_y := 410, xspeed := 0, yspeed := 0\<rparr>) (heap s (ball s)),
       bluepuck s := map_option (\<lambda>b. b\<lparr>xspeed := 0, yspeed := 0, sp_x := 535, sp_y := 730\<rparr>) (heap s (bluepuck s)),
       redpuck s := map_option (\<lambda>r. r\<lparr>xspeed := 0, yspeed := 0, sp_x := 535, sp_y := 55\<rparr>) (heap s (redpuck s))),
     previous_x := 535, previous_y := 730\<rparr>"

lemma reset_new_match:
  assumes ok: "game_ok s" and hz: "sys_hz os \<noteq> 0"
  shows "reset_game_state os s = Some (new_match os s)"
proof -
  obtain k where k: "deref (heap s) (ball s) = Some k" by (rule game_ok_deref [OF ok fixed_ptrs_members(3)])
  obtain b where b: "deref (heap s) (bluepuck s) = Some b" by (rule game_ok_deref [OF ok fixed_ptrs_members(2)])
  obtain r where r: "deref (heap s) (redpuck s) = Some r" by (rule game_ok_deref [OF ok fixed_ptrs_members(1)])
  have h: "heap s (ball s) = Some k" "heap s (bluepuck s) = Some b" "heap s (redpuck s) = Some r"
    "ball s \<noteq> NULL" "bluepuck s \<noteq> NULL" "redpuck s \<noteq> NULL"
    using k b r by (auto dest: deref_SomeD)
  have d: "redpuck s \<noteq> bluepuck s" "redpuck s \<noteq> ball s" "bluepuck s \<noteq> ball s"
    using game_ok_arena [OF ok] by (simp_all add: arena_ok_def)
  show ?thesis using hz h d by (simp add: reset_game_state_def new_match_def update_sprite_def deref_def)
qed

lemma new_match_ok:
  assumes ok: "game_ok s" and hz: "sys_hz os \<noteq> 0"
  shows "game_ok (new_match os s)"
  using reset_returns [OF ok hz] reset_new_match [OF ok hz] by (simp add: returns_def kicked_off_def)

lemma new_match_table:
  assumes "game_ok s" and "sys_hz os \<noteq> 0"
  shows "\<exists>s' k b r. reset_game_state os s = Some s' \<and> game_ok s' \<and>
    deref (heap s') (ball s') = Some k \<and> sp_x k = 550 \<and> sp_y k = 410 \<and> xspeed k = 0 \<and> yspeed k = 0 \<and>
    deref (heap s') (bluepuck s') = Some b \<and> bottom_half b \<and> sp_x b = 535 \<and> sp_y b = 730 \<and> xspeed b = 0 \<and> yspeed b = 0 \<and>
    deref (heap s') (redpuck s') = Some r \<and> top_half r \<and> sp_x r = 535 \<and> sp_y r = 55 \<and> xspeed r = 0 \<and> yspeed r = 0 \<and>
    previous_x s' = sp_x b \<and> previous_y s' = sp_y b \<and> player_1_score s' = 0 \<and> player_2_score s' = 0 \<and>
    time_remaining s' = 200 \<and> time_count (timer_dev s') = 0 \<and> mainState s' = mainState s \<and>
    option_index s' = option_index s \<and> is_stored_x s' = is_stored_x s"
proof -
  let ?s = "new_match os s"
  have ok: "game_ok ?s" by (rule new_match_ok [OF assms])
  have p: "ball ?s = ball s" "bluepuck ?s = bluepuck s" "redpuck ?s = redpuck s" by (simp_all add: new_match_def)
  have d: "redpuck s \<noteq> bluepuck s" "redpuck s \<noteq> ball s" "bluepuck s \<noteq> ball s"
    using game_ok_arena [OF assms(1)] by (simp_all add: arena_ok_def)
  obtain k where k: "deref (heap ?s) (ball s) = Some k" using game_ok_deref [OF ok fixed_ptrs_members(3)] p by metis
  obtain b where b: "deref (heap ?s) (bluepuck s) = Some b" using game_ok_deref [OF ok fixed_ptrs_members(2)] p by metis
  obtain r where r: "deref (heap ?s) (redpuck s) = Some r" using game_ok_deref [OF ok fixed_ptrs_members(1)] p by metis
  have f: "sp_x k = 550" "sp_y k = 410" "xspeed k = 0" "yspeed k = 0" "sp_x b = 535" "sp_y b = 730" "xspeed b = 0"
    "yspeed b = 0" "sp_x r = 535" "sp_y r = 55" "xspeed r = 0" "yspeed r = 0"
    using k b r d by (auto simp: new_match_def deref_def split: if_splits)
  have "uint (sp_width b) = 80" "uint (sp_height b) = 80" "uint (sp_width r) = 80" "uint (sp_height r) = 80"
    using object_size(2) [OF ok] b r p by auto
  then have h: "bottom_half b" "top_half r" using f by (simp_all add: bottom_half_def top_half_def in_area_def fits_at_def)
  have "previous_x ?s = 535" "previous_y ?s = 730" "player_1_score ?s = 0" "player_2_score ?s = 0" "time_remaining ?s = 200"
    "time_count (timer_dev ?s) = 0" "mainState ?s = mainState s" "option_index ?s = option_index s" "is_stored_x ?s = is_stored_x s"
    by (simp_all add: new_match_def)
  then show ?thesis using reset_new_match [OF assms] ok k b r f h p by (intro exI [of _ ?s]) simp
qed

text \<open>C26 (kick-off): from every good state \<^verbatim>\<open>reset_game_state\<close> returns; the ball rests on the middle of the
  table, each puck rests in its half, the position remembered for the link is the one of the player's
  puck, the scores are zero and the clock has its 200 seconds; menus and buttons are as before.\<close>

theorem match_kicks_off:
  assumes "game_ok s" and "sys_hz os \<noteq> 0"
  shows "\<exists>s' k b r. reset_game_state os s = Some s' \<and> game_ok s' \<and>
    deref (heap s') (ball s') = Some k \<and> sp_x k = 550 \<and> sp_y k = 410 \<and> xspeed k = 0 \<and> yspeed k = 0 \<and>
    deref (heap s') (bluepuck s') = Some b \<and> bottom_half b \<and> sp_x b = 535 \<and> sp_y b = 730 \<and> xspeed b = 0 \<and> yspeed b = 0 \<and>
    deref (heap s') (redpuck s') = Some r \<and> top_half r \<and> sp_x r = 535 \<and> sp_y r = 55 \<and> xspeed r = 0 \<and> yspeed r = 0 \<and>
    previous_x s' = sp_x b \<and> previous_y s' = sp_y b \<and> player_1_score s' = 0 \<and> player_2_score s' = 0 \<and>
    time_remaining s' = 200 \<and> time_count (timer_dev s') = 0 \<and> mainState s' = mainState s \<and>
    option_index s' = option_index s \<and> is_stored_x s' = is_stored_x s"
  by (rule new_match_table [OF assms])

text \<open>A concrete kick-off.\<close>

lemma kick_off_state:
  obtains s :: "bench game" and b r k where "game_ok s" "mainState s = GAME" "is_stored_x s = False"
    "deref (heap s) (bluepuck s) = Some b" "bottom_half b" "sp_x b = 535" "sp_y b = 730"
    "deref (heap s) (redpuck s) = Some r" "top_half r" "sp_x r = 535" "sp_y r = 55"
    "deref (heap s) (ball s) = Some k"
proof -
  obtain s0 :: "bench game" where s0: "game_ok s0" "mainState s0 = GAME" by (rule match_state [of 3]) simp_all
  have "game_ok (s0\<lparr>is_stored_x := False\<rparr>)" using s0(1) by simp
  from new_match_table [OF this, of pc_os] show thesis using that s0(2) by auto
qed

theorem match_kicks_off_witness:
  "\<exists>s s' k :: sprite. reset_game_state pc_os (s :: bench game) = Some s' \<and> deref (heap s') (ball s') = Some k \<and> sp_x k = 550 \<and>
     time_remaining s' = 200"
proof -
  obtain s :: "bench game" where "game_ok s" by (rule match_state [of 3]) simp_all
  from match_kicks_off [OF this, of pc_os] show ?thesis by fastforce
qed

end
