(* ===== verification/Link.thy ===== *)
theory Link
  imports Match
begin

text \<open>
  The two computers: what one sends, the other does.  The cable is a hypothesis: the bytes one UART has
  sent are the ones the other finds in its FIFO when its interrupt is handled.
\<close>


section \<open>Receiving\<close>

text \<open>The UART has interrupted for received data; \<open>w1\<close> is the device world after the cause was read.\<close>

definition data_arrived :: "'w os \<Rightarrow> 'w \<Rightarrow> 'w \<Rightarrow> bool" where
  "data_arrived os w w1 \<longleftrightarrow> (\<exists>iir. sys_inb os (BASE_ADDR_COM1 + IIR) w = ((0, iir), w1) \<and> \<not> bit iir 0 \<and> bit iir 2)"

lemma receive_fifo:
  assumes "uart_rx os fifo" and "rx_ok (inQueue s)" and "data_arrived os (world s) w1"
  obtains q w where "receive os s = Some (s\<lparr>inQueue := q, world := w\<rparr>)" "rx_ok q" "fifo w = []"
    "rx_bytes q = take 100 (rx_bytes (inQueue s) @ fifo w1)"
proof -
  obtain iir where i: "sys_inb os (BASE_ADDR_COM1 + IIR) (world s) = ((0, iir), w1)" "\<not> bit iir 0" "bit iir 2"
    using assms(3) by (auto simp: data_arrived_def)
  show thesis using sp_ih_fifo [OF assms(1,2) i] that by (auto simp: receive_def)
qed

lemma next_signal_read:
  assumes "rx_ok (inQueue s)" and "rx_bytes (inQueue s) = signal_bytes v @ rest"
  obtains q where "next_signal 0 s = Some (0, v, s\<lparr>inQueue := q\<rparr>)" "rx_ok q" "rx_bytes q = rest"
  using read_signal [OF assms, of 0] by (auto simp: next_signal_def)

lemma next_signal_none:
  assumes "rx_ok (inQueue s)" and "length (rx_bytes (inQueue s)) < 2"
  shows "next_signal 0 s = Some (1, 0, s)"
  using read_next_signal_short [OF assms, of 0] by (simp add: next_signal_def)

lemma length_signal_bytes [simp]: "length (signal_bytes v) = 2"
  by (simp add: signal_bytes_def)

text \<open>What a complete message does.\<close>

definition act_on :: "'w os \<Rightarrow> u16 \<Rightarrow> u16 \<Rightarrow> ('w, 'a) game_scheme \<Rightarrow> ('w, 'a) game_scheme option" where
  "act_on os x y s = (if x = ball_signal then set_ball_speed y s else move os (redpuck s) (- x) y 2 s)"

lemma whole_message:
  assumes "uart_rx os fifo" and ok: "rx_ok (inQueue r)" "rx_bytes (inQueue r) = []" and m: "mainState r = GAME" "\<not> is_stored_x r"
    and a: "data_arrived os (world r) w1" and b: "fifo w1 = signal_bytes x @ signal_bytes y" and x: "x \<noteq> signal1"
  obtains q w where "sp_int os r = act_on os x y (r\<lparr>world := w, inQueue := q\<rparr>)" "rx_ok q" "rx_bytes q = []" "fifo w = []"
proof -
  obtain q w where q: "receive os r = Some (r\<lparr>inQueue := q, world := w\<rparr>)" "rx_ok q" "fifo w = []"
    "rx_bytes q = take 100 (rx_bytes (inQueue r) @ fifo w1)"
    by (rule receive_fifo [OF assms(1) ok(1) a])
  let ?r = "r\<lparr>inQueue := q, world := w\<rparr>"
  have bq: "rx_bytes (inQueue ?r) = signal_bytes x @ signal_bytes y" using q(4) ok(2) b by simp
  have oq: "rx_ok (inQueue ?r)" using q(2) by simp
  obtain q1 where q1: "next_signal 0 ?r = Some (0, x, ?r\<lparr>inQueue := q1\<rparr>)" "rx_ok q1" "rx_bytes q1 = signal_bytes y"
    by (rule next_signal_read [OF oq bq])
  let ?r1 = "?r\<lparr>inQueue := q1\<rparr>"
  have b1: "rx_ok (inQueue ?r1)" "rx_bytes (inQueue ?r1) = signal_bytes y @ []" using q1 by simp_all
  obtain q2 where q2: "next_signal 0 ?r1 = Some (0, y, ?r1\<lparr>inQueue := q2\<rparr>)" "rx_ok q2" "rx_bytes q2 = []"
    by (rule next_signal_read [OF b1])
  have "sp_int os r = act_on os x y (r\<lparr>world := w, inQueue := q2\<rparr>)"
    using q(1) q1(1) q2(1) m x by (simp add: sp_int_def sp_int_game_def act_on_def)
  then show thesis using that q2(2,3) q(3) by blast
qed

section \<open>The puck of the other player\<close>

lemma puck_free:
  assumes ok: "arena_ok s" and p: "p = redpuck s \<or> p = bluepuck s" and o1: "deref (heap s) p = Some o1"
    and k: "deref (heap s) (ball s) = Some k" and n: "sp_x o1 + sint x = nx" "sp_y o1 - sint y = ny"
    and "fits_at o1 nx ny" and "\<not> detect_middle_field_collision o1 nx ny"
    and "\<not> (is_main_pc s \<and> overlap (unat (bytes_per_pixel s)) o1 nx ny k)"
  shows "move os p x y 2 s = Some (s\<lparr>heap := (heap s)(p \<mapsto>
    o1\<lparr>sp_x := nx, sp_y := ny, xspeed := sint x, yspeed := sint y\<rparr>)\<rparr>)"
  using puck_layer [OF ok p o1 k, of os nx ny] assms(7-9) unfolding n [symmetric]
  by (intro move_free [OF o1]) simp

lemma sint_displacement:
  assumes "\<bar>d\<bar> \<le> 1152"
  shows "sint (word_of_int d :: i16) = d" "sint (- word_of_int d :: i16) = - d"
    "word_of_int d \<noteq> (signal1 :: u16)" "word_of_int d \<noteq> (ball_signal :: u16)"
proof -
  have r: "- (2 ^ 15) \<le> d" "d < 2 ^ 15" "- (2 ^ 15) \<le> - d" "- d < 2 ^ 15" using assms by auto
  show s: "sint (word_of_int d :: i16) = d" using r by (simp add: sint_sbintrunc' signed_take_bit_int_eq_self)
  have "- word_of_int d = (word_of_int (- d) :: i16)" by simp
  then show "sint (- word_of_int d :: i16) = - d" using r by (simp only: sint_sbintrunc') (simp add: signed_take_bit_int_eq_self)
  show "word_of_int d \<noteq> (signal1 :: u16)" "word_of_int d \<noteq> (ball_signal :: u16)"
    using s assms by (auto simp: signal1_def ball_signal_def)
qed

text \<open>The state with new bytes of the link is as good as before.\<close>

lemma game_ok_link:
  assumes "game_ok r" and "rx_ok q"
  shows "game_ok (r\<lparr>world := w, inQueue := q\<rparr>)"
proof -
  have "game_ok (r\<lparr>inQueue := q, world := world r\<rparr>)"
    using stays_queue [OF assms, of "world r"] by (simp only: stays_def)
  then have "game_ok (r\<lparr>inQueue := q\<rparr>)" by simp
  then have "game_ok ((r\<lparr>inQueue := q\<rparr>)\<lparr>world := w\<rparr>)" by (simp only: game_ok_global)
  moreover have "(r\<lparr>inQueue := q\<rparr>)\<lparr>world := w\<rparr> = r\<lparr>world := w, inQueue := q\<rparr>" by (cases r) simp
  ultimately show ?thesis by simp
qed

text \<open>C7 (the pucks stay mirror images): the player's computer sends the displacement of his puck since the
  last message as four bytes; when exactly these arrive at the other computer, and the place they lead to
  is free, its red puck moves so that the sums of the two positions stay what they were: the two
  tables show the same game, seen from opposite sides.\<close>

theorem puck_mirrored:
  assumes "uart_tx os1 sent" and "deref (heap a) (bluepuck a) = Some b" and "transmit_puck os1 a = Some a'"
    and "sp_x b \<noteq> previous_x a \<or> sp_y b \<noteq> previous_y a"
    and "\<bar>sp_x b - previous_x a\<bar> \<le> 1152" and "\<bar>sp_y b - previous_y a\<bar> \<le> 1152"
    and "uart_rx os2 fifo" and "game_ok r" and "mainState r = GAME" and "\<not> is_stored_x r"
    and "rx_bytes (inQueue r) = []" and "data_arrived os2 (world r) w1"
    and "sent (world a') = sent (world a) @ fifo w1"
    and "deref (heap r) (redpuck r) = Some o1" and "deref (heap r) (ball r) = Some k"
    and "fits_at o1 (sp_x o1 - (sp_x b - previous_x a)) (sp_y o1 - (sp_y b - previous_y a))"
    and "\<not> detect_middle_field_collision o1 (sp_x o1 - (sp_x b - previous_x a)) (sp_y o1 - (sp_y b - previous_y a))"
    and "\<not> (is_main_pc r \<and> overlap (unat (bytes_per_pixel r)) o1
      (sp_x o1 - (sp_x b - previous_x a)) (sp_y o1 - (sp_y b - previous_y a)) k)"
  shows "\<exists>r' o2. sp_int os2 r = Some r' \<and> deref (heap r') (redpuck r') = Some o2 \<and>
    sp_x o2 + sp_x b = sp_x o1 + previous_x a \<and> sp_y o2 + sp_y b = sp_y o1 + previous_y a \<and>
    previous_x a' = sp_x b \<and> previous_y a' = sp_y b \<and> rx_bytes (inQueue r') = []"
proof -
  let ?dx = "sp_x b - previous_x a" and ?dy = "sp_y b - previous_y a"
  obtain w' where t: "transmit_puck_change os1 (heap a) (bluepuck a) (previous_x a) (previous_y a) (world a) = Some (sp_x b, sp_y b, w')"
    "sent w' = sent (world a) @ signal_bytes (word_of_int ?dx) @ signal_bytes (word_of_int ?dy)"
    using transmit_puck_change_sent [OF assms(1,2,4), of "world a"] by blast
  have a': "world a' = w'" "previous_x a' = sp_x b" "previous_y a' = sp_y b"
    using assms(3) t(1) by (auto simp: transmit_puck_def)
  have fifo: "fifo w1 = signal_bytes (word_of_int ?dx) @ signal_bytes (word_of_int ?dy)"
    using assms(13) t(2) a'(1) by simp
  note dx = sint_displacement [OF assms(5)] and dy = sint_displacement [OF assms(6)]
  obtain q w where q: "sp_int os2 r = act_on os2 (word_of_int ?dx) (word_of_int ?dy) (r\<lparr>world := w, inQueue := q\<rparr>)"
    "rx_ok q" "rx_bytes q = []"
    by (rule whole_message [OF assms(7) game_ok_rx [OF assms(8)] assms(11,9,10,12) fifo dx(3)])
  let ?r = "r\<lparr>world := w, inQueue := q\<rparr>"
  have x: "sp_x o1 + sint (- word_of_int ?dx :: i16) = sp_x o1 - ?dx" unfolding dx(2) by simp
  have y: "sp_y o1 - sint (word_of_int ?dy :: i16) = sp_y o1 - ?dy" unfolding dy(1) by simp
  have "arena_ok ?r" by (rule game_ok_arena [OF game_ok_link [OF assms(8) q(2)]])
  moreover have "deref (heap ?r) (redpuck r) = Some o1" "deref (heap ?r) (ball ?r) = Some k" "redpuck r = redpuck ?r"
    "\<not> (is_main_pc ?r \<and> overlap (unat (bytes_per_pixel ?r)) o1 (sp_x o1 - ?dx) (sp_y o1 - ?dy) k)"
    using assms(14,15,18) by simp_all
  ultimately have "move os2 (redpuck r) (- word_of_int ?dx) (word_of_int ?dy) 2 ?r =
      Some (?r\<lparr>heap := (heap ?r)(redpuck r \<mapsto> o1\<lparr>sp_x := sp_x o1 - ?dx, sp_y := sp_y o1 - ?dy,
        xspeed := sint (- word_of_int ?dx :: i16), yspeed := sint (word_of_int ?dy :: i16)\<rparr>)\<rparr>)"
    by (intro puck_free [OF _ disjI1 _ _ x y assms(16,17)])
  then have "sp_int os2 r = Some (?r\<lparr>heap := (heap r)(redpuck r \<mapsto> o1\<lparr>sp_x := sp_x o1 - ?dx, sp_y := sp_y o1 - ?dy,
      xspeed := sint (- word_of_int ?dx :: i16), yspeed := sint (word_of_int ?dy :: i16)\<rparr>)\<rparr>)"
    using q(1) dx(4) by (simp add: act_on_def del: of_int_diff)
  moreover have "redpuck r \<noteq> NULL" using assms(14) by (auto dest: deref_SomeD)
  ultimately show ?thesis using a'(2,3) q(3) by (auto simp: deref_def)
qed

lemma two_bytes:
  obtains y :: u16 where "signal_bytes y = [lo, hi]" "ucast (y AND 0x00FF) = lo" "ucast (drop_bit 8 y) = hi"
proof
  let ?y = "ucast lo OR push_bit 8 (ucast hi) :: u16"
  have m: "(0x00FF :: u16) = mask 8" by (simp add: mask_eq_exp_minus_1)
  show lo: "ucast (?y AND 0x00FF) = lo" unfolding m by (rule bit_word_eqI) (auto simp: bit_simps)
  show hi: "ucast (drop_bit 8 ?y) = hi" by (rule bit_word_eqI) (auto simp: bit_simps dest: bit_imp_le_length)
  have "ucast ?y = lo" by (rule bit_word_eqI) (auto simp: bit_simps)
  then show "signal_bytes ?y = [lo, hi]" using hi by (simp add: signal_bytes_def)
qed

lemma sint_speed:
  assumes "\<bar>v\<bar> \<le> 127"
  shows "sint (word_of_int v :: byte) = v"
proof -
  have "- (2 ^ 7) \<le> v" "v < 2 ^ 7" using assms by auto
  then show ?thesis by (simp add: sint_sbintrunc' signed_take_bit_int_eq_self)
qed

text \<open>C8 (the ball of the other computer): the four bytes the main computer sends for a new speed of the
  ball give the ball of the other computer the opposite speed and leave its place.\<close>

theorem ball_mirrored:
  assumes "uart_tx os1 sent" and "\<bar>vx\<bar> \<le> 127" and "\<bar>vy\<bar> \<le> 127"
    and "sent (transmit_ball_speed os1 vx vy w0) = sent w0 @ fifo w1"
    and "uart_rx os2 fifo" and "game_ok r" and "mainState r = GAME" and "\<not> is_stored_x r"
    and "rx_bytes (inQueue r) = []" and "data_arrived os2 (world r) w1" and "deref (heap r) (ball r) = Some k"
  shows "\<exists>r'. sp_int os2 r = Some r' \<and> ball r' = ball r \<and>
    deref (heap r') (ball r') = Some (k\<lparr>xspeed := - vx, yspeed := - vy\<rparr>) \<and> rx_bytes (inQueue r') = []"
proof -
  obtain y :: u16 where y: "signal_bytes y = [word_of_int vx, word_of_int vy]" "ucast (y AND 0x00FF) = (word_of_int vx :: byte)"
    "ucast (drop_bit 8 y) = (word_of_int vy :: byte)" by (rule two_bytes)
  have fifo: "fifo w1 = signal_bytes ball_signal @ signal_bytes y"
    using assms(4) transmit_ball_speed_sent [OF assms(1), of vx vy w0] y(1) by simp
  have "ball_signal \<noteq> signal1" by (simp add: ball_signal_def signal1_def)
  from whole_message [OF assms(5) game_ok_rx [OF assms(6)] assms(9,7,8,10) fifo this] obtain q w where
    q: "sp_int os2 r = act_on os2 ball_signal y (r\<lparr>world := w, inQueue := q\<rparr>)" "rx_bytes q = []" by blast
  have nn: "ball r \<noteq> NULL" using assms(11) by (auto dest: deref_SomeD)
  have "sp_int os2 r = Some (r\<lparr>world := w, inQueue := q, heap := (heap r)(ball r \<mapsto> k\<lparr>xspeed := - vx, yspeed := - vy\<rparr>)\<rparr>)"
    using q(1) y(2,3) assms(11) sint_speed [OF assms(2)] sint_speed [OF assms(3)]
    by (simp add: act_on_def set_ball_speed_def update_sprite_def)
  then show ?thesis using q(2) nn by (auto simp: deref_def)
qed

section \<open>Messages in two halves\<close>

text \<open>The handler takes what the queue holds: with only the first signal of a message it keeps it for the
  next interrupt.\<close>

lemma first_half:
  assumes "uart_rx os fifo" and ok: "rx_ok (inQueue r)" "rx_bytes (inQueue r) = []" and m: "mainState r = GAME" "\<not> is_stored_x r"
    and a: "data_arrived os (world r) w1" and b: "fifo w1 = signal_bytes x" and x: "x \<noteq> signal1"
  obtains q w where "sp_int os r = Some (r\<lparr>world := w, inQueue := q, stored_x := x, is_stored_x := True\<rparr>)" "rx_ok q"
    "rx_bytes q = []"
proof -
  obtain q w where q: "receive os r = Some (r\<lparr>inQueue := q, world := w\<rparr>)" "rx_ok q"
    "rx_bytes q = take 100 (rx_bytes (inQueue r) @ fifo w1)"
    by (rule receive_fifo [OF assms(1) ok(1) a])
  let ?r = "r\<lparr>inQueue := q, world := w\<rparr>"
  have bq: "rx_bytes (inQueue ?r) = signal_bytes x @ []" using q(3) ok(2) b by simp
  have oq: "rx_ok (inQueue ?r)" using q(2) by simp
  obtain q1 where q1: "next_signal 0 ?r = Some (0, x, ?r\<lparr>inQueue := q1\<rparr>)" "rx_ok q1" "rx_bytes q1 = []"
    by (rule next_signal_read [OF oq bq])
  have "next_signal 0 (?r\<lparr>inQueue := q1\<rparr>) = Some (1, 0, ?r\<lparr>inQueue := q1\<rparr>)"
    using q1(2,3) by (intro next_signal_none) simp_all
  then have "sp_int os r = Some (r\<lparr>world := w, inQueue := q1, stored_x := x, is_stored_x := True\<rparr>)"
    using q(1) q1(1) m x by (simp add: sp_int_def sp_int_game_def)
  then show thesis using that q1 by blast
qed

lemma second_half:
  assumes "uart_rx os fifo" and ok: "rx_ok (inQueue r)" "rx_bytes (inQueue r) = []" and m: "mainState r = GAME" "is_stored_x r"
    and a: "data_arrived os (world r) w1" and b: "fifo w1 = signal_bytes y" and x: "stored_x r \<noteq> signal1"
  obtains q w where "sp_int os r = act_on os (stored_x r) y (r\<lparr>world := w, inQueue := q, is_stored_x := False\<rparr>)" "rx_ok q"
    "rx_bytes q = []"
proof -
  obtain q w where q: "receive os r = Some (r\<lparr>inQueue := q, world := w\<rparr>)" "rx_ok q"
    "rx_bytes q = take 100 (rx_bytes (inQueue r) @ fifo w1)"
    by (rule receive_fifo [OF assms(1) ok(1) a])
  let ?r = "r\<lparr>inQueue := q, world := w, is_stored_x := False\<rparr>"
  have bq: "rx_bytes (inQueue ?r) = signal_bytes y @ []" using q(3) ok(2) b by simp
  have oq: "rx_ok (inQueue ?r)" using q(2) by simp
  obtain q1 where q1: "next_signal 0 ?r = Some (0, y, ?r\<lparr>inQueue := q1\<rparr>)" "rx_ok q1" "rx_bytes q1 = []"
    by (rule next_signal_read [OF oq bq])
  have "r\<lparr>world := w, is_stored_x := False, inQueue := q1\<rparr> = r\<lparr>world := w, inQueue := q1, is_stored_x := False\<rparr>"
    by (cases r) simp
  moreover have "sp_int os r = act_on os (stored_x r) y (r\<lparr>world := w, is_stored_x := False, inQueue := q1\<rparr>)"
    using q(1) q1(1) m x by (simp add: sp_int_def sp_int_game_def act_on_def)
  ultimately have "sp_int os r = act_on os (stored_x r) y (r\<lparr>world := w, inQueue := q1, is_stored_x := False\<rparr>)"
    by (simp only:)
  then show thesis using that q1 by blast
qed

text \<open>A message in two halves: a message whose two signals arrive with two interrupts is carried out by
  the second one exactly as a whole message would be: the first interrupt only remembers its signal.\<close>

theorem message_in_halves:
  assumes "uart_rx os fifo" and "game_ok r" and "rx_bytes (inQueue r) = []" and "mainState r = GAME" and "\<not> is_stored_x r"
    and "data_arrived os (world r) w1" and "fifo w1 = signal_bytes x" and "x \<noteq> signal1"
  shows "\<exists>r1. sp_int os r = Some r1 \<and> heap r1 = heap r \<and> game_ok r1 \<and>
    (\<forall>v w2 y. data_arrived os v w2 \<and> fifo w2 = signal_bytes y \<longrightarrow>
      (\<exists>q w. sp_int os (r1\<lparr>world := v\<rparr>) = act_on os x y (r\<lparr>world := w, inQueue := q, stored_x := x, is_stored_x := False\<rparr>) \<and>
        rx_bytes q = []))"
proof -
  have ok: "rx_ok (inQueue r)" by (rule game_ok_rx [OF assms(2)])
  obtain q w where q: "sp_int os r = Some (r\<lparr>world := w, inQueue := q, stored_x := x, is_stored_x := True\<rparr>)" "rx_ok q"
    "rx_bytes q = []" by (rule first_half [OF assms(1) ok assms(3-8)])
  let ?r1 = "r\<lparr>world := w, inQueue := q, stored_x := x, is_stored_x := True\<rparr>"
  have g: "game_ok ?r1"
    using game_ok_link [OF assms(2) q(2), of w] by simp
  have h: "\<exists>q w. sp_int os (?r1\<lparr>world := v\<rparr>) =
        act_on os x y (r\<lparr>world := w, inQueue := q, stored_x := x, is_stored_x := False\<rparr>) \<and> rx_bytes q = []"
    if a: "data_arrived os v w2" "fifo w2 = signal_bytes y" for v w2 y
  proof -
    let ?r2 = "?r1\<lparr>world := v\<rparr>"
    obtain q2 u where q2: "sp_int os ?r2 = act_on os (stored_x ?r2) y (?r2\<lparr>world := u, inQueue := q2, is_stored_x := False\<rparr>)"
      "rx_bytes q2 = []"
      by (rule second_half [OF assms(1), of ?r2 w2 y]) (use q a assms(4,8) in simp_all)
    moreover have "?r2\<lparr>world := u, inQueue := q2, is_stored_x := False\<rparr> =
        r\<lparr>world := u, inQueue := q2, stored_x := x, is_stored_x := False\<rparr>" by (cases r) simp
    moreover have "stored_x ?r2 = x" by simp
    ultimately have "sp_int os ?r2 = act_on os x y (r\<lparr>world := u, inQueue := q2, stored_x := x, is_stored_x := False\<rparr>)"
      by (simp only:)
    then show ?thesis using q2(2) by blast
  qed
  have "heap ?r1 = heap r" by simp
  with q(1) g h show ?thesis by blast
qed

section \<open>Starting and abandoning a match together\<close>

lemma signal_read:
  assumes "uart_rx os fifo" and "game_ok r" and "rx_bytes (inQueue r) = []" and "data_arrived os (world r) w1"
    and "fifo w1 = signal_bytes x"
  obtains q w q1 where "receive os r = Some (r\<lparr>inQueue := q, world := w\<rparr>)"
    "next_signal 0 (r\<lparr>inQueue := q, world := w\<rparr>) = Some (0, x, r\<lparr>world := w, inQueue := q1\<rparr>)" "rx_ok q1" "rx_bytes q1 = []"
proof -
  obtain q w where q: "receive os r = Some (r\<lparr>inQueue := q, world := w\<rparr>)" "rx_ok q"
    "rx_bytes q = take 100 (rx_bytes (inQueue r) @ fifo w1)"
    by (rule receive_fifo [OF assms(1) game_ok_rx [OF assms(2)] assms(4)])
  let ?r = "r\<lparr>inQueue := q, world := w\<rparr>"
  have bq: "rx_bytes (inQueue ?r) = signal_bytes x @ []" using q(3) assms(3,5) by simp
  have oq: "rx_ok (inQueue ?r)" using q(2) by simp
  obtain q1 where q1: "next_signal 0 ?r = Some (0, x, ?r\<lparr>inQueue := q1\<rparr>)" "rx_ok q1" "rx_bytes q1 = []"
    by (rule next_signal_read [OF oq bq])
  show thesis using that [OF q(1) _ q1(2,3)] q1(1) by simp
qed

text \<open>C23 (the start signal): what the computer that starts a match announces makes the other one, waiting in
  its main menu, start the same match as the second computer, with the highlighted button of its menu
  left as it was; the same signal during a match takes it back to the main menu.\<close>

theorem signal_moves_both:
  assumes "uart_tx os1 sent" and "sent (world (announce os1 a)) = sent (world a) @ fifo w1"
    and "uart_rx os2 fifo" and "xpm_loads os2" and "sys_hz os2 \<noteq> 0" and "game_ok r" and "rx_bytes (inQueue r) = []"
    and "data_arrived os2 (world r) w1" and "mainState r = MAIN_MENU \<or> mainState r = GAME \<and> \<not> is_stored_x r"
  shows "\<exists>r'. sp_int os2 r = Some r' \<and> game_ok r' \<and>
    mainState r' = (if mainState r = MAIN_MENU then GAME else MAIN_MENU) \<and> option_index r' = option_index r \<and>
    (mainState r = MAIN_MENU \<longrightarrow> \<not> is_main_pc r' \<and> player_1_score r' = 0 \<and> player_2_score r' = 0 \<and> time_remaining r' = 200)"
proof -
  have f: "fifo w1 = signal_bytes signal1"
    using assms(2) send_signal_sent [OF assms(1), of signal1 "world a"] by (simp add: announce_def)
  obtain q w q1 where q: "receive os2 r = Some (r\<lparr>inQueue := q, world := w\<rparr>)"
    "next_signal 0 (r\<lparr>inQueue := q, world := w\<rparr>) = Some (0, signal1, r\<lparr>world := w, inQueue := q1\<rparr>)" "rx_ok q1"
    by (rule signal_read [OF assms(3,6,7,8) f])
  let ?r = "r\<lparr>world := w, inQueue := q1\<rparr>"
  have ok: "game_ok ?r" by (rule game_ok_link [OF assms(6) q(3)])
  show ?thesis
  proof (cases "mainState r = MAIN_MENU")
    case True
    have e: "sp_int os2 r = do { s \<leftarrow> reset_fifo os2 ?r; s \<leftarrow> reset_game_state os2 (s\<lparr>mainState := GAME\<rparr>);
         Some (s\<lparr>is_main_pc := False\<rparr>) }"
      using True q(1,2) by (simp add: sp_int_def sp_int_menu_def)
    obtain r1 where r1: "reset_fifo os2 ?r = Some r1" "stays ?r r1" using stays_reset_fifo [OF ok] by (auto simp: returns_def)
    have "game_ok (r1\<lparr>mainState := GAME\<rparr>)" using r1(2) by (simp add: stays_def)
    from reset_returns [OF this assms(5)] obtain r2 where
      r2: "reset_game_state os2 (r1\<lparr>mainState := GAME\<rparr>) = Some r2" "kicked_off (r1\<lparr>mainState := GAME\<rparr>) r2"
      by (auto simp: returns_def)
    have "option_index r1 = option_index r" using staysD(3) [OF r1(2)] by simp
    then show ?thesis using e r1(1) r2 True by (simp add: kicked_off_def)
  next
    case False
    then have m: "mainState r = GAME" "\<not> is_stored_x r" using assms(9) by simp_all
    have e: "sp_int os2 r = draw_frame os2 (?r\<lparr>mainState := MAIN_MENU\<rparr>)"
      using m q(1,2) by (simp add: sp_int_def sp_int_game_def)
    have "game_ok (?r\<lparr>mainState := MAIN_MENU\<rparr>)" using ok by simp
    from stays_draw [OF this assms(4)] obtain r2 where
      "draw_frame os2 (?r\<lparr>mainState := MAIN_MENU\<rparr>) = Some r2" "stays (?r\<lparr>mainState := MAIN_MENU\<rparr>) r2"
      by (auto simp: returns_def scores_fit_def)
    then show ?thesis using e False by (simp add: stays_def ctl_of_def)
  qed
qed

section \<open>Two concrete computers\<close>

text \<open>The machine of \<open>Project\<close> with a working UART: \<open>replies\<close> are the received bytes, \<open>writes\<close> the
  registers written.\<close>

definition link_os :: "bench os" where
  "link_os = pc_os\<lparr>sys_inb := (\<lambda>port w.
     if port = BASE_ADDR_COM1 + LSR then ((0, if replies w = [] then 0x60 else 0x61), w)
     else if port = BASE_ADDR_COM1 + RBR \<and> replies w \<noteq> [] then ((0, hd (replies w)), w\<lparr>replies := tl (replies w)\<rparr>)
     else ((0, 4), w))\<rparr>"

definition link_fifo :: "bench \<Rightarrow> byte list" where
  "link_fifo w = map ucast (replies w)"

definition link_sent :: "bench \<Rightarrow> byte list" where
  "link_sent w = map (ucast \<circ> snd) (filter (\<lambda>p. fst p = BASE_ADDR_COM1 + THR) (writes w))"

definition cable :: "byte list \<Rightarrow> bench" where
  "cable bs = \<lparr>replies = map ucast bs, writes = []\<rparr>"

lemma cable_simps [simp]: "link_fifo (cable bs) = bs" "link_sent (cable bs) = []"
  by (simp_all add: cable_def link_fifo_def link_sent_def comp_def)

lemma link_os_loads: "xpm_loads link_os"
proof -
  have "xpm_load link_os = xpm_load pc_os" by (simp add: link_os_def)
  then have "loads_as link_os = loads_as pc_os" by (intro ext) (simp add: loads_as_def)
  then show ?thesis using pc_os_loads by (simp add: xpm_loads_def)
qed

lemma link_os_tx: "uart_tx link_os link_sent"
  by (auto simp: uart_tx_def link_os_def uart_ports link_sent_def)

lemma link_os_rx: "uart_rx link_os link_fifo"
  by (auto simp: uart_rx_def link_os_def uart_ports link_fifo_def)

lemma link_os_hz: "sys_hz link_os \<noteq> 0"
  by (simp add: link_os_def)

lemma link_os_arrived: "data_arrived link_os w w"
  by (simp add: data_arrived_def link_os_def uart_ports)

lemma link_state:
  obtains r :: "bench game" and b o1 k where "game_ok r" "mainState r = GAME" "\<not> is_stored_x r" "\<not> is_main_pc r"
    "rx_bytes (inQueue r) = []" "world r = cable bs"
    "deref (heap r) (bluepuck r) = Some b" "sp_x b = 535" "sp_y b = 730"
    "deref (heap r) (redpuck r) = Some o1" "top_half o1" "sp_x o1 = 535" "sp_y o1 = 55" "deref (heap r) (ball r) = Some k"
proof -
  obtain s :: "bench game" and b o1 k where s: "game_ok s" "mainState s = GAME" "is_stored_x s = False"
    "deref (heap s) (bluepuck s) = Some b" "sp_x b = 535" "sp_y b = 730"
    "deref (heap s) (redpuck s) = Some o1" "top_half o1" "sp_x o1 = 535" "sp_y o1 = 55" "deref (heap s) (ball s) = Some k"
    by (rule kick_off_state) blast
  have "game_ok (s\<lparr>world := cable bs, inQueue := Some fresh_queue\<rparr>)"
    by (rule game_ok_link [OF s(1) fresh_queue_ok(1)])
  then have "game_ok (s\<lparr>world := cable bs, inQueue := Some fresh_queue, is_main_pc := False\<rparr>)" by simp
  then show thesis using that [of "s\<lparr>world := cable bs, inQueue := Some fresh_queue, is_main_pc := False\<rparr>"] s fresh_queue_ok(2)
    by simp
qed

theorem puck_mirrored_witness:
  "\<exists>r r' :: bench game. \<exists>o2. sp_int link_os r = Some r' \<and> deref (heap r') (redpuck r') = Some o2 \<and> sp_x o2 = 525"
proof -
  obtain a0 :: "bench game" and b where a0: "deref (heap a0) (bluepuck a0) = Some b" "sp_x b = 535" "sp_y b = 730"
    by (rule link_state [of "[]"]) blast
  let ?a = "a0\<lparr>previous_x := 525, previous_y := 730\<rparr>"
  have ab: "deref (heap ?a) (bluepuck ?a) = Some b" using a0(1) by simp
  let ?bs = "signal_bytes 10 @ signal_bytes 0"
  have "sp_x b \<noteq> 525 \<or> sp_y b \<noteq> 730" using a0(2) by simp
  from transmit_puck_change_sent [OF link_os_tx ab this, of "world ?a"] obtain w' where
    t: "transmit_puck_change link_os (heap ?a) (bluepuck ?a) 525 730 (world ?a) = Some (535, 730, w')"
    "link_sent w' = link_sent (world ?a) @ ?bs" using a0(2,3) by auto
  let ?a' = "?a\<lparr>previous_x := 535, previous_y := 730, world := w'\<rparr>"
  have tp: "transmit_puck link_os ?a = Some ?a'" using t(1) by (simp add: transmit_puck_def)
  obtain r :: "bench game" and o1 k where r: "game_ok r" "mainState r = GAME" "\<not> is_stored_x r" "\<not> is_main_pc r"
    "rx_bytes (inQueue r) = []" "world r = cable ?bs" "deref (heap r) (redpuck r) = Some o1" "top_half o1"
    "sp_x o1 = 535" "sp_y o1 = 55" "deref (heap r) (ball r) = Some k" by (rule link_state [of ?bs]) blast
  have ar: "data_arrived link_os (world r) (cable ?bs)" using link_os_arrived r(6) by simp
  have "\<exists>r' o2. sp_int link_os r = Some r' \<and> deref (heap r') (redpuck r') = Some o2 \<and>
    sp_x o2 + sp_x b = sp_x o1 + previous_x ?a \<and> sp_y o2 + sp_y b = sp_y o1 + previous_y ?a \<and>
    previous_x ?a' = sp_x b \<and> previous_y ?a' = sp_y b \<and> rx_bytes (inQueue r') = []"
    by (rule puck_mirrored [OF link_os_tx ab tp _ _ _ link_os_rx r(1-3,5) ar _ r(7,11)])
      (use a0 r t in \<open>simp_all add: top_half_def in_area_def fits_at_def detect_middle_field_collision_def middle_field_def\<close>)
  then show ?thesis using a0(2) r(9) by fastforce
qed

theorem ball_mirrored_witness:
  "\<exists>r r' :: bench game. \<exists>k. sp_int link_os r = Some r' \<and> deref (heap r') (ball r') = Some k \<and> xspeed k = 15 \<and> yspeed k = - 7"
proof -
  let ?bs = "signal_bytes ball_signal @ [word_of_int (- 15), word_of_int 7]"
  obtain r :: "bench game" and k where r: "game_ok r" "mainState r = GAME" "\<not> is_stored_x r"
    "rx_bytes (inQueue r) = []" "world r = cable ?bs" "deref (heap r) (ball r) = Some k" by (rule link_state [of ?bs]) blast
  have ar: "data_arrived link_os (world r) (cable ?bs)" using link_os_arrived r(5) by simp
  have s: "link_sent (transmit_ball_speed link_os (- 15) 7 (cable [])) = link_sent (cable []) @ link_fifo (cable ?bs)"
    using transmit_ball_speed_sent [OF link_os_tx] by (simp only: cable_simps)
  from ball_mirrored [OF link_os_tx _ _ s link_os_rx r(1-4) ar r(6)] show ?thesis by fastforce
qed

theorem message_in_halves_witness:
  "\<exists>r r1 r2 :: bench game. \<exists>k. sp_int link_os r = Some r1 \<and> sp_int link_os (r1\<lparr>world := cable (signal_bytes 7)\<rparr>) = Some r2 \<and>
     deref (heap r2) (ball r2) = Some k \<and> xspeed k = - 7 \<and> rx_bytes (inQueue r2) = []"
proof -
  obtain r :: "bench game" and k where r: "game_ok r" "mainState r = GAME" "\<not> is_stored_x r"
    "rx_bytes (inQueue r) = []" "world r = cable (signal_bytes ball_signal)" "deref (heap r) (ball r) = Some k"
    by (rule link_state [of "signal_bytes ball_signal"]) blast
  have ar: "data_arrived link_os (world r) (cable (signal_bytes ball_signal))" using link_os_arrived r(5) by simp
  have n: "ball_signal \<noteq> signal1" by (simp add: ball_signal_def signal1_def)
  have nn: "ball r \<noteq> NULL" using r(6) by (auto dest: deref_SomeD)
  obtain r1 where r1: "sp_int link_os r = Some r1"
    "\<forall>v w2 y. data_arrived link_os v w2 \<and> link_fifo w2 = signal_bytes y \<longrightarrow>
      (\<exists>q w. sp_int link_os (r1\<lparr>world := v\<rparr>) =
          act_on link_os ball_signal y (r\<lparr>world := w, inQueue := q, stored_x := ball_signal, is_stored_x := False\<rparr>) \<and>
        rx_bytes q = [])"
    using message_in_halves [OF link_os_rx r(1,4,2,3) ar cable_simps(1) n] by blast
  let ?c = "cable (signal_bytes 7)"
  have "data_arrived link_os ?c ?c \<and> link_fifo ?c = signal_bytes 7" using link_os_arrived by simp
  then obtain q w where "sp_int link_os (r1\<lparr>world := ?c\<rparr>) =
      act_on link_os ball_signal 7 (r\<lparr>world := w, inQueue := q, stored_x := ball_signal, is_stored_x := False\<rparr>)" "rx_bytes q = []"
    using r1(2) by meson
  then show ?thesis using r1(1) r(6) nn
    by (intro exI [of _ r] exI [of _ r1] exI [of _ "r\<lparr>world := w, inQueue := q, stored_x := ball_signal,
          is_stored_x := False, heap := (heap r)(ball r \<mapsto> k\<lparr>xspeed := - 7, yspeed := 0\<rparr>)\<rparr>"]
        exI [of _ "k\<lparr>xspeed := - 7, yspeed := 0\<rparr>"])
      (simp add: act_on_def set_ball_speed_def update_sprite_def deref_def)
qed

theorem signal_moves_both_witness:
  "\<exists>r r' :: bench game. mainState r = MAIN_MENU \<and> sp_int link_os r = Some r' \<and> mainState r' = GAME \<and> time_remaining r' = 200"
proof -
  let ?bs = "signal_bytes signal1"
  obtain a :: "bench game" where a: "world a = cable []" by (rule link_state) blast
  obtain r0 :: "bench game" where r0: "game_ok r0" "rx_bytes (inQueue r0) = []" "world r0 = cable ?bs" by (rule link_state [of ?bs]) blast
  let ?r = "r0\<lparr>mainState := MAIN_MENU\<rparr>"
  have r: "game_ok ?r" "rx_bytes (inQueue ?r) = []" "data_arrived link_os (world ?r) (cable ?bs)"
    using r0 link_os_arrived by simp_all
  have s: "link_sent (world (announce link_os a)) = link_sent (world a) @ link_fifo (cable ?bs)"
    using send_signal_sent [OF link_os_tx, of signal1 "cable []"] a by (simp add: announce_def)
  from signal_moves_both [OF link_os_tx s link_os_rx link_os_loads link_os_hz r]
  obtain r' where "sp_int link_os ?r = Some r'" "mainState r' = GAME" "time_remaining r' = 200" by auto
  then show ?thesis by (intro exI [of _ ?r] exI [of _ r']) simp
qed

end
