(* ===== verification/Keys.thy ===== *)
theory Keys
  imports Match
begin

text \<open>
  The keyboard in the menus: the keys S and W move the highlight round the ring of buttons, the space
  bar runs the highlighted one, and an index left behind by the other menu is out of bounds.
\<close>

section \<open>Keys that do nothing\<close>

lemma on_space_other:
  assumes "game_ok s" and "p \<in> fixed_ptrs s" and "scancode (keyboard_dev s) \<noteq> SPACE_BREAK_CODE"
  shows "on_space p f s = Some s"
proof -
  obtain o1 where "deref (heap s) p = Some o1" by (rule game_ok_deref [OF assms(1,2)])
  then show ?thesis using assms(3) by (simp add: on_space_def)
qed

lemma on_space_dark:
  assumes "deref (heap s) p = Some o1" and "\<not> selected o1"
  shows "on_space p f s = Some s"
  using assms by (simp add: on_space_def)

lemma on_space_lit:
  assumes "deref (heap s) p = Some o1" and "selected o1" and "scancode (keyboard_dev s) = SPACE_BREAK_CODE"
  shows "on_space p f s = f s"
  using assms by (simp add: on_space_def)

lemma on_key_other [simp]: "scancode (keyboard_dev s) \<noteq> c \<Longrightarrow> on_key c f s = Some s"
  by (simp add: on_key_def)

lemma on_key_this [simp]: "scancode (keyboard_dev s) = c \<Longrightarrow> on_key c f s = f s"
  by (simp add: on_key_def)

lemma key_codes [simp]:
  "S_BREAK_CODE \<noteq> SPACE_BREAK_CODE" "W_BREAK_CODE \<noteq> SPACE_BREAK_CODE" "S_BREAK_CODE \<noteq> W_BREAK_CODE"
  "W_BREAK_CODE \<noteq> S_BREAK_CODE" "SPACE_BREAK_CODE \<noteq> S_BREAK_CODE" "SPACE_BREAK_CODE \<noteq> W_BREAK_CODE"
  by (simp_all add: S_BREAK_CODE_def W_BREAK_CODE_def SPACE_BREAK_CODE_def)

lemma light_keyboard [simp]: "keyboard_dev (light us ss j s) = keyboard_dev s" "mainState (light us ss j s) = mainState s"
  "option_index (light us ss j s) = j"
  by (simp_all add: light_def)

section \<open>Moving the highlight\<close>

lemma menu_keys_other:
  assumes "game_ok s" and "scancode (keyboard_dev s) \<noteq> SPACE_BREAK_CODE"
  shows "menu_keys os s = do {
       s \<leftarrow> on_key S_BREAK_CODE (\<lambda>s. option_down (buttons_menu_unselected s) (buttons_menu_selected s) 3 s) s;
       on_key W_BREAK_CODE (\<lambda>s. option_up (buttons_menu_unselected s) (buttons_menu_selected s) 3 s) s }"
  using on_space_other [OF assms(1) fixed_ptrs_members(18) assms(2)]
    on_space_other [OF assms(1) fixed_ptrs_members(14) assms(2)] on_space_other [OF assms(1) fixed_ptrs_members(16) assms(2)]
  by (simp add: menu_keys_def)

lemma popOutButtons_other:
  assumes "game_ok s" and "scancode (keyboard_dev s) \<noteq> SPACE_BREAK_CODE"
  shows "popOutButtons os s = do {
       s \<leftarrow> on_key W_BREAK_CODE (\<lambda>s. option_up (buttons_winlose_unselected s) (buttons_winlose_selected s) 2 s) s;
       on_key S_BREAK_CODE (\<lambda>s. option_down (buttons_winlose_unselected s) (buttons_winlose_selected s) 2 s) s }"
  using on_space_other [OF assms(1) fixed_ptrs_members(22) assms(2)]
    on_space_other [OF assms(1) fixed_ptrs_members(20) assms(2)]
  by (simp add: popOutButtons_def)

text \<open>The key that moves the highlight by \<open>d\<close>.\<close>

definition key_step :: "byte \<Rightarrow> int" where
  "key_step c = (if c = S_BREAK_CODE then 1 else - 1)"

lemma menu_moves:
  assumes ok: "game_ok s" and lit: "menu_lit buttons_menu_unselected buttons_menu_selected 3 s"
    and m: "mainState s = MAIN_MENU" and c: "scancode (keyboard_dev s) \<in> {S_BREAK_CODE, W_BREAK_CODE}"
  shows "keyboard_keys os s = Some (light buttons_menu_unselected buttons_menu_selected
      ((option_index s + key_step (scancode (keyboard_dev s))) mod 3) s)"
proof -
  have i: "0 \<le> option_index s" "option_index s < 3" using lit by (simp_all add: menu_lit_def)
  have k: "keyboard_keys os s = menu_keys os s" using m by (simp add: keyboard_keys_def)
  from c consider "scancode (keyboard_dev s) = S_BREAK_CODE" | "scancode (keyboard_dev s) = W_BREAK_CODE" by blast
  then show ?thesis
  proof cases
    case 1
    then show ?thesis using menu_keys_other [OF ok] main_menu.down [OF ok lit] button_down_mod [OF i] k
      by (simp add: key_step_def)
  next
    case 2
    then show ?thesis using menu_keys_other [OF ok] main_menu.up [OF ok lit] button_up_mod [OF i] k
      by (simp add: key_step_def)
  qed
qed

lemma popOut_moves:
  assumes ok: "game_ok s" and lit: "menu_lit buttons_winlose_unselected buttons_winlose_selected 2 s"
    and m: "mainState s \<in> {WIN, LOST, TIE}" and c: "scancode (keyboard_dev s) \<in> {S_BREAK_CODE, W_BREAK_CODE}"
  shows "keyboard_keys os s = Some (light buttons_winlose_unselected buttons_winlose_selected
      ((option_index s + key_step (scancode (keyboard_dev s))) mod 2) s)"
proof -
  have i: "0 \<le> option_index s" "option_index s < 2" using lit by (simp_all add: menu_lit_def)
  have k: "keyboard_keys os s = popOutButtons os s" using m by (auto simp: keyboard_keys_def)
  from c consider "scancode (keyboard_dev s) = S_BREAK_CODE" | "scancode (keyboard_dev s) = W_BREAK_CODE" by blast
  then show ?thesis
  proof cases
    case 1
    then show ?thesis using popOutButtons_other [OF ok] pop_out.down [OF ok lit] button_down_mod [OF i] k
      by (simp add: key_step_def)
  next
    case 2
    then show ?thesis using popOutButtons_other [OF ok] pop_out.up [OF ok lit] button_up_mod [OF i] k
      by (simp add: key_step_def)
  qed
qed

lemma light_spec:
  assumes "menu_lit us ss n (light us ss j s)"
  shows "\<exists>s' h. Some (light us ss j s) = Some s' \<and> s' = s\<lparr>heap := h, option_index := j\<rparr> \<and>
    (\<forall>p. p \<notin> set (us s) \<union> set (ss s) \<longrightarrow> h p = heap s p) \<and> menu_lit us ss n s'"
  using assms
  by (intro exI [of _ "light us ss j s"] exI [of _ "relight (set (us s) \<union> set (ss s)) {us s ! nat j, ss s ! nat j} (heap s)"])
    (simp add: light_def relight_def)

text \<open>C25 (the highlight goes round): in the main menu and over a finished match, when exactly the button
  \<^verbatim>\<open>option\<close> is highlighted, S moves the highlight to the next button and W to the previous one, round
  the ring; the key changes nothing else, and again exactly one button is highlighted.\<close>

theorem highlight_goes_round:
  assumes "game_ok s" and "mainState s = MAIN_MENU \<or> mainState s \<in> {WIN, LOST, TIE}"
    and "scancode (keyboard_dev s) \<in> {S_BREAK_CODE, W_BREAK_CODE}"
    and "n = (if mainState s = MAIN_MENU then 3 else 2)"
    and "us = (if mainState s = MAIN_MENU then buttons_menu_unselected else buttons_winlose_unselected)"
    and "ss = (if mainState s = MAIN_MENU then buttons_menu_selected else buttons_winlose_selected)"
    and "menu_lit us ss n s"
  shows "\<exists>s' h. keyboard_keys os s = Some s' \<and>
    s' = s\<lparr>heap := h, option_index := (option_index s + (if scancode (keyboard_dev s) = S_BREAK_CODE then 1 else - 1)) mod int n\<rparr> \<and>
    (\<forall>p. p \<notin> set (us s) \<union> set (ss s) \<longrightarrow> h p = heap s p) \<and> menu_lit us ss n s'"
proof (cases "mainState s = MAIN_MENU")
  case True
  then have lit: "menu_lit buttons_menu_unselected buttons_menu_selected 3 s" using assms(4-7) by simp
  have e: "us = buttons_menu_unselected" "ss = buttons_menu_selected" "n = 3" using True assms(4-6) by simp_all
  show ?thesis unfolding menu_moves [OF assms(1) lit True assms(3), of os] key_step_def e of_nat_numeral
    by (rule light_spec, rule main_menu.light_lit [OF assms(1)]) simp_all
next
  case False
  then have lit: "menu_lit buttons_winlose_unselected buttons_winlose_selected 2 s" using assms(4-7) by simp
  have m: "mainState s \<in> {WIN, LOST, TIE}" using False assms(2) by simp
  have e: "us = buttons_winlose_unselected" "ss = buttons_winlose_selected" "n = 2" using False assms(4-6) by simp_all
  show ?thesis unfolding popOut_moves [OF assms(1) lit m assms(3), of os] key_step_def e of_nat_numeral
    by (rule light_spec, rule pop_out.light_lit [OF assms(1)]) simp_all
qed

section \<open>The space bar\<close>

text \<open>Which of the buttons of the main menu is selected.\<close>

lemma main_buttons:
  assumes ok: "game_ok s" and lit: "menu_lit buttons_menu_unselected buttons_menu_selected 3 s"
  obtains st ru ex where
    "deref (heap s) (start_button_selected s) = Some st" "selected st \<longleftrightarrow> option_index s = 0"
    "deref (heap s) (rules_button_selected s) = Some ru" "selected ru \<longleftrightarrow> option_index s = 1"
    "deref (heap s) (exit_button_selected s) = Some ex" "selected ex \<longleftrightarrow> option_index s = 2"
proof -
  have a: "buttons_menu_selected s = [start_button_selected s, rules_button_selected s, exit_button_selected s]"
    using ok by (simp add: game_ok_def buttons_ok_def)
  obtain st where st: "deref (heap s) (buttons_menu_selected s ! 0) = Some st" "selected st \<longleftrightarrow> option_index s = int 0"
    by (rule main_menu.lit_button [OF ok lit, of 0]) simp_all
  obtain ru where ru: "deref (heap s) (buttons_menu_selected s ! 1) = Some ru" "selected ru \<longleftrightarrow> option_index s = int 1"
    by (rule main_menu.lit_button [OF ok lit, of 1]) simp_all
  obtain ex where ex: "deref (heap s) (buttons_menu_selected s ! 2) = Some ex" "selected ex \<longleftrightarrow> option_index s = int 2"
    by (rule main_menu.lit_button [OF ok lit, of 2]) simp_all
  show thesis using that st ru ex unfolding a by simp
qed

text \<open>The sprites of the buttons are untouched by a new match.\<close>

lemma new_match_buttons:
  assumes "game_ok s" and "p \<in> set (buttons_menu_selected s)"
  shows "heap (new_match os s) p = heap s p"
  using assms objects_distinct [OF assms(1)] by (auto simp: new_match_def game_ok_def buttons_ok_def)

lemma reset_fifo_frame:
  assumes "game_ok s"
  obtains q w where "reset_fifo os s = Some (s\<lparr>inQueue := q, world := w\<rparr>)" "rx_ok q"
proof -
  obtain r q' w' where "serialPort_resetFIFO os (inQueue s) (world s) = Some (r, q', w')" "rx_ok q'"
    using resetFIFO_spec [OF game_ok_rx [OF assms], of os "world s"] by blast
  then show thesis using that by (simp add: reset_fifo_def)
qed

lemma menu_keys_space:
  assumes ok: "game_ok s" and hz: "sys_hz os \<noteq> 0"
    and lit: "menu_lit buttons_menu_unselected buttons_menu_selected 3 s" and c: "scancode (keyboard_dev s) = SPACE_BREAK_CODE"
  shows "option_index s = 1 \<Longrightarrow> menu_keys os s = Some (s\<lparr>mainState := RULES\<rparr>)"
    and "option_index s = 2 \<Longrightarrow> menu_keys os s = Some (s\<lparr>mainState := STOP\<rparr>)"
    and "option_index s = 0 \<Longrightarrow> \<exists>q w. rx_ok q \<and> menu_keys os s =
      Some (new_match os ((announce os (s\<lparr>inQueue := q, world := w\<rparr>))\<lparr>is_main_pc := True, mainState := GAME\<rparr>))"
proof -
  obtain st ru ex where b:
    "deref (heap s) (start_button_selected s) = Some st" "selected st \<longleftrightarrow> option_index s = 0"
    "deref (heap s) (rules_button_selected s) = Some ru" "selected ru \<longleftrightarrow> option_index s = 1"
    "deref (heap s) (exit_button_selected s) = Some ex" "selected ex \<longleftrightarrow> option_index s = 2"
    by (rule main_buttons [OF ok lit])
  show "menu_keys os s = Some (s\<lparr>mainState := RULES\<rparr>)" if "option_index s = 1"
    using b c that by (simp add: menu_keys_def on_space_def)
  show "menu_keys os s = Some (s\<lparr>mainState := STOP\<rparr>)" if "option_index s = 2"
    using b c that by (simp add: menu_keys_def on_space_def)
  show "\<exists>q w. rx_ok q \<and> menu_keys os s =
      Some (new_match os ((announce os (s\<lparr>inQueue := q, world := w\<rparr>))\<lparr>is_main_pc := True, mainState := GAME\<rparr>))"
    if i: "option_index s = 0"
  proof -
    obtain q w where q: "reset_fifo os s = Some (s\<lparr>inQueue := q, world := w\<rparr>)" "rx_ok q" by (rule reset_fifo_frame [OF ok])
    let ?s0 = "s\<lparr>inQueue := q, world := w\<rparr>"
    let ?s1 = "(announce os ?s0)\<lparr>is_main_pc := True, mainState := GAME\<rparr>"
    have "game_ok ?s0" using stays_queue [OF ok q(2), of w] by (simp add: stays_def)
    from stays_announce [OF this, of os] have ok1: "game_ok ?s1" by (simp add: stays_def)
    have m: "rules_button_selected s \<in> set (buttons_menu_selected ?s1)"
      using ok by (simp add: announce_def game_ok_def buttons_ok_def)
    have "heap (new_match os ?s1) (rules_button_selected s) = heap s (rules_button_selected s)"
      using new_match_buttons [OF ok1 m, of os] by (simp add: announce_def)
    then have "deref (heap (new_match os ?s1)) (rules_button_selected s) = Some ru"
      using b(3) by (simp add: deref_def split: if_splits)
    moreover have "rules_button_selected (new_match os ?s1) = rules_button_selected s"
      by (simp add: new_match_def announce_def)
    ultimately have "deref (heap (new_match os ?s1)) (rules_button_selected (new_match os ?s1)) = Some ru" by simp
    then have r: "on_space (rules_button_selected (new_match os ?s1)) f (new_match os ?s1) = Some (new_match os ?s1)" for f
      using b(4) i by (simp add: on_space_def)
    have k: "scancode (keyboard_dev (new_match os ?s1)) = SPACE_BREAK_CODE" using c by (simp add: new_match_def announce_def)
    have "on_space (start_button_selected s) (\<lambda>s. do { s \<leftarrow> reset_fifo os s;
          reset_game_state os ((announce os s)\<lparr>is_main_pc := True, mainState := GAME\<rparr>) }) s = Some (new_match os ?s1)"
      using b(1,2) c i q(1) reset_new_match [OF ok1 hz] by (simp add: on_space_def)
    moreover have "on_space (exit_button_selected s) f s = Some s" for f using b(5,6) i by (simp add: on_space_def)
    ultimately have "menu_keys os s = Some (new_match os ?s1)" using r k by (simp add: menu_keys_def)
    then show ?thesis using q(2) by blast
  qed
qed

text \<open>C24 (the space bar runs the highlighted button): in the main menu, with exactly one button highlighted,
  releasing the space bar starts a match as the main computer, shows the rules, or stops the program,
  whichever is highlighted, and does nothing else; a match starts with an empty score and a full clock.\<close>

theorem space_runs_button:
  assumes "game_ok s" and "sys_hz os \<noteq> 0" and "mainState s = MAIN_MENU"
    and "menu_lit buttons_menu_unselected buttons_menu_selected 3 s" and "scancode (keyboard_dev s) = SPACE_BREAK_CODE"
  shows "\<exists>s'. keyboard_keys os s = Some s' \<and> game_ok s' \<and>
    mainState s' = (if option_index s = 0 then GAME else if option_index s = 1 then RULES else STOP) \<and>
    (option_index s = 0 \<longrightarrow> is_main_pc s' \<and> player_1_score s' = 0 \<and> player_2_score s' = 0 \<and> time_remaining s' = 200) \<and>
    (option_index s \<noteq> 0 \<longrightarrow> s' = s\<lparr>mainState := mainState s'\<rparr>)"
proof -
  have k: "keyboard_keys os s = menu_keys os s" using assms(3) by (simp add: keyboard_keys_def)
  have "0 \<le> option_index s" "option_index s < 3" using assms(4) by (simp_all add: menu_lit_def)
  then consider "option_index s = 0" | "option_index s = 1" | "option_index s = 2" by linarith
  then show ?thesis
  proof cases
    case 1
    obtain q w where q: "rx_ok q" "menu_keys os s =
      Some (new_match os ((announce os (s\<lparr>inQueue := q, world := w\<rparr>))\<lparr>is_main_pc := True, mainState := GAME\<rparr>))"
      using menu_keys_space(3) [OF assms(1,2,4,5) 1] by blast
    have "game_ok (s\<lparr>inQueue := q, world := w\<rparr>)" using stays_queue [OF assms(1) q(1), of w] by (simp add: stays_def)
    from stays_announce [OF this, of os]
    have "game_ok ((announce os (s\<lparr>inQueue := q, world := w\<rparr>))\<lparr>is_main_pc := True, mainState := GAME\<rparr>)"
      by (simp add: stays_def)
    from new_match_ok [OF this assms(2)] show ?thesis using k q(2) 1 by (simp add: new_match_def)
  next
    case 2
    then show ?thesis using k menu_keys_space(1) [OF assms(1,2,4,5)] assms(1) by simp
  next
    case 3
    then show ?thesis using k menu_keys_space(2) [OF assms(1,2,4,5)] assms(1) by simp
  qed
qed

text \<open>Down and up again: in either menu, moving the highlight down and up again restores the whole
  state.\<close>

theorem down_up_restores:
  assumes "game_ok s"
  shows "(\<not> menu_lit buttons_menu_unselected buttons_menu_selected 3 s \<or>
      do { s1 \<leftarrow> option_down (buttons_menu_unselected s) (buttons_menu_selected s) 3 s;
           option_up (buttons_menu_unselected s1) (buttons_menu_selected s1) 3 s1 } = Some s) \<and>
    (\<not> menu_lit buttons_winlose_unselected buttons_winlose_selected 2 s \<or>
      do { s1 \<leftarrow> option_down (buttons_winlose_unselected s) (buttons_winlose_selected s) 2 s;
           option_up (buttons_winlose_unselected s1) (buttons_winlose_selected s1) 2 s1 } = Some s)"
proof (intro conjI disjCI)
  assume lit: "\<not> do { s1 \<leftarrow> option_down (buttons_menu_unselected s) (buttons_menu_selected s) 3 s;
           option_up (buttons_menu_unselected s1) (buttons_menu_selected s1) 3 s1 } = Some s"
  show "\<not> menu_lit buttons_menu_unselected buttons_menu_selected 3 s"
  proof
    assume l: "menu_lit buttons_menu_unselected buttons_menu_selected 3 s"
    have "game_ok (light buttons_menu_unselected buttons_menu_selected (button_down 3 (option_index s)) s)"
      using menu_option_returns(1) [OF assms] main_menu.down [OF assms l] l
      by (simp add: menu_lit_def stays_def)
    then show False using main_menu.down_up [OF assms l] lit by simp
  qed
next
  assume lit: "\<not> do { s1 \<leftarrow> option_down (buttons_winlose_unselected s) (buttons_winlose_selected s) 2 s;
           option_up (buttons_winlose_unselected s1) (buttons_winlose_selected s1) 2 s1 } = Some s"
  show "\<not> menu_lit buttons_winlose_unselected buttons_winlose_selected 2 s"
  proof
    assume l: "menu_lit buttons_winlose_unselected buttons_winlose_selected 2 s"
    have "game_ok (light buttons_winlose_unselected buttons_winlose_selected (button_down 2 (option_index s)) s)"
      using popOut_option_returns(1) [OF assms] pop_out.down [OF assms l] l
      by (simp add: menu_lit_def stays_def)
    then show False using pop_out.down_up [OF assms l] lit by simp
  qed
qed

section \<open>An index of the other menu\<close>

text \<open>C36 (the shared index): the menus of three and of two buttons share \<^verbatim>\<open>option\<close>; with the value 2 that the
  main menu leaves behind, the keys S and W over a finished match access both arrays out of bounds.\<close>

theorem shared_index_escapes:
  assumes "game_ok s" and "mainState s \<in> {WIN, LOST, TIE}" and "option_index s = 2"
    and "kbc_ih os (keyboard_dev s) (world s) = (k, w)" and "\<not> keyboard_error k" and "scancode k \<in> {S_BREAK_CODE, W_BREAK_CODE}"
  shows "keyboard_int os s = None"
proof -
  let ?s = "s\<lparr>keyboard_dev := k, world := w\<rparr>"
  have ok: "game_ok ?s" using assms(1) by simp
  have ns: "scancode (keyboard_dev ?s) \<noteq> SPACE_BREAK_CODE" using assms(6) by auto
  have "length (buttons_winlose_unselected s) = 2" using assms(1) buttons_arrays [of s] by (simp add: game_ok_def)
  then have "arr_get (buttons_winlose_unselected s) 2 = None" by (simp add: arr_get_out)
  then have n: "option_up (buttons_winlose_unselected ?s) (buttons_winlose_selected ?s) 2 ?s = None"
    "option_down (buttons_winlose_unselected ?s) (buttons_winlose_selected ?s) 2 ?s = None"
    using assms(3) by (simp_all add: option_up_def option_down_def set_selected_def)
  have "popOutButtons os ?s = None"
    unfolding popOutButtons_other [OF ok ns] using n assms(6) by (auto simp: on_key_def)
  then have "keyboard_keys os ?s = None" using assms(2) by (auto simp: keyboard_keys_def)
  then show ?thesis using assms(4,5) by (simp add: keyboard_int_def)
qed

section \<open>A stop that is taken back\<close>

text \<open>A state that serial starts lead to: \<^verbatim>\<open>rules\<close> is highlighted while \<^verbatim>\<open>option\<close> is 0.\<close>

definition strayed :: "('w, 'a) game_scheme \<Rightarrow> bool" where
  "strayed s \<longleftrightarrow> mainState s = MAIN_MENU \<and> option_index s = 0 \<and>
     highlighted (heap s) (buttons_menu_unselected s) (buttons_menu_selected s) 1"

text \<open>When \<^verbatim>\<open>rules\<close> is highlighted while \<^verbatim>\<open>option\<close> is 0, the key W highlights \<^verbatim>\<open>exit\<close>
  as well; the space bar then first stops the program and, in the same call, shows the rules: the program
  goes on.\<close>

theorem exit_undone:
  assumes "game_ok s" and "strayed s" and "scancode (keyboard_dev s) = W_BREAK_CODE" and "scancode kd = SPACE_BREAK_CODE"
  shows "\<exists>s1 o1. keyboard_keys os s = Some s1 \<and> deref (heap s1) (exit_button_selected s1) = Some o1 \<and> selected o1 \<and>
    keyboard_keys os (s1\<lparr>keyboard_dev := kd\<rparr>) = Some (s1\<lparr>keyboard_dev := kd, mainState := RULES\<rparr>)"
proof -
  have b: "buttons_menu_unselected s = [start_button_unselected s, rules_button_unselected s, exit_button_unselected s]"
    "buttons_menu_selected s = [start_button_selected s, rules_button_selected s, exit_button_selected s]"
    using assms(1) by (simp_all add: game_ok_def buttons_ok_def)
  have d: "distinct [start_button_unselected s, start_button_selected s, rules_button_unselected s,
    rules_button_selected s, exit_button_unselected s, exit_button_selected s]"
    using objects_distinct [OF assms(1)] by simp
  have h: "highlighted (heap s) [start_button_unselected s, rules_button_unselected s, exit_button_unselected s]
      [start_button_selected s, rules_button_selected s, exit_button_selected s] 1" and m: "mainState s = MAIN_MENU" "option_index s = 0"
    using assms(2) b by (simp_all add: strayed_def)
  obtain a1 where a1: "heap s (start_button_unselected s) = Some a1" "start_button_unselected s \<noteq> NULL"
    by (rule highlightedD [OF h, of "start_button_unselected s"]) auto
  obtain a2 where a2: "heap s (start_button_selected s) = Some a2" "start_button_selected s \<noteq> NULL" "\<not> selected a2"
    by (rule highlightedD [OF h, of "start_button_selected s"]) (use d in auto)
  obtain r2 where r2: "heap s (rules_button_selected s) = Some r2" "rules_button_selected s \<noteq> NULL" "selected r2"
    by (rule highlightedD [OF h, of "rules_button_selected s"]) (use d in auto)
  obtain e1 where e1: "heap s (exit_button_unselected s) = Some e1" "exit_button_unselected s \<noteq> NULL"
    by (rule highlightedD [OF h, of "exit_button_unselected s"]) auto
  obtain e2 where e2: "heap s (exit_button_selected s) = Some e2" "exit_button_selected s \<noteq> NULL"
    by (rule highlightedD [OF h, of "exit_button_selected s"]) auto
  have ne: "start_button_unselected s \<noteq> start_button_selected s" "start_button_unselected s \<noteq> exit_button_unselected s"
    "start_button_unselected s \<noteq> exit_button_selected s" "start_button_selected s \<noteq> exit_button_unselected s"
    "start_button_selected s \<noteq> exit_button_selected s" "exit_button_unselected s \<noteq> exit_button_selected s"
    "rules_button_selected s \<noteq> start_button_unselected s" "rules_button_selected s \<noteq> start_button_selected s"
    "rules_button_selected s \<noteq> exit_button_unselected s" "rules_button_selected s \<noteq> exit_button_selected s"
    using d by auto
  let ?s1 = "s\<lparr>heap := (heap s)(start_button_unselected s \<mapsto> a1\<lparr>selected := False\<rparr>, start_button_selected s \<mapsto> a2\<lparr>selected := False\<rparr>,
      exit_button_unselected s \<mapsto> e1\<lparr>selected := True\<rparr>, exit_button_selected s \<mapsto> e2\<lparr>selected := True\<rparr>), option_index := 2\<rparr>"
  have ns: "scancode (keyboard_dev s) \<noteq> SPACE_BREAK_CODE" "W_BREAK_CODE \<noteq> S_BREAK_CODE"
    using assms(3) by (simp_all add: W_BREAK_CODE_def SPACE_BREAK_CODE_def S_BREAK_CODE_def)
  have "option_up (buttons_menu_unselected s) (buttons_menu_selected s) 3 s = Some ?s1"
    using a1 a2 e1 e2 m ne ne [symmetric] by (simp add: option_up_def set_selected_def update_sprite_def deref_def b arr_get_def)
  then have k: "keyboard_keys os s = Some ?s1"
    using m ns assms(3) by (simp add: keyboard_keys_def menu_keys_other [OF assms(1) ns(1)] on_key_def)
  have "keyboard_keys os (?s1\<lparr>keyboard_dev := kd\<rparr>) = Some (?s1\<lparr>keyboard_dev := kd, mainState := RULES\<rparr>)"
    using m a2 r2 e2 ne ne [symmetric] assms(4)
    by (simp add: keyboard_keys_def menu_keys_def on_space_def on_key_def deref_def SPACE_BREAK_CODE_def S_BREAK_CODE_def W_BREAK_CODE_def)
  then show ?thesis using k e2 by (intro exI [of _ ?s1] exI [of _ "e2\<lparr>selected := True\<rparr>"]) (simp add: deref_def)
qed

section \<open>Concrete keys\<close>

lemma lit_state:
  obtains s :: "bench game" where "game_ok s" "mainState s = MAIN_MENU" "option_index s = 0" "menus_lit s"
  using init_starts [OF pc_os_up, of "\<lparr>replies = [], writes = []\<rparr>"] by (auto simp: returns_def)

lemma menus_lit_keyboard [simp]: "menus_lit (s\<lparr>keyboard_dev := k\<rparr>) = menus_lit s"
  by (simp add: menus_lit_def menu_lit_def)

theorem highlight_goes_round_witness:
  "\<exists>s s' :: bench game. option_index s = 0 \<and> keyboard_keys pc_os s = Some s' \<and> option_index s' = 2 \<and>
     menu_lit buttons_menu_unselected buttons_menu_selected 3 s'"
proof -
  obtain s0 :: "bench game" where s0: "game_ok s0" "mainState s0 = MAIN_MENU" "option_index s0 = 0" "menus_lit s0"
    by (rule lit_state)
  let ?s = "s0\<lparr>keyboard_dev := kbd_init\<lparr>scancode := W_BREAK_CODE\<rparr>\<rparr>"
  have "menu_lit buttons_menu_unselected buttons_menu_selected 3 ?s"
    using s0(4) menus_lit_keyboard unfolding menus_lit_def by blast
  from highlight_goes_round [of ?s 3 buttons_menu_unselected buttons_menu_selected pc_os, OF _ _ _ _ _ _ this]
  show ?thesis using s0 by (fastforce intro: exI [of _ ?s])
qed

theorem space_runs_button_witness:
  "\<exists>s s' :: bench game. keyboard_keys pc_os s = Some s' \<and> mainState s' = GAME \<and> is_main_pc s'"
proof -
  obtain s0 :: "bench game" where s0: "game_ok s0" "mainState s0 = MAIN_MENU" "option_index s0 = 0" "menus_lit s0"
    by (rule lit_state)
  let ?s = "s0\<lparr>keyboard_dev := kbd_init\<lparr>scancode := SPACE_BREAK_CODE\<rparr>\<rparr>"
  have "menu_lit buttons_menu_unselected buttons_menu_selected 3 ?s"
    using s0(4) menus_lit_keyboard unfolding menus_lit_def by blast
  from space_runs_button [of ?s pc_os, OF _ _ _ this] show ?thesis using s0 by auto
qed

theorem down_up_restores_witness:
  "\<exists>s :: bench game. do { s1 \<leftarrow> option_down (buttons_menu_unselected s) (buttons_menu_selected s) 3 s;
      option_up (buttons_menu_unselected s1) (buttons_menu_selected s1) 3 s1 } = Some s"
proof -
  obtain s :: "bench game" where s: "game_ok s" "menus_lit s" by (rule lit_state)
  from down_up_restores [OF s(1)] s(2) show ?thesis unfolding menus_lit_def by blast
qed

text \<open>A controller whose registers always read \<open>0x11\<close>: the key W.\<close>

lemma held_key:
  assumes "\<And>port w. sys_inb os port w = ((0, 0x11), w)"
  shows "kbc_ih os k w = (k\<lparr>scancode := 0x11, keyboard_error := False\<rparr>, w)"
proof -
  have "bit (0x11 :: u32) 0" "\<not> bit (0x11 :: u32) 6" "\<not> bit (0x11 :: u32) 7" "(ucast (0x11 :: u32) :: byte) = 0x11"
    by simp_all
  then show ?thesis using kbc_ih_read [OF assms _ assms, where w = w and k = k] by simp
qed

theorem shared_index_escapes_witness:
  "\<exists>s :: bench game. mainState s = WIN \<and> keyboard_int (pc_os\<lparr>sys_inb := (\<lambda>port w. ((0, 0x11), w))\<rparr>) s = None"
proof -
  obtain s0 :: "bench game" where s0: "game_ok s0" by (rule lit_state)
  let ?os = "pc_os\<lparr>sys_inb := (\<lambda>port w. ((0, 0x11), w))\<rparr>"
  let ?s = "s0\<lparr>mainState := WIN, option_index := 2\<rparr>"
  obtain k w where k: "kbc_ih ?os (keyboard_dev ?s) (world ?s) = (k, w)" "\<not> keyboard_error k" "scancode k = W_BREAK_CODE"
    using held_key [of "pc_os\<lparr>sys_inb := (\<lambda>port w. ((0, 0x11), w))\<rparr>" "keyboard_dev ?s" "world ?s"]
    by (simp add: W_BREAK_CODE_def)
  have "keyboard_int ?os ?s = None" by (rule shared_index_escapes [OF _ _ _ k(1,2)]) (use s0 k(3) in auto)
  then show ?thesis by (intro exI [of _ ?s]) simp
qed

theorem exit_undone_witness:
  "\<exists>s s1 s2 :: bench game. keyboard_keys pc_os s = Some s1 \<and> keyboard_keys pc_os (s1\<lparr>keyboard_dev := kbd_init\<lparr>scancode := SPACE_BREAK_CODE\<rparr>\<rparr>) = Some s2 \<and>
     mainState s2 = RULES"
proof -
  obtain s0 :: "bench game" where s0: "game_ok s0" "mainState s0 = MAIN_MENU" "option_index s0 = 0" "menus_lit s0"
    by (rule lit_state)
  let ?l = "light buttons_menu_unselected buttons_menu_selected 1 s0"
  have "menu_lit buttons_menu_unselected buttons_menu_selected 3 ?l" by (rule main_menu.light_lit [OF s0(1)]) simp_all
  moreover have "option_index ?l = 1" "mainState ?l = MAIN_MENU" using s0(2) by (simp_all add: light_def)
  ultimately have st: "strayed (?l\<lparr>option_index := 0, keyboard_dev := kd\<rparr>)" for kd by (simp add: strayed_def menu_lit_def)
  have "game_ok ?l"
  proof -
    let ?s = "s0\<lparr>keyboard_dev := (keyboard_dev s0)\<lparr>scancode := S_BREAK_CODE\<rparr>\<rparr>"
    have ok: "game_ok ?s" "mainState ?s = MAIN_MENU" "index_ok ?s" using s0(1-3) by (simp_all add: index_ok_def menu_size_def)
    have lit: "menu_lit buttons_menu_unselected buttons_menu_selected 3 ?s"
      using s0(4) menus_lit_keyboard unfolding menus_lit_def by blast
    have "keyboard_keys pc_os ?s = Some (light buttons_menu_unselected buttons_menu_selected 1 ?s)"
      using menu_moves [OF ok(1) lit ok(2), of pc_os] s0(3) by (simp add: key_step_def)
    moreover have "returns (keyboard_keys pc_os ?s) (reacts ?s)"
      using keyboard_keys_returns [OF ok(1) _ ok(3), of pc_os] pc_os_runs by (auto simp: platform_runs_def elim: returns_mono)
    ultimately have "game_ok (light buttons_menu_unselected buttons_menu_selected 1 ?s)" by (simp add: returns_def reacts_def)
    moreover have "light buttons_menu_unselected buttons_menu_selected 1 ?s = ?l\<lparr>keyboard_dev := (keyboard_dev s0)\<lparr>scancode := S_BREAK_CODE\<rparr>\<rparr>"
      by (simp add: light_def)
    ultimately show ?thesis by simp
  qed
  then have okl: "game_ok (?l\<lparr>option_index := 0, keyboard_dev := kd\<rparr>)" for kd by simp
  obtain s1 where s1: "keyboard_keys pc_os (?l\<lparr>option_index := 0, keyboard_dev := kbd_init\<lparr>scancode := W_BREAK_CODE\<rparr>\<rparr>) = Some s1"
    "keyboard_keys pc_os (s1\<lparr>keyboard_dev := kbd_init\<lparr>scancode := SPACE_BREAK_CODE\<rparr>\<rparr>) =
      Some (s1\<lparr>keyboard_dev := kbd_init\<lparr>scancode := SPACE_BREAK_CODE\<rparr>, mainState := RULES\<rparr>)"
    using exit_undone [OF okl st, of "kbd_init\<lparr>scancode := W_BREAK_CODE\<rparr>" "kbd_init\<lparr>scancode := SPACE_BREAK_CODE\<rparr>" pc_os]
    by auto
  show ?thesis by (intro exI conjI) (rule s1(1), rule s1(2), simp)
qed

end
