(* ===== verification/Alone.thy ===== *)
theory Alone
  imports Keys
begin

text \<open>
  One computer alone: as long as no signal of another computer arrives, the highlight and the index of the
  menus always agree, so the limits on the index that the driver loop needs hold by themselves.
\<close>

section \<open>Handlers that leave the buttons alone\<close>

definition button_ptrs :: "('w, 'a) game_scheme \<Rightarrow> ptr set" where
  "button_ptrs s = set (buttons_menu_unselected s) \<union> set (buttons_menu_selected s) \<union>
     set (buttons_winlose_unselected s) \<union> set (buttons_winlose_selected s)"

definition arrays_of where
  "arrays_of s = (buttons_menu_unselected s, buttons_menu_selected s, buttons_winlose_unselected s,
     buttons_winlose_selected s, option_index s)"

definition quiet :: "('w, 'a) game_scheme \<Rightarrow> ('w, 'a) game_scheme \<Rightarrow> bool" where
  "quiet s s' \<longleftrightarrow> arrays_of s' = arrays_of s \<and> (\<forall>p \<in> button_ptrs s. heap s' p = heap s p)"

lemma quiet_refl [simp]: "quiet s s"
  by (simp add: quiet_def)

lemma quiet_trans [trans]: "quiet s s1 \<Longrightarrow> quiet s1 s2 \<Longrightarrow> quiet s s2"
  by (auto simp: quiet_def arrays_of_def button_ptrs_def)

lemma quietI: "arrays_of s' = arrays_of s \<Longrightarrow> heap s' = heap s \<Longrightarrow> quiet s s'"
  by (simp add: quiet_def)

lemma arrays_stays: "stays s s' \<Longrightarrow> arrays_of s' = arrays_of s"
  by (simp add: stays_def buttons_of_def arrays_of_def ctl_of_def)

lemma buttons_apart:
  assumes "game_ok s"
  shows "button_ptrs s \<inter> {mouse s, redpuck s, bluepuck s, ball s} = {}"
proof -
  have b: "buttons_ok s" using assms by (simp add: game_ok_def)
  have "distinct [mouse s, start_button_unselected s, start_button_selected s, rules_button_unselected s,
      rules_button_selected s, exit_button_unselected s, exit_button_selected s, redpuck s, bluepuck s, ball s]"
    by (rule objects_distinct [OF assms])
  moreover have "set [mouse s, start_button_unselected s, start_button_selected s, rules_button_unselected s,
      rules_button_selected s, exit_button_unselected s, exit_button_selected s, redpuck s, bluepuck s, ball s] \<inter>
      (set (buttons_winlose_unselected s) \<union> set (buttons_winlose_selected s)) = {}"
  proof -
    have "distinct (sprite_list s)" using b by (simp add: buttons_ok_def)
    then show ?thesis unfolding sprite_list_def distinct_append set_append by blast
  qed
  moreover have "set (buttons_menu_unselected s) \<union> set (buttons_menu_selected s) =
      {start_button_unselected s, start_button_selected s, rules_button_unselected s,
       rules_button_selected s, exit_button_unselected s, exit_button_selected s}"
    using b by (auto simp: buttons_ok_def)
  ultimately show ?thesis unfolding button_ptrs_def by auto
qed

lemma quiet_alters:
  assumes "game_ok s" and "alters {mouse s, redpuck s, bluepuck s, ball s} s s'"
  shows "quiet s s'"
proof -
  have "arrays_of s' = arrays_of s" using assms(2) by (auto simp: alters_def arrays_of_def)
  moreover have "heap s' p = heap s p" if "p \<in> button_ptrs s" for p
    using buttons_apart [OF assms(1)] that by (intro alters_heap [OF assms(2)]) auto
  ultimately show ?thesis by (simp add: quiet_def)
qed

lemma quiet_move:
  assumes "game_ok s" and "p \<in> {mouse s, redpuck s, bluepuck s, ball s}" and "move os p x y l s = Some s'"
  shows "quiet s s'"
  by (rule quiet_alters [OF assms(1) alters_move [OF assms(3,2)]]) simp

lemma quiet_sprite:
  assumes "game_ok s" and "p \<in> {mouse s, redpuck s, bluepuck s, ball s}" and "update_sprite p f s = Some s'"
  shows "quiet s s'"
  by (rule quiet_alters [OF assms(1) alters_sprite [OF assms(3,2)]])

lemma button_alive:
  assumes "game_ok s" and "p \<in> button_ptrs s"
  shows "p \<noteq> NULL" "p \<in> fixed_ptrs s"
proof -
  have b: "buttons_ok s" using assms(1) by (simp add: game_ok_def)
  show "p \<in> fixed_ptrs s" using buttons_arrays(5-8) [OF b] assms(2) by (auto simp: button_ptrs_def)
  then obtain o1 where "deref (heap s) p = Some o1" by (rule game_ok_deref [OF assms(1)])
  then show "p \<noteq> NULL" by (auto dest: deref_SomeD)
qed

lemma quiet_draw:
  assumes ok: "game_ok s" and ld: "xpm_loads os" and sc: "scores_fit s" and d: "draw_frame os s = Some s'"
  shows "quiet s s'" "stays s s'"
proof -
  show st: "stays s s'" using stays_draw [OF ok ld sc] d by (simp add: returns_def)
  have "heap s' p = heap s p" if "p \<in> button_ptrs s" for p
    using draw_frame_draws(2) [OF ok ld sc d button_alive(2) [OF ok that]] button_alive(1) [OF ok that] by (simp add: deref_def)
  then show "quiet s s'" using arrays_stays [OF st] by (simp add: quiet_def)
qed

lemma quiet_timer:
  assumes ok: "game_ok s" and ld: "xpm_loads os" and hz: "sys_hz os \<noteq> 0"
    and sc: "mainState s = GAME \<Longrightarrow> player_1_score s < 9 \<and> player_2_score s < 9" and t: "timer_int os s = Some s'"
  shows "quiet s s'"
proof -
  let ?s = "s\<lparr>timer_dev := timer_int_handler (timer_dev s)\<rparr>"
  have ok0: "game_ok ?s" using ok by simp
  have q0: "quiet s ?s" by (rule quietI) (simp_all add: arrays_of_def)
  obtain s1 where s1: "swap_buffers ?s = Some s1" "stays ?s s1" using stays_swap [OF ok0] by (auto simp: returns_def)
  have "heap s1 = heap ?s" using s1(1) by (auto simp: swap_buffers_def dest!: bind_SomeD)
  then have q1: "quiet s s1" using quiet_trans [OF q0 quietI [OF arrays_stays [OF s1(2)]]] by simp
  have ok1: "game_ok s1" by (rule staysD(1) [OF s1(2)])
  have m1: "mainState s1 = mainState s" using staysD(2) [OF s1(2)] by simp
  show ?thesis
  proof (cases "mainState s")
    case MAIN_MENU
    then have "draw_frame os s1 = Some s'" using t s1(1) m1 by (simp add: timer_int_def)
    then show ?thesis using quiet_draw(1) [OF ok1 ld] m1 MAIN_MENU q1 by (auto simp: scores_fit_def intro: quiet_trans)
  next
    case GAME
    obtain k s2 s3 where p: "game_ok s2" "game_ok s3" "draws s3 s'" "deref (heap s) (ball s) = Some k"
      "(if xspeed k \<noteq> 0 \<or> yspeed k \<noteq> 0 then move os (ball s) (word_of_int (xspeed k)) (word_of_int (yspeed k)) 1 s2
        else Some s2) = Some s3"
      "heap s2 = heap s" "ball s2 = ball s" "draw_frame os s3 = Some s'" "scores_fit s3"
      "\<exists>mb w px py n. s2 = match_clock os (s\<lparr>timer_dev := timer_int_handler (timer_dev s), main_buffer := mb, world := w,
        previous_x := px, previous_y := py, puck_transmit := n\<rparr>)"
      by (rule timer_int_parts [OF ok ld hz GAME _ _ t]) (use sc [OF GAME] in blast)+
    have "quiet s s2"
      by (rule quietI [OF _ p(6)]) (use p(10) in \<open>auto simp: arrays_of_def match_clock_def match_second_def Let_def\<close>)
    also have "quiet s2 s3" using quiet_move [OF p(1), of "ball s2"] p(5,7) by (auto split: if_splits)
    also have "quiet s3 s'" by (rule quiet_draw(1) [OF p(2) ld p(9,8)])
    finally show ?thesis .
  qed (use t s1(1) m1 q1 in \<open>simp_all add: timer_int_def\<close>)
qed

lemma quiet_mouse_packet:
  assumes ok: "game_ok s" and t: "mouse_packet os pk s = Some s'"
  shows "quiet s s'"
proof -
  obtain s1 where s1: "mouse_update_position os (mouse s) pk s = Some s1"
    using t by (auto simp: mouse_packet_def dest!: bind_SomeD)
  have q1: "quiet s s1 \<and> stays s s1"
  proof (cases "x_ov pk \<or> y_ov pk")
    case True
    then show ?thesis using s1 stays_refl [OF ok] by (auto simp: mouse_update_position_def)
  next
    case False
    then have m: "move os (mouse s) (delta_x pk) (delta_y pk) 0 s = Some s1" using s1 by (simp add: mouse_update_position_def)
    then show ?thesis using quiet_move [OF ok _ m] stays_move_mouse [OF ok, of os "delta_x pk" "delta_y pk"]
      by (simp add: returns_def)
  qed
  then have ok1: "game_ok s1" by (auto dest: staysD)
  show ?thesis
  proof (cases "lb pk")
    case True
    obtain s2 where s2: "move os (bluepuck s1) (delta_x pk) (delta_y pk) 2 s1 = Some s2"
      "update_sprite (mouse s2) (\<lambda>m. m\<lparr>visibility := False\<rparr>) s2 = Some s'"
      using t s1 True by (auto simp: mouse_packet_def dest!: bind_SomeD)
    have st: "stays s1 s2" using stays_move_puck [OF ok1, of "bluepuck s1", where os = os and x = "delta_x pk" and y = "delta_y pk"] s2(1)
      by (simp add: returns_def)
    note conjunct1 [OF q1]
    also have "quiet s1 s2" by (rule quiet_move [OF ok1 _ s2(1)]) simp
    also have "quiet s2 s'" by (rule quiet_sprite [OF staysD(1) [OF st] _ s2(2)]) simp
    finally show ?thesis .
  next
    case False
    obtain s2 where s2: "update_sprite (mouse s1) (\<lambda>m. m\<lparr>visibility := True\<rparr>) s1 = Some s2"
      "update_sprite (bluepuck s2) (\<lambda>b. b\<lparr>xspeed := 0, yspeed := 0\<rparr>) s2 = Some s'"
      using t s1 False by (auto simp: mouse_packet_def dest!: bind_SomeD)
    have "returns (update_sprite (mouse s1) (\<lambda>m. m\<lparr>visibility := True\<rparr>) s1) (stays s1)"
      using ok1 by (intro stays_sprite fixed_ptrs_members) (simp_all add: same_shape_def)
    then have st: "stays s1 s2" using s2(1) by (simp add: returns_def)
    note conjunct1 [OF q1]
    also have "quiet s1 s2" by (rule quiet_sprite [OF ok1 _ s2(1)]) simp
    also have "quiet s2 s'" by (rule quiet_sprite [OF staysD(1) [OF st] _ s2(2)]) simp
    finally show ?thesis .
  qed
qed

lemma quiet_mouse:
  assumes ok: "game_ok s" and t: "mouse_int os s = Some s'"
  shows "quiet s s'"
proof -
  have q: "quiet s (s\<lparr>mouse_dev := m, world := w, packet_bytes := bs, count := c\<rparr>)" for m w bs c
    by (rule quietI) (simp_all add: arrays_of_def)
  from assms show ?thesis
    by (cases rule: mouse_int_parts) (use q quiet_mouse_packet quiet_trans in \<open>blast+\<close>)
qed

lemma quiet_rtc: "quiet s (rtc_int os s)"
  by (rule quietI) (simp_all add: rtc_int_def arrays_of_def split: prod.splits)

section \<open>Highlight and index agree\<close>

text \<open>What holds in a state \<open>m\<close> of the program: the menu on the screen has exactly the button \<^verbatim>\<open>option\<close> highlighted,
  and the other menu its first one.\<close>

definition agrees :: "MainStateMachine \<Rightarrow> ('w, 'a) game_scheme \<Rightarrow> bool" where
  "agrees m s =
     (let i = option_index s;
          main = highlighted (heap s) (buttons_menu_unselected s) (buttons_menu_selected s);
          pop = highlighted (heap s) (buttons_winlose_unselected s) (buttons_winlose_selected s)
      in if m = STOP then 0 \<le> i
         else if m = GAME then i = 0 \<and> main 0 \<and> pop 0
         else if m \<in> {WIN, LOST, TIE} then 0 \<le> i \<and> i < 2 \<and> main 0 \<and> pop i
         else 0 \<le> i \<and> i < 3 \<and> main i \<and> pop 0)"

definition lit_ok :: "('w, 'a) game_scheme \<Rightarrow> bool" where
  "lit_ok s \<longleftrightarrow> agrees (mainState s) s"

lemma agrees_quiet:
  assumes "quiet s s'"
  shows "agrees m s' = agrees m s"
proof -
  have e: "buttons_menu_unselected s' = buttons_menu_unselected s" "buttons_menu_selected s' = buttons_menu_selected s"
    "buttons_winlose_unselected s' = buttons_winlose_unselected s" "buttons_winlose_selected s' = buttons_winlose_selected s"
    "option_index s' = option_index s"
    using assms by (simp_all add: quiet_def arrays_of_def)
  have h: "deref (heap s') p = deref (heap s) p" if "p \<in> button_ptrs s" for p
    using assms that by (simp add: quiet_def deref_def)
  have "highlighted (heap s') (buttons_menu_unselected s) (buttons_menu_selected s) i =
      highlighted (heap s) (buttons_menu_unselected s) (buttons_menu_selected s) i" for i
    unfolding highlighted_def by (rule ball_cong [OF refl]) (simp add: h button_ptrs_def)
  moreover have "highlighted (heap s') (buttons_winlose_unselected s) (buttons_winlose_selected s) i =
      highlighted (heap s) (buttons_winlose_unselected s) (buttons_winlose_selected s) i" for i
    unfolding highlighted_def by (rule ball_cong [OF refl]) (simp add: h button_ptrs_def)
  ultimately show ?thesis by (simp add: agrees_def e Let_def)
qed

lemma agrees_edges:
  "agrees GAME s \<Longrightarrow> agrees m s" "agrees m s \<Longrightarrow> agrees STOP s" "agrees MAIN_MENU s = agrees RULES s"
  by (auto simp: agrees_def Let_def split: if_splits)

lemma lit_ok_quiet:
  assumes "lit_ok s" and "quiet s s'" and "mainState s' = mainState s \<or> mainState s = GAME \<or> mainState s' = STOP"
  shows "lit_ok s'"
  using assms agrees_quiet [OF assms(2)] agrees_edges by (auto simp: lit_ok_def)

lemma lit_ok_limits:
  assumes "lit_ok s" and "player_1_score s < 9" and "player_2_score s < 9"
  shows "limits s"
  using assms by (cases "mainState s") (auto simp: lit_ok_def agrees_def limits_def Let_def)

section \<open>The keyboard\<close>

lemma menus_apart:
  assumes "game_ok s"
  shows "(set (buttons_menu_unselected s) \<union> set (buttons_menu_selected s)) \<inter>
    (set (buttons_winlose_unselected s) \<union> set (buttons_winlose_selected s)) = {}"
proof -
  have b: "buttons_ok s" using assms by (simp add: game_ok_def)
  have "set [mouse s, start_button_unselected s, start_button_selected s, rules_button_unselected s,
      rules_button_selected s, exit_button_unselected s, exit_button_selected s, redpuck s, bluepuck s, ball s] \<inter>
      (set (buttons_winlose_unselected s) \<union> set (buttons_winlose_selected s)) = {}"
  proof -
    have "distinct (sprite_list s)" using b by (simp add: buttons_ok_def)
    then show ?thesis unfolding sprite_list_def distinct_append set_append by blast
  qed
  then show ?thesis using b by (auto simp: buttons_ok_def)
qed

text \<open>Moving the highlight of one menu leaves that of the other.\<close>

lemma highlighted_other:
  assumes "\<And>p. p \<in> set us \<union> set ss \<Longrightarrow> h' p = h p"
  shows "highlighted h' us ss i = highlighted h us ss i"
  unfolding highlighted_def using assms by (intro ball_cong [OF refl]) (simp add: deref_def)

lemma agrees_main:
  assumes ok: "game_ok s" and a: "agrees MAIN_MENU s" and j: "0 \<le> j" "j < 3"
  shows "agrees MAIN_MENU (light buttons_menu_unselected buttons_menu_selected j s)"
proof -
  let ?s = "light buttons_menu_unselected buttons_menu_selected j s"
  have e: "buttons_winlose_unselected ?s = buttons_winlose_unselected s" "buttons_winlose_selected ?s = buttons_winlose_selected s"
    by (simp_all add: light_def)
  have "highlighted (heap ?s) (buttons_winlose_unselected s) (buttons_winlose_selected s) 0 =
      highlighted (heap s) (buttons_winlose_unselected s) (buttons_winlose_selected s) 0"
    using menus_apart [OF ok] by (intro highlighted_other) (auto simp: light_def relight_def)
  moreover have "menu_lit buttons_menu_unselected buttons_menu_selected 3 ?s"
    using j by (intro main_menu.light_lit [OF ok]) simp_all
  ultimately show ?thesis using a by (simp add: agrees_def menu_lit_def Let_def e)
qed

lemma agrees_pop:
  assumes ok: "game_ok s" and m: "m \<in> {WIN, LOST, TIE}" and a: "agrees m s" and j: "0 \<le> j" "j < 2"
  shows "agrees m (light buttons_winlose_unselected buttons_winlose_selected j s)"
proof -
  let ?s = "light buttons_winlose_unselected buttons_winlose_selected j s"
  have e: "buttons_menu_unselected ?s = buttons_menu_unselected s" "buttons_menu_selected ?s = buttons_menu_selected s"
    by (simp_all add: light_def)
  have "highlighted (heap ?s) (buttons_menu_unselected s) (buttons_menu_selected s) 0 =
      highlighted (heap s) (buttons_menu_unselected s) (buttons_menu_selected s) 0"
    using menus_apart [OF ok] by (intro highlighted_other) (auto simp: light_def relight_def)
  moreover have "menu_lit buttons_winlose_unselected buttons_winlose_selected 2 ?s"
    using j by (intro pop_out.light_lit [OF ok]) simp_all
  ultimately show ?thesis using a m by (auto simp: agrees_def menu_lit_def Let_def e)
qed

lemma quiet_new_match:
  assumes "game_ok s"
  shows "quiet s (new_match os s)"
proof -
  have "heap (new_match os s) p = heap s p" if "p \<in> button_ptrs s" for p
    using buttons_apart [OF assms] that by (auto simp: new_match_def)
  then show ?thesis by (simp add: quiet_def arrays_of_def new_match_def)
qed

lemma lit_menu_keys:
  assumes ok: "game_ok s" and hz: "sys_hz os \<noteq> 0" and m: "mainState s = MAIN_MENU" and a: "agrees MAIN_MENU s"
    and t: "menu_keys os s = Some s'"
  shows "lit_ok s'"
proof -
  have lit: "menu_lit buttons_menu_unselected buttons_menu_selected 3 s" and i: "0 \<le> option_index s" "option_index s < 3"
    using a by (simp_all add: agrees_def menu_lit_def Let_def)
  have k: "keyboard_keys os s = Some s'" using t m by (simp add: keyboard_keys_def)
  consider "scancode (keyboard_dev s) = SPACE_BREAK_CODE" | "scancode (keyboard_dev s) \<in> {S_BREAK_CODE, W_BREAK_CODE}"
    | "scancode (keyboard_dev s) \<notin> {SPACE_BREAK_CODE, S_BREAK_CODE, W_BREAK_CODE}" by blast
  then show ?thesis
  proof cases
    case 1
    note sp = menu_keys_space [OF ok hz lit 1]
    consider "option_index s = 0" | "option_index s = 1" | "option_index s = 2" using i by linarith
    then show ?thesis
    proof cases
      case 1
      obtain q w where q: "rx_ok q" "menu_keys os s =
        Some (new_match os ((announce os (s\<lparr>inQueue := q, world := w\<rparr>))\<lparr>is_main_pc := True, mainState := GAME\<rparr>))"
        using sp(3) [OF 1] by blast
      let ?s = "(announce os (s\<lparr>inQueue := q, world := w\<rparr>))\<lparr>is_main_pc := True, mainState := GAME\<rparr>"
      have "game_ok (s\<lparr>inQueue := q, world := w\<rparr>)" using stays_queue [OF ok q(1), of w] by (simp add: stays_def)
      from stays_announce [OF this, of os] have "game_ok ?s" by (simp add: stays_def)
      from quiet_new_match [OF this, of os] have "quiet s s'"
        using q(2) t by (intro quiet_trans [OF quietI [of ?s s]]) (simp_all add: arrays_of_def announce_def)
      moreover have "agrees GAME s" using a 1 by (simp add: agrees_def Let_def)
      moreover have "mainState s' = GAME" using q(2) t by (auto simp: new_match_def)
      ultimately show ?thesis by (simp add: lit_ok_def agrees_quiet)
    next
      case 2
      then have "s' = s\<lparr>mainState := RULES\<rparr>" using sp(1) t by simp
      then show ?thesis using a by (simp add: lit_ok_def agrees_def Let_def)
    next
      case 3
      then have "s' = s\<lparr>mainState := STOP\<rparr>" using sp(2) t by simp
      then show ?thesis using i by (simp add: lit_ok_def agrees_def)
    qed
  next
    case 2
    then have "s' = light buttons_menu_unselected buttons_menu_selected
        ((option_index s + key_step (scancode (keyboard_dev s))) mod 3) s"
      using menu_moves [OF ok lit m 2, of os] k by simp
    then show ?thesis using agrees_main [OF ok a] m by (simp add: lit_ok_def)
  next
    case 3
    then have "s' = s" using menu_keys_other [OF ok, of os] t by simp
    then show ?thesis using a m by (simp add: lit_ok_def)
  qed
qed

lemma popOut_space:
  assumes ok: "game_ok s" and hz: "sys_hz os \<noteq> 0" and lit: "menu_lit buttons_winlose_unselected buttons_winlose_selected 2 s"
    and c: "scancode (keyboard_dev s) = SPACE_BREAK_CODE"
  obtains q w where "rx_ok q" "popOutButtons os s = Some (if option_index s = 1 then s\<lparr>inQueue := q, world := w, mainState := STOP\<rparr>
    else new_match os (s\<lparr>inQueue := q, world := w, mainState := GAME\<rparr>))"
proof -
  have a: "buttons_winlose_selected s = [play_again_button_selected s, leave_button_selected s]"
    using ok by (simp add: game_ok_def buttons_ok_def)
  obtain pa where pa: "deref (heap s) (buttons_winlose_selected s ! 0) = Some pa" "selected pa \<longleftrightarrow> option_index s = int 0"
    by (rule pop_out.lit_button [OF ok lit, of 0]) simp_all
  obtain lv where lv: "deref (heap s) (buttons_winlose_selected s ! 1) = Some lv" "selected lv \<longleftrightarrow> option_index s = int 1"
    by (rule pop_out.lit_button [OF ok lit, of 1]) simp_all
  have b: "deref (heap s) (play_again_button_selected s) = Some pa" "deref (heap s) (leave_button_selected s) = Some lv"
    using pa(1) lv(1) a by simp_all
  obtain q w where q: "reset_fifo os s = Some (s\<lparr>inQueue := q, world := w\<rparr>)" "rx_ok q" by (rule reset_fifo_frame [OF ok])
  show thesis
  proof (cases "option_index s = 1")
    case True
    then have "popOutButtons os s = Some (s\<lparr>inQueue := q, world := w, mainState := STOP\<rparr>)"
      using b pa(2) lv(2) c q(1) by (simp add: popOutButtons_def on_space_def)
    then show ?thesis using that q(2) True by simp
  next
    case False
    have "game_ok (s\<lparr>inQueue := q, world := w\<rparr>)" using stays_queue [OF ok q(2), of w] by (simp add: stays_def)
    then have ok1: "game_ok (s\<lparr>inQueue := q, world := w, mainState := GAME\<rparr>)" by simp
    have "option_index s = 0" using False lit by (auto simp: menu_lit_def)
    then have "popOutButtons os s = Some (new_match os (s\<lparr>inQueue := q, world := w, mainState := GAME\<rparr>))"
      using b pa(2) lv(2) c q(1) reset_new_match [OF ok1 hz]
      by (simp add: popOutButtons_def on_space_def) (simp add: new_match_def)
    then show ?thesis using that q(2) False by simp
  qed
qed

lemma lit_popOut:
  assumes ok: "game_ok s" and hz: "sys_hz os \<noteq> 0" and m: "mainState s \<in> {WIN, LOST, TIE}" and a: "agrees (mainState s) s"
    and t: "popOutButtons os s = Some s'"
  shows "lit_ok s'"
proof -
  have lit: "menu_lit buttons_winlose_unselected buttons_winlose_selected 2 s" and i: "0 \<le> option_index s" "option_index s < 2"
    using a m by (auto simp: agrees_def menu_lit_def Let_def)
  have k: "keyboard_keys os s = Some s'" using t m by (auto simp: keyboard_keys_def)
  consider "scancode (keyboard_dev s) = SPACE_BREAK_CODE" | "scancode (keyboard_dev s) \<in> {S_BREAK_CODE, W_BREAK_CODE}"
    | "scancode (keyboard_dev s) \<notin> {SPACE_BREAK_CODE, S_BREAK_CODE, W_BREAK_CODE}" by blast
  then show ?thesis
  proof cases
    case 1
    obtain q w where q: "rx_ok q" "popOutButtons os s = Some (if option_index s = 1 then s\<lparr>inQueue := q, world := w, mainState := STOP\<rparr>
        else new_match os (s\<lparr>inQueue := q, world := w, mainState := GAME\<rparr>))"
      by (rule popOut_space [OF ok hz lit 1])
    show ?thesis
    proof (cases "option_index s = 1")
      case True
      then show ?thesis using q(2) t by (auto simp: lit_ok_def agrees_def)
    next
      case False
      let ?s = "s\<lparr>inQueue := q, world := w, mainState := GAME\<rparr>"
      have "game_ok (s\<lparr>inQueue := q, world := w\<rparr>)" using stays_queue [OF ok q(1), of w] by (simp add: stays_def)
      then have "game_ok ?s" by simp
      from quiet_new_match [OF this, of os] have "quiet s s'"
        using q(2) t False by (intro quiet_trans [OF quietI [of ?s s]]) (simp_all add: arrays_of_def)
      moreover have "option_index s = 0" using False i by linarith
      then have "agrees GAME s" using a m by (auto simp: agrees_def Let_def)
      moreover have "mainState s' = GAME" using q(2) t False by (auto simp: new_match_def)
      ultimately show ?thesis by (simp add: lit_ok_def agrees_quiet)
    qed
  next
    case 2
    then have "s' = light buttons_winlose_unselected buttons_winlose_selected
        ((option_index s + key_step (scancode (keyboard_dev s))) mod 2) s"
      using popOut_moves [OF ok lit m 2, of os] k by simp
    then show ?thesis using agrees_pop [OF ok m a] by (simp add: lit_ok_def)
  next
    case 3
    then have "s' = s" using popOutButtons_other [OF ok, of os] t by simp
    then show ?thesis using a by (simp add: lit_ok_def)
  qed
qed

lemma lit_keys:
  assumes ok: "game_ok s" and hz: "sys_hz os \<noteq> 0" and a: "lit_ok s" and t: "keyboard_keys os s = Some s'"
  shows "lit_ok s'"
proof (cases "mainState s")
  case MAIN_MENU
  then show ?thesis using lit_menu_keys [OF ok hz MAIN_MENU] a t by (simp add: keyboard_keys_def lit_ok_def)
next
  case GAME
  obtain q w where q: "reset_fifo os s = Some (s\<lparr>inQueue := q, world := w\<rparr>)" by (rule reset_fifo_frame [OF ok])
  have "quiet s s'"
    using t GAME q by (intro quietI) (auto simp: keyboard_keys_def announce_def arrays_of_def split: if_splits)
  then show ?thesis using GAME by (intro lit_ok_quiet [OF a]) simp_all
next
  case RULES
  then have "s' = s \<or> s' = s\<lparr>mainState := MAIN_MENU\<rparr>" using t by (simp add: keyboard_keys_def split: if_splits)
  then show ?thesis using a RULES by (auto simp: lit_ok_def agrees_def Let_def)
qed (use lit_popOut [OF ok hz] a t in \<open>simp_all add: keyboard_keys_def lit_ok_def\<close>)

lemma lit_ok_index: "lit_ok s \<Longrightarrow> mainState s \<noteq> STOP \<Longrightarrow> index_ok s"
  by (cases "mainState s") (auto simp: lit_ok_def agrees_def index_ok_def menu_size_def Let_def)

lemma lit_keyboard:
  assumes ok: "game_ok s" and ld: "xpm_loads os" and hz: "sys_hz os \<noteq> 0" and a: "lit_ok s" and m: "mainState s \<noteq> STOP"
    and sc: "player_1_score s < 10" "player_2_score s < 10" and t: "keyboard_int os s = Some s'"
  shows "lit_ok s'"
proof -
  obtain k w where kw: "kbc_ih os (keyboard_dev s) (world s) = (k, w)" by (cases "kbc_ih os (keyboard_dev s) (world s)")
  let ?s = "s\<lparr>keyboard_dev := k, world := w\<rparr>"
  have q: "quiet s ?s" by (rule quietI) (simp_all add: arrays_of_def)
  have a1: "lit_ok ?s" by (rule lit_ok_quiet [OF a q]) simp
  have ok1: "game_ok ?s" using ok by simp
  have i1: "index_ok ?s" using lit_ok_index [OF a1] m by simp
  show ?thesis
  proof (cases "keyboard_error k")
    case True
    then show ?thesis using t a1 by (simp add: keyboard_int_def kw Let_def)
  next
    case False
    obtain s1 where s1: "keyboard_keys os ?s = Some s1" "reacts ?s s1"
      using keyboard_keys_returns [OF ok1 hz i1] by (auto simp: returns_def)
    have ok2: "game_ok s1" "scores_fit s1" using s1(2) sc by (auto simp: reacts_def scores_fit_def)
    have d: "draw_frame os s1 = Some s'" using t False s1(1) by (simp add: keyboard_int_def kw Let_def)
    note dq = quiet_draw [OF ok2(1) ld ok2(2) d]
    show ?thesis
      by (rule lit_ok_quiet [OF lit_keys [OF ok1 hz a1 s1(1)] dq(1)]) (use staysD(2) [OF dq(2)] in simp)
  qed
qed

section \<open>A run without signals\<close>

text \<open>Between two interrupts of a computer no signal reaches.\<close>

definition alone_ok :: "('w, 'a) game_scheme \<Rightarrow> bool" where
  "alone_ok s \<longleftrightarrow> game_ok s \<and> lit_ok s"

lemma when_irq_keeps:
  assumes "when_irq irqs m h s = Some s'" and "P s" and "\<And>s'. h s = Some s' \<Longrightarrow> P s'"
  shows "P s'"
  using assms by (auto simp: when_irq_def split: if_splits)

lemma alone_timer:
  assumes a: "alone_ok s" and pf: "platform_runs os pending" and sc: "player_1_score s < 9" "player_2_score s < 9"
    and t: "timer_int os s = Some s'"
  shows "alone_ok s' \<and> player_1_score s' < 10 \<and> player_2_score s' < 10 \<and> (mainState s \<noteq> STOP \<longrightarrow> mainState s' \<noteq> STOP)"
proof -
  have ld: "xpm_loads os" and hz: "sys_hz os \<noteq> 0" using pf by (simp_all add: platform_runs_def)
  have ok: "game_ok s" "lit_ok s" using a by (simp_all add: alone_ok_def)
  have tk: "ticks os (s\<lparr>timer_dev := timer_int_handler (timer_dev s)\<rparr>) s'"
    using timer_int_returns [OF ok(1) ld hz] sc t by (simp add: returns_def)
  have e: "ends_match (mainState s) (mainState s')" using ticks_edge [OF tk] by simp
  have "quiet s s'" by (rule quiet_timer [OF ok(1) ld hz _ t]) (use sc in simp)
  then have "lit_ok s'" using e by (intro lit_ok_quiet [OF ok(2)]) (auto simp: ends_match_def)
  then show ?thesis using tk sc e by (auto simp: ticks_def alone_ok_def ends_match_def)
qed

lemma alone_dispatch:
  assumes a: "alone_ok s" and pf: "platform_runs os pending" and m: "mainState s \<noteq> STOP" and n: "irqs AND ucast SPMASK = 0"
    and sc: "player_1_score s < 9" "player_2_score s < 9" and d: "dispatch os irqs s = Some s'"
  shows "alone_ok s'"
proof -
  have ld: "xpm_loads os" and hz: "sys_hz os \<noteq> 0" and rtc: "bcd_clock os" using pf by (simp_all add: platform_runs_def)
  obtain s1 s2 s3 where s: "when_irq irqs TIMER_MASK (timer_int os) s = Some s1"
    "when_irq irqs KEYBOARD_MASK (keyboard_int os) s1 = Some s2" "when_irq irqs MOUSE_MASK (mouse_int os) s2 = Some s3"
    "when_irq irqs RTC_MASK (\<lambda>s. Some (rtc_int os s)) s3 = Some s'"
    using d n by (auto simp: dispatch_def when_irq_def [of irqs SPMASK] dest!: bind_SomeD)
  let ?T = "\<lambda>s1. alone_ok s1 \<and> player_1_score s1 < 10 \<and> player_2_score s1 < 10 \<and> mainState s1 \<noteq> STOP"
  have t: "?T s1"
    by (rule when_irq_keeps [OF s(1)]) (use alone_timer [OF a pf sc] a sc m in auto)
  have k: "alone_ok s2"
  proof (rule when_irq_keeps [OF s(2)])
    fix s' assume k: "keyboard_int os s1 = Some s'"
    have g: "game_ok s1" "lit_ok s1" using t by (simp_all add: alone_ok_def)
    have "mainState s1 \<noteq> STOP" using t by simp
    then have "index_ok s1" by (rule lit_ok_index [OF g(2)])
    then have "returns (keyboard_int os s1) (\<lambda>s'. reacts s1 s' \<and> (mainState s' = mainState s1 \<longrightarrow> index_ok s'))"
      using t by (intro keyboard_int_returns [OF g(1) ld hz]) simp_all
    then show "alone_ok s'" using lit_keyboard [OF g(1) ld hz g(2) _ _ _ k] t k by (simp add: alone_ok_def returns_def reacts_def)
  qed (use t in simp)
  have mo: "alone_ok s3"
  proof (rule when_irq_keeps [OF s(3)])
    fix s' assume mi: "mouse_int os s2 = Some s'"
    have g: "game_ok s2" "lit_ok s2" using k by (simp_all add: alone_ok_def)
    have "stays s2 s'" using stays_mouse_int [OF g(1), of os] mi by (simp add: returns_def)
    then show "alone_ok s'"
      using lit_ok_quiet [OF g(2) quiet_mouse [OF g(1) mi]] staysD(1,2) by (auto simp: alone_ok_def)
  qed (use k in simp)
  show ?thesis
  proof (rule when_irq_keeps [OF s(4)])
    fix s' assume "Some (rtc_int os s3) = Some s'"
    moreover have "stays s3 (rtc_int os s3)" using mo by (intro rtc_int_returns [OF _ rtc]) (simp add: alone_ok_def)
    ultimately show "alone_ok s'"
      using mo lit_ok_quiet [OF _ quiet_rtc [of s3 os]] staysD(1,2) by (auto simp: alone_ok_def)
  qed (use mo in simp)
qed

lemma alone_loop:
  assumes a: "alone_ok s" and pf: "platform_runs os pending" and n: "\<forall>m \<in> set msgs. interrupts m AND ucast SPMASK = 0"
    and sc: "\<And>ms1 ms2 s1. msgs = ms1 @ ms2 \<Longrightarrow> main_loop os ms1 s = Some s1 \<Longrightarrow> player_1_score s1 < 9 \<and> player_2_score s1 < 9"
    and l: "main_loop os msgs s = Some s'"
  shows "alone_ok s'"
  using n sc l
proof (induction msgs arbitrary: s' rule: rev_induct)
  case Nil
  then show ?case using a by simp
next
  case (snoc m ms)
  obtain s1 where s1: "main_loop os ms s = Some s1" using snoc.prems(3) by (auto simp: main_loop_append dest!: bind_SomeD)
  have p: "player_1_score s1 < 9 \<and> player_2_score s1 < 9" using snoc.prems(2) [of ms "[m]" s1] s1 by simp
  have c: "player_1_score s2 < 9 \<and> player_2_score s2 < 9" if "ms = ms1 @ ms2" "main_loop os ms1 s = Some s2" for ms1 ms2 s2
    using snoc.prems(2) [of ms1 "ms2 @ [m]" s2] that by simp
  have a1: "alone_ok s1" by (rule snoc.IH [OF _ _ s1]) (use snoc.prems(1) c in auto)
  show ?case
  proof (cases "mainState s1 = STOP \<or> receive_error m \<noteq> 0 \<or> \<not> (is_notify m \<and> from_hardware m)")
    case True
    then have "s' = s1" using snoc.prems(3) s1 by (auto simp: main_loop_append main_step_def split: if_splits)
    then show ?thesis using a1 by simp
  next
    case False
    then have "dispatch os (interrupts m) s1 = Some s'" using snoc.prems(3) s1 by (simp add: main_loop_append main_step_def)
    then show ?thesis using False p snoc.prems(1) by (intro alone_dispatch [OF a1 pf]) auto
  qed
qed

lemma menus_lit_alone:
  assumes "game_ok s" and "mainState s = MAIN_MENU" and "option_index s = 0" and "menus_lit s"
  shows "alone_ok s"
  using assms by (simp add: alone_ok_def lit_ok_def agrees_def menus_lit_def menu_lit_def Let_def)

text \<open>C3 (one computer alone): without interrupts of the serial port, the limits on the menu index hold by
  themselves: for every sequence of messages during which the scores stay single digits, the program starts and
  handles all of them; in the state it reaches, the menu on the screen has exactly the button \<^verbatim>\<open>option\<close>
  highlighted, or the program was stopped and has returned 0 with every sprite freed.\<close>

theorem alone_runs:
  assumes "machine_up os" and "machine_down os" and "platform_runs os pending"
    and "\<forall>m \<in> set msgs. interrupts m AND ucast SPMASK = 0"
    and "\<forall>s0 ms1 ms2 s1. init os (game_init w) = Some (0, s0) \<and> msgs = ms1 @ ms2 \<and> main_loop os ms1 s0 = Some s1 \<longrightarrow>
      player_1_score s1 < 9 \<and> player_2_score s1 < 9"
  shows "\<exists>r s'. proj_main_loop os msgs (game_init w) = Some (r, s') \<and>
    (r = None \<and> game_ok s' \<and> lit_ok s' \<and> mainState s' \<noteq> STOP \<or> r = Some 0 \<and> heap s' = Map.empty \<and> inQueue s' = None)"
proof -
  obtain s0 where s0: "init os (game_init w) = Some (0, s0)" "game_ok s0" "mainState s0 = MAIN_MENU" "option_index s0 = 0" "menus_lit s0"
    using init_starts [OF assms(1), of w] by (auto simp: returns_def)
  have a0: "alone_ok s0" by (rule menus_lit_alone [OF s0(2-5)])
  have sc: "player_1_score s1 < 9 \<and> player_2_score s1 < 9" if "msgs = ms1 @ ms2" "main_loop os ms1 s0 = Some s1" for ms1 ms2 s1
    using assms(5) s0(1) that by blast
  have al: "alone_ok s1" if h: "msgs = ms1 @ ms2" "main_loop os ms1 s0 = Some s1" for ms1 ms2 s1
  proof (rule alone_loop [OF a0 assms(3) _ _ h(2)])
    show "\<forall>m \<in> set ms1. interrupts m AND ucast SPMASK = 0" using assms(4) h(1) by simp
    show "player_1_score s2 < 9 \<and> player_2_score s2 < 9" if "ms1 = us @ vs" "main_loop os us s0 = Some s2" for us vs s2
      using sc [of us "vs @ ms2"] that h(1) by simp
  qed
  have lim: "limits s1" if h: "msgs = ms1 @ ms2" "main_loop os ms1 s0 = Some s1" for ms1 ms2 s1
    using al [OF h] sc [OF h] by (auto simp: alone_ok_def intro: lit_ok_limits)
  have "returns (main_loop os msgs s0) (\<lambda>s'. game_ok s' \<and> follows (mainState s0) (mainState s'))"
    by (rule main_loop_returns [OF assms(3) s0(2)]) (rule lim)
  then obtain s1 where s1: "main_loop os msgs s0 = Some s1" "game_ok s1" by (auto simp: returns_def)
  have "lit_ok s1" using al [of msgs "[]"] s1(1) by (simp add: alone_ok_def)
  then show ?thesis using program_end [OF assms(2) s0(1) s1] s1(2) by (auto split: if_splits)
qed

theorem alone_runs_witness:
  "\<exists>r s'. proj_main_loop pc_os [tick_message] (game_init \<lparr>replies = [], writes = []\<rparr>) = Some (r, s') \<and>
     (r = None \<and> game_ok s' \<and> lit_ok s' \<and> mainState s' \<noteq> STOP \<or> r = Some 0 \<and> heap s' = Map.empty \<and> inQueue s' = None)"
proof (rule alone_runs [OF pc_os_up pc_os_down pc_os_runs])
  show "\<forall>m \<in> set [tick_message]. interrupts m AND ucast SPMASK = 0"
    by (simp add: tick_message_def SPMASK_def BIT_def)
  show "\<forall>s0 ms1 ms2 s1. init pc_os (game_init \<lparr>replies = [], writes = []\<rparr>) = Some (0, s0) \<and> [tick_message] = ms1 @ ms2 \<and>
      main_loop pc_os ms1 s0 = Some s1 \<longrightarrow> player_1_score s1 < 9 \<and> player_2_score s1 < 9"
  proof (intro allI impI)
    fix s0 :: "bench game" and ms1 ms2 s1
    assume h: "init pc_os (game_init \<lparr>replies = [], writes = []\<rparr>) = Some (0, s0) \<and> [tick_message] = ms1 @ ms2 \<and>
        main_loop pc_os ms1 s0 = Some s1"
    moreover have "game_ok s0" "mainState s0 = MAIN_MENU" "option_index s0 = 0" "player_1_score s0 = 0" "player_2_score s0 = 0"
      using init_starts [OF pc_os_up, of "\<lparr>replies = [], writes = []\<rparr>"] h by (auto simp: returns_def)
    ultimately have "limits s1" using tick_run_limits by blast
    then show "player_1_score s1 < 9 \<and> player_2_score s1 < 9" by (simp add: limits_def)
  qed
qed

end
