(* ===== verification/Goals.thy ===== *)
theory Goals
  imports Alone
begin

text \<open>
  How fast a match can score: the ball needs many ticks from the middle of the table to a goal line, so the
  scores of a computer no signal reaches grow by at most two points per second.
\<close>

section \<open>The distance a goal costs\<close>

text \<open>The ball is slow, and the points scored are paid for: each by the 383 lines it takes from the kick-off
  spot to before a goal line, less what the ball is still away from that spot.\<close>

definition credit :: "int \<Rightarrow> ('w, 'a) game_scheme \<Rightarrow> bool" where
  "credit c s \<longleftrightarrow> ball s \<noteq> redpuck s \<and> ball s \<noteq> bluepuck s \<and>
     (\<exists>k. deref (heap s) (ball s) = Some k \<and> \<bar>yspeed k\<bar> \<le> 8 \<and>
        383 * (player_1_score s + player_2_score s) + \<bar>sp_y k - 410\<bar> \<le> c)"

lemma credit_frame:
  assumes "credit c s" and "deref (heap s') (ball s) = deref (heap s) (ball s)" and "ball s' = ball s"
    and "redpuck s' = redpuck s" "bluepuck s' = bluepuck s"
    and "player_1_score s' = player_1_score s" "player_2_score s' = player_2_score s"
  shows "credit c s'"
  using assms by (simp add: credit_def)

lemma credit_frames [simp]:
  "credit c (s\<lparr>mainState := m\<rparr>) = credit c s" "credit c (s\<lparr>world := w\<rparr>) = credit c s"
  "credit c (s\<lparr>inQueue := q\<rparr>) = credit c s" "credit c (s\<lparr>option_index := i\<rparr>) = credit c s"
  "credit c (s\<lparr>is_main_pc := b\<rparr>) = credit c s" "credit c (s\<lparr>idle_game := u\<rparr>) = credit c s"
  "credit c (s\<lparr>keyboard_dev := kd\<rparr>) = credit c s" "credit c (s\<lparr>mouse_dev := md\<rparr>) = credit c s"
  "credit c (s\<lparr>timer_dev := td\<rparr>) = credit c s" "credit c (s\<lparr>day_time_info := d\<rparr>) = credit c s"
  "credit c (s\<lparr>packet_bytes := bs\<rparr>) = credit c s" "credit c (s\<lparr>count := n\<rparr>) = credit c s"
  "credit c (announce os s) = credit c s"
  by (simp_all add: credit_def announce_def)

lemma credit_mono: "credit c s \<Longrightarrow> c \<le> c' \<Longrightarrow> credit c' s"
  by (auto simp: credit_def)

text \<open>Partial correctness: if the operation returns, the condition holds after it.\<close>

definition keeps :: "('s \<Rightarrow> bool) \<Rightarrow> 's option \<Rightarrow> bool" where
  "keeps P m \<longleftrightarrow> (\<forall>s'. m = Some s' \<longrightarrow> P s')"

lemma keepsI: "(\<And>s'. m = Some s' \<Longrightarrow> P s') \<Longrightarrow> keeps P m"
  by (simp add: keeps_def)

lemma keepsD: "keeps P m \<Longrightarrow> m = Some s' \<Longrightarrow> P s'"
  by (simp add: keeps_def)

lemma keeps_Some [simp]: "keeps P (Some s) \<longleftrightarrow> P s"
  by (simp add: keeps_def)

lemma keeps_bind: "keeps Q m \<Longrightarrow> (\<And>s. Q s \<Longrightarrow> keeps P (f s)) \<Longrightarrow> keeps P (Option.bind m f)"
  by (cases m) (simp_all add: keeps_def)

lemma keeps_let: "keeps P (f x) \<Longrightarrow> keeps P (let y = x in f y)"
  by simp

text \<open>A change of a sprite that leaves the place and does not speed it up; for another sprite than the ball, any change.\<close>

lemma credit_sprite:
  assumes "credit c s" and "\<And>o1. sp_y (f o1) = sp_y o1 \<and> \<bar>yspeed (f o1)\<bar> \<le> max \<bar>yspeed o1\<bar> 8 \<or> p \<noteq> ball s"
  shows "keeps (credit c) (update_sprite p f s)"
proof (rule keepsI)
  fix s' assume "update_sprite p f s = Some s'"
  then obtain o1 where o1: "deref (heap s) p = Some o1" "s' = s\<lparr>heap := (heap s)(p \<mapsto> f o1)\<rparr>"
    by (auto simp: update_sprite_def dest!: bind_SomeD)
  have "p \<noteq> NULL" using o1(1) by (auto dest: deref_SomeD)
  then show "credit c s'" using assms(1) assms(2) [of o1] o1 by (auto simp: credit_def)
qed

lemma credit_selected: "credit c s \<Longrightarrow> keeps (credit c) (set_selected bs i v s)"
  unfolding set_selected_def
  by (cases "arr_get bs i") (auto simp: keeps_def dest: keepsD [OF credit_sprite, rotated -1])

lemma credit_option:
  assumes "credit c s"
  shows "keeps (credit c) (option_up us ss n s)" "keeps (credit c) (option_down us ss n s)"
  unfolding option_up_def option_down_def
  by (intro keeps_bind [where Q = "credit c"] keeps_let credit_selected; simp add: assms)+

lemma credit_on:
  assumes "credit c s" and "\<And>s. credit c s \<Longrightarrow> keeps (credit c) (f s)"
  shows "keeps (credit c) (on_space b f s)" "keeps (credit c) (on_key code f s)"
  using assms by (cases "deref (heap s) b"; simp add: on_space_def on_key_def keeps_def)+

lemma credit_reset_fifo: "credit c s \<Longrightarrow> keeps (credit c) (reset_fifo os s)"
  unfolding reset_fifo_def keeps_def by (auto dest!: bind_SomeD)

text \<open>A new match starts without debt.\<close>

lemma credit_kick_off:
  assumes "credit c s" and "0 \<le> c"
  shows "keeps (credit c) (reset_game_state os s)"
proof (rule keepsI)
  fix s' assume t: "reset_game_state os s = Some s'"
  let ?s = "s\<lparr>time_remaining := 200, start_time := time_count (timer_dev s) div sys_hz os,
                  timer_dev := (timer_dev s)\<lparr>time_count := 0\<rparr>,
                  player_1_score := 0, player_2_score := 0\<rparr>"
  obtain s1 s2 s3 where s: "update_sprite (ball s) (\<lambda>b. b\<lparr>sp_x := 550, sp_y := 410, xspeed := 0, yspeed := 0\<rparr>) ?s = Some s1"
    "update_sprite (bluepuck s1) (\<lambda>b. b\<lparr>xspeed := 0, yspeed := 0, sp_x := 535, sp_y := 730\<rparr>) s1 = Some s2"
    "update_sprite (redpuck s2) (\<lambda>r. r\<lparr>xspeed := 0, yspeed := 0, sp_x := 535, sp_y := 55\<rparr>) s2 = Some s3"
    "s' = s3\<lparr>previous_x := 535, previous_y := 730\<rparr>"
    using t by (auto simp: reset_game_state_def Let_def dest!: bind_SomeD split: if_splits)
  have "credit 0 s1" using s(1) assms(1) by (auto simp: credit_def update_sprite_def dest!: bind_SomeD dest: deref_SomeD)
  from keepsD [OF credit_sprite [OF this] s(2)] have "credit 0 s2" using \<open>credit 0 s1\<close> by (simp add: credit_def)
  from keepsD [OF credit_sprite [OF this] s(3)] have "credit 0 s3" using \<open>credit 0 s2\<close> by (simp add: credit_def)
  then have "credit 0 s'" by (simp add: s(4) credit_def)
  then show "credit c s'" by (rule credit_mono) (rule assms(2))
qed

lemma credit_keys:
  assumes "credit c s" and "0 \<le> c"
  shows "keeps (credit c) (keyboard_keys os s)"
proof -
  have start: "keeps (credit c) (do { s \<leftarrow> reset_fifo os s; reset_game_state os (g s) })"
    if "credit c s" "\<And>s. credit c (g s) = credit c s" for g :: "('a, 'b) game_scheme \<Rightarrow> ('a, 'b) game_scheme" and s
    by (rule keeps_bind [OF credit_reset_fifo [OF that(1)] credit_kick_off [OF _ assms(2)]]) (simp add: that(2))
  have quit: "keeps (credit c) (do { s \<leftarrow> reset_fifo os s; Some (g s) })"
    if "credit c s" "\<And>s. credit c (g s) = credit c s" for g :: "('a, 'b) game_scheme \<Rightarrow> ('a, 'b) game_scheme" and s
    by (rule keeps_bind [OF credit_reset_fifo [OF that(1)]]) (simp add: that(2))
  have pop: "keeps (credit c) (popOutButtons os s)"
    unfolding popOutButtons_def
    by (intro keeps_bind [where Q = "credit c"] credit_on credit_option start quit) (simp_all add: assms(1))
  have menu: "keeps (credit c) (menu_keys os s)"
    unfolding menu_keys_def
    by (intro keeps_bind [where Q = "credit c"] credit_on credit_option start) (simp_all add: assms(1))
  have esc: "keeps (credit c) (do {
      s \<leftarrow> (if b then do { s \<leftarrow> reset_fifo os s; Some ((announce os s)\<lparr>mainState := MAIN_MENU\<rparr>) } else Some s);
      Some (s\<lparr>idle_game := time_count (timer_dev s)\<rparr>) })" for b
    using quit [OF assms(1), of "\<lambda>s. (announce os s)\<lparr>mainState := MAIN_MENU\<rparr>"] assms(1)
    by (intro keeps_bind [where Q = "credit c"]) simp_all
  show ?thesis using pop menu esc assms(1) by (cases "mainState s") (simp_all add: keyboard_keys_def)
qed

section \<open>Moves, frames and interrupts\<close>

lemma credit_draw:
  assumes c: "credit c s" and ok: "game_ok s" and ld: "xpm_loads os" and sc: "scores_fit s"
  shows "keeps (credit c) (draw_frame os s)"
proof (rule keepsI)
  fix s' assume d: "draw_frame os s = Some s'"
  note ds = draw_frame_draws [OF ok ld sc d]
  show "credit c s'"
    by (rule credit_frame [OF c ds(2) [OF fixed_ptrs_members(3)]]) (simp_all add: draws_fields [OF ds(1)])
qed

text \<open>Only the ball's own move brings it nearer to a goal, by at most 8 lines; a goal is paid by the way to it.\<close>

lemma credit_ball:
  assumes c: "credit c s" and ok: "game_ok s" and k: "deref (heap s) (ball s) = Some k"
    and m: "move os (ball s) x (word_of_int (yspeed k)) 1 s = Some s'"
  shows "credit (c + 8) s'"
proof -
  have size: "uint (sp_width k) = 50" "uint (sp_height k) = 50" using object_size(1) [OF ok k] by simp_all
  have v: "\<bar>yspeed k\<bar> \<le> 8" and p: "383 * (player_1_score s + player_2_score s) + \<bar>sp_y k - 410\<bar> \<le> c"
    and d: "ball s \<noteq> redpuck s" "ball s \<noteq> bluepuck s"
    using c k by (auto simp: credit_def)
  have y: "sint (word_of_int (yspeed k) :: i16) = yspeed k" using v by (intro sint_word_of_int16) auto
  have nn: "ball s \<noteq> NULL" using k by (auto dest: deref_SomeD)
  from game_ok_arena [OF ok] k show ?thesis
  proof (cases rule: ball_move [where os = os and x = x and y = "word_of_int (yspeed k)"])
    case (goal s1)
    have e: "s1 = s'" using goal(2) m by simp
    note f = moves_only_fields [OF goal(3) [unfolded e]]
    have n: "383 \<le> \<bar>sp_y k - 410\<bar> + 8" using goal(1) v unfolding goal_top_def goal_bottom_def y size by linarith
    have "\<not> (goal_top k (sp_x k + sint x) (sp_y k - yspeed k) \<and> goal_bottom k (sp_x k + sint x) (sp_y k - yspeed k))"
      unfolding goal_top_def goal_bottom_def size by linarith
    then have "player_1_score s' + player_2_score s' \<le> player_1_score s + player_2_score s + 1"
      using goal(5,6) by (auto simp: e y)
    then have "383 * (player_1_score s' + player_2_score s') \<le> 383 * (player_1_score s + player_2_score s + 1)"
      by (rule mult_left_mono) simp
    then have "383 * (player_1_score s' + player_2_score s') \<le> c + 8" using p n by (simp only: distrib_left)
    moreover have "deref (heap s') (ball s) = Some (kick_off k)" using goal(4) nn by (simp add: e)
    ultimately show ?thesis using d f by (auto simp: credit_def kick_off_def)
  next
    case (stay s1 k')
    have e: "s1 = s'" using stay(3) m by simp
    note f = moves_only_fields [OF stay(4) [unfolded e]]
    have "deref (heap s') (ball s) = Some k'" using stay(5) nn by (simp add: e)
    then show ?thesis using d f v p stay(6-9,12) by (auto simp: credit_def e)
  next
    case (free s1)
    have e: "s1 = s'" using free(4) m by simp
    note f = moves_only_fields [OF free(5) [unfolded e]]
    have "deref (heap s') (ball s) =
        Some (k\<lparr>sp_x := sp_x k + sint x, sp_y := sp_y k - yspeed k, xspeed := sint x, yspeed := yspeed k\<rparr>)"
      using free(6) nn by (simp add: e y)
    moreover have "\<bar>sp_y k - yspeed k - 410\<bar> \<le> \<bar>sp_y k - 410\<bar> + 8" using v by linarith
    ultimately show ?thesis using d f v p free(7,8) by (auto simp: credit_def e)
  qed
qed

lemma credit_timer:
  assumes c: "credit c s" and ok: "game_ok s" and ld: "xpm_loads os" and hz: "sys_hz os \<noteq> 0"
    and sc: "mainState s = GAME \<Longrightarrow> player_1_score s < 9 \<and> player_2_score s < 9" and t: "timer_int os s = Some s'"
  shows "credit (c + 8) s'"
proof (cases "mainState s = GAME")
  case True
  obtain k s2 s3 where p: "game_ok s2" "game_ok s3" "draws s3 s'" "deref (heap s) (ball s) = Some k"
    "(if xspeed k \<noteq> 0 \<or> yspeed k \<noteq> 0 then move os (ball s) (word_of_int (xspeed k)) (word_of_int (yspeed k)) 1 s2
      else Some s2) = Some s3"
    "heap s2 = heap s" "ball s2 = ball s" "redpuck s2 = redpuck s" "bluepuck s2 = bluepuck s" "bytes_per_pixel s2 = bytes_per_pixel s"
    "is_main_pc s2 = is_main_pc s" "player_1_score s2 = player_1_score s" "player_2_score s2 = player_2_score s"
    "deref (heap s') (ball s') = deref (heap s3) (ball s3)" "ball s3 = ball s"
    by (rule timer_int_parts [OF ok ld hz True _ _ t]) (use sc [OF True] in blast)+
  have c2: "credit c s2" by (rule credit_frame [OF c]) (simp_all add: p(6-13))
  have c3: "credit (c + 8) s3"
  proof (cases "xspeed k \<noteq> 0 \<or> yspeed k \<noteq> 0")
    case True
    have k2: "deref (heap s2) (ball s2) = Some k" by (simp add: p(4,6,7))
    show ?thesis by (rule credit_ball [OF c2 p(1) k2, of os "word_of_int (xspeed k)"]) (use True p(5,7) in simp)
  next
    case False
    then show ?thesis using p(5) credit_mono [OF c2, of "c + 8"] by simp
  qed
  have b: "ball s' = ball s3" by (rule draws_fields(10) [OF p(3)])
  show ?thesis by (rule credit_frame [OF c3]) (use p(14) b in \<open>simp_all add: draws_fields [OF p(3)]\<close>)
next
  case False
  let ?s = "s\<lparr>timer_dev := timer_int_handler (timer_dev s)\<rparr>"
  have ok0: "game_ok ?s" using ok by simp
  obtain s1 where s1: "swap_buffers ?s = Some s1" "stays ?s s1" using stays_swap [OF ok0] by (auto simp: returns_def)
  obtain mb where mb: "s1 = ?s\<lparr>main_buffer := mb\<rparr>" using s1(1) by (auto simp: swap_buffers_def dest!: bind_SomeD)
  have c1: "credit c s1" using c by (simp add: mb credit_def)
  have "scores_fit s1" using False by (simp add: scores_fit_def mb)
  from keepsD [OF credit_draw [OF c1 staysD(1) [OF s1(2)] ld this]] have "credit c s'"
    using t s1(1) c1 False mb by (cases "mainState s") (auto simp: timer_int_def)
  then show ?thesis by (rule credit_mono) simp
qed

lemma credit_puck:
  assumes c: "credit c s" and ok: "game_ok s"
  shows "keeps (credit c) (move os (bluepuck s) x y 2 s)"
proof (rule keepsI)
  fix s' assume m: "move os (bluepuck s) x y 2 s = Some s'"
  obtain o1 where o1: "deref (heap s) (bluepuck s) = Some o1" by (rule game_ok_deref [OF ok fixed_ptrs_members(2)])
  obtain k where k: "deref (heap s) (ball s) = Some k" by (rule game_ok_deref [OF ok fixed_ptrs_members(3)])
  have mo: "moves_only s s' \<and> player_1_score s' = player_1_score s \<and> player_2_score s' = player_2_score s"
    using game_ok_arena [OF ok] disjI2 [OF refl] o1 by (cases rule: puck_move [where os = os and x = x and y = y]) (use m in auto)
  note f = moves_only_fields [OF conjunct1 [OF mo]]
  from ok disjI2 [OF refl] m k show "credit c s'"
  proof (cases rule: puck_ball)
    case past
    then show ?thesis using k mo f by (intro credit_frame [OF c]) simp_all
  next
    case (hit vx vy)
    then show ?thesis using c k by (auto simp: credit_def dest: deref_SomeD)
  qed
qed

lemma credit_pointer:
  assumes c: "credit c s" and ok: "game_ok s"
  shows "keeps (credit c) (move os (mouse s) x y 0 s)"
proof (rule keepsI)
  fix s' assume m: "move os (mouse s) x y 0 s = Some s'"
  have rd: "ready s" using ok by (simp add: game_ok_def)
  obtain o1 where o1: "deref (heap s) (mouse s) = Some o1" "in_area o1" by (rule ready_object [OF rd, of "mouse s"]) auto
  have n: "mouse s \<noteq> ball s" using rd by (simp add: ready_def)
  obtain o2 where "moves_only s s'" "heap s' = (heap s)(mouse s \<mapsto> o2)"
    "player_1_score s' = player_1_score s" "player_2_score s' = player_2_score s"
    using mouse_move [OF o1(1) n o1(2), of os x y] m by auto
  then show "credit c s'" using n by (intro credit_frame [OF c]) (auto simp: moves_only_fields deref_def)
qed

lemma credit_packet:
  assumes c: "credit c s" and ok: "game_ok s"
  shows "keeps (credit c) (mouse_packet os pk s)"
proof (rule keepsI)
  fix s' assume t: "mouse_packet os pk s = Some s'"
  obtain s1 where s1: "mouse_update_position os (mouse s) pk s = Some s1"
    using t by (auto simp: mouse_packet_def dest!: bind_SomeD)
  have c1: "credit c s1 \<and> game_ok s1"
  proof (cases "x_ov pk \<or> y_ov pk")
    case True
    then show ?thesis using s1 c ok by (auto simp: mouse_update_position_def)
  next
    case False
    then have m: "move os (mouse s) (delta_x pk) (delta_y pk) 0 s = Some s1" using s1 by (simp add: mouse_update_position_def)
    then show ?thesis using keepsD [OF credit_pointer [OF c ok] m] stays_move_mouse [OF ok, of os "delta_x pk" "delta_y pk"]
      by (simp add: returns_def stays_def)
  qed
  have v: "keeps (credit c) (update_sprite p (\<lambda>m. m\<lparr>visibility := b\<rparr>) s)" if "credit c s" for p b and s :: "('a, 'b) game_scheme"
    by (rule credit_sprite [OF that]) simp
  have z: "keeps (credit c) (update_sprite p (\<lambda>b. b\<lparr>xspeed := 0, yspeed := 0\<rparr>) s)" if "credit c s" for p and s :: "('a, 'b) game_scheme"
    by (rule credit_sprite [OF that]) (simp add: le_max_iff_disj)
  have "keeps (credit c) (do { s \<leftarrow> move os (bluepuck s1) (delta_x pk) (delta_y pk) 2 s1;
      update_sprite (mouse s) (\<lambda>m. m\<lparr>visibility := False\<rparr>) s })"
    using c1 by (intro keeps_bind [where Q = "credit c"] credit_puck v) simp_all
  moreover have "keeps (credit c) (do { s \<leftarrow> update_sprite (mouse s1) (\<lambda>m. m\<lparr>visibility := True\<rparr>) s1;
      update_sprite (bluepuck s) (\<lambda>b. b\<lparr>xspeed := 0, yspeed := 0\<rparr>) s })"
    using c1 by (intro keeps_bind [where Q = "credit c"] z v) simp_all
  ultimately show "credit c s'" using t s1 by (auto simp: mouse_packet_def keeps_def split: if_splits)
qed

lemma credit_mouse:
  assumes c: "credit c s" and ok: "game_ok s"
  shows "keeps (credit c) (mouse_int os s)"
proof (rule keepsI)
  fix s' assume "mouse_int os s = Some s'"
  with ok show "credit c s'"
  proof (cases rule: mouse_int_parts)
    case (driver m w bs n)
    then show ?thesis using c by simp
  next
    case (packet m w bs pk)
    then show ?thesis using keepsD [OF credit_packet [OF _ packet(1)] packet(2)] c by simp
  qed
qed

lemma credit_keyboard:
  assumes c: "credit c s" and z: "0 \<le> c" and ok: "game_ok s" and ld: "xpm_loads os" and hz: "sys_hz os \<noteq> 0" and i: "index_ok s"
    and sc: "player_1_score s < 10" "player_2_score s < 10"
  shows "keeps (credit c) (keyboard_int os s)"
proof (rule keepsI)
  fix s' assume t: "keyboard_int os s = Some s'"
  obtain k w where kw: "kbc_ih os (keyboard_dev s) (world s) = (k, w)" by (cases "kbc_ih os (keyboard_dev s) (world s)")
  let ?s = "s\<lparr>keyboard_dev := k, world := w\<rparr>"
  have ok1: "game_ok ?s" "index_ok ?s" "credit c ?s" using ok i c by (simp_all add: index_ok_def)
  show "credit c s'"
  proof (cases "keyboard_error k")
    case True
    then show ?thesis using t ok1(3) by (simp add: keyboard_int_def kw Let_def)
  next
    case False
    obtain s1 where s1: "keyboard_keys os ?s = Some s1" "reacts ?s s1"
      using keyboard_keys_returns [OF ok1(1) hz ok1(2)] by (auto simp: returns_def)
    have ok2: "game_ok s1" "scores_fit s1" using s1(2) sc by (auto simp: reacts_def scores_fit_def)
    have d: "draw_frame os s1 = Some s'" using t False s1(1) by (simp add: keyboard_int_def kw Let_def)
    show ?thesis by (rule keepsD [OF credit_draw [OF keepsD [OF credit_keys [OF ok1(3) z] s1(1)] ok2(1) ld ok2(2)] d])
  qed
qed

section \<open>Runs\<close>

text \<open>A message that interrupts for the timer.\<close>

definition is_tick :: "message \<Rightarrow> bool" where
  "is_tick m \<longleftrightarrow> receive_error m = 0 \<and> is_notify m \<and> from_hardware m \<and> interrupts m AND ucast TIMER_MASK \<noteq> 0"

lemma credit_dispatch:
  assumes c: "credit c s" and z: "0 \<le> c" and a: "alone_ok s" and pf: "platform_runs os pending" and m: "mainState s \<noteq> STOP"
    and n: "irqs AND ucast SPMASK = 0" and sc: "player_1_score s < 9" "player_2_score s < 9" and d: "dispatch os irqs s = Some s'"
  shows "credit (c + (if irqs AND ucast TIMER_MASK \<noteq> 0 then 8 else 0)) s'"
proof -
  have ld: "xpm_loads os" and hz: "sys_hz os \<noteq> 0" using pf by (simp_all add: platform_runs_def)
  have ok: "game_ok s" using a by (simp add: alone_ok_def)
  let ?c = "c + (if irqs AND ucast TIMER_MASK \<noteq> 0 then 8 else 0)"
  obtain s1 s2 s3 where s: "when_irq irqs TIMER_MASK (timer_int os) s = Some s1"
    "when_irq irqs KEYBOARD_MASK (keyboard_int os) s1 = Some s2" "when_irq irqs MOUSE_MASK (mouse_int os) s2 = Some s3"
    "when_irq irqs RTC_MASK (\<lambda>s. Some (rtc_int os s)) s3 = Some s'"
    using d n by (auto simp: dispatch_def when_irq_def [of irqs SPMASK] dest!: bind_SomeD)
  have 1: "credit ?c s1"
    using credit_timer [OF c ok ld hz, of s1] s(1) c sc by (auto simp: when_irq_def split: if_splits)
  have t: "alone_ok s1 \<and> player_1_score s1 < 10 \<and> player_2_score s1 < 10 \<and> mainState s1 \<noteq> STOP"
    by (rule when_irq_keeps [OF s(1)]) (use alone_timer [OF a pf sc] a sc m in auto)
  have i: "index_ok s1" using t lit_ok_index by (auto simp: alone_ok_def)
  have g: "game_ok s1" using t by (simp add: alone_ok_def)
  have z': "0 \<le> ?c" using z by simp
  have 2: "credit ?c s2"
    by (rule when_irq_keeps [where P = "credit ?c", OF s(2) 1]) (rule keepsD [OF credit_keyboard [OF 1 z' g ld hz i]]; use t in simp)
  have g2: "game_ok s2"
  proof (rule when_irq_keeps [where P = game_ok, OF s(2) g])
    fix s' assume k: "keyboard_int os s1 = Some s'"
    have "returns (keyboard_int os s1) (\<lambda>s'. reacts s1 s' \<and> (mainState s' = mainState s1 \<longrightarrow> index_ok s'))"
      using t i by (intro keyboard_int_returns [OF g ld hz]) simp_all
    then show "game_ok s'" using k by (simp add: returns_def reacts_def)
  qed
  have 3: "credit ?c s3" by (rule when_irq_keeps [where P = "credit ?c", OF s(3) 2]) (rule keepsD [OF credit_mouse [OF 2 g2]])
  show ?thesis
    by (rule when_irq_keeps [where P = "credit ?c", OF s(4) 3])
      (rule credit_frame [OF 3], auto simp: rtc_int_def split: prod.splits)
qed

lemma credit_loop:
  assumes c: "credit c s" and z: "0 \<le> c" and a: "alone_ok s" and pf: "platform_runs os pending"
    and n: "\<forall>m \<in> set msgs. interrupts m AND ucast SPMASK = 0"
    and sc: "\<And>ms1 ms2 s1. msgs = ms1 @ ms2 \<Longrightarrow> main_loop os ms1 s = Some s1 \<Longrightarrow> player_1_score s1 < 9 \<and> player_2_score s1 < 9"
    and l: "main_loop os msgs s = Some s'"
  shows "credit (c + 8 * int (length (filter is_tick msgs))) s'"
  using n sc l
proof (induction msgs arbitrary: s' rule: rev_induct)
  case Nil
  then show ?case using c by simp
next
  case (snoc m ms)
  obtain s1 where s1: "main_loop os ms s = Some s1" using snoc.prems(3) by (auto simp: main_loop_append dest!: bind_SomeD)
  have p: "player_1_score s1 < 9 \<and> player_2_score s1 < 9" using snoc.prems(2) [of ms "[m]" s1] s1 by simp
  have q: "player_1_score s2 < 9 \<and> player_2_score s2 < 9" if "ms = ms1 @ ms2" "main_loop os ms1 s = Some s2" for ms1 ms2 s2
    using snoc.prems(2) [of ms1 "ms2 @ [m]" s2] that by simp
  let ?c = "c + 8 * int (length (filter is_tick ms))"
  have c1: "credit ?c s1" by (rule snoc.IH [OF _ _ s1]) (use snoc.prems(1) q in auto)
  have a1: "alone_ok s1" by (rule alone_loop [OF a pf _ q s1]) (use snoc.prems(1) in simp)
  show ?case
  proof (cases "mainState s1 = STOP \<or> receive_error m \<noteq> 0 \<or> \<not> (is_notify m \<and> from_hardware m)")
    case True
    then have "s' = s1" using snoc.prems(3) s1 by (auto simp: main_loop_append main_step_def split: if_splits)
    then show ?thesis using credit_mono [OF c1] by simp
  next
    case False
    then have "dispatch os (interrupts m) s1 = Some s'" using snoc.prems(3) s1 by (simp add: main_loop_append main_step_def)
    then have "credit (?c + (if interrupts m AND ucast TIMER_MASK \<noteq> 0 then 8 else 0)) s'"
      using False p snoc.prems(1) z by (intro credit_dispatch [OF c1 _ a1 pf]) auto
    moreover have "is_tick m \<longleftrightarrow> interrupts m AND ucast TIMER_MASK \<noteq> 0" using False by (simp add: is_tick_def)
    ultimately show ?thesis by (cases "is_tick m") (simp_all add: algebra_simps)
  qed
qed

text \<open>Over a whole run: what the ball has scored it has travelled for.\<close>

lemma goals_paid:
  assumes a: "alone_ok s" and pf: "platform_runs os pending" and k: "deref (heap s) (ball s) = Some k" "ball_ok k"
    and n: "\<forall>m \<in> set msgs. interrupts m AND ucast SPMASK = 0"
    and sc: "\<And>ms1 ms2 s1. msgs = ms1 @ ms2 \<Longrightarrow> main_loop os ms1 s = Some s1 \<Longrightarrow> player_1_score s1 < 9 \<and> player_2_score s1 < 9"
    and l: "main_loop os msgs s = Some s'"
  shows "383 * (player_1_score s' + player_2_score s') \<le>
    383 * (player_1_score s + player_2_score s) + \<bar>sp_y k - 410\<bar> + 8 * int (length (filter is_tick msgs))"
proof -
  have ok: "game_ok s" using a by (simp add: alone_ok_def)
  have "ball s \<noteq> redpuck s" "ball s \<noteq> bluepuck s" using game_ok_arena [OF ok] by (auto simp: arena_ok_def)
  then have c: "credit (383 * (player_1_score s + player_2_score s) + \<bar>sp_y k - 410\<bar>) s"
    using k by (simp add: credit_def ball_ok_def)
  have "0 \<le> player_1_score s + player_2_score s" using scores_nonneg [OF ok] by simp
  then have "0 \<le> 383 * (player_1_score s + player_2_score s) + \<bar>sp_y k - 410\<bar>" by simp
  then have "credit (383 * (player_1_score s + player_2_score s) + \<bar>sp_y k - 410\<bar> + 8 * int (length (filter is_tick msgs))) s'"
    by (rule credit_loop [OF c _ a pf n _ l]) (rule sc)
  then show ?thesis by (auto simp: credit_def)
qed

text \<open>C22 (at most two points a second): on a computer no signal reaches, whatever keys are pressed and however
  the mouse is moved, 60 timer interrupts, the ticks of one second, add at most two points to the scores:
  the ball needs 48 ticks from the kick-off spot to a goal line.  Two points in one second do carry a score
  from 2 past the 3 that \<^verbatim>\<open>timer_int\<close> looks for at the end of the second.\<close>

theorem goals_per_second:
  assumes "alone_ok s" and "platform_runs os pending" and "deref (heap s) (ball s) = Some k" and "ball_ok k"
    and "\<forall>m \<in> set msgs. interrupts m AND ucast SPMASK = 0" and "length (filter is_tick msgs) \<le> 60"
    and "\<forall>ms1 ms2 s1. msgs = ms1 @ ms2 \<and> main_loop os ms1 s = Some s1 \<longrightarrow> player_1_score s1 < 9 \<and> player_2_score s1 < 9"
    and "main_loop os msgs s = Some s'"
  shows "player_1_score s' + player_2_score s' \<le> player_1_score s + player_2_score s + 2"
proof -
  have ok: "game_ok s" using assms(1) by (simp add: alone_ok_def)
  have "uint (sp_height k) = 50" using object_size(1) [OF ok assms(3)] by simp
  then have "\<bar>sp_y k - 410\<bar> \<le> 389" using assms(4) by (auto simp: ball_ok_def in_area_def fits_at_def)
  moreover have "383 * (player_1_score s' + player_2_score s') \<le>
      383 * (player_1_score s + player_2_score s) + \<bar>sp_y k - 410\<bar> + 8 * int (length (filter is_tick msgs))"
    using assms(7) by (intro goals_paid [OF assms(1-5) _ assms(8)]) blast
  ultimately have "383 * (player_1_score s' + player_2_score s') < 383 * (player_1_score s + player_2_score s + 3)"
    using assms(6) by (simp only: distrib_left)
  then show ?thesis by simp
qed

lemma alone_state:
  obtains s :: "bench game" and k where "alone_ok s" "mainState s = MAIN_MENU" "option_index s = 0" "player_1_score s = 0"
    "player_2_score s = 0" "deref (heap s) (ball s) = Some k" "ball_ok k"
proof -
  obtain s0 :: "bench game" where s0: "game_ok s0" "mainState s0 = MAIN_MENU" "option_index s0 = 0" "menus_lit s0" by (rule lit_state)
  have hz: "sys_hz pc_os \<noteq> 0" using pc_os_runs by (simp add: platform_runs_def)
  let ?s = "new_match pc_os s0"
  have ok: "game_ok ?s" by (rule new_match_ok [OF s0(1) hz])
  have "lit_ok s0" using menus_lit_alone [OF s0] by (simp add: alone_ok_def)
  then have "lit_ok ?s" by (rule lit_ok_quiet [OF _ quiet_new_match [OF s0(1)]]) (simp add: new_match_def)
  moreover obtain k where k: "deref (heap ?s) (ball ?s) = Some k" "sp_x k = 550" "sp_y k = 410" "xspeed k = 0" "yspeed k = 0"
    using new_match_table [OF s0(1) hz] reset_new_match [OF s0(1) hz] by auto
  moreover have "ball_ok k" using k object_size(1) [OF ok k(1)] by (simp add: ball_ok_def in_area_def fits_at_def)
  ultimately show thesis using that [of ?s k] ok s0(2,3) by (simp add: alone_ok_def new_match_def)
qed

theorem goals_per_second_witness:
  "\<exists>s s' :: bench game. main_loop pc_os [tick_message] s = Some s' \<and> player_1_score s' + player_2_score s' \<le> 2"
proof -
  obtain s :: "bench game" and k where s: "alone_ok s" "mainState s = MAIN_MENU" "option_index s = 0" "player_1_score s = 0"
    "player_2_score s = 0" "deref (heap s) (ball s) = Some k" "ball_ok k" by (rule alone_state)
  have ok: "game_ok s" using s(1) by (simp add: alone_ok_def)
  note lim = tick_run_limits [OF ok s(2-5)]
  have "returns (main_loop pc_os [tick_message] s) (\<lambda>s'. game_ok s' \<and> follows (mainState s) (mainState s'))"
    by (rule main_loop_returns [OF pc_os_runs ok]) (rule lim)
  then obtain s' where s': "main_loop pc_os [tick_message] s = Some s'" by (auto simp: returns_def)
  have "player_1_score s' + player_2_score s' \<le> player_1_score s + player_2_score s + 2"
  proof (rule goals_per_second [OF s(1) pc_os_runs s(6,7) _ _ _ s'])
    show "\<forall>m \<in> set [tick_message]. interrupts m AND ucast SPMASK = 0"
      by (simp add: tick_message_def SPMASK_def BIT_def)
    show "\<forall>ms1 ms2 s1. [tick_message] = ms1 @ ms2 \<and> main_loop pc_os ms1 s = Some s1 \<longrightarrow> player_1_score s1 < 9 \<and> player_2_score s1 < 9"
      using lim unfolding limits_def by blast
  qed simp
  then have "player_1_score s' + player_2_score s' \<le> 2" using s(4,5) by simp
  with s' show ?thesis by blast
qed

end
