(* ===== verification/Rally.thy ===== *)
theory Rally
  imports Link Goals
begin

text \<open>
  The ball on two computers.  Only the main computer decides what the pucks do to the ball, but both move it on
  their own timer, reflect it at their own walls and count their own goals.  A step relation lets the two
  computers play the same match; as long as the ball meets nothing the two tables see differently, the balls
  are mirror images, the scores are exchanged, and one player has won exactly when the other has lost.
\<close>

section \<open>Two computers in one match\<close>

fun opposite :: "MainStateMachine \<Rightarrow> MainStateMachine" where
  "opposite WIN = LOST"
| "opposite LOST = WIN"
| "opposite m = m"

definition twins :: "sprite \<Rightarrow> sprite \<Rightarrow> bool" where
  "twins k l \<longleftrightarrow> sp_x k + sp_x l = 1100 \<and> sp_y k + sp_y l = 820 \<and> xspeed l = - xspeed k \<and> yspeed l = - yspeed k \<and>
     \<bar>xspeed k\<bar> \<le> 8 \<and> \<bar>yspeed k\<bar> \<le> 8"

definition opponents :: "('v, 'a) game_scheme \<Rightarrow> ('w, 'b) game_scheme \<Rightarrow> bool" where
  "opponents a b \<longleftrightarrow>
     (\<exists>k l. deref (heap a) (ball a) = Some k \<and> deref (heap b) (ball b) = Some l \<and> twins k l) \<and>
     player_1_score b = player_2_score a \<and> player_2_score b = player_1_score a \<and>
     time_remaining b = time_remaining a \<and> time_count (timer_dev b) = time_count (timer_dev a) \<and>
     mainState b = opposite (mainState a) \<and> is_main_pc a \<and> \<not> is_main_pc b"

text \<open>Both tables see the ball at \<open>(nx, ny)\<close>, on the other table \<open>(1100 - nx, 820 - ny)\<close>, in the same way: on free
  ice, in the goal, or beyond the same walls.\<close>

definition fair_place :: "int \<Rightarrow> int \<Rightarrow> bool" where
  "fair_place nx ny \<longleftrightarrow>
     273 \<le> nx \<and> nx \<le> 827 \<and> 28 \<le> ny \<and> ny \<le> 792 \<or>
     476 \<le> nx \<and> nx \<le> 624 \<and> (ny \<le> 21 \<or> 799 \<le> ny) \<or>
     (nx < 474 \<or> 626 < nx) \<and> (nx < 271 \<or> 273 \<le> nx \<and> nx \<le> 827 \<or> 829 < nx) \<and> (ny < 21 \<or> 27 \<le> ny \<and> ny \<le> 793 \<or> 799 < ny)"

text \<open>On the next tick the ball rests, or goes to a place that is fair and free of pucks.\<close>

definition clear_way :: "('w, 'a) game_scheme \<Rightarrow> bool" where
  "clear_way a \<longleftrightarrow> (case (deref (heap a) (ball a), deref (heap a) (redpuck a), deref (heap a) (bluepuck a)) of
     (Some k, Some r, Some b) \<Rightarrow>
       let nx = sp_x k + xspeed k; ny = sp_y k - yspeed k in
       xspeed k = 0 \<and> yspeed k = 0 \<or>
       fair_place nx ny \<and> \<not> overlap (unat (bytes_per_pixel a)) k nx ny r \<and> \<not> overlap (unat (bytes_per_pixel a)) k nx ny b
   | _ \<Rightarrow> False)"

section \<open>The flight of the ball\<close>

text \<open>What a tick makes of a ball that meets no puck, and the points it brings.\<close>

definition flight :: "sprite \<Rightarrow> sprite" where
  "flight k =
     (let nx = sp_x k + xspeed k; ny = sp_y k - yspeed k in
      if 476 \<le> nx \<and> nx \<le> 626 \<and> (ny \<le> 21 \<or> 793 \<le> ny) then kick_off k
      else if 273 \<le> nx \<and> nx \<le> 829 \<and> 21 \<le> ny \<and> ny \<le> 793 then k\<lparr>sp_x := nx, sp_y := ny\<rparr>
      else reflect_at_walls (ny < 21) (829 < nx) (793 < ny) (nx < 273) k)"

definition goals :: "sprite \<Rightarrow> int \<times> int" where
  "goals k =
     (let nx = sp_x k + xspeed k; ny = sp_y k - yspeed k in
      if 476 \<le> nx \<and> nx \<le> 626 then (if 793 \<le> ny then 1 else 0, if ny \<le> 21 then 1 else 0) else (0, 0))"

text \<open>A ball at rest is not moved, and scores nothing.\<close>

definition glide :: "sprite \<Rightarrow> sprite" where
  "glide k = (if xspeed k = 0 \<and> yspeed k = 0 then k else flight k)"

definition gains :: "sprite \<Rightarrow> int \<times> int" where
  "gains k = (if xspeed k = 0 \<and> yspeed k = 0 then (0, 0) else goals k)"

lemma glide_moving: "\<not> (xspeed k = 0 \<and> yspeed k = 0) \<Longrightarrow> glide k = flight k \<and> gains k = goals k"
  and glide_rest: "xspeed k = 0 \<and> yspeed k = 0 \<Longrightarrow> glide k = k \<and> gains k = (0, 0)"
  by (auto simp: glide_def gains_def)

lemma ball_flies:
  assumes ok: "arena_ok s" and k: "deref (heap s) (ball s) = Some k" and r: "deref (heap s) (redpuck s) = Some r"
    and b: "deref (heap s) (bluepuck s) = Some b" and v: "\<bar>xspeed k\<bar> \<le> 8" "\<bar>yspeed k\<bar> \<le> 8"
    and free: "is_main_pc s \<Longrightarrow> goals k = (0, 0) \<Longrightarrow> \<not> overlap (unat (bytes_per_pixel s)) k (sp_x k + xspeed k) (sp_y k - yspeed k) r \<and>
      \<not> overlap (unat (bytes_per_pixel s)) k (sp_x k + xspeed k) (sp_y k - yspeed k) b"
    and m: "move os (ball s) (word_of_int (xspeed k)) (word_of_int (yspeed k)) 1 s = Some s'"
  shows "deref (heap s') (ball s) = Some (flight k)" "player_1_score s' = player_1_score s + fst (goals k)"
    "player_2_score s' = player_2_score s + snd (goals k)"
proof -
  let ?nx = "sp_x k + xspeed k" and ?ny = "sp_y k - yspeed k"
  have size: "uint (sp_width k) = 50" "uint (sp_height k) = 50"
    using ok k shapedD [of "bytes_per_pixel s" 50 50 k] by (auto simp: arena_ok_def)
  have nb: "ball s \<noteq> NULL" using k by (auto dest: deref_SomeD)
  have w: "sint (word_of_int (xspeed k) :: i16) = xspeed k" "sint (word_of_int (yspeed k) :: i16) = yspeed k"
    using v by (auto intro!: sint_word_of_int16)
  note layer = ball_layer [OF ok k r b, of os ?nx ?ny]
  have e: "k\<lparr>sp_x := ?nx, sp_y := ?ny, xspeed := xspeed k, yspeed := yspeed k\<rparr> = k\<lparr>sp_x := ?nx, sp_y := ?ny\<rparr>"
    by (cases k) simp
  have gf: "goal_top k ?nx ?ny \<longleftrightarrow> 476 \<le> ?nx \<and> ?nx \<le> 626 \<and> ?ny \<le> 21" "goal_bottom k ?nx ?ny \<longleftrightarrow> 476 \<le> ?nx \<and> ?nx \<le> 626 \<and> 793 \<le> ?ny"
    "fits_at k ?nx ?ny \<longleftrightarrow> 273 \<le> ?nx \<and> ?nx \<le> 829 \<and> 21 \<le> ?ny \<and> ?ny \<le> 793"
    unfolding goal_top_def goal_bottom_def fits_at_def size by auto
  have c: "476 \<le> ?nx \<and> ?nx \<le> 626 \<and> (?ny \<le> 21 \<or> 793 \<le> ?ny) \<longleftrightarrow> goal_top k ?nx ?ny \<or> goal_bottom k ?nx ?ny"
    unfolding gf by blast
  have fl: "flight k = (if goal_top k ?nx ?ny \<or> goal_bottom k ?nx ?ny then kick_off k
      else if fits_at k ?nx ?ny then k\<lparr>sp_x := ?nx, sp_y := ?ny\<rparr>
      else reflect_at_walls (?ny < 21) (829 < ?nx) (793 < ?ny) (?nx < 273) k)"
    unfolding flight_def Let_def c gf(3) ..
  have gl: "goals k = (if goal_bottom k ?nx ?ny then 1 else 0, if goal_top k ?nx ?ny then 1 else 0)"
    unfolding goals_def Let_def gf(1,2) by simp
  consider (goal) "goal_top k ?nx ?ny \<or> goal_bottom k ?nx ?ny"
    | (wall) "\<not> (goal_top k ?nx ?ny \<or> goal_bottom k ?nx ?ny)" "\<not> fits_at k ?nx ?ny"
    | (free) "\<not> (goal_top k ?nx ?ny \<or> goal_bottom k ?nx ?ny)" "fits_at k ?nx ?ny" by blast
  then have "deref (heap s') (ball s) = Some (flight k) \<and> player_1_score s' = player_1_score s + fst (goals k) \<and>
      player_2_score s' = player_2_score s + snd (goals k)"
  proof cases
    case goal
    then have "s' = s\<lparr>player_1_score := player_1_score s + (if goal_bottom k ?nx ?ny then 1 else 0),
                 player_2_score := player_2_score s + (if goal_top k ?nx ?ny then 1 else 0),
                 heap := (heap s)(ball s \<mapsto> kick_off k)\<rparr>"
      using layer m k by (simp add: move_def w Let_def)
    then show ?thesis using nb goal by (simp add: fl gl)
  next
    case wall
    then have "s' = s\<lparr>heap := (heap s)(ball s \<mapsto> reflect_at_walls (?ny < 21) (829 < ?nx) (793 < ?ny) (?nx < 273) k)\<rparr>"
      using layer m k by (simp add: move_def w size Let_def)
    then show ?thesis using nb wall by (simp add: fl gl)
  next
    case free
    then have "detect_collision_in_layer os (ball s) ?nx ?ny 1 s = Some (False, s)" using layer assms(7) gl by simp
    then have "s' = s\<lparr>heap := (heap s)(ball s \<mapsto> k\<lparr>sp_x := ?nx, sp_y := ?ny\<rparr>)\<rparr>"
      using m k by (simp add: move_def w update_sprite_def e Let_def)
    then show ?thesis using nb free by (simp add: fl gl)
  qed
  then show "deref (heap s') (ball s) = Some (flight k)" "player_1_score s' = player_1_score s + fst (goals k)"
    "player_2_score s' = player_2_score s + snd (goals k)" by simp_all
qed

lemma fair_cases:
  assumes "fair_place nx ny"
  obtains (inside) "273 \<le> nx" "nx \<le> 827" "28 \<le> ny" "ny \<le> 792"
    | (goal) "476 \<le> nx" "nx \<le> 624" "ny \<le> 21 \<or> 799 \<le> ny"
    | (edge) "nx < 474 \<or> 626 < nx" "829 < 1100 - nx \<longleftrightarrow> nx < 273" "1100 - nx < 273 \<longleftrightarrow> 829 < nx"
        "820 - ny < 21 \<longleftrightarrow> 793 < ny" "793 < 820 - ny \<longleftrightarrow> ny < 21"
proof -
  have e: "829 < 1100 - nx \<longleftrightarrow> nx < 273" "1100 - nx < 273 \<longleftrightarrow> 829 < nx"
    if "nx < 271 \<or> 273 \<le> nx \<and> nx \<le> 827 \<or> 829 < nx" using that by auto
  have f: "820 - ny < 21 \<longleftrightarrow> 793 < ny" "793 < 820 - ny \<longleftrightarrow> ny < 21"
    if "ny < 21 \<or> 27 \<le> ny \<and> ny \<le> 793 \<or> 799 < ny" using that by auto
  from assms [unfolded fair_place_def] show thesis
  proof (elim disjE)
    assume "(nx < 474 \<or> 626 < nx) \<and> (nx < 271 \<or> 273 \<le> nx \<and> nx \<le> 827 \<or> 829 < nx) \<and>
      (ny < 21 \<or> 27 \<le> ny \<and> ny \<le> 793 \<or> 799 < ny)"
    then show ?thesis using e f by (intro edge) blast+
  qed (use inside goal in blast)+
qed

lemma twins_fly:
  assumes "twins k l" and "fair_place (sp_x k + xspeed k) (sp_y k - yspeed k)"
  shows "twins (flight k) (flight l)" "goals l = prod.swap (goals k)"
proof -
  let ?nx = "sp_x k + xspeed k" and ?ny = "sp_y k - yspeed k"
  have l: "sp_x l + xspeed l = 1100 - ?nx" "sp_y l - yspeed l = 820 - ?ny"
    "sp_x l = 1100 - sp_x k" "sp_y l = 820 - sp_y k" "xspeed l = - xspeed k" "yspeed l = - yspeed k"
    using assms(1) by (simp_all add: twins_def)
  have v: "\<bar>xspeed k\<bar> \<le> 8" "\<bar>yspeed k\<bar> \<le> 8" using assms(1) by (simp_all add: twins_def)
  consider (inside) "273 \<le> ?nx" "?nx \<le> 827" "28 \<le> ?ny" "?ny \<le> 792"
    | (goal) "476 \<le> ?nx" "?nx \<le> 624" "?ny \<le> 21 \<or> 799 \<le> ?ny"
    | (edge) "?nx < 474 \<or> 626 < ?nx" "829 < 1100 - ?nx \<longleftrightarrow> ?nx < 273" "1100 - ?nx < 273 \<longleftrightarrow> 829 < ?nx"
        "820 - ?ny < 21 \<longleftrightarrow> 793 < ?ny" "793 < 820 - ?ny \<longleftrightarrow> ?ny < 21"
    by (rule fair_cases [OF assms(2)]) blast
  then have "twins (flight k) (flight l) \<and> goals l = prod.swap (goals k)"
  proof cases
    case inside
    have "flight k = k\<lparr>sp_x := ?nx, sp_y := ?ny\<rparr>" "flight l = l\<lparr>sp_x := 1100 - ?nx, sp_y := 820 - ?ny\<rparr>"
      using inside unfolding flight_def Let_def l(1,2) by simp_all
    moreover have "goals k = (0, 0)" "goals l = (0, 0)" using inside unfolding goals_def Let_def l(1,2) by simp_all
    ultimately show ?thesis using v l(5,6) by (simp add: twins_def)
  next
    case goal
    have "flight k = kick_off k" "flight l = kick_off l" using goal unfolding flight_def Let_def l(1,2) by auto
    moreover have "goals l = prod.swap (goals k)" using goal unfolding goals_def Let_def l(1,2) by auto
    ultimately show ?thesis by (simp add: twins_def kick_off_def)
  next
    case edge
    have g: "\<not> (476 \<le> ?nx \<and> ?nx \<le> 626)" "\<not> (476 \<le> 1100 - ?nx \<and> 1100 - ?nx \<le> 626)" using edge(1) by linarith+
    have i: "273 \<le> 1100 - ?nx \<longleftrightarrow> ?nx \<le> 829" "1100 - ?nx \<le> 829 \<longleftrightarrow> 273 \<le> ?nx" "21 \<le> 820 - ?ny \<longleftrightarrow> ?ny \<le> 793"
      "820 - ?ny \<le> 793 \<longleftrightarrow> 21 \<le> ?ny"
      using edge(2-5) by linarith+
    have "goals k = (0, 0)" "goals l = (0, 0)" unfolding goals_def Let_def l(1,2) using g by simp_all
    moreover have f: "flight k = (if 273 \<le> ?nx \<and> ?nx \<le> 829 \<and> 21 \<le> ?ny \<and> ?ny \<le> 793 then k\<lparr>sp_x := ?nx, sp_y := ?ny\<rparr>
        else reflect_at_walls (?ny < 21) (829 < ?nx) (793 < ?ny) (?nx < 273) k)"
      "flight l = (if 273 \<le> ?nx \<and> ?nx \<le> 829 \<and> 21 \<le> ?ny \<and> ?ny \<le> 793 then l\<lparr>sp_x := 1100 - ?nx, sp_y := 820 - ?ny\<rparr>
        else reflect_at_walls (793 < ?ny) (?nx < 273) (?ny < 21) (829 < ?nx) l)"
      unfolding flight_def Let_def l(1,2) edge(2-5) i using g by auto
    moreover have "twins (flight k) (flight l)"
      unfolding f using v l(3-6) by (auto simp: twins_def)
    ultimately show ?thesis by simp
  qed
  then show "twins (flight k) (flight l)" "goals l = prod.swap (goals k)" by simp_all
qed

section \<open>One tick on both computers\<close>

lemma tick_flies:
  assumes ok: "game_ok s" and ld: "xpm_loads os" and hz: "sys_hz os \<noteq> 0" and m: "mainState s = GAME"
    and sc: "player_1_score s < 9" "player_2_score s < 9" and k: "deref (heap s) (ball s) = Some k"
    and v: "\<bar>xspeed k\<bar> \<le> 8" "\<bar>yspeed k\<bar> \<le> 8" and free: "is_main_pc s \<Longrightarrow> goals k = (0, 0) \<Longrightarrow> clear_way s"
  obtains s' where "timer_int os s = Some s'" "game_ok s'" "time_count (timer_dev s') = next_count s"
    "mainState s' = next_mode os s" "time_remaining s' = next_time os s"
    "is_main_pc s' = is_main_pc s"
    "deref (heap s') (ball s') = Some (glide k)"
    "player_1_score s' = player_1_score s + fst (gains k)"
    "player_2_score s' = player_2_score s + snd (gains k)"
proof -
  obtain s' where s': "timer_int os s = Some s'" "game_ok s'" "time_count (timer_dev s') = next_count s"
    "mainState s' = next_mode os s" "time_remaining s' = next_time os s"
    by (rule timer_int_game [OF ok ld hz m sc])
  obtain k0 s2 s3 where p: "game_ok s2" "draws s3 s'" "deref (heap s) (ball s) = Some k0"
    "(if xspeed k0 \<noteq> 0 \<or> yspeed k0 \<noteq> 0 then move os (ball s) (word_of_int (xspeed k0)) (word_of_int (yspeed k0)) 1 s2
      else Some s2) = Some s3"
    "heap s2 = heap s" "ball s2 = ball s" "redpuck s2 = redpuck s" "bluepuck s2 = bluepuck s" "bytes_per_pixel s2 = bytes_per_pixel s"
    "is_main_pc s2 = is_main_pc s" "player_1_score s2 = player_1_score s" "player_2_score s2 = player_2_score s"
    "deref (heap s') (ball s') = deref (heap s3) (ball s3)" "ball s3 = ball s"
    by (rule timer_int_parts [OF ok ld hz m sc s'(1)])
  have kk: "k0 = k" using p(3) k by simp
  have "deref (heap s3) (ball s3) = Some (glide k) \<and>
    player_1_score s3 = player_1_score s + fst (gains k) \<and>
    player_2_score s3 = player_2_score s + snd (gains k) \<and> is_main_pc s3 = is_main_pc s"
  proof (cases "xspeed k = 0 \<and> yspeed k = 0")
    case True
    then have "s3 = s2" using p(4) kk by simp
    then show ?thesis using glide_rest [OF True] k by (simp add: p(5-14))
  next
    case False
    then have mv: "move os (ball s2) (word_of_int (xspeed k)) (word_of_int (yspeed k)) 1 s2 = Some s3" using p(4,6) kk by auto
    note ar = game_ok_arena [OF p(1)]
    obtain r b where rb: "deref (heap s2) (redpuck s2) = Some r" "deref (heap s2) (bluepuck s2) = Some b"
      using ar by (auto simp: arena_ok_def)
    have k2: "deref (heap s2) (ball s2) = Some k" using k by (simp add: p(5,6))
    have fr: "\<not> overlap (unat (bytes_per_pixel s2)) k (sp_x k + xspeed k) (sp_y k - yspeed k) r \<and>
      \<not> overlap (unat (bytes_per_pixel s2)) k (sp_x k + xspeed k) (sp_y k - yspeed k) b" if "is_main_pc s2" "goals k = (0, 0)"
      using free that rb k False by (auto simp: clear_way_def p(5-10) Let_def)
    have "is_main_pc s3 = is_main_pc s2" by (rule alters_fields(4) [OF alters_move [OF mv, of "{ball s2}"]]) simp_all
    then show ?thesis using ball_flies [OF ar k2 rb v fr mv] glide_moving [OF False] by (simp add: p(6,10,11,12,14))
  qed
  then show thesis using that [OF s'] p(13) by (simp add: draws_fields [OF p(2)])
qed

lemma opponents_tick:
  assumes op: "opponents a b" and ok: "game_ok a" "game_ok b" and ld: "xpm_loads os1" "xpm_loads os2"
    and hz: "sys_hz os2 = sys_hz os1" "sys_hz os1 \<noteq> 0" and m: "mainState a = GAME" and w: "clear_way a"
    and sc: "player_1_score a < 9" "player_2_score a < 9" and d: "\<not> (player_1_score a = 3 \<and> player_2_score a = 3)"
  shows "\<exists>a' b'. timer_int os1 a = Some a' \<and> timer_int os2 b = Some b' \<and> game_ok a' \<and> game_ok b' \<and> opponents a' b'"
proof -
  obtain k l where k: "deref (heap a) (ball a) = Some k" "deref (heap b) (ball b) = Some l" "twins k l"
    using op by (auto simp: opponents_def)
  have v: "\<bar>xspeed k\<bar> \<le> 8" "\<bar>yspeed k\<bar> \<le> 8" "\<bar>xspeed l\<bar> \<le> 8" "\<bar>yspeed l\<bar> \<le> 8" using k(3) by (simp_all add: twins_def)
  have e: "mainState b = GAME" "player_1_score b < 9" "player_2_score b < 9" "\<not> is_main_pc b" "is_main_pc a"
    "player_1_score b = player_2_score a" "player_2_score b = player_1_score a" "time_remaining b = time_remaining a"
    "next_count b = next_count a"
    using op m sc by (simp_all add: opponents_def next_count_def)
  have hb: "sys_hz os2 \<noteq> 0" using hz by simp
  have fb: "is_main_pc b \<Longrightarrow> goals l = (0, 0) \<Longrightarrow> clear_way b" using e(4) by simp
  note ta = tick_flies [OF ok(1) ld(1) hz(2) m sc k(1) v(1,2) w]
  note tb = tick_flies [OF ok(2) ld(2) hb e(1-3) k(2) v(3,4) fb]
  obtain a' where a': "timer_int os1 a = Some a'" "game_ok a'" "time_count (timer_dev a') = next_count a"
    "mainState a' = next_mode os1 a" "time_remaining a' = next_time os1 a"
    "is_main_pc a' = is_main_pc a"
    "deref (heap a') (ball a') = Some (glide k)"
    "player_1_score a' = player_1_score a + fst (gains k)"
    "player_2_score a' = player_2_score a + snd (gains k)"
    by (rule ta)
  obtain b' where b': "timer_int os2 b = Some b'" "game_ok b'" "time_count (timer_dev b') = next_count b"
    "mainState b' = next_mode os2 b" "time_remaining b' = next_time os2 b"
    "is_main_pc b' = is_main_pc b"
    "deref (heap b') (ball b') = Some (glide l)"
    "player_1_score b' = player_1_score b + fst (gains l)"
    "player_2_score b' = player_2_score b + snd (gains l)"
    by (rule tb)
  have tw: "twins (glide k) (glide l)" "gains l = prod.swap (gains k)"
  proof -
    have "twins (glide k) (glide l) \<and> gains l = prod.swap (gains k)"
    proof (cases "xspeed k = 0 \<and> yspeed k = 0")
      case True
      then have "xspeed l = 0 \<and> yspeed l = 0" using k(3) by (simp add: twins_def)
      then show ?thesis using k(3) glide_rest [OF True] glide_rest by simp
    next
      case False
      then have "\<not> (xspeed l = 0 \<and> yspeed l = 0)" using k(3) by (simp add: twins_def)
      moreover have "fair_place (sp_x k + xspeed k) (sp_y k - yspeed k)"
        using w k(1) False by (auto simp: clear_way_def Let_def split: option.splits)
      ultimately show ?thesis using twins_fly [OF k(3)] glide_moving [OF False] glide_moving by simp
    qed
    then show "twins (glide k) (glide l)" "gains l = prod.swap (gains k)" by simp_all
  qed
  have "next_time os2 b = next_time os1 a" "next_mode os2 b = opposite (next_mode os1 a)"
    using e hz(1) d by (auto simp: next_time_def next_mode_def)
  then have "opponents a' b'"
    using tw e unfolding opponents_def a'(3-9) b'(3-9) by simp
  then show ?thesis using a'(1,2) b'(1,2) by blast
qed

section \<open>Between two ticks\<close>

text \<open>What a handler leaves that does not touch the ball, the scores and the clock.\<close>

definition same_match :: "('w, 'a) game_scheme \<Rightarrow> ('w, 'a) game_scheme \<Rightarrow> bool" where
  "same_match s s' \<longleftrightarrow> game_ok s' \<and> deref (heap s') (ball s') = deref (heap s) (ball s) \<and>
     player_1_score s' = player_1_score s \<and> player_2_score s' = player_2_score s \<and> time_remaining s' = time_remaining s \<and>
     time_count (timer_dev s') = time_count (timer_dev s) \<and> mainState s' = mainState s \<and> is_main_pc s' = is_main_pc s"

text \<open>A puck of the main computer hits the ball: the ball takes its speed, and the other computer, handling the
  bytes of the message, gives its ball the opposite one.\<close>

lemma puck_hits:
  assumes ok: "game_ok a" and p: "p = redpuck a \<or> p = bluepuck a" and m: "move os p x y 2 a = Some a'"
    and s: "sent (world a') \<noteq> sent (world a)" and k: "deref (heap a) (ball a) = Some k"
  obtains vx vy where "\<bar>vx\<bar> \<le> 8" "\<bar>vy\<bar> \<le> 8"
    "a' = a\<lparr>heap := (heap a)(ball a \<mapsto> k\<lparr>xspeed := vx, yspeed := vy\<rparr>), world := transmit_ball_speed os vx vy (world a)\<rparr>"
  using ok p m k by (cases rule: puck_ball) (use s that in auto)

lemma speed_arrives:
  assumes tx: "uart_tx os1 sent" and rx: "uart_rx os2 fifo" and v: "\<bar>vx\<bar> \<le> 8" "\<bar>vy\<bar> \<le> 8" and ok: "game_ok b"
    and m: "mainState b = GAME" "\<not> is_stored_x b" "rx_bytes (inQueue b) = []" and ar: "data_arrived os2 (world b) w1"
    and s: "sent (transmit_ball_speed os1 vx vy w0) = sent w0 @ fifo w1" and l: "deref (heap b) (ball b) = Some l"
  obtains q w where "rx_ok q"
    "sp_int os2 b = Some (b\<lparr>world := w, inQueue := q, heap := (heap b)(ball b \<mapsto> l\<lparr>xspeed := - vx, yspeed := - vy\<rparr>)\<rparr>)"
proof -
  obtain y :: u16 where y: "signal_bytes y = [word_of_int vx, word_of_int vy]" "ucast (y AND 0x00FF) = (word_of_int vx :: byte)"
    "ucast (drop_bit 8 y) = (word_of_int vy :: byte)" by (rule two_bytes)
  have fifo: "fifo w1 = signal_bytes ball_signal @ signal_bytes y"
    using s transmit_ball_speed_sent [OF tx, of vx vy w0] y(1) by simp
  have n: "ball_signal \<noteq> signal1" by (simp add: ball_signal_def signal1_def)
  obtain q w where q: "sp_int os2 b = act_on os2 ball_signal y (b\<lparr>world := w, inQueue := q\<rparr>)" "rx_ok q"
    by (rule whole_message [OF rx game_ok_rx [OF ok] m(3,1,2) ar fifo n])
  have "sint (word_of_int vx :: byte) = vx" "sint (word_of_int vy :: byte) = vy" using v by (auto intro!: sint_speed)
  then have "sp_int os2 b = Some (b\<lparr>world := w, inQueue := q, heap := (heap b)(ball b \<mapsto> l\<lparr>xspeed := - vx, yspeed := - vy\<rparr>)\<rparr>)"
    using q(1) y(2,3) l by (simp add: act_on_def set_ball_speed_def update_sprite_def)
  then show thesis using that q(2) by blast
qed

section \<open>The handlers as steps\<close>

lemma same_matchI: "stays s s' \<Longrightarrow> deref (heap s') (ball s') = deref (heap s) (ball s) \<Longrightarrow> same_match s s'"
  by (simp add: same_match_def stays_def ctl_of_def)

lemma same_match_trans: "same_match s s1 \<Longrightarrow> same_match s1 s2 \<Longrightarrow> same_match s s2"
  by (simp add: same_match_def)

lemma same_match_sprite:
  assumes "game_ok s" and "p \<in> fixed_ptrs s" and "p \<noteq> ball s" and "update_sprite p f s = Some s'"
    and "\<And>o1. same_shape o1 (f o1) \<and> sp_x (f o1) = sp_x o1 \<and> sp_y (f o1) = sp_y o1"
  shows "same_match s s'"
proof (rule same_matchI)
  have "returns (update_sprite p f s) (stays s)" using assms(5) by (intro stays_sprite [OF assms(1,2)]) simp
  then show "stays s s'" using assms(4) by (simp add: returns_def)
  show "deref (heap s') (ball s') = deref (heap s) (ball s)"
    using assms(3,4) by (auto simp: update_sprite_def deref_def dest!: bind_SomeD)
qed

text \<open>What an interrupt of the mouse, or of the serial port with a displacement, does between two ticks: nothing to
  the match, or one stroke of a puck.\<close>

definition strokes :: "'w os \<Rightarrow> ('w, 'a) game_scheme \<Rightarrow> ('w, 'a) game_scheme \<Rightarrow> bool" where
  "strokes os s s' \<longleftrightarrow> same_match s s' \<or>
     (\<exists>s1 s2 p x y. same_match s s1 \<and> (p = redpuck s1 \<or> p = bluepuck s1) \<and> move os p x y 2 s1 = Some s2 \<and> same_match s2 s')"

lemma rtc_same_match:
  assumes "bcd_clock os" and "game_ok s"
  shows "same_match s (rtc_int os s)"
  by (rule same_matchI [OF rtc_int_returns [OF assms(2,1)]]) (simp add: rtc_int_def split: prod.splits)

lemma pointer_same_match:
  assumes ok: "game_ok s" and t: "mouse_update_position os (mouse s) pk s = Some s'"
  shows "same_match s s'"
proof (cases "x_ov pk \<or> y_ov pk")
  case True
  then show ?thesis using t ok by (auto simp: mouse_update_position_def same_match_def)
next
  case False
  then have m: "move os (mouse s) (delta_x pk) (delta_y pk) 0 s = Some s'" using t by (simp add: mouse_update_position_def)
  have rd: "ready s" using ok by (simp add: game_ok_def)
  obtain o1 where o1: "deref (heap s) (mouse s) = Some o1" "in_area o1" by (rule ready_object [OF rd, of "mouse s"]) auto
  have n: "mouse s \<noteq> ball s" using rd by (simp add: ready_def)
  obtain o2 where "moves_only s s'" "heap s' = (heap s)(mouse s \<mapsto> o2)"
    using mouse_move [OF o1(1) n o1(2), of os "delta_x pk" "delta_y pk"] m by auto
  then show ?thesis using stays_move_mouse [OF ok, of os "delta_x pk" "delta_y pk"] m n
    by (intro same_matchI) (auto simp: returns_def moves_only_fields deref_def)
qed

lemma packet_strokes:
  assumes ok: "game_ok s" and t: "mouse_packet os pk s = Some s'"
  shows "strokes os s s'"
proof -
  have apart: "mouse s \<noteq> ball s" "bluepuck s \<noteq> ball s" if "game_ok s" for s :: "('a, 'b) game_scheme"
    using that by (auto simp: game_ok_def ready_def arena_ok_def)
  obtain s1 where s1: "mouse_update_position os (mouse s) pk s = Some s1"
    using t by (auto simp: mouse_packet_def dest!: bind_SomeD)
  have m1: "same_match s s1" by (rule pointer_same_match [OF ok s1])
  then have ok1: "game_ok s1" by (simp add: same_match_def)
  show ?thesis
  proof (cases "lb pk")
    case True
    obtain s2 where s2: "move os (bluepuck s1) (delta_x pk) (delta_y pk) 2 s1 = Some s2"
      "update_sprite (mouse s2) (\<lambda>m. m\<lparr>visibility := False\<rparr>) s2 = Some s'"
      using t s1 True by (auto simp: mouse_packet_def dest!: bind_SomeD)
    have "game_ok s2" using stays_move_puck [OF ok1, of "bluepuck s1" os "delta_x pk" "delta_y pk"] s2(1)
      by (simp add: returns_def stays_def)
    then have "same_match s2 s'"
      using apart by (intro same_match_sprite [OF _ fixed_ptrs_members(4) _ s2(2)]) (simp_all add: same_shape_def)
    then show ?thesis using m1 s2(1) unfolding strokes_def by blast
  next
    case False
    obtain s2 where s2: "update_sprite (mouse s1) (\<lambda>m. m\<lparr>visibility := True\<rparr>) s1 = Some s2"
      "update_sprite (bluepuck s2) (\<lambda>b. b\<lparr>xspeed := 0, yspeed := 0\<rparr>) s2 = Some s'"
      using t s1 False by (auto simp: mouse_packet_def dest!: bind_SomeD)
    have m2: "same_match s1 s2"
      using apart(1) [OF ok1] by (intro same_match_sprite [OF ok1 fixed_ptrs_members(4) _ s2(1)]) (simp_all add: same_shape_def)
    then have ok2: "game_ok s2" by (simp add: same_match_def)
    have "same_match s2 s'"
      using apart(2) [OF ok2] by (intro same_match_sprite [OF ok2 fixed_ptrs_members(2) _ s2(2)]) (simp_all add: same_shape_def)
    then show ?thesis using m1 m2 unfolding strokes_def by (blast intro: same_match_trans)
  qed
qed

lemma mouse_strokes:
  assumes ok: "game_ok s" and t: "mouse_int os s = Some s'"
  shows "strokes os s s'"
  using assms
proof (cases rule: mouse_int_parts)
  case (driver m w bs n)
  have "game_ok s'" using stays_mouse_int [OF ok, of os] t by (simp add: returns_def stays_def)
  then show ?thesis unfolding driver strokes_def same_match_def by simp
next
  case (packet m w bs pk)
  let ?s = "s\<lparr>mouse_dev := m, world := w, packet_bytes := bs, count := 0\<rparr>"
  have "same_match s ?s" using packet(1) by (simp add: same_match_def)
  then show ?thesis using packet_strokes [OF packet] unfolding strokes_def by (blast intro: same_match_trans)
qed

lemma displacement_strokes:
  assumes rx: "uart_rx os fifo" and ok: "game_ok s" and m: "mainState s = GAME" "\<not> is_stored_x s" "rx_bytes (inQueue s) = []"
    and ar: "data_arrived os (world s) w1" and f: "fifo w1 = signal_bytes x @ signal_bytes y" and x: "x \<noteq> signal1" "x \<noteq> ball_signal"
    and t: "sp_int os s = Some s'"
  shows "strokes os s s'"
proof -
  obtain q w where q: "sp_int os s = act_on os x y (s\<lparr>world := w, inQueue := q\<rparr>)" "rx_ok q"
    by (rule whole_message [OF rx game_ok_rx [OF ok] m(3,1,2) ar f x(1)])
  let ?s = "s\<lparr>world := w, inQueue := q\<rparr>"
  have ok1: "game_ok ?s" by (rule game_ok_link [OF ok q(2)])
  then have "same_match s ?s" by (simp add: same_match_def)
  moreover have mv: "move os (redpuck ?s) (- x) y 2 ?s = Some s'" using q(1) t x(2) by (simp add: act_on_def)
  moreover have "game_ok s'" using stays_move_puck [OF ok1, of "redpuck ?s" os "- x" y] mv by (simp add: returns_def stays_def)
  then have "same_match s' s'" by (simp add: same_match_def)
  ultimately show ?thesis unfolding strokes_def by blast
qed

section \<open>The match as a system\<close>

text \<open>One step: a tick of both clocks, a change of one computer that leaves the ball, the scores and the clock alone,
  or a puck of the main computer hitting the ball together with the interrupt that brings its speed to the
  other computer.  The changes include more than the handlers make; below, each interrupt of the mouse, of the clock
  chip and of the serial port with a displacement is shown to be a run of such steps.\<close>

inductive rally_step ::
  "'v os \<Rightarrow> ('v \<Rightarrow> byte list) \<Rightarrow> 'w os \<Rightarrow> ('w \<Rightarrow> byte list) \<Rightarrow> 'v game \<times> 'w game \<Rightarrow> 'v game \<times> 'w game \<Rightarrow> bool"
  for os1 sent os2 fifo where
  tick: "mainState a = GAME \<Longrightarrow> clear_way a \<Longrightarrow> player_1_score a < 9 \<Longrightarrow> player_2_score a < 9 \<Longrightarrow>
    \<not> (player_1_score a = 3 \<and> player_2_score a = 3) \<Longrightarrow> timer_int os1 a = Some a' \<Longrightarrow> timer_int os2 b = Some b' \<Longrightarrow>
    rally_step os1 sent os2 fifo (a, b) (a', b')"
| main: "same_match a a' \<Longrightarrow> rally_step os1 sent os2 fifo (a, b) (a', b)"
| other: "same_match b b' \<Longrightarrow> rally_step os1 sent os2 fifo (a, b) (a, b')"
| hit: "mainState a = GAME \<Longrightarrow> p = redpuck a \<or> p = bluepuck a \<Longrightarrow> move os1 p x y 2 a = Some a' \<Longrightarrow>
    sent (world a') \<noteq> sent (world a) \<Longrightarrow> sent (world a') = sent (world a) @ fifo w1 \<Longrightarrow> data_arrived os2 (world b) w1 \<Longrightarrow>
    \<not> is_stored_x b \<Longrightarrow> rx_bytes (inQueue b) = [] \<Longrightarrow> sp_int os2 b = Some b' \<Longrightarrow>
    rally_step os1 sent os2 fifo (a, b) (a', b')"

text \<open>So the handlers are steps: on the other computer they never touch the ball, on the main computer they do so with one
  hit, whose bytes the other computer then handles.\<close>

lemma stroke_cases:
  assumes ok: "game_ok s" and p: "p = redpuck s \<or> p = bluepuck s" and m: "move os p x y 2 s = Some s'"
  obtains (past) "same_match s s'"
    | (hit) vx vy where "is_main_pc s" "world s' = transmit_ball_speed os vx vy (world s)"
proof -
  have st: "stays s s'" using stays_move_puck [OF ok p, of os x y] m by (simp add: returns_def)
  obtain k where k: "deref (heap s) (ball s) = Some k" by (rule game_ok_deref [OF ok fixed_ptrs_members(3)])
  have bl: "ball s' = ball s" by (rule alters_fields(1) [OF alters_move [OF m, of "{p, ball s}"]]) simp_all
  from ok p m k show thesis
  proof (cases rule: puck_ball)
    case past
    then show thesis using k bl by (intro that(1) same_matchI [OF st]) simp
  next
    case (hit vx vy)
    then show thesis by (intro that(2)) simp_all
  qed
qed

lemma other_strokes:
  assumes "game_ok b" and "\<not> is_main_pc b" and "strokes os b b'"
  shows "same_match b b'"
proof -
  have "same_match s1 s2" if "same_match b s1" "p = redpuck s1 \<or> p = bluepuck s1" "move os p x y 2 s1 = Some s2" for s1 s2 p x y
  proof -
    have "game_ok s1" "\<not> is_main_pc s1" using that(1) assms(2) by (simp_all add: same_match_def)
    with that(2,3) show ?thesis by (auto elim: stroke_cases)
  qed
  then show ?thesis using assms(3) unfolding strokes_def by (blast intro: same_match_trans)
qed

lemma main_strokes:
  assumes tx: "uart_tx os1 sent" and m: "mainState a = GAME" and st: "strokes os1 a a'"
  shows "rally_step os1 sent os2 fifo (a, b) (a', b) \<or>
    (\<exists>vx vy. \<forall>w1 b'. fifo w1 = signal_bytes ball_signal @ [word_of_int vx, word_of_int vy] \<and> data_arrived os2 (world b) w1 \<and>
       \<not> is_stored_x b \<and> rx_bytes (inQueue b) = [] \<and> sp_int os2 b = Some b' \<longrightarrow>
       (rally_step os1 sent os2 fifo)\<^sup>*\<^sup>* (a, b) (a', b'))"
proof (cases "same_match a a'")
  case True
  then show ?thesis by (blast intro: rally_step.main)
next
  case False
  then obtain a1 a2 p x y
    where s: "same_match a a1" "p = redpuck a1 \<or> p = bluepuck a1" "move os1 p x y 2 a1 = Some a2" "same_match a2 a'"
    using st unfolding strokes_def by blast
  have g: "game_ok a1" "mainState a1 = GAME" using s(1) m by (simp_all add: same_match_def)
  from g(1) s(2,3) show ?thesis
  proof (cases rule: stroke_cases)
    case past
    then have "same_match a a'" using s(1,4) same_match_trans by blast
    then show ?thesis by (blast intro: rally_step.main)
  next
    case (hit vx vy)
    have "(rally_step os1 sent os2 fifo)\<^sup>*\<^sup>* (a, b) (a', b')"
      if h: "fifo w1 = signal_bytes ball_signal @ [word_of_int vx, word_of_int vy]" "data_arrived os2 (world b) w1"
        "\<not> is_stored_x b" "rx_bytes (inQueue b) = []" "sp_int os2 b = Some b'" for w1 b'
    proof -
      have f: "sent (world a2) = sent (world a1) @ fifo w1" "sent (world a2) \<noteq> sent (world a1)"
        by (simp_all add: hit(2) h(1) transmit_ball_speed_sent [OF tx])
      have "rally_step os1 sent os2 fifo (a, b) (a1, b)" by (rule rally_step.main [OF s(1)])
      moreover have "rally_step os1 sent os2 fifo (a1, b) (a2, b')" using g(2) s(2,3) f h(2-5) by (intro rally_step.hit) assumption+
      moreover have "rally_step os1 sent os2 fifo (a2, b') (a', b')" by (rule rally_step.main [OF s(4)])
      ultimately show ?thesis by (rule rtranclp.rtrancl_into_rtrancl [OF rtranclp.rtrancl_into_rtrancl [OF r_into_rtranclp]])
    qed
    then show ?thesis by blast
  qed
qed

definition match_ok :: "'v game \<times> 'w game \<Rightarrow> bool" where
  "match_ok = (\<lambda>(a, b). game_ok a \<and> game_ok b \<and> opponents a b)"

lemma game_ok_speed:
  assumes "game_ok s" and "deref (heap s) (ball s) = Some k"
  shows "game_ok (s\<lparr>heap := (heap s)(ball s \<mapsto> k\<lparr>xspeed := vx, yspeed := vy\<rparr>)\<rparr>)"
  by (rule game_ok_upd [OF assms(1) fixed_ptrs_members(3) assms(2)]) (simp_all add: same_shape_def)

lemma opponents_hit:
  assumes tx: "uart_tx os1 sent" and rx: "uart_rx os2 fifo" and ok: "game_ok a" "game_ok b" and op: "opponents a b"
    and m: "mainState a = GAME" and p: "p = redpuck a \<or> p = bluepuck a" and mv: "move os1 p x y 2 a = Some a'"
    and s: "sent (world a') \<noteq> sent (world a)" "sent (world a') = sent (world a) @ fifo w1" and ar: "data_arrived os2 (world b) w1"
    and q: "\<not> is_stored_x b" "rx_bytes (inQueue b) = []" and sp: "sp_int os2 b = Some b'"
  shows "game_ok a' \<and> game_ok b' \<and> opponents a' b'"
proof -
  obtain k l where k: "deref (heap a) (ball a) = Some k" "deref (heap b) (ball b) = Some l" "twins k l"
    using op by (auto simp: opponents_def)
  obtain vx vy where v: "\<bar>vx\<bar> \<le> 8" "\<bar>vy\<bar> \<le> 8"
    "a' = a\<lparr>heap := (heap a)(ball a \<mapsto> k\<lparr>xspeed := vx, yspeed := vy\<rparr>), world := transmit_ball_speed os1 vx vy (world a)\<rparr>"
    by (rule puck_hits [where sent = sent, OF ok(1) p mv s(1) k(1)])
  have mb: "mainState b = GAME" using op m by (simp add: opponents_def)
  have sw: "sent (transmit_ball_speed os1 vx vy (world a)) = sent (world a) @ fifo w1" using s(2) v(3) by simp
  obtain qu w where b': "rx_ok qu"
    "sp_int os2 b = Some (b\<lparr>world := w, inQueue := qu, heap := (heap b)(ball b \<mapsto> l\<lparr>xspeed := - vx, yspeed := - vy\<rparr>)\<rparr>)"
    by (rule speed_arrives [OF tx rx v(1,2) ok(2) mb q ar sw k(2)])
  let ?b = "b\<lparr>world := w, inQueue := qu\<rparr>"
  have e: "b' = ?b\<lparr>heap := (heap ?b)(ball ?b \<mapsto> l\<lparr>xspeed := - vx, yspeed := - vy\<rparr>)\<rparr>" using b'(2) sp by simp
  have l2: "deref (heap ?b) (ball ?b) = Some l" using k(2) by simp
  have "game_ok b'" unfolding e by (rule game_ok_speed [OF game_ok_link [OF ok(2) b'(1)] l2])
  moreover have "game_ok a'" using game_ok_speed [OF ok(1) k(1), where vx = vx and vy = vy] by (simp add: v(3))
  moreover have "ball a \<noteq> NULL" "ball b \<noteq> NULL" using k by (auto dest: deref_SomeD)
  then have "opponents a' b'" using op k(3) v by (simp add: opponents_def e twins_def)
  ultimately show ?thesis by blast
qed

lemma match_ok_step:
  assumes tx: "uart_tx os1 sent" and rx: "uart_rx os2 fifo" and ld: "xpm_loads os1" "xpm_loads os2"
    and hz: "sys_hz os2 = sys_hz os1" "sys_hz os1 \<noteq> 0" and st: "rally_step os1 sent os2 fifo c c'" and i: "match_ok c"
  shows "match_ok c'"
  using st i
proof cases
  case (tick a a' b b')
  then show ?thesis using opponents_tick [of a b os1 os2] i ld hz by (auto simp: match_ok_def)
next
  case (main a a' b)
  then show ?thesis using i by (auto simp: match_ok_def same_match_def opponents_def)
next
  case (other b b' a)
  then show ?thesis using i by (auto simp: match_ok_def same_match_def opponents_def)
next
  case (hit a p x y a' w1 b b')
  then show ?thesis using opponents_hit [OF tx rx, of a b p x y a' w1 b'] i by (auto simp: match_ok_def)
qed


section \<open>Where the computers disagree\<close>

text \<open>C33 (goal on one computer only): the goals of the two tables are no mirror images either.  A ball whose next
  column is 625 or 626 scores at the top of the main computer and comes to rest on the kick-off spot; the other
  computer sees it left of its goal, at 475 or 474, and reflects it: no point, and the ball goes on.\<close>

theorem goal_on_one_side:
  assumes "game_ok a" and "game_ok b" and "opponents a b" and "mainState a = GAME" and "xpm_loads os1" and "xpm_loads os2"
    and "sys_hz os1 \<noteq> 0" and "sys_hz os2 \<noteq> 0" and "player_1_score a < 9" and "player_2_score a < 9"
    and "deref (heap a) (ball a) = Some k" and "sp_x k + xspeed k \<in> {625, 626}" and "sp_y k - yspeed k \<le> 21"
  shows "\<exists>a' b' ka kb. timer_int os1 a = Some a' \<and> timer_int os2 b = Some b' \<and>
    player_2_score a' = player_2_score a + 1 \<and> player_1_score b' = player_1_score b \<and>
    deref (heap a') (ball a') = Some ka \<and> xspeed ka = 0 \<and> yspeed ka = 0 \<and> sp_x ka = 550 \<and> sp_y ka = 410 \<and>
    deref (heap b') (ball b') = Some kb \<and> xspeed kb = - xspeed k \<and> yspeed kb = yspeed k \<and> sp_x kb = 1100 - sp_x k \<and>
    sp_y kb = 820 - sp_y k"
proof -
  obtain l where l: "deref (heap b) (ball b) = Some l" "twins k l" using assms(3,11) by (auto simp: opponents_def)
  have v: "\<bar>xspeed k\<bar> \<le> 8" "\<bar>yspeed k\<bar> \<le> 8" "\<bar>xspeed l\<bar> \<le> 8" "\<bar>yspeed l\<bar> \<le> 8" using l(2) by (simp_all add: twins_def)
  have e: "mainState b = GAME" "player_1_score b < 9" "player_2_score b < 9" "\<not> is_main_pc b"
    using assms(3,4,9,10) by (simp_all add: opponents_def)
  have lk: "sp_x l + xspeed l = 1100 - (sp_x k + xspeed k)" "sp_y l - yspeed l = 820 - (sp_y k - yspeed k)"
    "sp_x l = 1100 - sp_x k" "sp_y l = 820 - sp_y k" "xspeed l = - xspeed k" "yspeed l = - yspeed k"
    using l(2) by (simp_all add: twins_def)
  have n: "476 \<le> sp_x k + xspeed k" "sp_x k + xspeed k \<le> 626" "\<not> 793 \<le> sp_y k - yspeed k" using assms(12,13) by auto
  have n2: "\<not> 476 \<le> 1100 - (sp_x k + xspeed k)" "273 \<le> 1100 - (sp_x k + xspeed k)" "1100 - (sp_x k + xspeed k) \<le> 829"
    "793 < 820 - (sp_y k - yspeed k)" using assms(12,13) by auto
  have g: "goals k = (0, 1)" "goals l = (0, 0)"
    using n n2(1) assms(13) unfolding goals_def Let_def lk(1,2) by simp_all
  have f: "flight k = kick_off k" "flight l = reflect_at_walls False False True False l"
    using n n2 assms(13) unfolding flight_def Let_def lk(1,2) by simp_all
  have mv: "\<not> (xspeed k = 0 \<and> yspeed k = 0)"
  proof
    assume "xspeed k = 0 \<and> yspeed k = 0"
    moreover have "in_area l" using assms(2) l(1) by (auto simp: game_ok_def ready_def objects_in_area_def)
    then have "sp_y l \<le> 793" using object_size(1) [OF assms(2) l(1)] by (simp add: in_area_def fits_at_def)
    ultimately show False using lk(4) assms(13) by simp
  qed
  have ml: "\<not> (xspeed l = 0 \<and> yspeed l = 0)" using mv lk(5,6) by simp
  have fa: "is_main_pc a \<Longrightarrow> goals k = (0, 0) \<Longrightarrow> clear_way a" using g by simp
  have fb: "is_main_pc b \<Longrightarrow> goals l = (0, 0) \<Longrightarrow> clear_way b" using e(4) by simp
  obtain a' where a': "timer_int os1 a = Some a'"
    "deref (heap a') (ball a') = Some (glide k)"
    "player_2_score a' = player_2_score a + snd (gains k)"
    by (rule tick_flies [OF assms(1,5,7,4,9,10,11) v(1,2) fa])
  obtain b' where b': "timer_int os2 b = Some b'"
    "deref (heap b') (ball b') = Some (glide l)"
    "player_1_score b' = player_1_score b + fst (gains l)"
    by (rule tick_flies [OF assms(2,6,8) e(1-3) l(1) v(3,4) fb])
  have "deref (heap a') (ball a') = Some (kick_off k)" "player_2_score a' = player_2_score a + 1"
    "deref (heap b') (ball b') = Some (reflect_at_walls False False True False l)" "player_1_score b' = player_1_score b"
    using a'(2,3) b'(2,3) using glide_moving [OF mv] glide_moving [OF ml] by (simp_all add: f g)
  then show ?thesis using a'(1) b'(1) lk by (simp add: kick_off_def)
qed


text \<open>On the main computer a ball that runs into a puck stays where it is.\<close>

lemma tick_bounces:
  assumes ok: "game_ok a" and ld: "xpm_loads os" and hz: "sys_hz os \<noteq> 0" and m: "mainState a = GAME" "is_main_pc a"
    and sc: "player_1_score a < 9" "player_2_score a < 9" and k: "deref (heap a) (ball a) = Some k" "xspeed k \<noteq> 0 \<or> yspeed k \<noteq> 0"
    and v: "\<bar>xspeed k\<bar> \<le> 8" "\<bar>yspeed k\<bar> \<le> 8"
    and i: "273 \<le> sp_x k + xspeed k" "sp_x k + xspeed k \<le> 829" "21 < sp_y k - yspeed k" "sp_y k - yspeed k < 793"
    and p: "deref (heap a) p = Some o1" "p = redpuck a \<or> p = bluepuck a"
    and h: "overlap (unat (bytes_per_pixel a)) k (sp_x k + xspeed k) (sp_y k - yspeed k) o1"
  obtains a' vx vy where "timer_int os a = Some a'" "deref (heap a') (ball a') = Some (k\<lparr>xspeed := vx, yspeed := vy\<rparr>)"
proof -
  obtain a' where a': "timer_int os a = Some a'" by (rule timer_int_game [OF ok ld hz m(1) sc])
  obtain k0 s2 s3 where q: "game_ok s2" "deref (heap a) (ball a) = Some k0"
    "(if xspeed k0 \<noteq> 0 \<or> yspeed k0 \<noteq> 0 then move os (ball a) (word_of_int (xspeed k0)) (word_of_int (yspeed k0)) 1 s2
      else Some s2) = Some s3"
    "heap s2 = heap a" "ball s2 = ball a" "redpuck s2 = redpuck a" "bluepuck s2 = bluepuck a" "bytes_per_pixel s2 = bytes_per_pixel a"
    "is_main_pc s2 = is_main_pc a" "deref (heap a') (ball a') = deref (heap s3) (ball s3)" "ball s3 = ball a"
    "draws s3 a'"
    by (rule timer_int_parts [OF ok ld hz m(1) sc a'])
  have kk: "k0 = k" using q(2) k(1) by simp
  note ar = game_ok_arena [OF q(1)]
  have size: "uint (sp_width k) = 50" "uint (sp_height k) = 50" using object_size(1) [OF ok k(1)] by simp_all
  obtain r bl where rb: "deref (heap s2) (redpuck s2) = Some r" "deref (heap s2) (bluepuck s2) = Some bl"
    using ar by (auto simp: arena_ok_def)
  have k2: "deref (heap s2) (ball s2) = Some k" using k(1) by (simp add: q(4,5))
  have g: "\<not> (goal_top k (sp_x k + xspeed k) (sp_y k - yspeed k) \<or> goal_bottom k (sp_x k + xspeed k) (sp_y k - yspeed k))"
    "fits_at k (sp_x k + xspeed k) (sp_y k - yspeed k)"
    using i by (auto simp: goal_top_def goal_bottom_def fits_at_def size)
  have h2: "overlap (unat (bytes_per_pixel s2)) k (sp_x k + xspeed k) (sp_y k - yspeed k) r \<or>
      overlap (unat (bytes_per_pixel s2)) k (sp_x k + xspeed k) (sp_y k - yspeed k) bl"
    using p h rb by (auto simp: q(4-8))
  have w: "sint (word_of_int (xspeed k) :: i16) = xspeed k" "sint (word_of_int (yspeed k) :: i16) = yspeed k"
    using v by (auto intro!: sint_word_of_int16)
  have "move os (ball s2) (word_of_int (xspeed k)) (word_of_int (yspeed k)) 1 s2 = Some s3" using q(3,5) kk k(2) by auto
  then obtain vx vy where "heap s3 = (heap s2)(ball s2 \<mapsto> k\<lparr>xspeed := vx, yspeed := vy\<rparr>)"
    using h2 g m(2) ball_layer [OF ar k2 rb, of os "sp_x k + xspeed k" "sp_y k - yspeed k"] k2 q(9)
    by (auto simp: move_def w Let_def split: if_splits)
  moreover have "ball a \<noteq> NULL" using k(1) by (auto dest: deref_SomeD)
  ultimately have "deref (heap a') (ball a') = Some (k\<lparr>xspeed := vx, yspeed := vy\<rparr>)" by (simp add: q(5,10,11))
  with a' show thesis by (rule that)
qed


text \<open>A kick-off makes two computers opponents.\<close>

lemma kick_off_opponents:
  assumes "game_ok a" and "game_ok b" and "sys_hz os1 \<noteq> 0" and "sys_hz os2 \<noteq> 0" and "mainState a = GAME" and "mainState b = GAME"
    and "is_main_pc a" and "\<not> is_main_pc b"
  shows "opponents (new_match os1 a) (new_match os2 b)"
proof -
  obtain k l where k: "deref (heap (new_match os1 a)) (ball (new_match os1 a)) = Some k" "sp_x k = 550" "sp_y k = 410" "xspeed k = 0" "yspeed k = 0"
    "deref (heap (new_match os2 b)) (ball (new_match os2 b)) = Some l" "sp_x l = 550" "sp_y l = 410" "xspeed l = 0" "yspeed l = 0"
    using new_match_table [OF assms(1,3)] new_match_table [OF assms(2,4)] reset_new_match [OF assms(1,3)] reset_new_match [OF assms(2,4)]
    by auto
  then have "twins k l" by (simp add: twins_def)
  then have "\<exists>k l. deref (heap (new_match os1 a)) (ball (new_match os1 a)) = Some k \<and>
      deref (heap (new_match os2 b)) (ball (new_match os2 b)) = Some l \<and> twins k l" using k(1,6) by blast
  then show ?thesis using assms(5-8) unfolding opponents_def by (simp add: new_match_def)
qed

section \<open>Two concrete computers\<close>

lemma twin_state:
  assumes "t < 6000" and "0 \<le> p1" and "0 \<le> p2"
    and "273 \<le> x" and "x \<le> 827" and "27 \<le> y" and "y \<le> 793" and "\<bar>vx\<bar> \<le> 8" and "\<bar>vy\<bar> \<le> 8"
  obtains a b :: "bench game" and k where "game_ok a" "game_ok b" "opponents a b" "mainState a = GAME" "time_remaining a = t"
    "time_count (timer_dev a) = c" "player_1_score a = p1" "player_2_score a = p2" "deref (heap a) (ball a) = Some k"
    "sp_x k = x" "sp_y k = y" "xspeed k = vx" "yspeed k = vy"
proof -
  obtain s0 :: "bench game" where s0: "game_ok s0" "mainState s0 = GAME" "time_remaining s0 = t" "timer_dev s0 = timer_init"
    by (rule match_state [OF assms(1)])
  obtain k where k: "deref (heap s0) (ball s0) = Some k" by (rule game_ok_deref [OF s0(1) fixed_ptrs_members(3)])
  have size: "uint (sp_width k) = 50" "uint (sp_height k) = 50" using object_size(1) [OF s0(1) k] by simp_all
  have nn: "ball s0 \<noteq> NULL" using k by (auto dest: deref_SomeD)
  let ?s = "\<lambda>x y vx vy. s0\<lparr>heap := (heap s0)(ball s0 \<mapsto> k\<lparr>sp_x := x, sp_y := y, xspeed := vx, yspeed := vy\<rparr>)\<rparr>"
  have ok: "game_ok (?s x y vx vy)" if "273 \<le> x" "x \<le> 829" "21 \<le> y" "y \<le> 793" for x y vx vy
    using that by (intro game_ok_upd [OF s0(1) fixed_ptrs_members(3) k]) (simp_all add: same_shape_def in_area_def fits_at_def size)
  let ?g = "\<lambda>s p1 p2 m. s\<lparr>player_1_score := p1, player_2_score := p2, timer_dev := timer_init\<lparr>time_count := c\<rparr>, is_main_pc := m\<rparr>"
  have okg: "game_ok (?g s p1 p2 m)" if "game_ok s" "0 \<le> p1" "0 \<le> p2" for s :: "bench game" and p1 p2 m
    using that game_ok_frame [of s "?g s p1 p2 m"] by (auto simp: devices_ok_def dest!: game_ok_devices)
  let ?a = "?g (?s x y vx vy) p1 p2 True" and ?b = "?g (?s (1100 - x) (820 - y) (- vx) (- vy)) p2 p1 False"
  have "game_ok ?a" "game_ok ?b" using assms by (intro okg ok; simp)+
  moreover have "opponents ?a ?b" using s0(2) nn assms(8,9) by (simp add: opponents_def twins_def)
  ultimately show thesis
    by (rule that [where k = "k\<lparr>sp_x := x, sp_y := y, xspeed := vx, yspeed := vy\<rparr>"]) (use s0(2,3) nn in simp_all)
qed

theorem goal_on_one_side_witness:
  "\<exists>a b a' b'. opponents (a :: bench game) (b :: bench game) \<and> timer_int pc_os a = Some a' \<and> timer_int pc_os b = Some b' \<and>
     player_2_score a' = 1 \<and> player_1_score b' = 0"
proof -
  obtain a b :: "bench game" and k where s: "game_ok a" "game_ok b" "opponents a b" "mainState a = GAME" "player_1_score a = 0"
    "player_2_score a = 0" "deref (heap a) (ball a) = Some k" "sp_x k = 622" "sp_y k = 28" "xspeed k = 3" "yspeed k = 8"
    by (rule twin_state [of 200 0 0 622 28 3 8 0]) simp_all
  have p: "player_1_score b = 0" using s(3,6) by (simp add: opponents_def)
  have "\<exists>a' b' ka kb. timer_int pc_os a = Some a' \<and> timer_int pc_os b = Some b' \<and>
    player_2_score a' = player_2_score a + 1 \<and> player_1_score b' = player_1_score b \<and>
    deref (heap a') (ball a') = Some ka \<and> xspeed ka = 0 \<and> yspeed ka = 0 \<and> sp_x ka = 550 \<and> sp_y ka = 410 \<and>
    deref (heap b') (ball b') = Some kb \<and> xspeed kb = - xspeed k \<and> yspeed kb = yspeed k \<and> sp_x kb = 1100 - sp_x k \<and>
    sp_y kb = 820 - sp_y k"
    by (rule goal_on_one_side [OF s(1-4) pc_os_loads pc_os_loads _ _ _ _ s(7)]) (simp_all add: s(5,6,8-11))
  then obtain a' b' where t: "timer_int pc_os a = Some a'" "timer_int pc_os b = Some b'"
    "player_2_score a' = player_2_score a + 1" "player_1_score b' = player_1_score b" by blast
  show ?thesis by (intro exI conjI) (rule s(3), rule t(1), rule t(2), simp_all add: t(3,4) s(6) p)
qed




end
