(* ===== verification/Pointer.thy ===== *)
theory Pointer
  imports Match
begin

text \<open>
  The mouse in the game: three bytes make a packet, a packet is two nine-bit displacements and five
  flags, and no packet takes the player's puck out of his half.
\<close>

section \<open>The packet\<close>

lemma mouse_bits [simp]:
  fixes b :: byte
  shows "b AND RMB_BIT \<noteq> 0 \<longleftrightarrow> bit b 1" "b AND MMB_BIT \<noteq> 0 \<longleftrightarrow> bit b 2" "b AND LMB_BIT \<noteq> 0 \<longleftrightarrow> bit b 0"
    "b AND MSB_X_DELTA \<noteq> 0 \<longleftrightarrow> bit b 4" "b AND MSB_Y_DELTA \<noteq> 0 \<longleftrightarrow> bit b 5"
    "b AND X_OVFL \<noteq> 0 \<longleftrightarrow> bit b 6" "b AND Y_OVFL \<noteq> 0 \<longleftrightarrow> bit b 7" "b AND SYNC_BIT = 0 \<longleftrightarrow> \<not> bit b 3"
  by (simp_all add: RMB_BIT_def MMB_BIT_def LMB_BIT_def MSB_X_DELTA_def MSB_Y_DELTA_def X_OVFL_def Y_OVFL_def
      SYNC_BIT_def bit_simps)

lemma byte_delta: "sint (ucast (b :: byte) :: i16) = uint b"
proof -
  have "uint b < 256" using uint_lt2p [of b] by simp
  then have "uint (ucast b :: i16) = uint b" by (simp add: unsigned_ucast_eq take_bit_int_eq_self)
  moreover have "signed_take_bit 15 (uint b) = uint b"
  proof (rule signed_take_bit_int_eq_self)
    show "- (2 ^ 15) \<le> uint b" by (rule order_trans [OF _ uint_ge_0 [of b]]) simp
  qed (use \<open>uint b < 256\<close> in simp)
  ultimately show ?thesis by (simp add: sint_uint)
qed

lemma parse_three:
  "\<exists>pk. parse_mouse_data [b0, b1, b2] = Some pk \<and> pk_bytes pk = [b0, b1, b2] \<and>
     rb pk = bit b0 1 \<and> mb pk = bit b0 2 \<and> lb pk = bit b0 0 \<and> x_ov pk = bit b0 6 \<and> y_ov pk = bit b0 7 \<and>
     sint (delta_x pk) = uint b1 - (if bit b0 4 then 256 else 0) \<and>
     sint (delta_y pk) = uint b2 - (if bit b0 5 then 256 else 0)"
  by (simp add: parse_mouse_data_def arr_get_def nine_bit_value byte_delta)

text \<open>C37 (the packet): the three bytes of a packet are read as the PS/2 mouse sends them: the buttons and
  the two overflow flags are bits of the first byte, and each displacement is the nine-bit two's
  complement number of its sign bit and its byte, so it lies between -256 and 255.\<close>

theorem parse_mouse_data_exact:
  "\<exists>pk. parse_mouse_data [b0, b1, b2] = Some pk \<and> pk_bytes pk = [b0, b1, b2] \<and>
     rb pk = bit b0 1 \<and> mb pk = bit b0 2 \<and> lb pk = bit b0 0 \<and> x_ov pk = bit b0 6 \<and> y_ov pk = bit b0 7 \<and>
     sint (delta_x pk) = uint b1 - (if bit b0 4 then 256 else 0) \<and>
     sint (delta_y pk) = uint b2 - (if bit b0 5 then 256 else 0)"
  by (rule parse_three)

lemma parse_bounds:
  assumes "parse_mouse_data [b0, b1, b2] = Some pk"
  shows "\<bar>sint (delta_x pk)\<bar> \<le> 256" "\<bar>sint (delta_y pk)\<bar> \<le> 256"
proof -
  have "uint b1 < 256" "uint b2 < 256" using uint_lt2p [of b1] uint_lt2p [of b2] by simp_all
  then show "\<bar>sint (delta_x pk)\<bar> \<le> 256" "\<bar>sint (delta_y pk)\<bar> \<le> 256"
    using parse_three [of b0 b1 b2] assms uint_ge_0 [of b1] uint_ge_0 [of b2] by (auto split: if_splits)
qed

section \<open>Three bytes make a packet\<close>

lemma mouse_int_drop:
  assumes "mouse_ih os (mouse_dev s) (world s) = (m, w)" and "\<not> mouse_error m" and "count s = 0" and "\<not> bit (mouse_byte m) 3"
  shows "mouse_int os s = Some (s\<lparr>mouse_dev := m, world := w\<rparr>)"
  using assms by (simp add: mouse_int_def Let_def)

lemma mouse_int_store:
  assumes "mouse_ih os (mouse_dev s) (world s) = (m, w)" and "\<not> mouse_error m"
    and "count s = 0 \<Longrightarrow> bit (mouse_byte m) 3" and "0 \<le> count s" and "count s < 2" and "length (packet_bytes s) = 3"
  shows "mouse_int os s = Some (s\<lparr>mouse_dev := m, world := w,
    packet_bytes := (packet_bytes s)[nat (count s) := mouse_byte m], count := count s + 1\<rparr>)"
  using assms by (cases "count s = 0") (simp_all add: mouse_int_def Let_def)

lemma mouse_int_last:
  assumes "mouse_ih os (mouse_dev s) (world s) = (m, w)" and "\<not> mouse_error m" and "count s = 2"
    and "packet_bytes s = [b0, b1, b2]"
  shows "mouse_int os s = do {
    parsing \<leftarrow> parse_mouse_data [b0, b1, mouse_byte m];
    mouse_packet os parsing (s\<lparr>mouse_dev := m, world := w, packet_bytes := [b0, b1, mouse_byte m], count := 0\<rparr>) }"
  using assms by (simp add: mouse_int_def Let_def numeral_2_eq_2)

text \<open>C27 (three bytes make a packet): a byte without the synchronisation bit is not taken as the first one
  of a packet; from one that has it, three interrupts collect three bytes in order, and the third
  hands exactly these to the packet handler and starts over.\<close>

theorem mouse_int_frames:
  assumes "mouse_ih os (mouse_dev s) (world s) = (m1, w1)" and "\<not> mouse_error m1"
    and "mouse_ih os m1 w1 = (m2, w2)" and "\<not> mouse_error m2"
    and "mouse_ih os m2 w2 = (m3, w3)" and "\<not> mouse_error m3"
    and "count s = 0" and "length (packet_bytes s) = 3"
  shows "if bit (mouse_byte m1) 3
    then do { s1 \<leftarrow> mouse_int os s; s2 \<leftarrow> mouse_int os s1; mouse_int os s2 } =
      do { parsing \<leftarrow> parse_mouse_data [mouse_byte m1, mouse_byte m2, mouse_byte m3];
           mouse_packet os parsing (s\<lparr>mouse_dev := m3, world := w3,
             packet_bytes := [mouse_byte m1, mouse_byte m2, mouse_byte m3], count := 0\<rparr>) }
    else mouse_int os s = Some (s\<lparr>mouse_dev := m1, world := w1\<rparr>)"
proof (cases "bit (mouse_byte m1) 3")
  case True
  obtain p0 p1 p2 where p: "packet_bytes s = [p0, p1, p2]"
    using assms(8) by (auto simp: numeral_3_eq_3 length_Suc_conv)
  let ?s1 = "s\<lparr>mouse_dev := m1, world := w1, packet_bytes := [mouse_byte m1, p1, p2], count := 1\<rparr>"
  let ?s2 = "s\<lparr>mouse_dev := m2, world := w2, packet_bytes := [mouse_byte m1, mouse_byte m2, p2], count := 2\<rparr>"
  have 1: "mouse_int os s = Some ?s1"
    using mouse_int_store [OF assms(1,2)] True assms(7,8) p by simp
  have 2: "mouse_int os ?s1 = Some ?s2"
    using mouse_int_store [of os ?s1 m2 w2] assms(3,4) by simp
  have 3: "mouse_int os ?s2 = do { parsing \<leftarrow> parse_mouse_data [mouse_byte m1, mouse_byte m2, mouse_byte m3];
           mouse_packet os parsing (s\<lparr>mouse_dev := m3, world := w3,
             packet_bytes := [mouse_byte m1, mouse_byte m2, mouse_byte m3], count := 0\<rparr>) }"
    using mouse_int_last [of os ?s2 m3 w3 "mouse_byte m1" "mouse_byte m2" p2] assms(5,6) by simp
  show ?thesis using True 1 2 3 by simp
next
  case False
  then show ?thesis using mouse_int_drop [OF assms(1,2,7)] by simp
qed

section \<open>What a packet does\<close>

lemma moves_mouse:
  assumes "moves_only s s'"
  shows "mouse s' = mouse s"
proof -
  have s: "s = s'\<lparr>heap := heap s, world := world s, player_1_score := player_1_score s,
      player_2_score := player_2_score s\<rparr>"
    using assms by (simp add: moves_only_def)
  show ?thesis by (subst s) simp
qed

lemma pointer_keeps:
  assumes ok: "game_ok s" and b: "deref (heap s) (bluepuck s) = Some b"
  shows "returns (mouse_update_position os (mouse s) pk s) (\<lambda>s1. stays s s1 \<and> mouse s1 = mouse s \<and> bluepuck s1 = bluepuck s \<and>
      deref (heap s1) (bluepuck s) = Some b)"
proof (cases "x_ov pk \<or> y_ov pk")
  case True
  then show ?thesis using stays_refl [OF ok] b by (simp add: mouse_update_position_def)
next
  case False
  have rd: "ready s" using ok by (simp add: game_ok_def)
  have mn: "mouse s \<noteq> bluepuck s" "mouse s \<noteq> ball s" using rd by (auto simp: ready_def objects_in_area_def arena_ok_def)
  obtain m where m: "deref (heap s) (mouse s) = Some m" "in_area m" using ready_object [OF rd, of "mouse s"] by auto
  obtain s1 m' where s1: "move os (mouse s) (delta_x pk) (delta_y pk) 0 s = Some s1" "moves_only s s1"
    "heap s1 = (heap s)(mouse s \<mapsto> m')"
    using mouse_move [OF m(1) mn(2) m(2)] by blast
  have "stays s s1" using stays_move_mouse [OF ok, of os "delta_x pk" "delta_y pk"] s1(1) by (simp add: returns_def)
  moreover have "mouse s1 = mouse s"
    by (rule moves_mouse [OF s1(2)])
  moreover have "deref (heap s1) (bluepuck s) = Some b" using s1(3) b mn(1) by (simp add: deref_def split: if_splits)
  ultimately show ?thesis using False s1 moves_only_fields(8) [OF s1(2)] by (simp add: mouse_update_position_def)
qed

lemma packet_keeps:
  assumes ok: "game_ok s" and b: "deref (heap s) (bluepuck s) = Some b" "bottom_half b"
    and pk: "parse_mouse_data [b0, b1, b2] = Some pk"
  shows "\<exists>s' b'. mouse_packet os pk s = Some s' \<and> game_ok s' \<and> bluepuck s' = bluepuck s \<and>
    deref (heap s') (bluepuck s') = Some b' \<and> bottom_half b' \<and>
    (\<not> bit b0 0 \<longrightarrow> sp_x b' = sp_x b \<and> sp_y b' = sp_y b \<and> xspeed b' = 0 \<and> yspeed b' = 0)"
proof -
  have lb: "lb pk = bit b0 0" using parse_three [of b0 b1 b2] pk by auto
  have mn: "mouse s \<noteq> bluepuck s" using objects_distinct [OF ok] by simp
  obtain s1 where s1: "mouse_update_position os (mouse s) pk s = Some s1" "stays s s1" "mouse s1 = mouse s"
    "bluepuck s1 = bluepuck s" "deref (heap s1) (bluepuck s) = Some b"
    using pointer_keeps [OF ok b(1), of os pk] by (auto simp: returns_def)
  have ok1: "game_ok s1" by (rule staysD(1) [OF s1(2)])
  have ret: "returns (mouse_packet os pk s) (stays s)" by (rule stays_mouse_packet [OF ok])
  show ?thesis
  proof (cases "bit b0 0")
    case True
    have "\<bar>sint (delta_y pk)\<bar> \<le> 411" using parse_bounds(2) [OF pk] by simp
    from puck_move_half [OF game_ok_arena [OF ok1] _ _ this, of "bluepuck s1" b os "delta_x pk"] b(2) s1(4,5)
    obtain s2 b' where s2: "move os (bluepuck s1) (delta_x pk) (delta_y pk) 2 s1 = Some s2" "moves_only s1 s2"
      "deref (heap s2) (bluepuck s) = Some b'" "bottom_half b'" by auto
    have p2: "mouse s2 = mouse s" "bluepuck s2 = bluepuck s"
      using moves_mouse [OF s2(2)] moves_only_fields(8) [OF s2(2)] s1(3,4) by simp_all
    have "mouse_packet os pk s = update_sprite (mouse s2) (\<lambda>m. m\<lparr>visibility := False\<rparr>) s2"
      using s1(1,4) s2(1) True lb by (simp add: mouse_packet_def)
    then obtain s3 where s3: "update_sprite (mouse s2) (\<lambda>m. m\<lparr>visibility := False\<rparr>) s2 = Some s3" "mouse_packet os pk s = Some s3"
      "stays s s3" using ret by (auto simp: returns_def)
    then have "deref (heap s3) (bluepuck s) = Some b'" "bluepuck s3 = bluepuck s"
      using s2(3) p2 mn by (auto simp: update_sprite_def deref_def split: if_splits dest!: bind_SomeD)
    then show ?thesis using s3 s2(4) True by (intro exI [of _ s3] exI [of _ b']) (simp add: stays_def)
  next
    case False
    then have "mouse_packet os pk s = do { s \<leftarrow> update_sprite (mouse s1) (\<lambda>m. m\<lparr>visibility := True\<rparr>) s1;
        update_sprite (bluepuck s) (\<lambda>b. b\<lparr>xspeed := 0, yspeed := 0\<rparr>) s }"
      using s1(1) lb by (simp add: mouse_packet_def)
    then obtain s3 s4 where s34: "update_sprite (mouse s1) (\<lambda>m. m\<lparr>visibility := True\<rparr>) s1 = Some s3"
      "update_sprite (bluepuck s3) (\<lambda>b. b\<lparr>xspeed := 0, yspeed := 0\<rparr>) s3 = Some s4" "mouse_packet os pk s = Some s4" "stays s s4"
      using ret by (auto simp: returns_def dest!: bind_SomeD)
    have 3: "deref (heap s3) (bluepuck s) = Some b" "bluepuck s3 = bluepuck s"
      using s34(1) s1(3-5) mn by (auto simp: update_sprite_def deref_def split: if_splits dest!: bind_SomeD)
    have "deref (heap s4) (bluepuck s) = Some (b\<lparr>xspeed := 0, yspeed := 0\<rparr>)" "bluepuck s4 = bluepuck s"
      using s34(2) 3 by (auto simp: update_sprite_def deref_def split: if_splits dest!: bind_SomeD)
    moreover have "bottom_half (b\<lparr>xspeed := 0, yspeed := 0\<rparr>)" using b(2) by (simp add: bottom_half_def in_area_def fits_at_def)
    ultimately show ?thesis using s34 False by (intro exI [of _ s4] exI [of _ "b\<lparr>xspeed := 0, yspeed := 0\<rparr>"]) (simp add: stays_def)
  qed
qed

text \<open>C15 (A packet keeps the puck in its half): whatever three bytes the mouse sends, the packet is handled
  without undefined behaviour, the player's puck stays in his half of the table, and with the left button
  up it does not move at all and comes to rest.\<close>

theorem packet_keeps_half:
  assumes "game_ok s" and "deref (heap s) (bluepuck s) = Some b" and "bottom_half b"
    and "parse_mouse_data [b0, b1, b2] = Some pk"
  shows "\<exists>s' b'. mouse_packet os pk s = Some s' \<and> game_ok s' \<and> deref (heap s') (bluepuck s') = Some b' \<and> bottom_half b' \<and>
    (\<not> bit b0 0 \<longrightarrow> sp_x b' = sp_x b \<and> sp_y b' = sp_y b \<and> xspeed b' = 0 \<and> yspeed b' = 0)"
  using packet_keeps [OF assms, of os] by blast

section \<open>Concrete packets\<close>

theorem packet_keeps_half_witness:
  "\<exists>s s' b b' pk. parse_mouse_data [0x29, 0x00, 0x00] = Some pk \<and> sint (delta_y pk) = - 256 \<and>
     deref (heap s) (bluepuck s) = Some b \<and> mouse_packet pc_os pk (s :: bench game) = Some s' \<and>
     deref (heap s') (bluepuck s') = Some b' \<and> bottom_half b'"
proof -
  obtain s :: "bench game" and b where s: "game_ok s" "deref (heap s) (bluepuck s) = Some b" "bottom_half b"
    by (rule kick_off_state) blast
  have "bit (0x29 :: byte) 5" by simp
  then obtain pk where pk: "parse_mouse_data [0x29, 0x00, 0x00] = Some pk" "sint (delta_y pk) = - 256"
    using parse_three [of "0x29" 0 0] by auto
  from packet_keeps_half [OF s pk(1), of pc_os] s(2) pk show ?thesis by blast
qed

text \<open>A controller whose status and data registers always read \<open>0x29\<close>.\<close>

definition held_os :: "bench os" where
  "held_os = pc_os\<lparr>sys_inb := (\<lambda>port w. ((0, 0x29), w))\<rparr>"

theorem mouse_int_frames_witness:
  "\<exists>s :: bench game. do { s1 \<leftarrow> mouse_int held_os s; s2 \<leftarrow> mouse_int held_os s1; mouse_int held_os s2 } =
      do { parsing \<leftarrow> parse_mouse_data [0x29, 0x29, 0x29];
           mouse_packet held_os parsing (s\<lparr>mouse_dev := (mouse_dev s)\<lparr>mouse_byte := 0x29, mouse_error := False\<rparr>, world := world s,
             packet_bytes := [0x29, 0x29, 0x29], count := 0\<rparr>) }"
proof -
  obtain s0 :: "bench game" where s0: "game_ok s0" by (rule kick_off_state) blast
  let ?s = "s0\<lparr>count := 0\<rparr>"
  have ih: "mouse_ih held_os m w = (m\<lparr>mouse_byte := 0x29, mouse_error := False\<rparr>, w)" for m w
  proof -
    have "bit (0x29 :: u32) 0" "\<not> bit (0x29 :: u32) 6" "\<not> bit (0x29 :: u32) 7" "bit (0x29 :: u32) 5"
      "(ucast (0x29 :: u32) :: byte) = 0x29" by simp_all
    then show ?thesis
      using mouse_ih_read [where os = held_os and w = w and st = "0x29" and ?w1.0 = w and d = "0x29" and ?w2.0 = w and m = m]
      by (simp add: held_os_def)
  qed
  have l: "length (packet_bytes ?s) = 3" using s0 by (auto simp: devices_ok_def dest!: game_ok_devices)
  let ?m = "(mouse_dev ?s)\<lparr>mouse_byte := 0x29, mouse_error := False\<rparr>"
  have "bit (mouse_byte ?m) 3" by simp
  then show ?thesis
    using mouse_int_frames [of held_os ?s ?m "world ?s" ?m "world ?s" ?m "world ?s"] ih l
    by (intro exI [of _ ?s]) simp
qed

end
