(* ===== verification/Mirror.thy ===== *)
theory Mirror
  imports Link
begin

text \<open>
  The two tables as one system: a player's computer that moves and transmits, bytes in flight, and
  the other computer, whose interrupts come at any time and with any number of bytes.  A step relation
  interleaves them; the invariant relates the two pucks by the displacements still in flight.
\<close>

section \<open>Messages\<close>

text \<open>A message is two signals: a displacement of the puck, or the header \<^verbatim>\<open>ball_signal\<close> and a speed.\<close>

type_synonym message_pair = "u16 \<times> u16"

definition message_bytes :: "message_pair list \<Rightarrow> byte list" where
  "message_bytes ms = concat (map (\<lambda>(x, y). signal_bytes x @ signal_bytes y) ms)"

lemma message_bytes_simps [simp]:
  "message_bytes [] = []" "message_bytes ((x, y) # ms) = signal_bytes x @ signal_bytes y @ message_bytes ms"
  "message_bytes (ms @ ms') = message_bytes ms @ message_bytes ms'"
  by (simp_all add: message_bytes_def)

definition shift_x :: "message_pair \<Rightarrow> int" where
  "shift_x m = (if fst m = ball_signal then 0 else sint (fst m))"

definition shift_y :: "message_pair \<Rightarrow> int" where
  "shift_y m = (if fst m = ball_signal then 0 else sint (snd m))"

definition proper :: "message_pair \<Rightarrow> bool" where
  "proper m \<longleftrightarrow> fst m = ball_signal \<or> \<bar>sint (fst m)\<bar> \<le> 1152"

lemma proper_not_signal1: "proper m \<Longrightarrow> fst m \<noteq> signal1"
  by (auto simp: proper_def ball_signal_def signal1_def)

lemma signal_bytes_inject [simp]: "signal_bytes x = signal_bytes y \<longleftrightarrow> x = y"
  unfolding signal_bytes_def using signal_bytes_join [of x] signal_bytes_join [of y] by (metis list.inject)

lemma signal_bytes_prefix [simp]: "signal_bytes x = signal_bytes y @ rest \<longleftrightarrow> x = y \<and> rest = []"
  using append_eq_append_conv [of "signal_bytes x" "signal_bytes y" "[]" rest] by auto

section \<open>One interrupt\<close>

text \<open>The bytes the receiver holds: the signal it remembers, and its queue.\<close>

definition held :: "('w, 'a) game_scheme \<Rightarrow> byte list" where
  "held r = (if is_stored_x r then signal_bytes (stored_x r) else []) @ rx_bytes (inQueue r)"

text \<open>The place a message leads the red puck to is free.\<close>

definition lands :: "('w, 'a) game_scheme \<Rightarrow> message_pair \<Rightarrow> bool" where
  "lands r m \<longleftrightarrow> (case (deref (heap r) (redpuck r), deref (heap r) (ball r)) of
     (Some o1, Some k) \<Rightarrow>
       let nx = sp_x o1 - shift_x m; ny = sp_y o1 - shift_y m in
       fits_at o1 nx ny \<and> \<not> detect_middle_field_collision o1 nx ny \<and>
       \<not> (is_main_pc r \<and> overlap (unat (bytes_per_pixel r)) o1 nx ny k)
   | _ \<Rightarrow> False)"

lemma lands_frame:
  assumes "lands r m" and "heap r' = heap r" "redpuck r' = redpuck r" "ball r' = ball r" "is_main_pc r' = is_main_pc r"
    and "bytes_per_pixel r' = bytes_per_pixel r"
  shows "lands r' m"
  using assms(1) unfolding lands_def assms(2-6) .

lemma act_on_moves:
  assumes ok: "game_ok r" and m: "proper (x, y)" "x \<noteq> ball_signal \<Longrightarrow> lands r (x, y)" and o1: "deref (heap r) (redpuck r) = Some o1"
  obtains r' o2 where "act_on os x y r = Some r'" "inQueue r' = inQueue r" "is_stored_x r' = is_stored_x r" "redpuck r' = redpuck r"
    "deref (heap r') (redpuck r) = Some o2" "sp_x o2 = sp_x o1 - shift_x (x, y)" "sp_y o2 = sp_y o1 - shift_y (x, y)"
proof (cases "x = ball_signal")
  case True
  have a: "arena_ok r" by (rule game_ok_arena [OF ok])
  then obtain k where k: "deref (heap r) (ball r) = Some k" by (auto simp: arena_ok_def)
  have d: "redpuck r \<noteq> ball r" using a by (simp add: arena_ok_def)
  let ?r = "r\<lparr>heap := (heap r)(ball r \<mapsto> k\<lparr>xspeed := - sint (ucast (y AND 0x00FF) :: byte),
      yspeed := - sint (ucast (drop_bit 8 y) :: byte)\<rparr>)\<rparr>"
  have "act_on os x y r = Some ?r" using k True by (simp add: act_on_def set_ball_speed_def update_sprite_def)
  moreover have "deref (heap ?r) (redpuck r) = Some o1" using o1 d by (simp add: deref_def split: if_splits)
  ultimately show thesis using that [of ?r o1] True by (simp add: shift_x_def shift_y_def)
next
  case False
  obtain k where k: "deref (heap r) (ball r) = Some k" using game_ok_arena [OF ok] by (auto simp: arena_ok_def)
  have b: "\<bar>sint x\<bar> \<le> 1152" using m(1) False by (simp add: proper_def)
  have s: "x = word_of_int (sint x)" by simp
  have n: "sint (- x :: i16) = - sint x" using sint_displacement(2) [OF b] by (subst s) simp
  let ?nx = "sp_x o1 - shift_x (x, y)" and ?ny = "sp_y o1 - shift_y (x, y)"
  have e: "sp_x o1 + sint (- x) = ?nx" "sp_y o1 - sint y = ?ny" using False n by (simp_all add: shift_x_def shift_y_def)
  have l: "fits_at o1 ?nx ?ny" "\<not> detect_middle_field_collision o1 ?nx ?ny"
    "\<not> (is_main_pc r \<and> overlap (unat (bytes_per_pixel r)) o1 ?nx ?ny k)"
    using m(2) [OF False] o1 k by (simp_all add: lands_def Let_def)
  have "move os (redpuck r) (- x) y 2 r = Some (r\<lparr>heap := (heap r)(redpuck r \<mapsto>
      o1\<lparr>sp_x := ?nx, sp_y := ?ny, xspeed := sint (- x), yspeed := sint y\<rparr>)\<rparr>)"
    by (rule puck_free [OF game_ok_arena [OF ok] _ o1 k e l]) simp
  moreover have "redpuck r \<noteq> NULL" using o1 by (auto dest: deref_SomeD)
  ultimately show thesis using that False by (auto simp: act_on_def deref_def)
qed

lemma receive_all:
  assumes "uart_rx os fifo" and "game_ok r" and "data_arrived os (world r) w1" and "length (rx_bytes (inQueue r)) + length (fifo w1) \<le> 100"
  obtains q w where "receive os r = Some (r\<lparr>inQueue := q, world := w\<rparr>)" "rx_ok q" "rx_bytes q = rx_bytes (inQueue r) @ fifo w1"
  by (rule receive_fifo [OF assms(1) game_ok_rx [OF assms(2)] assms(3)]) (use that assms(4) in simp)

text \<open>With two signals at hand, the interrupt acts on them and keeps the rest.\<close>

lemma interrupt_whole:
  assumes rx: "uart_rx os fifo" and ok: "game_ok r" and m: "mainState r = GAME" and a: "data_arrived os (world r) w1"
    and l: "length (rx_bytes (inQueue r)) + length (fifo w1) \<le> 100"
    and u: "held r @ fifo w1 = signal_bytes x @ signal_bytes y @ rest" and x: "x \<noteq> signal1"
  obtains q w where "sp_int os r = act_on os x y (r\<lparr>world := w, inQueue := q, is_stored_x := False\<rparr>)" "rx_ok q" "rx_bytes q = rest"
proof -
  obtain q w where q: "receive os r = Some (r\<lparr>inQueue := q, world := w\<rparr>)" "rx_ok q" "rx_bytes q = rx_bytes (inQueue r) @ fifo w1"
    by (rule receive_all [OF rx ok a l])
  show thesis
  proof (cases "is_stored_x r")
    case True
    let ?r = "r\<lparr>inQueue := q, world := w, is_stored_x := False\<rparr>"
    have s: "stored_x r = x" "rx_bytes (inQueue ?r) = signal_bytes y @ rest"
      using u q(3) True by (simp_all add: held_def append_eq_append_conv)
    have "rx_ok (inQueue ?r)" using q(2) by simp
    from next_signal_read [OF this s(2)] obtain q1 where
      q1: "next_signal 0 ?r = Some (0, y, ?r\<lparr>inQueue := q1\<rparr>)" "rx_ok q1" "rx_bytes q1 = rest" .
    have "r\<lparr>world := w, is_stored_x := False, inQueue := q1\<rparr> = r\<lparr>world := w, inQueue := q1, is_stored_x := False\<rparr>"
      by (cases r) simp
    moreover have "sp_int os r = act_on os x y (r\<lparr>world := w, is_stored_x := False, inQueue := q1\<rparr>)"
      using q(1) q1(1) m x True s(1) by (simp add: sp_int_def sp_int_game_def act_on_def)
    ultimately have "sp_int os r = act_on os x y (r\<lparr>world := w, inQueue := q1, is_stored_x := False\<rparr>)" by (simp only:)
    then show ?thesis using that q1(2,3) by blast
  next
    case False
    let ?r = "r\<lparr>inQueue := q, world := w\<rparr>"
    have "rx_ok (inQueue ?r)" "rx_bytes (inQueue ?r) = signal_bytes x @ signal_bytes y @ rest"
      using u q(2,3) False by (simp_all add: held_def)
    from next_signal_read [OF this] obtain q1 where
      q1: "next_signal 0 ?r = Some (0, x, ?r\<lparr>inQueue := q1\<rparr>)" "rx_ok q1" "rx_bytes q1 = signal_bytes y @ rest" .
    let ?r1 = "?r\<lparr>inQueue := q1\<rparr>"
    have "rx_ok (inQueue ?r1)" "rx_bytes (inQueue ?r1) = signal_bytes y @ rest" using q1 by simp_all
    from next_signal_read [OF this] obtain q2 where
      q2: "next_signal 0 ?r1 = Some (0, y, ?r1\<lparr>inQueue := q2\<rparr>)" "rx_ok q2" "rx_bytes q2 = rest" .
    have "r\<lparr>world := w, inQueue := q2\<rparr> = r\<lparr>world := w, inQueue := q2, is_stored_x := False\<rparr>"
      using False by (cases r) simp
    moreover have "sp_int os r = act_on os x y (r\<lparr>world := w, inQueue := q2\<rparr>)"
      using q(1) q1(1) q2(1) m x False by (simp add: sp_int_def sp_int_game_def act_on_def)
    ultimately have "sp_int os r = act_on os x y (r\<lparr>world := w, inQueue := q2, is_stored_x := False\<rparr>)" by (simp only:)
    then show ?thesis using that q2(2,3) by blast
  qed
qed

lemma two_byte_signal: "\<exists>x. signal_bytes x = [lo, hi]"
  by (rule two_bytes [of lo hi]) blast

text \<open>With less than a message, the interrupt keeps everything.\<close>

lemma interrupt_part:
  assumes rx: "uart_rx os fifo" and ok: "game_ok r" and m: "mainState r = GAME" and a: "data_arrived os (world r) w1"
    and l: "length (held r @ fifo w1) < 4" and x: "\<And>x rest. held r @ fifo w1 = signal_bytes x @ rest \<Longrightarrow> x \<noteq> signal1"
  obtains r' where "sp_int os r = Some r'" "game_ok r'" "held r' = held r @ fifo w1" "heap r' = heap r" "redpuck r' = redpuck r"
proof -
  have "length (rx_bytes (inQueue r)) + length (fifo w1) \<le> 100" using l by (simp add: held_def)
  from receive_all [OF rx ok a this] obtain q w where
    q: "receive os r = Some (r\<lparr>inQueue := q, world := w\<rparr>)" "rx_ok q" "rx_bytes q = rx_bytes (inQueue r) @ fifo w1" .
  let ?r = "r\<lparr>inQueue := q, world := w\<rparr>"
  have okr: "game_ok ?r" using stays_queue [OF ok q(2), of w] by (simp add: stays_def)
  show thesis
  proof (cases "is_stored_x r")
    case True
    have "length (rx_bytes q) < 2" using l q(3) True by (simp add: held_def)
    then have n: "next_signal 0 (?r\<lparr>is_stored_x := False\<rparr>) = Some (1, 0, ?r\<lparr>is_stored_x := False\<rparr>)"
      using q(2) by (intro next_signal_none) simp_all
    have "stored_x r \<noteq> signal1" using x [of "stored_x r"] True by (simp add: held_def)
    then have "sp_int os r = Some (r\<lparr>inQueue := q, world := w, stored_x := stored_x r, is_stored_x := True\<rparr>)"
      using q(1) n m True by (simp add: sp_int_def sp_int_game_def)
    then show ?thesis using that okr q(3) True by (simp add: held_def)
  next
    case False
    show ?thesis
    proof (cases "length (rx_bytes q) < 2")
      case True
      then have "next_signal 0 ?r = Some (1, 0, ?r)" using q(2) by (intro next_signal_none) simp_all
      then have "sp_int os r = Some ?r" using q(1) m False by (simp add: sp_int_def sp_int_game_def)
      then show ?thesis using that okr q(3) False by (simp add: held_def)
    next
      case long: False
      then obtain lo hi rest where b: "rx_bytes q = lo # hi # rest" by (auto simp: not_less simp: numeral_2_eq_2 Suc_le_length_iff)
      obtain v where v: "signal_bytes v = [lo, hi]" using two_byte_signal by blast
      have bv: "rx_bytes q = signal_bytes v @ rest" using b v by simp
      then have vn: "v \<noteq> signal1" using x [of v rest] q(3) False by (simp add: held_def)
      have "rx_ok (inQueue ?r)" "rx_bytes (inQueue ?r) = signal_bytes v @ rest" using q(2) bv by simp_all
      from next_signal_read [OF this] obtain q1 where
        q1: "next_signal 0 ?r = Some (0, v, ?r\<lparr>inQueue := q1\<rparr>)" "rx_ok q1" "rx_bytes q1 = rest" .
      have "length (rx_bytes q) < 4" using l q(3) False by (simp add: held_def)
      then have "length rest < 2" using bv by simp
      then have "next_signal 0 (?r\<lparr>inQueue := q1\<rparr>) = Some (1, 0, ?r\<lparr>inQueue := q1\<rparr>)"
        using q1 by (intro next_signal_none) simp_all
      then have "sp_int os r = Some (r\<lparr>world := w, inQueue := q1, stored_x := v, is_stored_x := True\<rparr>)"
        using q(1) q1(1) m vn False by (simp add: sp_int_def sp_int_game_def)
      moreover have "game_ok (r\<lparr>world := w, inQueue := q1\<rparr>)" by (rule game_ok_link [OF ok q1(2)])
      ultimately show ?thesis using that bv q1(3) q(3) False by (simp add: held_def)
    qed
  qed
qed

section \<open>The system\<close>

definition puck_of :: "('w, 'a) game_scheme \<Rightarrow> (int \<times> int) option" where
  "puck_of r = map_option (\<lambda>o1. (sp_x o1, sp_y o1)) (deref (heap r) (redpuck r))"

text \<open>The sender, the receiver, and how many of the bytes sent have reached its UART.  The sender plays (moves
  its puck, draws, counts) without sending, sends a new speed of the ball, or transmits its puck; the
  receiver plays, or is interrupted for the next bytes.\<close>

inductive link_step ::
  "'v os \<Rightarrow> ('v \<Rightarrow> byte list) \<Rightarrow> 'w os \<Rightarrow> ('w \<Rightarrow> byte list) \<Rightarrow> 'v game \<times> 'w game \<times> nat \<Rightarrow> 'v game \<times> 'w game \<times> nat \<Rightarrow> bool"
  for os1 sent os2 fifo where
  play: "sent (world a') = sent (world a) \<Longrightarrow> previous_x a' = previous_x a \<Longrightarrow> previous_y a' = previous_y a \<Longrightarrow>
    link_step os1 sent os2 fifo (a, r, d) (a', r, d)"
| kick: "world a' = transmit_ball_speed os1 vx vy (world a) \<Longrightarrow> previous_x a' = previous_x a \<Longrightarrow> previous_y a' = previous_y a \<Longrightarrow>
    link_step os1 sent os2 fifo (a, r, d) (a', r, d)"
| transmit: "deref (heap a) (bluepuck a) = Some b \<Longrightarrow> \<bar>sp_x b - previous_x a\<bar> \<le> 1152 \<Longrightarrow> \<bar>sp_y b - previous_y a\<bar> \<le> 1152 \<Longrightarrow>
    transmit_puck os1 a = Some a' \<Longrightarrow> link_step os1 sent os2 fifo (a, r, d) (a', r, d)"
| other: "game_ok r' \<Longrightarrow> held r' = held r \<Longrightarrow> puck_of r' = puck_of r \<Longrightarrow> link_step os1 sent os2 fifo (a, r, d) (a, r', d)"
| interrupt: "mainState r = GAME \<Longrightarrow> data_arrived os2 (world r) w1 \<Longrightarrow> fifo w1 = take n (drop d (sent (world a))) \<Longrightarrow>
    length (rx_bytes (inQueue r)) + length (fifo w1) \<le> 100 \<Longrightarrow>
    (\<And>x y rest. held r @ fifo w1 = signal_bytes x @ signal_bytes y @ rest \<Longrightarrow> x \<noteq> ball_signal \<Longrightarrow> lands r (x, y)) \<Longrightarrow>
    sp_int os2 r = Some r' \<Longrightarrow> link_step os1 sent os2 fifo (a, r, d) (a, r', d + length (fifo w1))"

text \<open>The invariant: what is in flight are whole messages, and they make up for the difference.\<close>

definition mirrored :: "('v \<Rightarrow> byte list) \<Rightarrow> int \<Rightarrow> int \<Rightarrow> 'v game \<times> 'w game \<times> nat \<Rightarrow> bool" where
  "mirrored sent cx cy = (\<lambda>(a, r, d). game_ok r \<and> d \<le> length (sent (world a)) \<and>
     (\<exists>ms x y. held r @ drop d (sent (world a)) = message_bytes ms \<and> (\<forall>m \<in> set ms. proper m) \<and> puck_of r = Some (x, y) \<and>
        x + previous_x a = cx + sum_list (map shift_x ms) \<and> y + previous_y a = cy + sum_list (map shift_y ms)))"

lemma mirroredI:
  assumes "game_ok r" and "d \<le> length (sent (world a))" and "held r @ drop d (sent (world a)) = message_bytes ms"
    and "\<And>m. m \<in> set ms \<Longrightarrow> proper m" and "puck_of r = Some (x, y)"
    and "x + previous_x a = cx + sum_list (map shift_x ms)" and "y + previous_y a = cy + sum_list (map shift_y ms)"
  shows "mirrored sent cx cy (a, r, d)"
  using assms unfolding mirrored_def by blast

lemma mirroredE:
  assumes "mirrored sent cx cy (a, r, d)"
  obtains ms x y where "game_ok r" "d \<le> length (sent (world a))" "held r @ drop d (sent (world a)) = message_bytes ms"
    "\<And>m. m \<in> set ms \<Longrightarrow> proper m" "puck_of r = Some (x, y)"
    "x + previous_x a = cx + sum_list (map shift_x ms)" "y + previous_y a = cy + sum_list (map shift_y ms)"
  using assms unfolding mirrored_def by blast

text \<open>Bytes sent join the end of what is in flight.\<close>

lemma mirrored_send:
  assumes "mirrored sent cx cy (a, r, d)" and "sent (world a') = sent (world a) @ message_bytes [m]" and "proper m"
    and "previous_x a' = previous_x a + shift_x m" and "previous_y a' = previous_y a + shift_y m"
  shows "mirrored sent cx cy (a', r, d)"
  using assms(1)
proof (rule mirroredE)
  fix ms x y
  assume i: "game_ok r" "d \<le> length (sent (world a))" "held r @ drop d (sent (world a)) = message_bytes ms"
    "\<And>m. m \<in> set ms \<Longrightarrow> proper m" "puck_of r = Some (x, y)"
    "x + previous_x a = cx + sum_list (map shift_x ms)" "y + previous_y a = cy + sum_list (map shift_y ms)"
  show ?thesis
    by (rule mirroredI [where ms = "ms @ [m]", OF i(1) _ _ _ i(5)]) (use assms(2-5) i in \<open>auto simp flip: append_assoc\<close>)
qed

lemma mirrored_transmit:
  assumes tx: "uart_tx os1 sent" and i: "mirrored sent cx cy (a, r, d)" and b: "deref (heap a) (bluepuck a) = Some b"
    and d: "\<bar>sp_x b - previous_x a\<bar> \<le> 1152" "\<bar>sp_y b - previous_y a\<bar> \<le> 1152" and t: "transmit_puck os1 a = Some a'"
  shows "mirrored sent cx cy (a', r, d)"
proof (cases "sp_x b = previous_x a \<and> sp_y b = previous_y a")
  case True
  have "bluepuck a \<noteq> NULL" using b by (auto dest: deref_SomeD)
  then have "a' = a" using t b True by (auto simp: transmit_puck_def transmit_puck_change_def)
  then show ?thesis using i by simp
next
  case False
  then have "sp_x b \<noteq> previous_x a \<or> sp_y b \<noteq> previous_y a" by simp
  from transmit_puck_change_sent [OF tx b this, of "world a"] obtain w where
    w: "transmit_puck_change os1 (heap a) (bluepuck a) (previous_x a) (previous_y a) (world a) = Some (sp_x b, sp_y b, w)"
    "sent w = sent (world a) @ signal_bytes (word_of_int (sp_x b - previous_x a)) @ signal_bytes (word_of_int (sp_y b - previous_y a))"
    by blast
  let ?m = "(word_of_int (sp_x b - previous_x a), word_of_int (sp_y b - previous_y a)) :: message_pair"
  note x = sint_displacement [OF d(1)] and y = sint_displacement [OF d(2)]
  have m: "proper ?m" "shift_x ?m = sp_x b - previous_x a" "shift_y ?m = sp_y b - previous_y a"
    using x(1,4) y(1) d(1) by (simp_all add: proper_def shift_x_def shift_y_def del: of_int_diff)
  have "a' = a\<lparr>previous_x := sp_x b, previous_y := sp_y b, world := w\<rparr>" using t w(1) by (simp add: transmit_puck_def)
  then show ?thesis
    by (intro mirrored_send [OF i _ m(1)]) (use w(2) m(2,3) in \<open>simp_all del: of_int_diff\<close>)
qed

lemma mirrored_kick:
  assumes tx: "uart_tx os1 sent" and i: "mirrored sent cx cy (a, r, d)" and w: "world a' = transmit_ball_speed os1 vx vy (world a)"
    and p: "previous_x a' = previous_x a" "previous_y a' = previous_y a"
  shows "mirrored sent cx cy (a', r, d)"
proof -
  obtain y where y: "signal_bytes y = [word_of_int vx, word_of_int vy]" using two_byte_signal by blast
  show ?thesis
    by (rule mirrored_send [OF i, of a' "(ball_signal, y)"])
      (use w p y transmit_ball_speed_sent [OF tx, of vx vy "world a"] in \<open>simp_all add: proper_def shift_x_def shift_y_def\<close>)
qed

section \<open>The invariant through an interrupt\<close>

lemma act_on_stays:
  assumes "game_ok r" and "act_on os x y r = Some r'"
  shows "game_ok r'"
proof -
  have "returns (act_on os x y r) (stays r)"
    using stays_ball_speed [OF assms(1)] stays_move_puck [OF assms(1), of "redpuck r"] by (simp add: act_on_def)
  then show ?thesis using assms(2) by (simp add: returns_def stays_def)
qed

lemma message_at_front:
  assumes "message_bytes ms = u @ v" and "4 \<le> length u"
  obtains x y ms' rest where "ms = (x, y) # ms'" "u = signal_bytes x @ signal_bytes y @ rest" "message_bytes ms' = rest @ v"
proof (cases ms)
  case Nil
  then show thesis using assms by auto
next
  case (Cons m ms')
  then obtain x y where m: "m = (x, y)" by (cases m)
  let ?b = "signal_bytes x @ signal_bytes y"
  have e: "?b @ message_bytes ms' = u @ v" using assms(1) Cons m by simp
  have "take 4 (u @ v) = ?b" unfolding e [symmetric] by simp
  then have "take 4 u = ?b" using assms(2) by simp
  then have u: "u = ?b @ drop 4 u" by (metis append_take_drop_id)
  then have "message_bytes ms' = drop 4 u @ v" using e by (metis append_assoc same_append_eq)
  then show thesis using that [of x y ms' "drop 4 u"] Cons m u by simp
qed

lemma part_not_signal1:
  assumes "message_bytes ms = u @ v" and "\<And>m. m \<in> set ms \<Longrightarrow> proper m" and "u = signal_bytes x @ rest"
  shows "x \<noteq> signal1"
proof (cases ms)
  case Nil
  then show ?thesis using assms(1,3) by (simp add: signal_bytes_def)
next
  case (Cons m ms')
  then obtain z y where m: "m = (z, y)" by (cases m)
  have "signal_bytes x @ rest @ v = signal_bytes z @ signal_bytes y @ message_bytes ms'" using assms(1,3) Cons m by simp
  then have "z = x" by (simp add: append_eq_append_conv)
  then show ?thesis using proper_not_signal1 [of m] assms(2) [of m] Cons m by simp
qed

lemma taken_first: "xs = take n ys \<Longrightarrow> ys = xs @ drop (length xs) ys"
  by (cases "n \<le> length ys") simp_all

lemma mirrored_interrupt:
  assumes rx: "uart_rx os2 fifo" and i: "mirrored sent cx cy (a, r, d)" and m: "mainState r = GAME"
    and ar: "data_arrived os2 (world r) w1" and f: "fifo w1 = take n (drop d (sent (world a)))"
    and l: "length (rx_bytes (inQueue r)) + length (fifo w1) \<le> 100"
    and free: "\<And>x y rest. held r @ fifo w1 = signal_bytes x @ signal_bytes y @ rest \<Longrightarrow> x \<noteq> ball_signal \<Longrightarrow> lands r (x, y)"
    and s: "sp_int os2 r = Some r'"
  shows "mirrored sent cx cy (a, r', d + length (fifo w1))"
  using i
proof (rule mirroredE)
  fix ms px py
  assume ok: "game_ok r" and d: "d \<le> length (sent (world a))" and b: "held r @ drop d (sent (world a)) = message_bytes ms"
    and pr: "\<And>m. m \<in> set ms \<Longrightarrow> proper m" and p: "puck_of r = Some (px, py)"
    and c: "px + previous_x a = cx + sum_list (map shift_x ms)" "py + previous_y a = cy + sum_list (map shift_y ms)"
  let ?v = "drop (d + length (fifo w1)) (sent (world a))" and ?u = "held r @ fifo w1"
  have "drop d (sent (world a)) = fifo w1 @ ?v" using taken_first [OF f] by (simp add: add.commute)
  then have b: "message_bytes ms = ?u @ ?v" using b by simp
  have d': "d + length (fifo w1) \<le> length (sent (world a))" using d unfolding f by simp
  show ?thesis
  proof (cases "4 \<le> length ?u")
    case True
    obtain x y ms' rest where
      x: "ms = (x, y) # ms'" "?u = signal_bytes x @ signal_bytes y @ rest" "message_bytes ms' = rest @ ?v"
      by (rule message_at_front [OF b True])
    have pxy: "proper (x, y)" using pr x(1) by simp
    have n: "x \<noteq> signal1" using proper_not_signal1 [OF pxy] by simp
    obtain q w where q: "sp_int os2 r = act_on os2 x y (r\<lparr>world := w, inQueue := q, is_stored_x := False\<rparr>)" "rx_ok q" "rx_bytes q = rest"
      by (rule interrupt_whole [OF rx ok m ar l x(2) n])
    let ?r = "r\<lparr>world := w, inQueue := q, is_stored_x := False\<rparr>"
    have okr: "game_ok ?r" using game_ok_link [OF ok q(2), of w] by simp
    obtain o1 where o1: "deref (heap r) (redpuck r) = Some o1" "px = sp_x o1" "py = sp_y o1" using p by (auto simp: puck_of_def)
    have o1r: "deref (heap ?r) (redpuck ?r) = Some o1" using o1(1) by simp
    have ln: "lands ?r (x, y)" if "x \<noteq> ball_signal" by (rule lands_frame [OF free [OF x(2) that]]) simp_all
    obtain r2 o2 where r2: "act_on os2 x y ?r = Some r2" "inQueue r2 = inQueue ?r" "is_stored_x r2 = is_stored_x ?r" "redpuck r2 = redpuck ?r"
      "deref (heap r2) (redpuck ?r) = Some o2" "sp_x o2 = sp_x o1 - shift_x (x, y)" "sp_y o2 = sp_y o1 - shift_y (x, y)"
      by (rule act_on_moves [OF okr pxy ln o1r])
    have e: "r2 = r'" using s q(1) r2(1) by simp
    have "held r' = rest" using r2(2,3) q(3) e by (simp add: held_def)
    moreover have "puck_of r' = Some (sp_x o2, sp_y o2)" using r2(4,5) e by (simp add: puck_of_def)
    ultimately show ?thesis
      by (intro mirroredI [where ms = ms'] d')
        (use act_on_stays [OF okr r2(1)] e x(1,3) pr c o1(2,3) r2(6,7) in auto)
  next
    case False
    then have k: "length ?u < 4" by simp
    obtain r2 where r2: "sp_int os2 r = Some r2" "game_ok r2" "held r2 = ?u" "heap r2 = heap r" "redpuck r2 = redpuck r"
      by (rule interrupt_part [OF rx ok m ar k part_not_signal1 [OF b pr]])
    have "r2 = r'" using s r2(1) by simp
    then show ?thesis
      by (intro mirroredI [where ms = ms] d') (use r2 b pr p c in \<open>auto simp: puck_of_def\<close>)
  qed
qed

lemma mirrored_step:
  assumes "uart_tx os1 sent" and "uart_rx os2 fifo" and "link_step os1 sent os2 fifo c c'" and "mirrored sent cx cy c"
  shows "mirrored sent cx cy c'"
  using assms(3,4)
proof cases
  case (play a' a r d)
  then show ?thesis using assms(4) by (simp add: mirrored_def)
next
  case (kick a' vx vy a r d)
  then show ?thesis using mirrored_kick [OF assms(1)] assms(4) by blast
next
  case (transmit a b a' r d)
  then show ?thesis using mirrored_transmit [OF assms(1)] assms(4) by blast
next
  case (other r' r a d)
  then show ?thesis using assms(4) by (simp add: mirrored_def)
next
  case (interrupt r w1 n d a r')
  then show ?thesis using mirrored_interrupt [OF assms(2)] assms(4) by blast
qed


section \<open>Where the mirror breaks\<close>

text \<open>C32 (A wall breaks the mirror): a displacement that leads the red puck past the left wall only puts it at
  the wall: its vertical part is lost as well, for good, since the sender takes the message for done.\<close>

theorem wall_breaks_mirror:
  assumes "uart_rx os fifo" and "game_ok r" and "mainState r = GAME" and "held r = []" and "data_arrived os (world r) w1"
    and "fifo w1 = message_bytes [(word_of_int dx, word_of_int dy)]" and "\<bar>dx\<bar> \<le> 1152" and "\<bar>dy\<bar> \<le> 1152"
    and "deref (heap r) (redpuck r) = Some o1" and "sp_x o1 - dx < 273" and "21 \<le> sp_y o1 - dy" and "sp_y o1 - dy \<le> 763"
  shows "\<exists>r'. sp_int os r = Some r' \<and> held r' = [] \<and> puck_of r' = Some (273, sp_y o1)"
proof -
  note x = sint_displacement [OF assms(7)] and y = sint_displacement [OF assms(8)]
  have l: "length (rx_bytes (inQueue r)) + length (fifo w1) \<le> 100" using assms(4,6) by (simp add: held_def)
  have u: "held r @ fifo w1 = signal_bytes (word_of_int dx) @ signal_bytes (word_of_int dy) @ []" using assms(4,6) by simp
  obtain q w where q: "sp_int os r = act_on os (word_of_int dx) (word_of_int dy) (r\<lparr>world := w, inQueue := q, is_stored_x := False\<rparr>)"
    "rx_ok q" "rx_bytes q = []" by (rule interrupt_whole [OF assms(1,2,3,5) l u x(3)])
  let ?r = "r\<lparr>world := w, inQueue := q, is_stored_x := False\<rparr>"
  have "game_ok ?r" using game_ok_link [OF assms(2) q(2), of w] by simp
  then have ar: "arena_ok ?r" by (rule game_ok_arena)
  then obtain k where k: "deref (heap ?r) (ball ?r) = Some k" by (auto simp: arena_ok_def)
  have o1: "deref (heap ?r) (redpuck r) = Some o1" using assms(9) by simp
  have size: "uint (sp_width o1) = 80" "uint (sp_height o1) = 80"
    using ar o1 by (auto simp: arena_ok_def dest!: shapedD)
  have e: "sp_x o1 + sint (- word_of_int dx :: i16) = sp_x o1 - dx" "sp_y o1 - sint (word_of_int dy :: i16) = sp_y o1 - dy"
    unfolding x(2) y(1) by simp_all
  have nf: "\<not> fits_at o1 (sp_x o1 - dx) (sp_y o1 - dy)" using assms(10) by (simp add: fits_at_def)
  have w: "stop_at_walls (sp_y o1 - dy < 21) (879 < sp_x o1 - dx + uint (sp_width o1)) (843 < sp_y o1 - dy + uint (sp_height o1))
      (sp_x o1 - dx < 273) o1 = o1\<lparr>sp_x := 273\<rparr>"
    using assms(10-12) size by (simp add: stop_at_walls_def horizontal_start_def)
  have "detect_collision_in_layer os (redpuck r) (sp_x o1 - dx) (sp_y o1 - dy) 2 ?r =
      Some (True, ?r\<lparr>heap := (heap ?r)(redpuck r \<mapsto> o1\<lparr>sp_x := 273\<rparr>)\<rparr>)"
    using puck_layer [OF ar _ o1 k, of os "sp_x o1 - dx" "sp_y o1 - dy"] nf w by simp
  then have "move os (redpuck r) (- word_of_int dx) (word_of_int dy) 2 ?r =
      Some (?r\<lparr>heap := (heap ?r)(redpuck r \<mapsto> o1\<lparr>sp_x := 273\<rparr>)\<rparr>)"
    by (intro move_hit [OF o1]) (simp only: e)
  then have "sp_int os r = Some (?r\<lparr>heap := (heap r)(redpuck r \<mapsto> o1\<lparr>sp_x := 273\<rparr>)\<rparr>)"
    using q(1) x(4) by (simp add: act_on_def)
  moreover have "redpuck r \<noteq> NULL" using assms(9) by (auto dest: deref_SomeD)
  ultimately show ?thesis using q(3) by (simp add: held_def puck_of_def deref_def)
qed

section \<open>A concrete run\<close>


theorem wall_breaks_mirror_witness:
  "\<exists>r r' :: bench game. puck_of r = Some (535, 55) \<and> sp_int link_os r = Some r' \<and> puck_of r' = Some (273, 55) \<and>
     link_fifo (world r) = message_bytes [(word_of_int 263, word_of_int (- 40))]"
proof -
  let ?bs = "message_bytes [(word_of_int 263, word_of_int (- 40))]"
  obtain r :: "bench game" and o1 where r: "game_ok r" "mainState r = GAME" "\<not> is_stored_x r" "rx_bytes (inQueue r) = []"
    "world r = cable ?bs" "deref (heap r) (redpuck r) = Some o1" "sp_x o1 = 535" "sp_y o1 = 55" by (rule link_state [of ?bs]) blast
  have ar: "data_arrived link_os (world r) (cable ?bs)" using link_os_arrived r(5) by simp
  have h: "held r = []" using r(3,4) by (simp add: held_def)
  have "\<exists>r'. sp_int link_os r = Some r' \<and> held r' = [] \<and> puck_of r' = Some (273, sp_y o1)"
    by (rule wall_breaks_mirror [OF link_os_rx r(1,2) h ar cable_simps(1) _ _ r(6)]) (use r(7,8) in simp_all)
  moreover have "puck_of r = Some (535, 55)" using r(6-8) by (simp add: puck_of_def)
  moreover have "link_fifo (world r) = ?bs" using r(5) by simp
  ultimately show ?thesis using r(8) by metis
qed

end
