(* ===== verification/Pixmaps.thy ===== *)
theory Pixmaps
  imports Assets
begin

text \<open>
  The format of the XPM arrays of the source: a checker for one character per pixel, run on the
  arrays of \<open>XpmDigits\<close> and \<open>XpmSprites\<close>, and on those of all buttons.
\<close>

text \<open>
  The shape of an array: the values line announces exactly the colour and pixel lines that follow,
  with one character per pixel, and every pixel line has the announced length.  Its keys are
  right when the keys of the colour lines are different and every pixel is one of them.
\<close>

definition xpm_shape :: "string list \<Rightarrow> bool" where
  "xpm_shape rows =
     (case rows of [] \<Rightarrow> False
      | line # rest \<Rightarrow>
          (case values_of line of
             [w, h, nc, cpp] \<Rightarrow> cpp = 1 \<and> length rest = nc + h \<and> list_all (\<lambda>l. length l = w) (drop nc rest)
           | _ \<Rightarrow> False))"

definition xpm_keys :: "string list \<Rightarrow> bool" where
  "xpm_keys rows =
     (case rows of [] \<Rightarrow> False
      | line # rest \<Rightarrow>
          (case values_of line of
             [w, h, nc, cpp] \<Rightarrow>
               let keys = map hd (take nc rest) in
               distinct keys \<and> list_all (\<lambda>l. list_all (\<lambda>c. List.member keys c) l) (drop nc rest)
           | _ \<Rightarrow> False))"

section \<open>The arrays of the source\<close>

lemma digits_shape:
  "list_all xpm_shape white_numbers" "list_all xpm_shape red_numbers" "list_all xpm_shape blue_numbers"
  by code_simp+

lemma pucks_shape: "list_all xpm_shape [blue_puck, red_puck]"
  by code_simp

lemma small_shape:
  "list_all xpm_shape [disk, xpm_mouse, white_time, white_points, day_separator, time_two_points, title_time, title_points]"
  by code_simp

lemma leave_selected_shape: "xpm_shape leave_selected"
  by code_simp

lemma leave_unselected_shape: "xpm_shape leave_unselected"
  by code_simp

lemma play_again_selected_shape: "xpm_shape play_again_selected"
  by code_simp

lemma play_again_unselected_shape: "xpm_shape play_again_unselected"
  by code_simp

lemma play_unselected_shape: "xpm_shape play_unselected"
  by code_simp

lemma play_selected_shape: "xpm_shape play_selected"
  by code_simp

lemma rules_unselected_shape: "xpm_shape rules_unselected"
  by code_simp

lemma rules_selected_shape: "xpm_shape rules_selected"
  by code_simp

lemma exit_unselected_shape: "xpm_shape exit_unselected"
  by code_simp

lemma exit_selected_shape: "xpm_shape exit_selected"
  by code_simp

lemmas button_shapes =
  leave_selected_shape leave_unselected_shape play_again_selected_shape play_again_unselected_shape
  play_unselected_shape play_selected_shape rules_unselected_shape rules_selected_shape
  exit_unselected_shape exit_selected_shape

lemma white_keys: "list_all xpm_keys white_numbers"
  by code_simp

lemma small_keys: "list_all xpm_keys [disk, xpm_mouse, white_time, white_points, day_separator, time_two_points]"
  by code_simp


end
