(* ===== verification/Spec2Isabelle.thy ===== *)
theory Spec2Isabelle
  imports Rally Pointer Mirror Pixmaps
begin

text \<open>
  Air hockey for MINIX: a verification library of the program under \<^verbatim>\<open>src/proj/src\<close>.

  \<^bold>\<open>The program.\<close>  Two computers linked by a serial cable play a match.  One process runs on each: it
  subscribes to the interrupts of the timer, the keyboard, the mouse, the real-time clock and the serial
  port, and handles one notification at a time (\<^verbatim>\<open>project.c\<close>).  The handlers (\<^verbatim>\<open>model/model.c\<close>) advance a
  state machine of menus, match and results, move the pucks and the ball (\<^verbatim>\<open>model/physics.c\<close>), and draw
  frames (\<^verbatim>\<open>view/view.c\<close>) through the video driver.  A puck displacement or a ball speed goes to the other
  computer as two 16-bit signals (\<^verbatim>\<open>controller/serialport\<close>).

  \<^bold>\<open>How it is modelled.\<close>  Every C function is a HOL function on an explicit state.  The globals are one
  record, extended theory by theory: \<open>store\<close> (\<open>Sprites\<close>: device world and sprite heap), \<open>video\<close>
  (\<open>Graphics\<close>), \<open>arena\<close> (\<open>Physics\<close>), \<open>scene\<close> (\<open>View\<close>), \<open>game\<close> (\<open>Model\<close>).  Fixed-width integers are words
  where they can wrap and \<open>int\<close> where the code computes in \<^verbatim>\<open>int\<close> within small bounds; sprites live in a
  heap of addresses because buttons are shared between variables and arrays and because \<^verbatim>\<open>object == Ball\<close>
  compares pointers.  The value \<open>None\<close> is undefined behaviour: a read or write outside an array, a pixmap
  or the frame buffer, a dead or \<^verbatim>\<open>NULL\<close> sprite, a division by zero, a loop that never ends, or \<^verbatim>\<open>panic\<close>.
  Error returns are values.  The kernel calls, the VBE services, \<^verbatim>\<open>malloc\<close> and \<^verbatim>\<open>xpm_load\<close> are a record of
  functions \<open>os\<close> over an abstract device world, an argument of every definition that uses them
  (\<open>Platform\<close>); what a theorem needs of them is a named hypothesis (\<open>uart_tx\<close>, \<open>uart_rx\<close>,
  \<open>uart_finite\<close>, \<open>xpm_loads\<close>, \<open>malloc_total\<close>, \<open>video_up\<close>, \<open>bcd_clock\<close>, \<open>machine_up\<close>, \<open>machine_down\<close>,
  \<open>platform_runs\<close>), and each is satisfied by a concrete platform in a witness.

  \<^bold>\<open>The theories.\<close>
  \<^item> \<open>Prelude\<close>: C integer types, checked arrays, byte memories, early-exit search, collections of facts.
  \<^item> \<open>Platform\<close>: the platform record and \<^verbatim>\<open>controller/utils.c\<close>.
  \<^item> \<open>Queue\<close>: \<^verbatim>\<open>queue.c\<close>, the ring of 100 bytes, and the interface \<open>byte_fifo\<close> it interprets.
  \<^item> \<open>Serial\<close>: \<^verbatim>\<open>serialport.c\<close>; what is sent, what is received, and when the receive loop ends.
  \<^item> \<open>Keyboard\<close>, \<open>Mouse\<close>: \<^verbatim>\<open>keyboard.c\<close>, \<^verbatim>\<open>mouse.c\<close>; the interface \<open>kbc_poll\<close> of a bounded poll of the
    keyboard controller, interpreted twice; the unbounded retry loops as \<open>partial_function\<close>.
  \<^item> \<open>Rtc\<close>, \<open>Timer\<close>: \<^verbatim>\<open>rtc.c\<close> and \<^verbatim>\<open>timer.c\<close>.
  \<^item> \<open>Sprites\<close>, \<open>Graphics\<close>: \<^verbatim>\<open>sprites.c\<close> and \<^verbatim>\<open>graphics.c\<close>; drawing against a pixel-wise specification.
  \<^item> \<open>Physics\<close>: \<^verbatim>\<open>physics.c\<close>; every move by cases, pixel-exact collision, goals, walls.
  \<^item> \<open>XpmDigits\<close>, \<open>XpmSprites\<close>, \<open>XpmPopOut\<close>, \<open>XpmPlay\<close>, \<open>XpmRules\<close>, \<open>XpmExit\<close>: the XPM arrays.
  \<^item> \<open>Assets\<close>, \<open>Pixmaps\<close>: their values lines and format.
  \<^item> \<open>View\<close>: \<^verbatim>\<open>view.c\<close>; every frame stays inside the buffer and changes only digits and cached images.
  \<^item> \<open>Model\<close>, \<open>Loader\<close>: \<^verbatim>\<open>model.c\<close>, the handlers, the buttons, loading and unloading.
  \<^item> \<open>Safety\<close>: the invariant \<open>game_ok\<close> between two interrupts and how a change of state keeps it.
  \<^item> \<open>Handlers\<close>: each handler returns and keeps the invariant; \<open>transition\<close> is the abstract state
    machine of \<^verbatim>\<open>mainState\<close>, which every handler refines.
  \<^item> \<open>Menu\<close>: the interface \<open>button_menu\<close> of a ring of buttons, interpreted by the main menu and the pop-out.
  \<^item> \<open>Project\<close>: \<^verbatim>\<open>project.c\<close>; start-up, the loop over messages, tear-down, and the whole program.
  \<^item> \<open>Parts\<close>: the runs of a move, a timer interrupt and a mouse interrupt, taken apart for the theories below.
  \<^item> \<open>Match\<close>: the match clock, a match that always ends, and the kick-off.
  \<^item> \<open>Keys\<close>: the keys S and W and the space bar in the menus, the index the two menus share, and a stop that
    is taken back.
  \<^item> \<open>Alone\<close>: a computer no signal reaches: \<open>lit_ok\<close>, highlight and index agree in every state.
  \<^item> \<open>Pointer\<close>: the mouse, from the bytes of a packet to the moves of the puck and the pointer.
  \<^item> \<open>Link\<close>: two computers on one cable: what one sends, the other does.
  \<^item> \<open>Mirror\<close>: the two tables as one system: the step relation \<open>link_step\<close> interleaves play, transmission and
    interrupts; the pucks are mirror images up to the messages in flight, and where that breaks.
  \<^item> \<open>Goals\<close>: how fast a match can score: \<open>credit\<close> pays each point with the way of the ball to a goal, and every
    handler keeps it.
  \<^item> \<open>Rally\<close>: the ball and the clock on both computers: the step relation \<open>rally_step\<close> of two computers in one match,
    the handlers as its steps (\<open>strokes\<close>), the invariant \<open>opponents\<close>, and the three ways the code leaves it.

  \<^bold>\<open>Bounds.\<close>  Bounded retry loops carry their remaining attempts as the code has them (10); nothing else
  uses fuel.  The loop of \<^verbatim>\<open>proj_main_loop\<close> runs over the list of messages that arrive, of any length.
  \<open>limits\<close> names the two conditions the code does not maintain itself: the button index that the two menus
  share, and scores of one digit; \<open>Alone\<close> shows that the first holds by itself on a
  computer no signal reaches.  What happens beyond them is a finding.

  \<^bold>\<open>Not modelled.\<close>  \<^verbatim>\<open>main\<close> only starts the course framework.  The pixels of the backgrounds and the three
  result images are data nothing in the code depends on: they appear by name, with the size their values line
  gives; the alphabet under \<^verbatim>\<open>model/xpm/alphabet\<close> is unused.  Under
  \<^verbatim>\<open>src/.minix-src\<close> are the headers of the operating system and the framework, which are the platform.
  Interrupts do not preempt a handler: MINIX delivers them to the process as messages.
\<close>

end
